(* ===== verification/Prelude.thy ===== *)
theory Prelude
  imports Main "HOL-Library.State_Monad"
begin

text \<open>
  The prelude of the development: the two machine integer types of the Go code as \<open>int\<close> with
  the wrap-around written out, Go's truncating division, the loop combinators of the state
  monad, and the collections of facts the components share.

  Every \<open>int32\<close> and \<open>int64\<close> value of the code is an \<open>int\<close> here; an operation of
  the code that can overflow is wrapped in \<open>i32\<close> or \<open>i64\<close>, exactly as the hardware
  reduces it. \<open>in32\<close> and \<open>in64\<close> say that a number is representable; under them the
  wrap is the identity.
\<close>

named_theorems go_int "range facts of the machine integers"
named_theorems go_defs "definitions of the code that component proofs unfold"

section \<open>Machine integers\<close>

type_synonym int32 = int
type_synonym int64 = int

definition in32 :: "int \<Rightarrow> bool" where
  "in32 x \<longleftrightarrow> - 2147483648 \<le> x \<and> x < 2147483648"

definition in64 :: "int \<Rightarrow> bool" where
  "in64 x \<longleftrightarrow> - 9223372036854775808 \<le> x \<and> x < 9223372036854775808"

text \<open>Conversion to 32 and 64 bits: two's complement reduction.\<close>

definition i32 :: "int \<Rightarrow> int32" where
  "i32 x = (x + 2147483648) mod 4294967296 - 2147483648"

definition i64 :: "int \<Rightarrow> int64" where
  "i64 x = (x + 9223372036854775808) mod 18446744073709551616 - 9223372036854775808"

lemma i32_id [simp]: "in32 x \<Longrightarrow> i32 x = x"
  by (simp add: in32_def i32_def)

lemma i64_id [simp]: "in64 x \<Longrightarrow> i64 x = x"
  by (simp add: in64_def i64_def)

lemma in32_i32 [simp]: "in32 (i32 x)"
proof -
  have "0 \<le> (x + 2147483648) mod 4294967296" "(x + 2147483648) mod 4294967296 < 4294967296"
    by simp_all
  then show ?thesis unfolding in32_def i32_def by linarith
qed

lemma in64_i64 [simp]: "in64 (i64 x)"
proof -
  have "0 \<le> (x + 9223372036854775808) mod 18446744073709551616"
    "(x + 9223372036854775808) mod 18446744073709551616 < 18446744073709551616"
    by simp_all
  then show ?thesis unfolding in64_def i64_def by linarith
qed

lemma in32_in64 [go_int]: "in32 x \<Longrightarrow> in64 x"
  by (simp add: in32_def in64_def)

lemma i32_0 [simp]: "i32 0 = 0" and i32_1 [simp]: "i32 1 = 1"
  and i64_0 [simp]: "i64 0 = 0" and i64_1 [simp]: "i64 1 = 1"
  by (simp_all add: i32_def i64_def)

lemma i32_numeral [simp]: "i32 (numeral n) = (numeral n + 2147483648) mod 4294967296 - 2147483648"
  and i32_neg_numeral [simp]:
    "i32 (- numeral n) = (- numeral n + 2147483648) mod 4294967296 - 2147483648"
  and i64_numeral [simp]: "i64 (numeral n) =
    (numeral n + 9223372036854775808) mod 18446744073709551616 - 9223372036854775808"
  and i64_neg_numeral [simp]: "i64 (- numeral n) =
    (- numeral n + 9223372036854775808) mod 18446744073709551616 - 9223372036854775808"
  by (simp_all add: i32_def i64_def)

lemma in64_between: "in64 a \<Longrightarrow> in64 b \<Longrightarrow> a \<le> x \<Longrightarrow> x \<le> b \<Longrightarrow> in64 x"
  by (simp add: in64_def)

lemma in32_between: "in32 a \<Longrightarrow> in32 b \<Longrightarrow> a \<le> x \<Longrightarrow> x \<le> b \<Longrightarrow> in32 x"
  by (simp add: in32_def)

text \<open>Go's \<open>/\<close> truncates towards zero; HOL's \<open>div\<close> rounds down.\<close>

definition quot :: "int \<Rightarrow> int \<Rightarrow> int" where
  "quot a b = sgn a * sgn b * (\<bar>a\<bar> div \<bar>b\<bar>)"

lemma quot_nonneg: "0 \<le> a \<Longrightarrow> 0 < b \<Longrightarrow> quot a b = a div b"
  by (cases "a = 0") (simp_all add: quot_def sgn_if)

lemma quot_bounds: "0 \<le> a \<Longrightarrow> 0 < b \<Longrightarrow> 0 \<le> quot a b \<and> quot a b \<le> a"
proof -
  assume a: "0 \<le> a" and b: "0 < b"
  have "a div b \<le> a div 1" using a b by (intro zdiv_mono2) auto
  then show ?thesis using a b by (simp add: quot_nonneg pos_imp_zdiv_nonneg_iff)
qed

section \<open>Ceiling division\<close>

text \<open>\<open>(a + b - 1) / b\<close>, the rounding-up idiom of the code.\<close>

lemma ceil_div_bounds:
  fixes a b :: int
  assumes "0 < b"
  shows "a \<le> ((a + b - 1) div b) * b" and "((a + b - 1) div b) * b < a + b"
proof -
  have e: "(a + b - 1) = ((a + b - 1) div b) * b + (a + b - 1) mod b"
    by simp
  have m: "0 \<le> (a + b - 1) mod b" "(a + b - 1) mod b < b" using assms by simp_all
  show "a \<le> ((a + b - 1) div b) * b" using e m by linarith
  show "((a + b - 1) div b) * b < a + b" using e m by linarith
qed

lemma ceil_div_le:
  fixes a b :: int
  assumes "0 < b" "0 \<le> a"
  shows "(a + b - 1) div b \<le> a"
proof (cases "a = 0")
  case True
  with assms show ?thesis by simp
next
  case False
  with assms have a: "1 \<le> a" by simp
  have "a + b - 1 \<le> a * b"
  proof -
    have "0 \<le> (a - 1) * (b - 1)" using a assms by simp
    then show ?thesis by (simp add: algebra_simps)
  qed
  then have "(a + b - 1) div b \<le> (a * b) div b" using assms by (intro zdiv_mono1) auto
  then show ?thesis using assms by simp
qed

lemma ceil_div_pos:
  fixes a b :: int
  assumes "0 < b" "0 < a"
  shows "0 < (a + b - 1) div b"
proof -
  have "b div b \<le> (a + b - 1) div b" using assms by (intro zdiv_mono1) auto
  then show ?thesis using assms by simp
qed

lemma int_div_floor:
  fixes a b :: int
  assumes "0 < b"
  shows "(a div b) * b \<le> a" and "a < (a div b + 1) * b"
proof -
  have "a = (a div b) * b + a mod b" by (rule div_mult_mod_eq [symmetric])
  moreover have "0 \<le> a mod b" "a mod b < b" using assms by simp_all
  ultimately show "(a div b) * b \<le> a" "a < (a div b + 1) * b"
    by (simp_all only: distrib_right mult_1)
qed

lemma int_div_less:
  fixes a b k :: int
  assumes "0 < b" "a < k * b"
  shows "a div b < k"
proof (rule ccontr)
  assume "\<not> a div b < k"
  then have "k * b \<le> (a div b) * b" using assms by (intro mult_right_mono) auto
  also have "\<dots> \<le> a" using assms int_div_floor by blast
  finally show False using assms by simp
qed

lemma int_div_eq:
  fixes a b k :: int
  assumes "0 < b" "k * b \<le> a" "a < (k + 1) * b"
  shows "a div b = k"
proof -
  have "a div b < k + 1" using int_div_less assms by blast
  moreover have "k \<le> a div b" using zdiv_mono1 [OF assms(2,1)] assms(1) by simp
  ultimately show ?thesis by simp
qed

section \<open>Loops over the state monad\<close>

text \<open>A \<open>for\<close> loop with no result, and one that threads a value.\<close>

fun for_each :: "'a list \<Rightarrow> ('a \<Rightarrow> ('s, unit) state) \<Rightarrow> ('s, unit) state" where
  "for_each [] f = State_Monad.return ()"
| "for_each (x # xs) f = do { _ \<leftarrow> f x; for_each xs f }"

fun fold_state :: "('a \<Rightarrow> 'b \<Rightarrow> ('s, 'b) state) \<Rightarrow> 'a list \<Rightarrow> 'b \<Rightarrow> ('s, 'b) state" where
  "fold_state f [] b = State_Monad.return b"
| "fold_state f (x # xs) b = do { b' \<leftarrow> f x b; fold_state f xs b' }"

text \<open>The final state of a run, for statements about effects only.\<close>

definition exec :: "('s, 'a) state \<Rightarrow> 's \<Rightarrow> 's" where
  "exec m s = snd (run_state m s)"

definition result :: "('s, 'a) state \<Rightarrow> 's \<Rightarrow> 'a" where
  "result m s = fst (run_state m s)"

lemma run_state_split: "run_state m s = (result m s, exec m s)"
  by (simp add: result_def exec_def)

lemma exec_bind [simp]: "exec (State_Monad.bind m f) s = exec (f (result m s)) (exec m s)"
  by (simp add: exec_def result_def split: prod.splits)

lemma result_bind [simp]: "result (State_Monad.bind m f) s = result (f (result m s)) (exec m s)"
  by (simp add: exec_def result_def split: prod.splits)

lemma exec_return [simp]: "exec (State_Monad.return x) s = s"
  and result_return [simp]: "result (State_Monad.return x) s = x"
  by (simp_all add: exec_def result_def)

lemma exec_State [simp]: "exec (State f) s = snd (f s)"
  and result_State [simp]: "result (State f) s = fst (f s)"
  by (simp_all add: exec_def result_def)

lemma exec_get [simp]: "exec State_Monad.get s = s"
  and result_get [simp]: "result State_Monad.get s = s"
  and exec_set [simp]: "exec (State_Monad.set t) s = t"
  and result_set [simp]: "result (State_Monad.set t) s = ()"
  by (simp_all add: exec_def result_def)

lemma for_each_invariant:
  assumes "P s" and "\<And>x t. x \<in> set xs \<Longrightarrow> P t \<Longrightarrow> P (exec (f x) t)"
  shows "P (exec (for_each xs f) s)"
  using assms
proof (induction xs arbitrary: s)
  case Nil
  then show ?case by (simp add: exec_def)
next
  case (Cons x xs)
  have "P (exec (f x) s)" using Cons.prems by simp
  then have "P (exec (for_each xs f) (exec (f x) s))"
    using Cons.IH Cons.prems(2) by simp
  then show ?case by simp
qed

section \<open>Lists and association lists\<close>

text \<open>Updating the first element that satisfies a test, as the code's search loops do.\<close>

fun update_first :: "('a \<Rightarrow> bool) \<Rightarrow> ('a \<Rightarrow> 'a) \<Rightarrow> 'a list \<Rightarrow> 'a list" where
  "update_first p f [] = []"
| "update_first p f (x # xs) = (if p x then f x # xs else x # update_first p f xs)"

lemma length_update_first [simp]: "length (update_first p f xs) = length xs"
  by (induction xs) auto

lemma map_update_first: "(\<And>x. p x \<Longrightarrow> g (f x) = g x) \<Longrightarrow> map g (update_first p f xs) = map g xs"
  by (induction xs) auto

lemma set_update_first: "set (update_first p f xs) \<subseteq> set xs \<union> f ` set xs"
  by (induction xs) auto

lemma update_first_id: "(\<And>x. x \<in> set xs \<Longrightarrow> \<not> p x) \<Longrightarrow> update_first p f xs = xs"
  by (induction xs) auto

lemma find_Some_set: "find p xs = Some x \<Longrightarrow> x \<in> set xs \<and> p x"
  by (induction xs) (auto split: if_splits)

lemma find_update_first:
  assumes "\<And>y. p y \<Longrightarrow> p (f y)"
  shows "find p (update_first p f xs) = map_option f (find p xs)"
  using assms by (induction xs) auto

lemma sum_list_nonneg_member:
  fixes f :: "'a \<Rightarrow> int"
  assumes "\<And>x. x \<in> set xs \<Longrightarrow> 0 \<le> f x"
  shows "0 \<le> sum_list (map f xs)"
  using assms by (induction xs) auto

end
