(* ===== verification/GoText.thy ===== *)
theory GoText
  imports Prelude
begin

text \<open>
  The part of Go's \<open>strconv\<close>, \<open>strings\<close> and \<open>fmt\<close> that the server uses for keys, members
  and ids: \<open>FormatInt\<close> (and \<open>%d\<close>), \<open>ParseInt\<close> in base 10 with its syntax and range
  errors, \<open>Split\<close> and \<open>SplitN\<close> on one character, \<open>LastIndex\<close> of one character,
  \<open>HasPrefix\<close>, \<open>TrimPrefix\<close> and \<open>TrimSuffix\<close>. A Go string is a list of bytes (\<open>string\<close>).
\<close>

section \<open>Decimal digits\<close>

definition is_digit :: "char \<Rightarrow> bool" where
  "is_digit c \<longleftrightarrow> 48 \<le> (of_char c :: nat) \<and> (of_char c :: nat) \<le> 57"

definition digit_val :: "char \<Rightarrow> nat" where
  "digit_val c = of_char c - 48"

definition digit_char :: "nat \<Rightarrow> char" where
  "digit_char d = char_of (48 + d)"

lemma of_char_digit_char: "d < 10 \<Longrightarrow> (of_char (digit_char d) :: nat) = 48 + d"
  by (simp add: digit_char_def of_char_of)

lemma is_digit_digit_char [simp]: "d < 10 \<Longrightarrow> is_digit (digit_char d)"
  by (simp add: is_digit_def of_char_digit_char)

lemma digit_val_digit_char [simp]: "d < 10 \<Longrightarrow> digit_val (digit_char d) = d"
  by (simp add: digit_val_def of_char_digit_char)

lemma is_digit_minus [simp]: "\<not> is_digit CHR ''-''" and is_digit_plus [simp]: "\<not> is_digit CHR ''+''"
  and is_digit_under [simp]: "\<not> is_digit CHR ''_''" and is_digit_colon [simp]: "\<not> is_digit CHR '':''"
  and is_digit_comma [simp]: "\<not> is_digit CHR '',''" and is_digit_r [simp]: "\<not> is_digit CHR ''r''"
  by (simp_all add: is_digit_def)

fun nat_digits :: "nat \<Rightarrow> string" where
  "nat_digits n = (if n < 10 then [digit_char n] else nat_digits (n div 10) @ [digit_char (n mod 10)])"

declare nat_digits.simps [simp del]

lemma nat_digits_nonempty [simp]: "nat_digits n \<noteq> []"
  by (subst nat_digits.simps) simp

lemma nat_digits_all_digits: "\<forall>c \<in> set (nat_digits n). is_digit c"
proof (induction n rule: nat_digits.induct)
  case (1 n)
  then show ?case by (subst nat_digits.simps) (auto simp: ball_Un)
qed

section \<open>FormatInt and \<open>%d\<close>\<close>

definition FormatInt :: "int \<Rightarrow> string" where
  "FormatInt n = (if n < 0 then CHR ''-'' # nat_digits (nat (- n)) else nat_digits (nat n))"

lemma FormatInt_nonempty [simp]: "FormatInt n \<noteq> []"
  by (simp add: FormatInt_def)

lemma FormatInt_chars: "c \<in> set (FormatInt n) \<Longrightarrow> is_digit c \<or> c = CHR ''-''"
  using nat_digits_all_digits by (auto simp: FormatInt_def split: if_splits)

lemma FormatInt_no_char:
  "\<not> is_digit c \<Longrightarrow> c \<noteq> CHR ''-'' \<Longrightarrow> c \<notin> set (FormatInt n)"
  using FormatInt_chars by blast

lemma FormatInt_digits: "0 \<le> n \<Longrightarrow> \<forall>c \<in> set (FormatInt n). is_digit c"
  using nat_digits_all_digits by (simp add: FormatInt_def)

section \<open>ParseInt\<close>

text \<open>
  \<open>strconv.ParseUint\<close> in base 10 scans left to right: it stops at the first character that
  is no digit (a syntax error) or at the first digit that takes the value past the maximum (a
  range error), whichever comes first. \<open>ParseInt\<close> strips one sign, and on a range error returns
  the nearest representable number beside the error; the code sometimes ignores the error and
  uses that number. The result is the number and whether there was no error.
\<close>

datatype num_error = ErrSyntax | ErrRange

fun parse_uint_from :: "nat \<Rightarrow> nat \<Rightarrow> string \<Rightarrow> num_error + nat" where
  "parse_uint_from mx acc [] = Inr acc"
| "parse_uint_from mx acc (c # cs) =
     (if \<not> is_digit c then Inl ErrSyntax
      else if acc * 10 + digit_val c > mx then Inl ErrRange
      else parse_uint_from mx (acc * 10 + digit_val c) cs)"

definition ParseUint :: "nat \<Rightarrow> string \<Rightarrow> num_error + nat" where
  "ParseUint bits s = (if s = [] then Inl ErrSyntax else parse_uint_from (2 ^ bits - 1) 0 s)"

definition strip_sign :: "string \<Rightarrow> bool \<times> string" where
  "strip_sign s = (case s of [] \<Rightarrow> (False, [])
     | c # cs \<Rightarrow> if c = CHR ''+'' then (False, cs) else if c = CHR ''-'' then (True, cs) else (False, s))"

definition ParseInt :: "string \<Rightarrow> nat \<Rightarrow> int \<times> bool" where
  "ParseInt s bits =
     (let (neg, ds) = strip_sign s; cutoff = (2::int) ^ (bits - 1) in
      case ParseUint bits ds of
        Inl ErrSyntax \<Rightarrow> (0, False)
      | Inl ErrRange \<Rightarrow> (if neg then (- cutoff, False) else (cutoff - 1, False))
      | Inr un \<Rightarrow>
          if \<not> neg \<and> cutoff \<le> int un then (cutoff - 1, False)
          else if neg \<and> cutoff < int un then (- cutoff, False)
          else (if neg then - int un else int un, True))"

lemma parse_uint_from_append:
  "parse_uint_from mx acc (xs @ ys) =
     (case parse_uint_from mx acc xs of Inl e \<Rightarrow> Inl e | Inr a \<Rightarrow> parse_uint_from mx a ys)"
  by (induction xs arbitrary: acc) auto

lemma parse_uint_nat_digits: "n \<le> mx \<Longrightarrow> parse_uint_from mx 0 (nat_digits n) = Inr n"
proof (induction n rule: nat_digits.induct)
  case (1 n)
  show ?case
  proof (cases "n < 10")
    case True
    with "1.prems" show ?thesis by (subst nat_digits.simps) simp
  next
    case False
    have "n div 10 \<le> mx" using "1.prems" by simp
    then have "parse_uint_from mx 0 (nat_digits (n div 10)) = Inr (n div 10)"
      using "1.IH" False by simp
    moreover have "n div 10 * 10 + n mod 10 = n" by simp
    ultimately show ?thesis using False "1.prems"
      by (subst nat_digits.simps) (simp add: parse_uint_from_append)
  qed
qed

lemma ParseUint_nat_digits: "n < 2 ^ bits \<Longrightarrow> ParseUint bits (nat_digits n) = Inr n"
  by (simp add: ParseUint_def parse_uint_nat_digits)

lemma nat_digits_head: "strip_sign (nat_digits n) = (False, nat_digits n)"
proof (cases "nat_digits n")
  case Nil
  then show ?thesis by simp
next
  case (Cons c cs)
  then have "is_digit c" using nat_digits_all_digits [of n] by simp
  then have "c \<noteq> CHR ''+''" "c \<noteq> CHR ''-''" by auto
  with Cons show ?thesis by (simp add: strip_sign_def)
qed

text \<open>Formatting and parsing back is the identity on every number of the width.\<close>

lemma ParseInt_FormatInt:
  assumes "0 < bits" "- (2 ^ (bits - 1)) \<le> n" "n < 2 ^ (bits - 1)"
  shows "ParseInt (FormatInt n) bits = (n, True)"
proof -
  have two: "(2::int) ^ bits = 2 * 2 ^ (bits - 1)" using assms(1) by (cases bits) auto
  have pos: "(0::int) < 2 ^ (bits - 1)" by simp
  show ?thesis
  proof (cases "n < 0")
    case True
    have "int (nat (- n)) < 2 ^ bits" using True assms two pos by linarith
    then have "nat (- n) < 2 ^ bits" by (metis of_nat_less_iff of_nat_numeral of_nat_power)
    then have "ParseUint bits (nat_digits (nat (- n))) = Inr (nat (- n))"
      by (rule ParseUint_nat_digits)
    with True assms show ?thesis
      by (simp add: FormatInt_def ParseInt_def strip_sign_def Let_def)
  next
    case False
    have "int (nat n) < 2 ^ bits" using False assms two pos by linarith
    then have "nat n < 2 ^ bits" by (metis of_nat_less_iff of_nat_numeral of_nat_power)
    then have "ParseUint bits (nat_digits (nat n)) = Inr (nat n)"
      by (rule ParseUint_nat_digits)
    with False assms show ?thesis
      by (simp add: FormatInt_def ParseInt_def nat_digits_head Let_def)
  qed
qed

lemma ParseInt64_FormatInt [simp]: "in64 n \<Longrightarrow> ParseInt (FormatInt n) 64 = (n, True)"
  by (rule ParseInt_FormatInt) (simp_all add: in64_def)

lemma ParseInt32_FormatInt [simp]: "in32 n \<Longrightarrow> ParseInt (FormatInt n) 32 = (n, True)"
  by (rule ParseInt_FormatInt) (simp_all add: in32_def)

text \<open>Parsing at a smaller width either gives the number or fails.\<close>

lemma parse_uint_from_wider:
  "parse_uint_from mx acc s = Inr m \<Longrightarrow> mx \<le> mx' \<Longrightarrow> parse_uint_from mx' acc s = Inr m"
  by (induction mx acc s rule: parse_uint_from.induct) (auto split: if_splits)

lemma ParseUint_nat_digits_sound: "ParseUint bits (nat_digits n) = Inr m \<Longrightarrow> m = n"
proof -
  assume "ParseUint bits (nat_digits n) = Inr m"
  then have "parse_uint_from (max (2 ^ bits - 1) n) 0 (nat_digits n) = Inr m"
    by (auto simp: ParseUint_def split: if_splits intro: parse_uint_from_wider)
  then show ?thesis using parse_uint_nat_digits [of n "max (2 ^ bits - 1) n"] by simp
qed

lemma ParseInt_FormatInt_sound: "ParseInt (FormatInt n) bits = (v, True) \<Longrightarrow> v = n"
proof (cases "n < 0")
  case True
  assume "ParseInt (FormatInt n) bits = (v, True)"
  with True show ?thesis
    by (auto simp: FormatInt_def ParseInt_def strip_sign_def Let_def
        dest!: ParseUint_nat_digits_sound split: sum.splits num_error.splits if_splits)
next
  case False
  assume "ParseInt (FormatInt n) bits = (v, True)"
  with False show ?thesis
    by (auto simp: FormatInt_def ParseInt_def nat_digits_head Let_def
        dest!: ParseUint_nat_digits_sound split: sum.splits num_error.splits if_splits)
qed

lemma FormatInt_inject: "in64 a \<Longrightarrow> in64 b \<Longrightarrow> FormatInt a = FormatInt b \<Longrightarrow> a = b"
  by (metis ParseInt64_FormatInt fst_conv)

text \<open>A parsed number is always in range, error or not.\<close>

lemma ParseInt_range:
  assumes "0 < bits"
  shows "- (2 ^ (bits - 1)) \<le> fst (ParseInt s bits) \<and> fst (ParseInt s bits) < 2 ^ (bits - 1)"
proof -
  have pos: "(0::int) < 2 ^ (bits - 1)" by simp
  obtain neg ds where sd: "strip_sign s = (neg, ds)" by fastforce
  show ?thesis
  proof (cases "ParseUint bits ds")
    case (Inl e)
    with sd pos show ?thesis by (cases e) (auto simp: ParseInt_def Let_def)
  next
    case (Inr un)
    define K :: int where "K = 2 ^ (bits - 1)"
    have "0 < K" by (simp add: K_def)
    moreover have "fst (ParseInt s bits) =
        (if \<not> neg \<and> K \<le> int un then K - 1 else if neg \<and> K < int un then - K
         else if neg then - int un else int un)"
      using sd Inr by (simp add: ParseInt_def Let_def K_def)
    ultimately show ?thesis unfolding K_def [symmetric] by (auto split: if_splits)
  qed
qed

lemma in32_ParseInt32 [simp]: "in32 (fst (ParseInt s 32))"
  using ParseInt_range [of 32 s] by (simp add: in32_def)

lemma in64_ParseInt64 [simp]: "in64 (fst (ParseInt s 64))"
  using ParseInt_range [of 64 s] by (simp add: in64_def)

lemma ParseInt32_large: "\<not> in32 n \<Longrightarrow> snd (ParseInt (FormatInt n) 32) = False"
  by (metis (full_types) ParseInt_FormatInt_sound in32_ParseInt32 prod.collapse)

section \<open>Splitting\<close>

text \<open>\<open>strings.Split(s, sep)\<close> for a one-character separator: always at least one part.\<close>

fun Split :: "string \<Rightarrow> char \<Rightarrow> string list" where
  "Split [] sep = [[]]"
| "Split (c # cs) sep =
     (if c = sep then [] # Split cs sep
      else (case Split cs sep of [] \<Rightarrow> [[c]] | p # ps \<Rightarrow> (c # p) # ps))"

lemma Split_nonempty [simp]: "Split s sep \<noteq> []"
  by (induction s) (auto split: list.splits)

lemma Split_no_sep: "sep \<notin> set s \<Longrightarrow> Split s sep = [s]"
  by (induction s) auto

lemma Split_append: "sep \<notin> set p \<Longrightarrow> Split (p @ sep # s) sep = p # Split s sep"
  by (induction p) auto

text \<open>\<open>strings.SplitN(s, sep, n)\<close> for \<open>n > 0\<close>: at most \<open>n\<close> parts, the last unsplit.\<close>

fun split_once :: "string \<Rightarrow> char \<Rightarrow> (string \<times> string) option" where
  "split_once [] sep = None"
| "split_once (c # cs) sep =
     (if c = sep then Some ([], cs)
      else map_option (\<lambda>(p, r). (c # p, r)) (split_once cs sep))"

lemma split_once_append: "sep \<notin> set p \<Longrightarrow> split_once (p @ sep # s) sep = Some (p, s)"
  by (induction p) auto

lemma split_once_None: "split_once s sep = None \<longleftrightarrow> sep \<notin> set s"
  by (induction s) (auto split: option.splits)

lemma split_once_Some: "split_once s sep = Some (p, r) \<Longrightarrow> s = p @ sep # r \<and> sep \<notin> set p"
  by (induction s arbitrary: p) (auto split: if_splits)

fun SplitN :: "string \<Rightarrow> char \<Rightarrow> nat \<Rightarrow> string list" where
  "SplitN s sep 0 = []"
| "SplitN s sep (Suc 0) = [s]"
| "SplitN s sep (Suc (Suc n)) =
     (case split_once s sep of None \<Rightarrow> [s] | Some (p, r) \<Rightarrow> p # SplitN r sep (Suc n))"

text \<open>Splitting at the last occurrence: \<open>i = LastIndex(s, c)\<close>, then \<open>s[:i]\<close> and \<open>s[i+1:]\<close>.\<close>

fun split_last :: "string \<Rightarrow> char \<Rightarrow> (string \<times> string) option" where
  "split_last [] sep = None"
| "split_last (c # cs) sep =
     (case split_last cs sep of
        Some (p, r) \<Rightarrow> Some (c # p, r)
      | None \<Rightarrow> if c = sep then Some ([], cs) else None)"

lemma split_last_None: "split_last s sep = None \<longleftrightarrow> sep \<notin> set s"
  by (induction s) (auto split: option.splits)

lemma split_last_no_sep [simp]: "sep \<notin> set s \<Longrightarrow> split_last s sep = None"
  by (simp add: split_last_None)

lemma split_last_append [simp]: "sep \<notin> set r \<Longrightarrow> split_last (p @ sep # r) sep = Some (p, r)"
proof (induction p)
  case Nil
  then have "split_last r sep = None" by simp
  then show ?case by simp
qed simp

lemma split_last_Some: "split_last s sep = Some (p, r) \<Longrightarrow> s = p @ sep # r \<and> sep \<notin> set r"
proof (induction s arbitrary: p r)
  case (Cons c cs)
  show ?case
  proof (cases "split_last cs sep")
    case None
    then have "sep \<notin> set cs" by (simp add: split_last_None)
    with None Cons.prems show ?thesis by (auto split: if_splits)
  next
    case (Some q)
    with Cons show ?thesis by (cases q) auto
  qed
qed simp

section \<open>Prefixes and suffixes\<close>

definition HasPrefix :: "string \<Rightarrow> string \<Rightarrow> bool" where
  "HasPrefix s p \<longleftrightarrow> take (length p) s = p"

definition TrimPrefix :: "string \<Rightarrow> string \<Rightarrow> string" where
  "TrimPrefix s p = (if HasPrefix s p then drop (length p) s else s)"

definition TrimSuffix :: "string \<Rightarrow> string \<Rightarrow> string" where
  "TrimSuffix s p = (if HasPrefix (rev s) (rev p) then take (length s - length p) s else s)"

lemma HasPrefix_append [simp]: "HasPrefix (p @ s) p"
  by (simp add: HasPrefix_def)

lemma HasPrefix_iff: "HasPrefix s p \<longleftrightarrow> (\<exists>r. s = p @ r)"
  by (metis HasPrefix_append HasPrefix_def append_take_drop_id)

lemma TrimPrefix_append [simp]: "TrimPrefix (p @ s) p = s"
  by (simp add: TrimPrefix_def)

lemma TrimSuffix_append [simp]: "TrimSuffix (s @ p) p = s"
  by (simp add: TrimSuffix_def)

section \<open>Texts made of parts and numbers\<close>

lemma inj_FormatInt: "FormatInt a = FormatInt b \<Longrightarrow> a = b"
proof -
  assume eq: "FormatInt a = FormatInt b"
  have "int (nat \<bar>a\<bar>) < 2 ^ nat \<bar>a\<bar>" using less_exp [of "nat \<bar>a\<bar>"] by (metis of_nat_less_iff of_nat_numeral of_nat_power)
  then have "- (2 ^ nat \<bar>a\<bar>) \<le> a" "a < 2 ^ nat \<bar>a\<bar>" by auto
  then have "ParseInt (FormatInt a) (Suc (nat \<bar>a\<bar>)) = (a, True)" by (intro ParseInt_FormatInt) simp_all
  then show "a = b" using eq ParseInt_FormatInt_sound [of b] by simp
qed

lemma colon_free: "CHR '':'' \<notin> set (FormatInt n)"
  by (rule FormatInt_no_char) (simp_all add: is_digit_def)

lemma FormatInt_inj_iff [simp]: "FormatInt a = FormatInt b \<longleftrightarrow> a = b"
  using inj_FormatInt by blast

text \<open>The last separator splits uniquely: ids of the form \<open>"%s:%d"\<close> do not collide.\<close>

lemma last_part_inject:
  fixes c :: char
  assumes "c \<notin> set x" "c \<notin> set y"
  shows "p @ c # x = q @ c # y \<longleftrightarrow> p = q \<and> x = y"
proof
  assume "p @ c # x = q @ c # y"
  then have "split_last (p @ c # x) c = split_last (q @ c # y) c" by (rule arg_cong)
  then show "p = q \<and> x = y" unfolding split_last_append [OF assms(1)] split_last_append [OF assms(2)] by simp
qed simp

end
