(* ===== verification/RankTypes.thy ===== *)
theory RankTypes
  imports GoText
begin

text \<open>
  The data model of the rank engine: \<open>internal/rank/engine/types.go\<close>, the robot structs of
  \<open>robot.go\<close>, the saved periodic state of \<open>dao.go\<close>, and the JSON documents under which
  groups and robots are stored in Redis.

  The structs of the shared package \<open>common/rank\<close> (snapshots, score items, instances, rank
  definitions, avatars) are not part of the repository. They appear here as records with exactly
  the fields the repository reads or writes; nothing else is assumed about them.
\<close>

section \<open>Structs of the shared package, by the fields the server uses\<close>

record avatar_info =
  av_UserId :: int64
  av_Name :: string
  av_Avatar :: int32
  av_Frame :: int32

record snapshot =
  sn_MemberId :: int64
  sn_Score :: int64
  sn_Rank :: int64
  sn_EnterTime :: int64
  sn_UpdateTime :: int64
  sn_Sequence :: int64
  sn_AvatarInfo :: "avatar_info option"

record score_item =
  it_MemberId :: int64
  it_Score :: int64
  it_AtTime :: int64
  it_EnterTime :: int64
  it_Sequence :: int64
  it_AvatarInfo :: "avatar_info option"

datatype inst_state = InstanceStateInit | InstanceStateOpen | InstanceStateClosed | InstanceStateSettled

record rank_instance =
  in_InstanceId :: string
  in_RankCode :: string
  in_BizId :: string
  in_State :: inst_state
  in_OpenTime :: int64
  in_CloseTime :: int64
  in_GameEndTime :: int64
  in_SettleTime :: int64
  in_CreateTime :: int64
  in_UpdateTime :: int64
  in_MemberCount :: int64
  in_Version :: int64

datatype score_order = ScoreOrderDesc | ScoreOrderOther
datatype tie_break = TieBreakPolicyFirstEnter | TieBreakPolicyOther

record rank_def =
  rd_RankCode :: string
  rd_RankName :: string
  rd_ScoreOrder :: score_order
  rd_TieBreakPolicy :: tie_break
  rd_CreateTime :: int64
  rd_UpdateTime :: int64

text \<open>
  Errors. The named ones are the sentinels the code compares against; \<open>ErrWrap\<close> is
  \<open>fmt.Errorf("...: %w", err)\<close>, which \<open>==\<close> does not look through and \<open>errors.Is\<close> does.
\<close>

datatype goerr =
    ErrInstanceNotFound | ErrInstanceClosed | ErrInstanceNotOpen | ErrInvalidRankSpec
  | ErrDefinitionNotFound | ErrVersionConflict | RedisNil | ErrNoDocuments
  | ErrText string | ErrWrap string goerr

fun errors_Is :: "goerr \<Rightarrow> goerr \<Rightarrow> bool" where
  "errors_Is (ErrWrap m e) t = (ErrWrap m e = t \<or> errors_Is e t)"
| "errors_Is e t = (e = t)"

section \<open>Configuration\<close>

record robot_tier =
  ti_TierID :: int32
  ti_Num :: int32
  ti_DefaultTokenMin :: int64
  ti_DefaultTokenMax :: int64
  ti_GrowTokenCdMs :: int64
  ti_GrowTokenMinBps :: int64
  ti_GrowTokenMaxBps :: int64
  ti_MaxToken :: int64
  ti_MaxDifferenceToken :: int64
  ti_LockTokenTimeMs :: int64
  ti_OvertakeTimeMs :: int64
  ti_OvertakeIntervalMs :: int64

record robot_info =
  ri_InfoID :: int64
  ri_Name :: string
  ri_Avatar :: int32
  ri_Frame :: int32

record config =
  cf_BizType :: string
  cf_ActID :: int32
  cf_RankCode :: string
  cf_RankPeopleNum :: int32
  cf_OpenToken :: int64
  cf_OpenTime :: int64
  cf_CloseTime :: int64
  cf_GameEndTime :: int64
  cf_CreateTime :: int64
  cf_RoundIndex :: int32
  cf_RobotTiers :: "robot_tier list"
  cf_RobotInfos :: "robot_info list"

definition hasRobots :: "config \<Rightarrow> bool" where
  "hasRobots c \<longleftrightarrow> length (cf_RobotTiers c) > 0 \<and> length (cf_RobotInfos c) > 0"

definition computeBizId :: "config \<Rightarrow> string" where
  "computeBizId c =
     (if cf_RoundIndex c > 0
      then cf_BizType c @ ''_'' @ FormatInt (cf_ActID c) @ ''_r'' @ FormatInt (cf_RoundIndex c)
      else cf_BizType c @ ''_'' @ FormatInt (cf_ActID c))"

section \<open>Groups and robots\<close>

text \<open>\<open>GroupState\<close> is a Go string; the three constants of the code and any other text.\<close>

datatype group_state = GroupStateOpen | GroupStateFull | GroupStateSettled | GroupStateText string

record group =
  gr_GroupID :: int32
  gr_InstanceID :: string
  gr_RealCount :: int32
  gr_RobotCount :: int32
  gr_State :: group_state

definition totalCount :: "group \<Rightarrow> int32" where
  "totalCount g = i32 (gr_RealCount g + gr_RobotCount g)"

record robot_state =
  ro_MemberID :: int64
  ro_TierID :: int32
  ro_InfoID :: int64
  ro_Score :: int64
  ro_LastGrowAt :: int64
  ro_PendingScore :: int64
  ro_PendingStartAt :: int64
  ro_PendingPerSlice :: int64

record periodic_saved =
  sv_CycleMinutes :: int32
  sv_BaseCycleMinutes :: int32
  sv_TotalOpenTime :: int64
  sv_TotalCloseTime :: int64
  sv_CurrentRound :: int32
  sv_RoundOpenTime :: int64
  sv_RoundCloseTime :: int64

record rank_config_doc =
  do_BizKey :: string
  do_Config :: config
  do_Periodic :: "periodic_saved option"

section \<open>JSON of groups and robots\<close>

text \<open>
  A Redis value is text. \<open>Txt\<close> is text given by its bytes; \<open>JTxt j\<close> is the text that
  \<open>json.Marshal\<close> writes for the document \<open>j\<close>, kept as the document. Decoding follows
  \<open>encoding/json\<close>: keys match without regard to case and the last match wins, a missing key and
  \<open>null\<close> leave the zero value, a wrong type or an integer out of range is an error.
\<close>

datatype json = JNull | JNum int | JStr string | JArr "json list" | JObj "(string \<times> json) list"

datatype rval = Txt string | JTxt json

definition lower_char :: "char \<Rightarrow> char" where
  "lower_char c = (let n = (of_char c :: nat) in if 65 \<le> n \<and> n \<le> 90 then char_of (n + 32) else c)"

fun json_field :: "string \<Rightarrow> (string \<times> json) list \<Rightarrow> json" where
  "json_field k [] = JNull"
| "json_field k ((k', v) # fs) =
     (case json_field k fs of
        JNull \<Rightarrow> if map lower_char k' = map lower_char k then v else JNull
      | w \<Rightarrow> w)"

definition dec_int :: "(int \<Rightarrow> bool) \<Rightarrow> json \<Rightarrow> int option" where
  "dec_int ok j = (case j of JNull \<Rightarrow> Some 0 | JNum n \<Rightarrow> if ok n then Some n else None | _ \<Rightarrow> None)"

definition dec_str :: "json \<Rightarrow> string option" where
  "dec_str j = (case j of JNull \<Rightarrow> Some [] | JStr s \<Rightarrow> Some s | _ \<Rightarrow> None)"

fun state_text :: "group_state \<Rightarrow> string" where
  "state_text GroupStateOpen = ''open''"
| "state_text GroupStateFull = ''full''"
| "state_text GroupStateSettled = ''settled''"
| "state_text (GroupStateText s) = s"

definition state_of_text :: "string \<Rightarrow> group_state" where
  "state_of_text s = (if s = ''open'' then GroupStateOpen else if s = ''full'' then GroupStateFull
     else if s = ''settled'' then GroupStateSettled else GroupStateText s)"

text \<open>A state value is normal when no constant is spelled out as text.\<close>

definition normal_state :: "group_state \<Rightarrow> bool" where
  "normal_state st \<longleftrightarrow> state_of_text (state_text st) = st"

definition marshal_group :: "group \<Rightarrow> json" where
  "marshal_group g = JObj [(''groupId'', JNum (gr_GroupID g)), (''instanceId'', JStr (gr_InstanceID g)),
     (''realCount'', JNum (gr_RealCount g)), (''robotCount'', JNum (gr_RobotCount g)),
     (''state'', JStr (state_text (gr_State g)))]"

definition unmarshal_group :: "rval \<Rightarrow> group option" where
  "unmarshal_group v = (case v of
     JTxt (JObj fs) \<Rightarrow>
       Option.bind (dec_int in32 (json_field ''groupId'' fs)) (\<lambda>gid.
       Option.bind (dec_str (json_field ''instanceId'' fs)) (\<lambda>iid.
       Option.bind (dec_int in32 (json_field ''realCount'' fs)) (\<lambda>rc.
       Option.bind (dec_int in32 (json_field ''robotCount'' fs)) (\<lambda>bc.
       Option.bind (dec_str (json_field ''state'' fs)) (\<lambda>st.
         Some \<lparr>gr_GroupID = gid, gr_InstanceID = iid, gr_RealCount = rc, gr_RobotCount = bc,
               gr_State = state_of_text st\<rparr>)))))
   | JTxt JNull \<Rightarrow> Some \<lparr>gr_GroupID = 0, gr_InstanceID = [], gr_RealCount = 0, gr_RobotCount = 0,
                          gr_State = GroupStateText []\<rparr>
   | _ \<Rightarrow> None)"

text \<open>\<open>omitempty\<close>: a zero field is left out.\<close>

definition omit_zero :: "string \<Rightarrow> int \<Rightarrow> (string \<times> json) list" where
  "omit_zero k n = (if n = 0 then [] else [(k, JNum n)])"

definition marshal_robot :: "robot_state \<Rightarrow> json" where
  "marshal_robot r = JObj ([(''memberId'', JNum (ro_MemberID r)), (''tierId'', JNum (ro_TierID r)),
     (''infoId'', JNum (ro_InfoID r)), (''score'', JNum (ro_Score r)),
     (''lastGrowAt'', JNum (ro_LastGrowAt r))]
     @ omit_zero ''pendingScore'' (ro_PendingScore r)
     @ omit_zero ''pendingStartAt'' (ro_PendingStartAt r)
     @ omit_zero ''pendingPerSlice'' (ro_PendingPerSlice r))"

definition unmarshal_robot :: "rval \<Rightarrow> robot_state option" where
  "unmarshal_robot v = (case v of
     JTxt (JObj fs) \<Rightarrow>
       Option.bind (dec_int in64 (json_field ''memberId'' fs)) (\<lambda>mid.
       Option.bind (dec_int in32 (json_field ''tierId'' fs)) (\<lambda>tid.
       Option.bind (dec_int in64 (json_field ''infoId'' fs)) (\<lambda>iid.
       Option.bind (dec_int in64 (json_field ''score'' fs)) (\<lambda>sc.
       Option.bind (dec_int in64 (json_field ''lastGrowAt'' fs)) (\<lambda>lg.
       Option.bind (dec_int in64 (json_field ''pendingScore'' fs)) (\<lambda>pd.
       Option.bind (dec_int in64 (json_field ''pendingStartAt'' fs)) (\<lambda>pst.
       Option.bind (dec_int in64 (json_field ''pendingPerSlice'' fs)) (\<lambda>pps.
         Some \<lparr>ro_MemberID = mid, ro_TierID = tid, ro_InfoID = iid, ro_Score = sc,
               ro_LastGrowAt = lg, ro_PendingScore = pd, ro_PendingStartAt = pst,
               ro_PendingPerSlice = pps\<rparr>))))))))
   | JTxt JNull \<Rightarrow> Some \<lparr>ro_MemberID = 0, ro_TierID = 0, ro_InfoID = 0, ro_Score = 0,
               ro_LastGrowAt = 0, ro_PendingScore = 0, ro_PendingStartAt = 0, ro_PendingPerSlice = 0\<rparr>
   | _ \<Rightarrow> None)"

definition wf_group :: "group \<Rightarrow> bool" where
  "wf_group g \<longleftrightarrow> in32 (gr_GroupID g) \<and> in32 (gr_RealCount g) \<and> in32 (gr_RobotCount g)
     \<and> normal_state (gr_State g)"

definition wf_robot :: "robot_state \<Rightarrow> bool" where
  "wf_robot r \<longleftrightarrow> in64 (ro_MemberID r) \<and> in32 (ro_TierID r) \<and> in64 (ro_InfoID r)
     \<and> in64 (ro_Score r) \<and> in64 (ro_LastGrowAt r) \<and> in64 (ro_PendingScore r)
     \<and> in64 (ro_PendingStartAt r) \<and> in64 (ro_PendingPerSlice r)"

lemma normal_state_consts [simp]: "normal_state GroupStateOpen" "normal_state GroupStateFull"
  "normal_state GroupStateSettled"
  by (simp_all add: normal_state_def state_of_text_def)

lemma normal_state_of_text [simp]: "normal_state (state_of_text s)"
  by (simp add: normal_state_def state_of_text_def)

lemmas lower_eval = lower_char_def Let_def

lemma unmarshal_marshal_group [simp]: "wf_group g \<Longrightarrow> unmarshal_group (JTxt (marshal_group g)) = Some g"
  by (cases g) (simp add: wf_group_def marshal_group_def unmarshal_group_def lower_eval
      dec_int_def dec_str_def normal_state_def)

lemma unmarshal_marshal_robot [simp]: "wf_robot r \<Longrightarrow> unmarshal_robot (JTxt (marshal_robot r)) = Some r"
  by (cases r) (auto simp: wf_robot_def marshal_robot_def unmarshal_robot_def lower_eval
      dec_int_def omit_zero_def)

end
