(* ===== verification/RoundState.thy ===== *)
theory RoundState
  imports RankTypes
begin

text \<open>
  \<open>internal/rank/periodic/state.go\<close>: the run-time state of a periodic ranking, the biz ids of
  its rounds, the time window of a round, the round at a time, and the advance to a later round.

  Times are Unix milliseconds in \<open>int64\<close>, rounds and minutes are \<open>int32\<close>; every sum and
  product is wrapped at its width. The \<open>atomic\<close> loads and stores of \<open>currentRound\<close> are plain
  reads and writes here. \<open>time.Now().UnixMilli()\<close> is the argument \<open>now\<close>.
\<close>

section \<open>State\<close>

record periodic_state =
  ps_BizType :: string
  ps_ActID :: int32
  ps_CycleMinutes :: int32
  ps_BaseCycleMinutes :: int32
  ps_TotalOpenTime :: int64
  ps_TotalCloseTime :: int64
  ps_currentRound :: int32
  ps_RoundOpenTime :: int64
  ps_RoundCloseTime :: int64

section \<open>Biz ids of rounds\<close>

definition LogicalKey :: "string \<Rightarrow> int32 \<Rightarrow> string" where
  "LogicalKey bizType actID = bizType @ '':'' @ FormatInt actID"

text \<open>The backward loop to the last underscore is \<open>split_last\<close>.\<close>

definition ExtractRoundBizBase :: "string \<Rightarrow> string \<times> bool" where
  "ExtractRoundBizBase bizId =
     (case split_last bizId CHR ''_'' of
        Some (base, suffix) \<Rightarrow>
          (if 2 \<le> length suffix \<and> suffix ! 0 = CHR ''r''
           then (if \<forall>ch \<in> set (drop 1 suffix). is_digit ch then (base, True) else ([], False))
           else ([], False))
      | None \<Rightarrow> ([], False))"

definition IsRoundBizId :: "string \<Rightarrow> bool" where
  "IsRoundBizId bizId =
     (case split_last bizId CHR ''_'' of
        Some (base, suffix) \<Rightarrow>
          (if 2 \<le> length suffix \<and> suffix ! 0 = CHR ''r''
           then (\<forall>ch \<in> set (drop 1 suffix). is_digit ch) else False)
      | None \<Rightarrow> False)"

definition roundBizId :: "periodic_state \<Rightarrow> int32 \<Rightarrow> string" where
  "roundBizId p round = ps_BizType p @ ''_'' @ FormatInt (ps_ActID p) @ ''_r'' @ FormatInt round"

definition StateLogicalKey :: "periodic_state \<Rightarrow> string" where
  "StateLogicalKey p = LogicalKey (ps_BizType p) (ps_ActID p)"

definition currentBizId :: "periodic_state \<Rightarrow> string" where
  "currentBizId p = roundBizId p (ps_currentRound p)"

lemma roundBizId_split:
  assumes "0 \<le> n"
  shows "split_last (roundBizId p n) CHR ''_'' =
    Some (ps_BizType p @ ''_'' @ FormatInt (ps_ActID p), CHR ''r'' # FormatInt n)"
proof -
  have n: "CHR ''_'' \<notin> set (CHR ''r'' # FormatInt n)"
    using FormatInt_chars [of "CHR ''_''" n] by auto
  have e: "roundBizId p n =
    (ps_BizType p @ ''_'' @ FormatInt (ps_ActID p)) @ CHR ''_'' # (CHR ''r'' # FormatInt n)"
    by (simp add: roundBizId_def)
  show ?thesis unfolding e by (rule split_last_append [OF n])
qed

text \<open>The biz id of a round is recognised as one and yields back the biz id of the
  activity it belongs to, whatever the business type; and the two recognisers of the code agree
  on every string.\<close>

theorem roundBizId_roundtrip:
  assumes "0 \<le> n"
  shows "IsRoundBizId (roundBizId p n)
    \<and> ExtractRoundBizBase (roundBizId p n) = (ps_BizType p @ ''_'' @ FormatInt (ps_ActID p), True)
    \<and> (\<forall>s. snd (ExtractRoundBizBase s) = IsRoundBizId s)"
proof -
  have "FormatInt n \<noteq> []" by simp
  then have l: "Suc 0 \<le> length (FormatInt n)" by (cases "FormatInt n") auto
  have "IsRoundBizId (roundBizId p n)"
    using FormatInt_digits [OF assms] l by (simp add: IsRoundBizId_def roundBizId_split [OF assms])
  moreover have "ExtractRoundBizBase (roundBizId p n) = (ps_BizType p @ ''_'' @ FormatInt (ps_ActID p), True)"
    using FormatInt_digits [OF assms] l by (simp add: ExtractRoundBizBase_def roundBizId_split [OF assms])
  moreover have "snd (ExtractRoundBizBase s) = IsRoundBizId s" for s
    by (simp add: ExtractRoundBizBase_def IsRoundBizId_def split: option.splits)
  ultimately show ?thesis by blast
qed

theorem roundBizId_roundtrip_witness: "IsRoundBizId ''arena_7_r12''"
proof -
  define p where "p = \<lparr>ps_BizType = ''arena'', ps_ActID = 7, ps_CycleMinutes = 1, ps_BaseCycleMinutes = 1,
    ps_TotalOpenTime = 0, ps_TotalCloseTime = 0, ps_currentRound = 1, ps_RoundOpenTime = 0,
    ps_RoundCloseTime = 0\<rparr>"
  have "roundBizId p 12 = ''arena_7_r12''"
    unfolding p_def by code_simp
  then show ?thesis using roundBizId_roundtrip [of 12 p] by simp
qed

text \<open>Distinct rounds, activities or business types never share a biz id.
  The business type may itself contain underscores.\<close>

theorem roundBizId_injective:
  assumes "roundBizId p n = roundBizId q m" "0 \<le> n" "0 \<le> m" "in32 n" "in32 m"
    "in32 (ps_ActID p)" "in32 (ps_ActID q)"
  shows "n = m \<and> ps_ActID p = ps_ActID q \<and> ps_BizType p = ps_BizType q"
proof -
  have s: "(ps_BizType p @ ''_'' @ FormatInt (ps_ActID p), CHR ''r'' # FormatInt n)
    = (ps_BizType q @ ''_'' @ FormatInt (ps_ActID q), CHR ''r'' # FormatInt m)"
    using roundBizId_split [OF assms(2), of p] roundBizId_split [OF assms(3), of q] assms(1) by simp
  then have n: "n = m" using assms FormatInt_inject by (auto intro: in32_in64)
  have u: "CHR ''_'' \<notin> set (FormatInt k)" for k using FormatInt_chars [of "CHR ''_''" k] by auto
  have "split_last (ps_BizType p @ ''_'' @ FormatInt (ps_ActID p)) CHR ''_'' =
    split_last (ps_BizType q @ ''_'' @ FormatInt (ps_ActID q)) CHR ''_''" using s by simp
  then have "ps_BizType p = ps_BizType q \<and> FormatInt (ps_ActID p) = FormatInt (ps_ActID q)"
    using u by simp
  then show ?thesis using n assms FormatInt_inject by (auto intro: in32_in64)
qed

section \<open>Windows and rounds\<close>

definition cycleDur :: "int32 \<Rightarrow> int64" where
  "cycleDur minutes = i64 (i64 (minutes * 60) * 1000)"

definition maxRound :: "periodic_state \<Rightarrow> int32" where
  "maxRound p =
     (if ps_CycleMinutes p \<le> 0 then 1
      else let span = i64 (ps_TotalCloseTime p - ps_TotalOpenTime p) in
           if span \<le> 0 then 1
           else i32 (i32 (quot (i64 (span - 1)) (cycleDur (ps_CycleMinutes p))) + 1))"

definition computeRoundAt :: "periodic_state \<Rightarrow> int64 \<Rightarrow> int32" where
  "computeRoundAt p now =
     (if ps_CycleMinutes p \<le> 0 then 1
      else if now \<le> ps_TotalOpenTime p then 1
      else let round = i32 (i32 (quot (i64 (now - ps_TotalOpenTime p)) (cycleDur (ps_CycleMinutes p))) + 1);
               mx = maxRound p
           in if round > mx then mx else round)"

definition computeRoundWindow :: "periodic_state \<Rightarrow> int32 \<Rightarrow> int64 \<times> int64" where
  "computeRoundWindow p round =
     (if ps_CycleMinutes p \<le> 0 then (ps_TotalOpenTime p, ps_TotalCloseTime p)
      else if round = ps_currentRound p \<and> ps_RoundOpenTime p > 0
      then (ps_RoundOpenTime p, ps_RoundCloseTime p)
      else if round > ps_currentRound p \<and> ps_RoundCloseTime p > 0
      then let cd = cycleDur (ps_CycleMinutes p);
               offset = i32 (i32 (round - ps_currentRound p) - 1);
               openTime = i64 (ps_RoundCloseTime p + i64 (offset * cd));
               closeTime = i64 (openTime + cd)
           in (openTime, if closeTime > ps_TotalCloseTime p then ps_TotalCloseTime p else closeTime)
      else let minutes = (if ps_BaseCycleMinutes p > 0 \<and> round < ps_currentRound p
                          then ps_BaseCycleMinutes p else ps_CycleMinutes p);
               cd = cycleDur minutes;
               openTime = i64 (ps_TotalOpenTime p + i64 (i32 (round - 1) * cd));
               closeTime = i64 (openTime + cd)
           in (openTime, if closeTime > ps_TotalCloseTime p then ps_TotalCloseTime p else closeTime))"

definition isRoundExpired :: "periodic_state \<Rightarrow> int64 \<Rightarrow> bool" where
  "isRoundExpired p now \<longleftrightarrow> now \<ge> ps_RoundCloseTime p"

definition isActivityFinished :: "periodic_state \<Rightarrow> int64 \<Rightarrow> bool" where
  "isActivityFinished p now \<longleftrightarrow> now \<ge> ps_TotalCloseTime p"

definition nextAdvanceRound :: "periodic_state \<Rightarrow> int64 \<Rightarrow> int32" where
  "nextAdvanceRound p now =
     (let target = computeRoundAt p now; cur = ps_currentRound p in
      if target \<le> cur then i32 (cur + 1) else target)"

definition advanceToRound :: "periodic_state \<Rightarrow> int32 \<Rightarrow> bool \<times> periodic_state" where
  "advanceToRound p round =
     (if round \<le> ps_currentRound p then (False, p)
      else let (opn, cls) = computeRoundWindow p round in
           if opn \<ge> ps_TotalCloseTime p then (False, p)
           else (True, p\<lparr>ps_RoundOpenTime := opn, ps_RoundCloseTime := cls, ps_currentRound := round\<rparr>))"

definition ToSavedState :: "periodic_state \<Rightarrow> periodic_saved" where
  "ToSavedState p = \<lparr>sv_CycleMinutes = ps_CycleMinutes p, sv_BaseCycleMinutes = ps_BaseCycleMinutes p,
     sv_TotalOpenTime = ps_TotalOpenTime p, sv_TotalCloseTime = ps_TotalCloseTime p,
     sv_CurrentRound = ps_currentRound p, sv_RoundOpenTime = ps_RoundOpenTime p,
     sv_RoundCloseTime = ps_RoundCloseTime p\<rparr>"

definition StateFromSaved :: "string \<Rightarrow> int32 \<Rightarrow> periodic_saved \<Rightarrow> periodic_state" where
  "StateFromSaved bizType actID s =
     (let p = \<lparr>ps_BizType = bizType, ps_ActID = actID, ps_CycleMinutes = sv_CycleMinutes s,
        ps_BaseCycleMinutes = sv_BaseCycleMinutes s, ps_TotalOpenTime = sv_TotalOpenTime s,
        ps_TotalCloseTime = sv_TotalCloseTime s, ps_currentRound = sv_CurrentRound s,
        ps_RoundOpenTime = sv_RoundOpenTime s, ps_RoundCloseTime = sv_RoundCloseTime s\<rparr>
      in if ps_BaseCycleMinutes p = 0 then p\<lparr>ps_BaseCycleMinutes := ps_CycleMinutes p\<rparr> else p)"

definition NewPeriodicState ::
  "int64 \<Rightarrow> string \<Rightarrow> int32 \<Rightarrow> int32 \<Rightarrow> int64 \<Rightarrow> int64 \<Rightarrow> goerr + periodic_state" where
  "NewPeriodicState now bizType actID cycleMinutes totalOpenTime totalCloseTime =
     (if cycleMinutes \<le> 0 then Inl (ErrText ''periodic: cycleMinutes must be > 0'')
      else let p = \<lparr>ps_BizType = bizType, ps_ActID = actID, ps_CycleMinutes = cycleMinutes,
             ps_BaseCycleMinutes = cycleMinutes, ps_TotalOpenTime = totalOpenTime,
             ps_TotalCloseTime = totalCloseTime, ps_currentRound = 0, ps_RoundOpenTime = 0,
             ps_RoundCloseTime = 0\<rparr>;
             curRound = computeRoundAt p now;
             p1 = p\<lparr>ps_currentRound := curRound\<rparr>;
             (opn, cls) = computeRoundWindow p1 curRound
           in Inr (p1\<lparr>ps_RoundOpenTime := opn, ps_RoundCloseTime := cls\<rparr>))"

section \<open>The schedule of a fresh activity\<close>

text \<open>
  The arithmetic specification: round \<open>r\<close> of an activity that opened at \<open>o\<close> with cycle
  \<open>d\<close> is the interval from \<open>o + (r - 1) * d\<close> to \<open>o + r * d\<close>, the last one cut at the close.
\<close>

definition spec_open :: "periodic_state \<Rightarrow> int \<Rightarrow> int" where
  "spec_open p r = ps_TotalOpenTime p + (r - 1) * (ps_CycleMinutes p * 60000)"

definition spec_close :: "periodic_state \<Rightarrow> int \<Rightarrow> int" where
  "spec_close p r = min (spec_open p (r + 1)) (ps_TotalCloseTime p)"

text \<open>A schedule whose times and rounds fit their types; and a state whose stored window is the
  one of its current round (what creation and every advance set up until the cycle is changed).\<close>

definition schedule_ok :: "periodic_state \<Rightarrow> bool" where
  "schedule_ok p \<longleftrightarrow> 0 < ps_CycleMinutes p \<and> ps_CycleMinutes p < 2147483648
     \<and> ps_BaseCycleMinutes p = ps_CycleMinutes p
     \<and> 0 < ps_TotalOpenTime p \<and> ps_TotalOpenTime p < ps_TotalCloseTime p
     \<and> ps_TotalCloseTime p < 2 ^ 62
     \<and> ps_TotalCloseTime p - ps_TotalOpenTime p < 2147483647 * (ps_CycleMinutes p * 60000)"

definition aligned :: "periodic_state \<Rightarrow> bool" where
  "aligned p \<longleftrightarrow> schedule_ok p \<and> 1 \<le> ps_currentRound p \<and> ps_currentRound p \<le> maxRound p
     \<and> ps_RoundOpenTime p = spec_open p (ps_currentRound p)
     \<and> ps_RoundCloseTime p = spec_close p (ps_currentRound p)"

lemma cycleDur_eq: "0 < m \<Longrightarrow> m < 2147483648 \<Longrightarrow> cycleDur m = m * 60000"
proof -
  assume m: "0 < m" "m < 2147483648"
  have "in64 (m * 60)" "in64 (m * 60000)" using m by (simp_all add: in64_def)
  then show ?thesis by (simp add: cycleDur_def mult.assoc)
qed

lemma maxRound_eq:
  assumes "schedule_ok p"
  defines "d \<equiv> ps_CycleMinutes p * 60000"
  shows "maxRound p = (ps_TotalCloseTime p - ps_TotalOpenTime p - 1) div d + 1"
    and "1 \<le> maxRound p" and "maxRound p < 2147483648" and "0 < d"
proof -
  let ?s = "ps_TotalCloseTime p - ps_TotalOpenTime p"
  have d: "cycleDur (ps_CycleMinutes p) = d" "0 < d"
    using assms by (simp_all add: schedule_ok_def cycleDur_eq)
  then show "0 < d" by simp
  have s: "0 < ?s" "?s < 2147483647 * d" "in64 ?s" "in64 (?s - 1)"
    using assms by (auto simp: schedule_ok_def in64_def)
  have q: "quot (?s - 1) d = (?s - 1) div d" using s d by (intro quot_nonneg) auto
  have b: "0 \<le> (?s - 1) div d" "(?s - 1) div d < 2147483647"
    using s d(2) int_div_less [of d "?s - 1" 2147483647] by (simp_all add: pos_imp_zdiv_nonneg_iff)
  then have r: "in32 ((?s - 1) div d)" "in32 ((?s - 1) div d + 1)" by (auto simp: in32_def)
  have cm: "\<not> ps_CycleMinutes p \<le> 0" using assms by (simp add: schedule_ok_def)
  show "maxRound p = (?s - 1) div d + 1"
    unfolding maxRound_def d(1) Let_def i64_id [OF s(3)] i64_id [OF s(4)] q i32_id [OF r(1)] i32_id [OF r(2)]
    using cm s by simp
  with b show "1 \<le> maxRound p" "maxRound p < 2147483648" by auto
qed

lemma spec_step: "spec_open p (r + 1) = spec_open p r + ps_CycleMinutes p * 60000"
  by (simp add: spec_open_def algebra_simps)

lemma spec_open_mono: "0 < ps_CycleMinutes p \<Longrightarrow> r \<le> r' \<Longrightarrow> spec_open p r \<le> spec_open p r'"
  by (auto simp: spec_open_def intro: mult_right_mono)

lemma spec_open_before_close:
  assumes "schedule_ok p" "r \<le> maxRound p"
  shows "spec_open p r < ps_TotalCloseTime p"
proof -
  let ?d = "ps_CycleMinutes p * 60000" and ?s = "ps_TotalCloseTime p - ps_TotalOpenTime p"
  have "(r - 1) * ?d \<le> ((?s - 1) div ?d) * ?d"
    using maxRound_eq [OF assms(1)] assms(2) by (intro mult_right_mono) auto
  also have "\<dots> \<le> ?s - 1" using int_div_floor maxRound_eq(4) [OF assms(1)] by blast
  finally show ?thesis by (simp add: spec_open_def)
qed

lemma spec_open_after_last:
  assumes "schedule_ok p"
  shows "ps_TotalCloseTime p \<le> spec_open p (maxRound p + 1)"
proof -
  let ?d = "ps_CycleMinutes p * 60000" and ?s = "ps_TotalCloseTime p - ps_TotalOpenTime p"
  have "?s - 1 < ((?s - 1) div ?d + 1) * ?d" using int_div_floor maxRound_eq(4) [OF assms] by blast
  then have "?s - 1 < maxRound p * ?d" by (simp only: maxRound_eq(1) [OF assms])
  then show ?thesis unfolding spec_open_def add_diff_cancel_right' by linarith
qed

lemma spec_close_inner: "schedule_ok p \<Longrightarrow> r < maxRound p \<Longrightarrow> spec_close p r = spec_open p (r + 1)"
  using spec_open_before_close [of p "r + 1"] by (simp add: spec_close_def)

lemma spec_close_last: "schedule_ok p \<Longrightarrow> spec_close p (maxRound p) = ps_TotalCloseTime p"
  using spec_open_after_last [of p] by (simp add: spec_close_def)

lemma spec_range:
  assumes "schedule_ok p" "1 \<le> r" "r \<le> maxRound p"
  shows "0 < spec_open p r" "spec_open p r < 2 ^ 62" "in64 (spec_open p r)" "in64 ((r - 1) * (ps_CycleMinutes p * 60000))"
    "in64 (spec_open p r + ps_CycleMinutes p * 60000)" "spec_open p r < spec_close p r"
proof -
  have d: "0 < ps_CycleMinutes p * 60000" "ps_CycleMinutes p * 60000 < 2 ^ 61"
    using assms by (auto simp: schedule_ok_def)
  have b: "spec_open p r < ps_TotalCloseTime p" using spec_open_before_close assms by blast
  have p62: "(2::int) ^ 62 = 4611686018427387904" by simp
  have nn: "0 \<le> (r - 1) * (ps_CycleMinutes p * 60000)" using assms(2) d(1)
    by (intro mult_nonneg_nonneg) auto
  have "0 < ps_TotalOpenTime p" using assms by (simp add: schedule_ok_def)
  with nn show o: "0 < spec_open p r" unfolding spec_open_def by linarith
  show u: "spec_open p r < 2 ^ 62" using b assms by (simp add: schedule_ok_def)
  then show "in64 (spec_open p r)" using o by (simp add: in64_def)
  show "in64 ((r - 1) * (ps_CycleMinutes p * 60000))"
    using b nn u [unfolded p62] o \<open>0 < ps_TotalOpenTime p\<close> unfolding spec_open_def in64_def by (intro conjI) linarith+
  show "in64 (spec_open p r + ps_CycleMinutes p * 60000)" using o u d by (simp add: in64_def)
  show "spec_open p r < spec_close p r" using b d by (simp add: spec_close_def spec_step)
qed

lemma window_eq:
  assumes al: "aligned p" and r: "1 \<le> r" "r \<le> maxRound p"
  shows "computeRoundWindow p r = (spec_open p r, spec_close p r)"
proof -
  have sk: "schedule_ok p" using al by (simp add: aligned_def)
  let ?d = "ps_CycleMinutes p * 60000"
  have cd: "cycleDur (ps_CycleMinutes p) = ?d" "0 < ps_CycleMinutes p"
    using sk by (simp_all add: schedule_ok_def cycleDur_eq)
  note rg = spec_range [OF sk r]
  have mx: "maxRound p < 2147483648" using maxRound_eq [OF sk] by simp
  consider (cur) "r = ps_currentRound p" | (later) "ps_currentRound p < r" | (earlier) "r < ps_currentRound p"
    by linarith
  then show ?thesis
  proof cases
    case cur
    then show ?thesis using al rg cd by (simp add: computeRoundWindow_def aligned_def)
  next
    case later
    let ?c = "ps_currentRound p"
    have c: "1 \<le> ?c" "?c < maxRound p" using al later r by (auto simp: aligned_def)
    have cl: "ps_RoundCloseTime p = spec_open p (?c + 1)"
      using al spec_close_inner [OF sk c(2)] by (simp add: aligned_def)
    have pos: "0 < ps_RoundCloseTime p" using cl spec_range(1) [OF sk, of "?c + 1"] c by simp
    have w: "i32 (r - ?c) = r - ?c" "i32 (r - ?c - 1) = r - ?c - 1"
      using later r c mx by (auto simp: in32_def intro!: i32_id)
    have "0 \<le> (r - ?c - 1) * ?d" "(r - ?c - 1) * ?d \<le> (r - 1) * ?d"
      using later c cd by (auto intro: mult_right_mono)
    then have o: "i64 ((r - ?c - 1) * ?d) = (r - ?c - 1) * ?d"
      using rg(4) by (intro i64_id) (auto simp: in64_def)
    have s: "ps_RoundCloseTime p + (r - ?c - 1) * ?d = spec_open p r"
      by (simp add: cl spec_open_def algebra_simps)
    show ?thesis
      unfolding computeRoundWindow_def Let_def cd(1) w o s i64_id [OF rg(3)] i64_id [OF rg(5)]
      using later pos cd rg by (auto simp: spec_close_def spec_step)
  next
    case earlier
    have b: "ps_BaseCycleMinutes p = ps_CycleMinutes p" using sk by (simp add: schedule_ok_def)
    have w: "i32 (r - 1) = r - 1" using r mx by (intro i32_id) (auto simp: in32_def)
    have s: "ps_TotalOpenTime p + (r - 1) * ?d = spec_open p r" by (simp add: spec_open_def)
    show ?thesis
      unfolding computeRoundWindow_def Let_def b if_cancel cd(1) w i64_id [OF rg(4)] s
        i64_id [OF rg(3)] i64_id [OF rg(5)]
      using earlier cd rg by (auto simp: spec_close_def spec_step)
  qed
qed

section \<open>What the scheduler relies on: contiguous windows\<close>

text \<open>
  The interface between the round schedule and its users (the tick that settles and opens
  rounds, the queries for a round's window): from the first to the last round the windows are
  non-empty and each begins where the one before ends.
\<close>

locale round_windows =
  fixes ok :: "'s \<Rightarrow> bool"
    and win :: "'s \<Rightarrow> int \<Rightarrow> int \<times> int"
    and firstr :: "'s \<Rightarrow> int"
    and lastr :: "'s \<Rightarrow> int"
  assumes first_le_last: "ok s \<Longrightarrow> firstr s \<le> lastr s"
    and nonempty: "ok s \<Longrightarrow> firstr s \<le> r \<Longrightarrow> r \<le> lastr s \<Longrightarrow> fst (win s r) < snd (win s r)"
    and contiguous: "ok s \<Longrightarrow> firstr s \<le> r \<Longrightarrow> r < lastr s \<Longrightarrow> fst (win s (r + 1)) = snd (win s r)"
begin

definition inside :: "'s \<Rightarrow> int \<Rightarrow> int \<Rightarrow> bool" where
  "inside s r t \<longleftrightarrow> firstr s \<le> r \<and> r \<le> lastr s \<and> fst (win s r) \<le> t \<and> t < snd (win s r)"

lemma later_opens_after:
  assumes "ok s" "firstr s \<le> r" "r < r'" "r' \<le> lastr s"
  shows "snd (win s r) \<le> fst (win s r')"
  using assms(3,4)
proof (induction r' rule: int_gr_induct)
  case base
  then show ?case using assms contiguous [of s r] by simp
next
  case (step i)
  have "snd (win s r) \<le> fst (win s i)" using step by simp
  also have "\<dots> < snd (win s i)" using assms step by (intro nonempty) auto
  also have "\<dots> = fst (win s (i + 1))" using assms step contiguous [of s i] by simp
  finally show ?case by simp
qed

lemma inside_unique:
  assumes "ok s" "inside s r t" "inside s r' t"
  shows "r = r'"
proof (rule ccontr)
  assume "r \<noteq> r'"
  then consider "r < r'" | "r' < r" by linarith
  then show False
    using assms later_opens_after [of s r r'] later_opens_after [of s r' r]
    by cases (auto simp: inside_def)
qed

lemma covered_upto:
  assumes ok: "ok s" and t: "fst (win s (firstr s)) \<le> t"
    and r: "firstr s \<le> r" "r \<le> lastr s" "t < snd (win s r)"
  shows "\<exists>k. inside s k t"
  using r
proof (induction r rule: int_ge_induct)
  case base
  then show ?case using t first_le_last [OF ok] by (auto simp: inside_def intro: exI [of _ "firstr s"])
next
  case (step i)
  show ?case
  proof (cases "t < snd (win s i)")
    case True
    then show ?thesis using step by simp
  next
    case False
    then have "inside s (i + 1) t"
      using step contiguous [OF ok, of i] by (auto simp: inside_def)
    then show ?thesis by blast
  qed
qed

lemma covered:
  assumes "ok s" "fst (win s (firstr s)) \<le> t" "t < snd (win s (lastr s))"
  shows "\<exists>!k. inside s k t"
  using covered_upto [OF assms(1,2) first_le_last [OF assms(1)] order_refl assms(3)]
    inside_unique [OF assms(1)] by blast

end

interpretation rw: round_windows aligned computeRoundWindow "\<lambda>p. 1" maxRound
proof (unfold_locales)
  show "aligned p \<Longrightarrow> 1 \<le> maxRound p" for p
    using maxRound_eq(2) by (simp add: aligned_def)
  show "aligned p \<Longrightarrow> 1 \<le> r \<Longrightarrow> r \<le> maxRound p \<Longrightarrow>
      fst (computeRoundWindow p r) < snd (computeRoundWindow p r)" for p r
    using spec_range(6) [of p r] by (simp add: window_eq aligned_def)
  show "aligned p \<Longrightarrow> 1 \<le> r \<Longrightarrow> r < maxRound p \<Longrightarrow>
      fst (computeRoundWindow p (r + 1)) = snd (computeRoundWindow p r)" for p r
    using spec_close_inner [of p r] by (simp add: window_eq aligned_def)
qed


section \<open>The round at a time\<close>

lemma computeRoundAt_eq:
  assumes sk: "schedule_ok p" and t: "ps_TotalOpenTime p \<le> t" "t < ps_TotalCloseTime p"
  shows "computeRoundAt p t = (t - ps_TotalOpenTime p) div (ps_CycleMinutes p * 60000) + 1"
    and "1 \<le> computeRoundAt p t" and "computeRoundAt p t \<le> maxRound p"
proof -
  let ?d = "ps_CycleMinutes p * 60000" and ?x = "t - ps_TotalOpenTime p"
  have cd: "cycleDur (ps_CycleMinutes p) = ?d" "0 < ps_CycleMinutes p"
    using sk by (simp_all add: schedule_ok_def cycleDur_eq)
  have d: "0 < ?d" using cd by simp
  have le: "?x div ?d + 1 \<le> maxRound p"
    using maxRound_eq(1) [OF sk] d t by (simp add: zdiv_mono1)
  have nn: "0 \<le> ?x div ?d" using t d by (simp add: pos_imp_zdiv_nonneg_iff)
  have mx: "maxRound p < 2147483648" by (rule maxRound_eq [OF sk])
  have x: "in64 ?x" using sk t by (auto simp: schedule_ok_def in64_def)
  have q: "quot ?x ?d = ?x div ?d" using t d by (intro quot_nonneg) auto
  have w: "in32 (?x div ?d)" "in32 (?x div ?d + 1)" using nn le mx by (auto simp: in32_def)
  show e: "computeRoundAt p t = ?x div ?d + 1"
  proof (cases "t = ps_TotalOpenTime p")
    case True
    then show ?thesis using cd by (simp add: computeRoundAt_def)
  next
    case False
    then show ?thesis
      unfolding computeRoundAt_def Let_def cd(1) i64_id [OF x] q i32_id [OF w(1)] i32_id [OF w(2)]
      using t cd le by simp
  qed
  show "1 \<le> computeRoundAt p t" using nn by (simp add: e)
  show "computeRoundAt p t \<le> maxRound p" using le by (simp add: e)
qed

lemma spec_window_at:
  assumes sk: "schedule_ok p" and t: "ps_TotalOpenTime p \<le> t" "t < ps_TotalCloseTime p"
  shows "spec_open p (computeRoundAt p t) \<le> t" "t < spec_close p (computeRoundAt p t)"
proof -
  let ?d = "ps_CycleMinutes p * 60000" and ?x = "t - ps_TotalOpenTime p"
  have d: "0 < ?d" using sk by (simp add: schedule_ok_def)
  have f: "(?x div ?d) * ?d \<le> ?x" "?x < (?x div ?d + 1) * ?d" using int_div_floor [OF d] by blast+
  show "spec_open p (computeRoundAt p t) \<le> t"
    using f(1) computeRoundAt_eq(1) [OF sk t] by (simp add: spec_open_def)
  have "t < spec_open p (computeRoundAt p t + 1)"
    unfolding spec_open_def add_diff_cancel_right' computeRoundAt_eq(1) [OF sk t]
    using f(2) by linarith
  then show "t < spec_close p (computeRoundAt p t)" using t by (simp add: spec_close_def)
qed


section \<open>Creation and advance\<close>

text \<open>A clock reading at which the round number still fits 32 bits (with one-minute rounds that
  is more than 4000 years after the opening).\<close>

definition clock_ok :: "periodic_state \<Rightarrow> int64 \<Rightarrow> bool" where
  "clock_ok p now \<longleftrightarrow> - (2 ^ 62) \<le> now \<and> now < 2 ^ 62
     \<and> now - ps_TotalOpenTime p < 2147483647 * (ps_CycleMinutes p * 60000)"

lemma computeRoundAt_range:
  assumes sk: "schedule_ok p" and c: "clock_ok p now"
  shows "1 \<le> computeRoundAt p now" "computeRoundAt p now \<le> maxRound p"
proof -
  let ?d = "ps_CycleMinutes p * 60000" and ?x = "now - ps_TotalOpenTime p"
  have cd: "cycleDur (ps_CycleMinutes p) = ?d" "0 < ps_CycleMinutes p" "0 < ?d"
    using sk by (simp_all add: schedule_ok_def cycleDur_eq)
  show "computeRoundAt p now \<le> maxRound p"
    using maxRound_eq(2) [OF sk] by (simp add: computeRoundAt_def Let_def)
  show "1 \<le> computeRoundAt p now"
  proof (cases "now \<le> ps_TotalOpenTime p")
    case True
    then show ?thesis using cd by (simp add: computeRoundAt_def)
  next
    case False
    have x: "in64 ?x" using sk c by (auto simp: schedule_ok_def clock_ok_def in64_def)
    have q: "quot ?x ?d = ?x div ?d" using False cd by (intro quot_nonneg) auto
    have "0 \<le> ?x div ?d" "?x div ?d < 2147483647"
      using False cd c int_div_less [of ?d ?x 2147483647]
      by (simp_all add: clock_ok_def pos_imp_zdiv_nonneg_iff)
    then have w: "in32 (?x div ?d)" "in32 (?x div ?d + 1)" "0 \<le> ?x div ?d"
      by (auto simp: in32_def)
    show ?thesis
      unfolding computeRoundAt_def Let_def cd(1) i64_id [OF x] q i32_id [OF w(1)] i32_id [OF w(2)]
      using w(3) maxRound_eq(2) [OF sk] False cd by simp
  qed
qed

lemma schedule_ok_cong:
  assumes "ps_CycleMinutes q = ps_CycleMinutes p" "ps_BaseCycleMinutes q = ps_BaseCycleMinutes p"
    "ps_TotalOpenTime q = ps_TotalOpenTime p" "ps_TotalCloseTime q = ps_TotalCloseTime p"
  shows "schedule_ok q = schedule_ok p" "maxRound q = maxRound p" "spec_open q r = spec_open p r"
    "spec_close q r = spec_close p r" "computeRoundAt q t = computeRoundAt p t"
  using assms by (simp_all add: schedule_ok_def maxRound_def spec_open_def spec_close_def
      computeRoundAt_def Let_def)

text \<open>A new periodic activity is aligned: its current round exists and its stored window
  is that round's; created during the activity, the window contains the moment of creation.\<close>

theorem NewPeriodicState_aligned:
  assumes "NewPeriodicState now biz act cyc opn cls = Inr p" "schedule_ok p" "clock_ok p now"
  shows "aligned p \<and> (opn \<le> now \<and> now < cls \<longrightarrow> ps_RoundOpenTime p \<le> now \<and> now < ps_RoundCloseTime p)"
proof -
  define p0 where "p0 = \<lparr>ps_BizType = biz, ps_ActID = act, ps_CycleMinutes = cyc,
    ps_BaseCycleMinutes = cyc, ps_TotalOpenTime = opn, ps_TotalCloseTime = cls, ps_currentRound = 0,
    ps_RoundOpenTime = 0, ps_RoundCloseTime = 0\<rparr>"
  define r where "r = computeRoundAt p0 now"
  define p1 where "p1 = p0\<lparr>ps_currentRound := r\<rparr>"
  have cyc: "0 < cyc" using assms(1) by (auto simp: NewPeriodicState_def split: if_splits)
  then have p: "p = p1\<lparr>ps_RoundOpenTime := fst (computeRoundWindow p1 r),
      ps_RoundCloseTime := snd (computeRoundWindow p1 r)\<rparr>"
    using assms(1) by (simp add: NewPeriodicState_def Let_def p0_def p1_def r_def split: prod.splits)
  have tot: "ps_TotalOpenTime p = opn" "ps_TotalCloseTime p = cls"
    by (simp_all add: p p1_def p0_def)
  have f1: "ps_CycleMinutes p1 = ps_CycleMinutes p" "ps_BaseCycleMinutes p1 = ps_BaseCycleMinutes p"
    "ps_TotalOpenTime p1 = ps_TotalOpenTime p" "ps_TotalCloseTime p1 = ps_TotalCloseTime p"
    by (simp_all add: p)
  have f0: "ps_CycleMinutes p0 = ps_CycleMinutes p1" "ps_BaseCycleMinutes p0 = ps_BaseCycleMinutes p1"
    "ps_TotalOpenTime p0 = ps_TotalOpenTime p1" "ps_TotalCloseTime p0 = ps_TotalCloseTime p1"
    by (simp_all add: p1_def)
  note same = schedule_ok_cong(1-4) [OF f1] schedule_ok_cong(5) [OF f0]
    schedule_ok_cong(5) [OF f1]
  have rr: "1 \<le> r" "r \<le> maxRound p"
    using computeRoundAt_range [OF assms(2,3)] by (simp_all add: r_def same)
  have sk1: "schedule_ok p1" using assms(2) same by simp
  have cd: "cycleDur (ps_CycleMinutes p1) = ps_CycleMinutes p1 * 60000" "0 < ps_CycleMinutes p1"
    using sk1 by (simp_all add: schedule_ok_def cycleDur_eq)
  note rg = spec_range [OF sk1 rr(1)] 
  have w1: "computeRoundWindow p1 r = (spec_open p1 r, spec_close p1 r)"
  proof -
    have i: "i32 (r - 1) = r - 1" using rr maxRound_eq(3) [OF assms(2)] by (intro i32_id) (auto simp: in32_def)
    have b: "ps_currentRound p1 = r" "ps_RoundOpenTime p1 = 0"
      "ps_BaseCycleMinutes p1 = ps_CycleMinutes p1" by (simp_all add: p1_def p0_def)
    have s: "ps_TotalOpenTime p1 + (r - 1) * (ps_CycleMinutes p1 * 60000) = spec_open p1 r"
      by (simp add: spec_open_def)
    have m: "r \<le> maxRound p1" using rr same by simp
    show ?thesis
      unfolding computeRoundWindow_def Let_def b if_cancel cd(1) i
        i64_id [OF rg(4) [OF m]] s i64_id [OF rg(3) [OF m]] i64_id [OF rg(5) [OF m]]
      using cd(2) by (auto simp: spec_close_def spec_step)
  qed
  have cur: "ps_currentRound p = r" by (simp add: p p1_def)
  have win: "ps_RoundOpenTime p = spec_open p r" "ps_RoundCloseTime p = spec_close p r"
  proof -
    have "ps_RoundOpenTime p = fst (computeRoundWindow p1 r)"
      "ps_RoundCloseTime p = snd (computeRoundWindow p1 r)" by (subst p, simp)+
    then show "ps_RoundOpenTime p = spec_open p r" "ps_RoundCloseTime p = spec_close p r"
      by (simp_all add: w1 same)
  qed
  have "aligned p" using assms(2) rr cur win by (simp add: aligned_def)
  moreover have "ps_RoundOpenTime p \<le> now \<and> now < ps_RoundCloseTime p" if "opn \<le> now" "now < cls"
    using spec_window_at [OF assms(2), of now] that tot win by (simp add: r_def same)
  ultimately show ?thesis by blast
qed

text \<open>An advance never goes back. It either refuses and leaves the state as it was, or
  the round number grows and the new window opens before the total close time.\<close>

theorem advanceToRound_monotone:
  shows "case advanceToRound p r of
      (False, p') \<Rightarrow> p' = p
    | (True, p') \<Rightarrow> ps_currentRound p < ps_currentRound p' \<and> ps_currentRound p' = r
        \<and> ps_RoundOpenTime p' < ps_TotalCloseTime p'
        \<and> (ps_RoundOpenTime p', ps_RoundCloseTime p') = computeRoundWindow p r"
  by (auto simp: advanceToRound_def Let_def split: prod.splits bool.splits)


text \<open>Saving and restoring a periodic state loses nothing; a saved state without a base
  cycle (from before the field existed) comes back with the cycle as its base.\<close>

theorem StateFromSaved_roundtrip:
  shows "StateFromSaved (ps_BizType p) (ps_ActID p) (ToSavedState p) =
    (if ps_BaseCycleMinutes p = 0 then p\<lparr>ps_BaseCycleMinutes := ps_CycleMinutes p\<rparr> else p)"
  by (simp add: StateFromSaved_def ToSavedState_def Let_def)

section \<open>Witnesses\<close>

text \<open>Ten hours of one-hour rounds, created in the second hour.\<close>

definition sample_periodic :: periodic_state where
  "sample_periodic = \<lparr>ps_BizType = ''arena'', ps_ActID = 7, ps_CycleMinutes = 60, ps_BaseCycleMinutes = 60,
    ps_TotalOpenTime = 1000, ps_TotalCloseTime = 36001000, ps_currentRound = 2,
    ps_RoundOpenTime = 3601000, ps_RoundCloseTime = 7201000\<rparr>"

lemma sample_periodic_ok: "schedule_ok sample_periodic" "maxRound sample_periodic = 10"
proof -
  show sk: "schedule_ok sample_periodic" by (simp add: schedule_ok_def sample_periodic_def)
  show "maxRound sample_periodic = 10"
    using maxRound_eq(1) [OF sk] by (simp add: sample_periodic_def)
qed

lemma sample_periodic_aligned: "aligned sample_periodic"
  using sample_periodic_ok
  by (simp add: aligned_def) (simp add: sample_periodic_def spec_open_def spec_close_def)

lemma sample_periodic_new: "NewPeriodicState 5000000 ''arena'' 7 60 1000 36001000 = Inr sample_periodic"
  by code_simp



theorem NewPeriodicState_aligned_witness: "aligned sample_periodic"
  using NewPeriodicState_aligned [OF sample_periodic_new sample_periodic_ok(1)]
  by (simp add: clock_ok_def sample_periodic_def)


theorem roundBizId_injective_witness:
  "roundBizId sample_periodic 2 = ''arena_7_r2'' \<and> (2::int) = 2"
proof -
  have "roundBizId sample_periodic 2 = ''arena_7_r2''" by code_simp
  then show ?thesis using roundBizId_injective [of sample_periodic 2 sample_periodic 2]
    by (simp add: sample_periodic_def in32_def)
qed

end
