(* ===== verification/Ext.thy ===== *)
theory Ext
  imports RankTypes "HOL-Library.AList"
begin

text \<open>
  What the repository calls but does not contain, as parameters of the model: the Redis client
  (\<open>golib/redis\<close>), the key names (\<open>common/redis\<close>), the ranking library (\<open>common/rank\<close>) and the
  clock. Each is a record of operations over an abstract world \<open>'w\<close>; an operation may fail and may
  change the world in any way its laws do not exclude. The laws a property relies on are the named
  predicates at the end of this theory; every property that assumes one has a witness with a
  concrete record.

  Also here: the interface \<open>storeMongo\<close> of \<open>store.go\<close>, which the repository declares and its DAO
  implements.
\<close>

section \<open>Redis\<close>

datatype pipe_cmd = PSAdd string "rval list" | PSRem string "rval list" | PExpire string int64
  | PSet string rval int64 | PDel string | PHSet string string rval | PHGetAll string

datatype lua_value = LuaInt int64 | LuaStr rval | LuaArr "lua_value list" | LuaNil

text \<open>\<open>lua_HGet\<close> and \<open>lua_HSet\<close> are \<open>redis.call\<close> inside a script (a missing field is \<open>None\<close>,
  Lua's \<open>false\<close>); \<open>eval_begin\<close> and \<open>eval_end\<close> are the failures of the \<open>EVAL\<close> round trip before
  and after the script ran.\<close>

record 'w redis =
  HGet :: "string \<Rightarrow> string \<Rightarrow> ('w, goerr + rval) state"
  HSet :: "string \<Rightarrow> string \<Rightarrow> rval \<Rightarrow> ('w, goerr option) state"
  HDel :: "string \<Rightarrow> string \<Rightarrow> ('w, goerr option) state"
  HGetAll :: "string \<Rightarrow> ('w, goerr + (string \<times> rval) list) state"
  HIncrBy :: "string \<Rightarrow> string \<Rightarrow> int64 \<Rightarrow> ('w, goerr + int64) state"
  RExists :: "string \<Rightarrow> ('w, bool \<times> goerr option) state"
  Expire :: "string \<Rightarrow> int64 \<Rightarrow> ('w, goerr + bool) state"
  RGet :: "string \<Rightarrow> ('w, goerr + rval) state"
  SetEX :: "string \<Rightarrow> rval \<Rightarrow> int64 \<Rightarrow> ('w, goerr option) state"
  SetNX :: "string \<Rightarrow> rval \<Rightarrow> int64 \<Rightarrow> ('w, goerr + bool) state"
  Del :: "string \<Rightarrow> ('w, goerr option) state"
  SAdd :: "string \<Rightarrow> rval list \<Rightarrow> ('w, goerr option) state"
  SMembers :: "string \<Rightarrow> ('w, goerr + rval list) state"
  PipeExec :: "pipe_cmd list \<Rightarrow> ('w, goerr option) state"
  lua_HGet :: "string \<Rightarrow> string \<Rightarrow> ('w, goerr + rval option) state"
  lua_HSet :: "string \<Rightarrow> string \<Rightarrow> rval \<Rightarrow> ('w, goerr option) state"
  eval_begin :: "('w, goerr option) state"
  eval_end :: "('w, goerr option) state"

definition IsNil :: "goerr \<Rightarrow> bool" where
  "IsNil e \<longleftrightarrow> e = RedisNil"

text \<open>\<open>strconv.ParseInt\<close> of a Redis value; the JSON text of a number is its digits, that of
  anything else does not parse.\<close>

definition rv_ParseInt :: "rval \<Rightarrow> nat \<Rightarrow> int64 \<times> bool" where
  "rv_ParseInt v bits = (case v of Txt s \<Rightarrow> ParseInt s bits
     | JTxt j \<Rightarrow> (case j of JNum n \<Rightarrow> ParseInt (FormatInt n) bits | _ \<Rightarrow> (0, False)))"

lemma rv_ParseInt_Txt [simp]: "rv_ParseInt (Txt s) bits = ParseInt s bits"
  by (simp add: rv_ParseInt_def)

record redis_keys =
  GetRankMongoCheckedKey :: "string \<Rightarrow> string"
  GetRankGroupsKey :: "string \<Rightarrow> string"
  GetRankMembersKey :: "string \<Rightarrow> string"
  GetRankClaimsKey :: "string \<Rightarrow> string"
  GetRankMetaKey :: "string \<Rightarrow> string"
  GetRankRobotsKey :: "string \<Rightarrow> int32 \<Rightarrow> string"
  GetRankRobotInfosKey :: "string \<Rightarrow> int32 \<Rightarrow> string"
  GetRankMbKey :: "string \<Rightarrow> string"
  GetRankInstKey :: "string \<Rightarrow> string"
  GetRankSettledKey :: "string \<Rightarrow> string"
  RankActiveServicesKey :: string

section \<open>The ranking library and the clock\<close>

text \<open>Durations are nanoseconds; \<open>Now\<close> is \<open>time.Now()\<close> in nanoseconds since the epoch.
  \<open>Rand\<close> is the next answer of \<open>math/rand\<close>, as a function of the bound it is asked for.\<close>

record 'w rank_lib =
  Now :: "('w, int) state"
  TTLForActivityEnd :: "int64 \<Rightarrow> ('w, int64) state"
  SettleAtOf :: "int64 \<Rightarrow> int64 \<Rightarrow> int64"
  SettledCacheTTL :: int64
  ColdDataTTL :: int64
  NewInstanceID :: "string \<Rightarrow> string \<Rightarrow> string \<Rightarrow> string"
  MarshalSnaps :: "snapshot list \<Rightarrow> rval option"
  UnmarshalSnaps :: "rval \<Rightarrow> snapshot list option"
  Rand :: "('w, int \<Rightarrow> int) state"

definition UnixMilli :: "int \<Rightarrow> int64" where
  "UnixMilli t = t div 1000000"

definition Milliseconds :: "int64 \<Rightarrow> int64" where
  "Milliseconds d = quot d 1000000"

definition second_ns :: int64 where "second_ns = 1000000000"
definition minute_ns :: int64 where "minute_ns = 60000000000"

record 'w rank_service =
  GetInstance :: "string \<Rightarrow> ('w, goerr + rank_instance) state"
  OpenInstance :: "rank_instance \<Rightarrow> ('w, goerr option) state"
  CloseInstance :: "string \<Rightarrow> int64 \<Rightarrow> ('w, goerr option) state"
  SettleInstance :: "string \<Rightarrow> int64 \<Rightarrow> ('w, goerr + snapshot list) state"
  Snapshot :: "string \<Rightarrow> ('w, goerr + snapshot list) state"
  Range :: "string \<Rightarrow> int64 \<Rightarrow> int64 \<Rightarrow> ('w, goerr + snapshot list) state"
  RestoreInstance :: "rank_instance \<Rightarrow> ('w, goerr option) state"
  RestoreMembers :: "string \<Rightarrow> score_item list \<Rightarrow> ('w, goerr option) state"
  ExpireInstance :: "string \<Rightarrow> int64 \<Rightarrow> ('w, goerr option) state"
  BatchUpsertScore :: "string \<Rightarrow> score_item list \<Rightarrow> ('w, goerr option) state"
  GetMemRank :: "string \<Rightarrow> int64 \<Rightarrow> ('w, goerr + snapshot option) state"
  DeleteInstance :: "string \<Rightarrow> ('w, goerr option) state"
  DeleteRankDef :: "string \<Rightarrow> ('w, goerr option) state"

section \<open>\<open>storeMongo\<close>\<close>

record score_doc =
  sd_GroupID :: int32
  sd_UserID :: int64
  sd_Score :: int64
  sd_EnterTime :: int64
  sd_UpdateTime :: int64
  sd_Sequence :: int64
  sd_AvatarInfo :: "avatar_info option"

datatype collection = CT_RANK_CONFIG | CT_RANK_GROUP | CT_RANK_MEMBER | CT_RANK_ROBOT | CT_RANK_CLAIM
  | CT_RANK_SCORE | CT_RANK_SETTLED | CT_RANK_INST

record 'w store_mongo =
  m_available :: bool
  m_SaveGroup :: "string \<Rightarrow> group \<Rightarrow> ('w, goerr option) state"
  m_LoadGroups :: "string \<Rightarrow> ('w, goerr + group list) state"
  m_SaveMember :: "string \<Rightarrow> int64 \<Rightarrow> int32 \<Rightarrow> ('w, goerr option) state"
  m_GetMember :: "string \<Rightarrow> int64 \<Rightarrow> ('w, goerr + int32 option) state"
  m_LoadAllMembers :: "string \<Rightarrow> ('w, goerr + (int64 \<times> int32) list) state"
  m_SaveRobots :: "string \<Rightarrow> int32 \<Rightarrow> robot_state list \<Rightarrow> ('w, goerr option) state"
  m_LoadRobots :: "string \<Rightarrow> int32 \<Rightarrow> ('w, goerr + robot_state list) state"
  m_SaveClaimIfNotExists :: "string \<Rightarrow> int64 \<Rightarrow> int64 \<Rightarrow> ('w, goerr + bool \<times> int64) state"
  m_SaveClaim :: "string \<Rightarrow> int64 \<Rightarrow> int64 \<Rightarrow> ('w, goerr option) state"
  m_GetClaim :: "string \<Rightarrow> int64 \<Rightarrow> ('w, goerr + int64 option) state"
  m_SaveScore :: "string \<Rightarrow> int32 \<Rightarrow> int64 \<Rightarrow> int64 \<Rightarrow> int64 \<Rightarrow> int64 \<Rightarrow> int64 \<Rightarrow> avatar_info option
                    \<Rightarrow> ('w, goerr option) state"
  m_LoadGroupScores :: "string \<Rightarrow> int32 \<Rightarrow> ('w, goerr + score_doc list) state"
  m_SaveSettled :: "string \<Rightarrow> int32 \<Rightarrow> snapshot list \<Rightarrow> int64 \<Rightarrow> ('w, goerr option) state"
  m_LoadGroupSettled :: "string \<Rightarrow> int32 \<Rightarrow> ('w, goerr + snapshot list) state"
  m_SaveRankInst :: "string \<Rightarrow> int32 \<Rightarrow> rank_instance \<Rightarrow> ('w, goerr option) state"
  m_LoadGroupInst :: "string \<Rightarrow> int32 \<Rightarrow> ('w, goerr + rank_instance option) state"
  m_DeleteAllByBizId :: "string \<Rightarrow> ('w, goerr option) state"
  m_QueueDeleteDocIDs :: "collection \<Rightarrow> string list \<Rightarrow> ('w, unit) state"

section \<open>The environment\<close>

record 'w env =
  en_keys :: redis_keys
  en_lib :: "'w rank_lib"

text \<open>Steps whose result the code throws away.\<close>

definition skip :: "('s, unit) state" where
  "skip = State_Monad.return ()"

definition ignore :: "('s, 'a) state \<Rightarrow> ('s, unit) state" where
  "ignore m = do { _ \<leftarrow> m; State_Monad.return () }"

lemma exec_skip [simp]: "exec skip s = s" and result_skip [simp]: "result skip s = ()"
  by (simp_all add: skip_def)

lemma exec_ignore [simp]: "exec (ignore m) s = exec m s" and result_ignore [simp]: "result (ignore m) s = ()"
  by (simp_all add: ignore_def)

text \<open>Running a step of the outside world from a component with a state of its own.\<close>

definition lift_ext :: "('w, 'a) state \<Rightarrow> ('s \<times> 'w, 'a) state" where
  "lift_ext m = State (\<lambda>(s, w). (result m w, (s, exec m w)))"

lemma exec_lift_ext [simp]: "exec (lift_ext m) sw = (fst sw, exec m (snd sw))"
  and result_lift_ext [simp]: "result (lift_ext m) sw = result m (snd sw)"
  by (simp_all add: lift_ext_def split: prod.splits)

end
