(* ===== verification/Store.thy ===== *)
theory Store
  imports Ext
begin

text \<open>
  \<open>internal/rank/engine/store.go\<close>: the cache-and-persist layer of one activity. Writes go to
  Redis, then (asynchronously) to MongoDB; reads go to Redis and on a miss to MongoDB, whose answer
  is written back. Every function of the file is here, in the file's order. A \<open>nil\<close> client is
  \<open>None\<close>; log lines are dropped. \<open>activityEnd\<close> is a closure over the service's atomic copy in the
  code and the copy's present value here.
\<close>

section \<open>The store\<close>

record 'w store =
  st_rdb :: "'w redis option"
  st_dao :: "'w store_mongo option"
  st_bizId :: string
  st_activityEnd :: "int64 option"

definition nullCacheEntry :: string where
  "nullCacheEntry = [CHR 0x00]"

definition mongoCheckedTTL :: int64 where
  "mongoCheckedTTL = 10 * minute_ns"

definition available :: "'w store \<Rightarrow> bool" where
  "available st \<longleftrightarrow> st_rdb st \<noteq> None"

text \<open>The Mongo side where it is usable (\<open>hasMongo\<close>).\<close>

definition st_mongo :: "'w store \<Rightarrow> 'w store_mongo option" where
  "st_mongo st = (case st_dao st of None \<Rightarrow> None | Some m \<Rightarrow> if m_available m then Some m else None)"

definition hasMongo :: "'w store \<Rightarrow> bool" where
  "hasMongo st \<longleftrightarrow> st_mongo st \<noteq> None"

definition isMongoChecked :: "'w env \<Rightarrow> 'w store \<Rightarrow> 'w redis \<Rightarrow> ('w, bool) state" where
  "isMongoChecked E st R = do {
     (ok, _) \<leftarrow> RExists R (GetRankMongoCheckedKey (en_keys E) (st_bizId st));
     State_Monad.return ok }"

definition setMongoChecked :: "'w env \<Rightarrow> 'w store \<Rightarrow> 'w redis \<Rightarrow> ('w, unit) state" where
  "setMongoChecked E st R =
     ignore (SetNX R (GetRankMongoCheckedKey (en_keys E) (st_bizId st)) (Txt ''1'') mongoCheckedTTL)"

definition activityEndMs :: "'w store \<Rightarrow> int64" where
  "activityEndMs st = (case st_activityEnd st of None \<Rightarrow> 0 | Some t \<Rightarrow> t)"

definition settleAtOf :: "'w env \<Rightarrow> int64 \<Rightarrow> int64 \<Rightarrow> int64" where
  "settleAtOf E closeTime gameEndTime = SettleAtOf (en_lib E) closeTime gameEndTime"

definition ttlFor :: "'w env \<Rightarrow> int64 \<Rightarrow> ('w, int64) state" where
  "ttlFor E activityEnd = TTLForActivityEnd (en_lib E) activityEnd"

definition backfillTTLFor :: "'w env \<Rightarrow> int64 \<Rightarrow> ('w, int64) state" where
  "backfillTTLFor E activityEnd = do {
     ttl \<leftarrow> ttlFor E activityEnd;
     State_Monad.return (if ttl > SettledCacheTTL (en_lib E) then ttl else SettledCacheTTL (en_lib E)) }"

definition writeTTL :: "'w env \<Rightarrow> 'w store \<Rightarrow> ('w, int64) state" where
  "writeTTL E st = ttlFor E (activityEndMs st)"

definition backfillTTL :: "'w env \<Rightarrow> 'w store \<Rightarrow> ('w, int64) state" where
  "backfillTTL E st = backfillTTLFor E (activityEndMs st)"

definition backfill :: "'w env \<Rightarrow> 'w store \<Rightarrow> string \<Rightarrow> ('w, unit) state \<Rightarrow> ('w, unit) state" where
  "backfill E st key write = (case st_rdb st of None \<Rightarrow> skip
     | Some R \<Rightarrow> do { _ \<leftarrow> write; ttl \<leftarrow> backfillTTL E st; ignore (Expire R key ttl) })"

definition expireKey :: "'w env \<Rightarrow> 'w store \<Rightarrow> string \<Rightarrow> ('w, unit) state" where
  "expireKey E st key = (case st_rdb st of None \<Rightarrow> skip
     | Some R \<Rightarrow> do { ttl \<leftarrow> writeTTL E st; ignore (Expire R key ttl) })"

text \<open>Steps that only run when MongoDB is there.\<close>

definition on_mongo :: "'w store \<Rightarrow> ('w store_mongo \<Rightarrow> ('w, 'a) state) \<Rightarrow> ('w, unit) state" where
  "on_mongo st f = (case st_mongo st of None \<Rightarrow> skip | Some M \<Rightarrow> ignore (f M))"

section \<open>Groups\<close>

definition SaveGroup :: "'w env \<Rightarrow> 'w store \<Rightarrow> group \<Rightarrow> ('w, unit) state" where
  "SaveGroup E st grp = (case st_rdb st of None \<Rightarrow> skip
     | Some R \<Rightarrow> do {
         let key = GetRankGroupsKey (en_keys E) (st_bizId st);
         _ \<leftarrow> HSet R key (FormatInt (gr_GroupID grp)) (JTxt (marshal_group grp));
         _ \<leftarrow> expireKey E st key;
         on_mongo st (\<lambda>M. m_SaveGroup M (st_bizId st) grp) })"

text \<open>The result is a slice: \<open>None\<close> is \<open>nil\<close>.\<close>

definition slice :: "'a list option \<Rightarrow> 'a list" where
  "slice x = (case x of None \<Rightarrow> [] | Some xs \<Rightarrow> xs)"

lemma slice_simps [simp]: "slice None = []" "slice (Some xs) = xs"
  by (simp_all add: slice_def)

definition save_groups_redis :: "'w redis \<Rightarrow> string \<Rightarrow> group list \<Rightarrow> ('w, unit) state" where
  "save_groups_redis R key groups = for_each groups (\<lambda>g.
     ignore (HSet R key (FormatInt (gr_GroupID g)) (JTxt (marshal_group g))))"

definition LoadGroups :: "'w env \<Rightarrow> 'w store \<Rightarrow> ('w, goerr + group list option) state" where
  "LoadGroups E st = (case st_rdb st of None \<Rightarrow> State_Monad.return (Inr None)
     | Some R \<Rightarrow> do {
         let key = GetRankGroupsKey (en_keys E) (st_bizId st);
         raw \<leftarrow> HGetAll R key;
         case raw of
           Inr (kv # kvs) \<Rightarrow> State_Monad.return (Inr (Some (List.map_filter (\<lambda>kv. unmarshal_group (snd kv)) (kv # kvs))))
         | _ \<Rightarrow>
           (case st_mongo st of None \<Rightarrow> State_Monad.return (Inr None)
            | Some M \<Rightarrow> do {
                checked \<leftarrow> isMongoChecked E st R;
                if checked then State_Monad.return (Inr None)
                else do {
                  loaded \<leftarrow> m_LoadGroups M (st_bizId st);
                  case loaded of
                    Inl err \<Rightarrow> State_Monad.return (Inl err)
                  | Inr [] \<Rightarrow> do { _ \<leftarrow> setMongoChecked E st R; State_Monad.return (Inr None) }
                  | Inr (g # gs) \<Rightarrow> do {
                      _ \<leftarrow> backfill E st key (save_groups_redis R key (g # gs));
                      State_Monad.return (Inr (Some (g # gs))) } } }) })"

definition LoadGroupByID :: "'w env \<Rightarrow> 'w store \<Rightarrow> int32 \<Rightarrow> ('w, goerr + group option) state" where
  "LoadGroupByID E st groupID = (case st_rdb st of None \<Rightarrow> State_Monad.return (Inr None)
     | Some R \<Rightarrow> do {
         raw \<leftarrow> HGet R (GetRankGroupsKey (en_keys E) (st_bizId st)) (FormatInt groupID);
         State_Monad.return (case raw of
             Inl err \<Rightarrow> if IsNil err then Inr None else Inl err
           | Inr v \<Rightarrow> (case unmarshal_group v of None \<Rightarrow> Inl (ErrText ''json'') | Some g \<Rightarrow> Inr (Some g))) })"

text \<open>The group after the increment; the code's error is always \<open>nil\<close>.\<close>

definition IncrRealCount :: "'w env \<Rightarrow> 'w store \<Rightarrow> group \<Rightarrow> ('w, group) state" where
  "IncrRealCount E st grp = (case st_rdb st of
       None \<Rightarrow> State_Monad.return (grp\<lparr>gr_RealCount := i32 (gr_RealCount grp + 1)\<rparr>)
     | Some R \<Rightarrow> do {
         let key = GetRankGroupsKey (en_keys E) (st_bizId st);
         let metaKey = GetRankMetaKey (en_keys E) (st_bizId st);
         r \<leftarrow> HIncrBy R metaKey (''realCount_'' @ FormatInt (gr_GroupID grp)) 1;
         case r of
           Inl err \<Rightarrow> State_Monad.return (grp\<lparr>gr_RealCount := i32 (gr_RealCount grp + 1)\<rparr>)
         | Inr newCount \<Rightarrow> do {
             _ \<leftarrow> expireKey E st metaKey;
             let grp' = grp\<lparr>gr_RealCount := i32 newCount\<rparr>;
             _ \<leftarrow> HSet R key (FormatInt (gr_GroupID grp)) (JTxt (marshal_group grp'));
             _ \<leftarrow> expireKey E st key;
             _ \<leftarrow> on_mongo st (\<lambda>M. m_SaveGroup M (st_bizId st) grp');
             State_Monad.return grp' } })"

definition NextGroupID :: "'w env \<Rightarrow> 'w store \<Rightarrow> ('w, goerr + int32) state" where
  "NextGroupID E st = (case st_rdb st of
       None \<Rightarrow> State_Monad.return (Inl (ErrText ''store not available''))
     | Some R \<Rightarrow> do {
         r \<leftarrow> HIncrBy R (GetRankMetaKey (en_keys E) (st_bizId st)) ''nextGroupID'' 1;
         case r of
           Inl err \<Rightarrow> State_Monad.return (Inl err)
         | Inr v \<Rightarrow> do {
             _ \<leftarrow> expireKey E st (GetRankMetaKey (en_keys E) (st_bizId st));
             State_Monad.return (Inr (i32 v)) } })"

section \<open>Activity times and the registry of active services\<close>

definition registryEntry :: "string \<Rightarrow> int64 \<Rightarrow> string" where
  "registryEntry bizId deadline = bizId @ '':'' @ FormatInt deadline"

definition registerActive :: "'w env \<Rightarrow> 'w store \<Rightarrow> 'w redis \<Rightarrow> int64 \<Rightarrow> int64 \<Rightarrow> ('w, unit) state" where
  "registerActive E st R closeTime gameEndTime = do {
     let settleAt = settleAtOf E closeTime gameEndTime;
     deadline \<leftarrow>
       (if settleAt \<le> 0
        then do { t \<leftarrow> Now (en_lib E); State_Monad.return (UnixMilli (t + ColdDataTTL (en_lib E))) }
        else State_Monad.return (i64 (settleAt + Milliseconds (SettledCacheTTL (en_lib E)))));
     ignore (PipeExec R
       [PSAdd (RankActiveServicesKey (en_keys E)) [Txt (registryEntry (st_bizId st) deadline)],
        PExpire (RankActiveServicesKey (en_keys E)) (ColdDataTTL (en_lib E))]) }"

definition SaveActivityTimes :: "'w env \<Rightarrow> 'w store \<Rightarrow> int64 \<Rightarrow> int64 \<Rightarrow> int64 \<Rightarrow> ('w, unit) state" where
  "SaveActivityTimes E st openTime closeTime gameEndTime = (case st_rdb st of None \<Rightarrow> skip
     | Some R \<Rightarrow> do {
         let key = GetRankMetaKey (en_keys E) (st_bizId st);
         _ \<leftarrow> HSet R key ''openTime'' (Txt (FormatInt openTime));
         _ \<leftarrow> HSet R key ''closeTime'' (Txt (FormatInt closeTime));
         _ \<leftarrow> HSet R key ''gameEndTime'' (Txt (FormatInt gameEndTime));
         ttl \<leftarrow> ttlFor E (settleAtOf E closeTime gameEndTime);
         _ \<leftarrow> Expire R key ttl;
         registerActive E st R closeTime gameEndTime })"

text \<open>The registry holds plain text only.\<close>

definition rv_HasPrefix :: "rval \<Rightarrow> string \<Rightarrow> bool" where
  "rv_HasPrefix v p = (case v of Txt s \<Rightarrow> HasPrefix s p | JTxt _ \<Rightarrow> False)"

definition unregisterActive :: "'w env \<Rightarrow> 'w store \<Rightarrow> 'w redis \<Rightarrow> ('w, unit) state" where
  "unregisterActive E st R = do {
     members \<leftarrow> SMembers R (RankActiveServicesKey (en_keys E));
     case members of
       Inl err \<Rightarrow> skip
     | Inr mems \<Rightarrow>
         (let stale = filter (\<lambda>m. rv_HasPrefix m (st_bizId st @ '':'')) mems in
          if stale = [] then skip
          else ignore (PipeExec R
            [PSRem (RankActiveServicesKey (en_keys E)) stale,
             PExpire (RankActiveServicesKey (en_keys E)) (ColdDataTTL (en_lib E))])) }"

definition field_int :: "(string \<times> rval) list \<Rightarrow> string \<Rightarrow> int64" where
  "field_int fs k = (case map_of fs k of None \<Rightarrow> fst (ParseInt [] 64) | Some v \<Rightarrow> fst (rv_ParseInt v 64))"

definition LoadActivityTimes :: "'w env \<Rightarrow> 'w store \<Rightarrow> ('w, (int64 \<times> int64 \<times> int64) \<times> bool) state" where
  "LoadActivityTimes E st = (case st_rdb st of None \<Rightarrow> State_Monad.return ((0, 0, 0), False)
     | Some R \<Rightarrow> do {
         r \<leftarrow> HGetAll R (GetRankMetaKey (en_keys E) (st_bizId st));
         State_Monad.return (case r of
             Inl err \<Rightarrow> ((0, 0, 0), False)
           | Inr fs \<Rightarrow>
               (if fs = [] then ((0, 0, 0), False)
                else let openTime = field_int fs ''openTime''; closeTime = field_int fs ''closeTime'';
                         gameEndTime = field_int fs ''gameEndTime''
                     in ((openTime, closeTime, gameEndTime), openTime > 0 \<and> closeTime > 0))) })"

definition RestoreNextGroupID :: "'w env \<Rightarrow> 'w store \<Rightarrow> int32 \<Rightarrow> ('w, unit) state" where
  "RestoreNextGroupID E st minID = (case st_rdb st of None \<Rightarrow> skip
     | Some R \<Rightarrow>
         (if minID \<le> 0 then skip
          else do {
            let key = GetRankMetaKey (en_keys E) (st_bizId st);
            cur \<leftarrow> HGet R key ''nextGroupID'';
            let curID = (case cur of Inl _ \<Rightarrow> fst (ParseInt [] 32) | Inr v \<Rightarrow> fst (rv_ParseInt v 32));
            _ \<leftarrow> (if i32 curID < minID then ignore (HSet R key ''nextGroupID'' (Txt (FormatInt minID))) else skip);
            expireKey E st key }))"

definition RestoreSettled :: "'w env \<Rightarrow> 'w store \<Rightarrow> string \<Rightarrow> snapshot list \<Rightarrow> ('w, unit) state" where
  "RestoreSettled E st instanceID snaps = (case st_rdb st of None \<Rightarrow> skip
     | Some R \<Rightarrow>
         (if snaps = [] then skip
          else case MarshalSnaps (en_lib E) snaps of None \<Rightarrow> skip
          | Some data \<Rightarrow> do {
              ttl \<leftarrow> backfillTTL E st;
              ignore (SetEX R (GetRankSettledKey (en_keys E) instanceID) data ttl) }))"

section \<open>Members\<close>

definition SetMember :: "'w env \<Rightarrow> 'w store \<Rightarrow> int64 \<Rightarrow> int32 \<Rightarrow> ('w, unit) state" where
  "SetMember E st userID groupID = (case st_rdb st of None \<Rightarrow> skip
     | Some R \<Rightarrow> do {
         let key = GetRankMembersKey (en_keys E) (st_bizId st);
         _ \<leftarrow> HSet R key (FormatInt userID) (Txt (FormatInt groupID));
         _ \<leftarrow> expireKey E st key;
         on_mongo st (\<lambda>M. m_SaveMember M (st_bizId st) userID groupID) })"

text \<open>The Redis part of a read: a cached value, the negative cache, a miss, or an error.\<close>

datatype 'a cached = Hit 'a | NegativeHit | Miss | Failed goerr

definition read_cached :: "goerr + rval \<Rightarrow> nat \<Rightarrow> int64 cached" where
  "read_cached raw bits = (case raw of
       Inr v \<Rightarrow> if v = Txt nullCacheEntry then NegativeHit
                else (case rv_ParseInt v bits of (n, True) \<Rightarrow> Hit n | (n, False) \<Rightarrow> Miss)
     | Inl err \<Rightarrow> if IsNil err then Miss else Failed err)"

definition GetMember :: "'w env \<Rightarrow> 'w store \<Rightarrow> int64 \<Rightarrow> ('w, goerr + int32 option) state" where
  "GetMember E st userID = (case st_rdb st of None \<Rightarrow> State_Monad.return (Inr None)
     | Some R \<Rightarrow> do {
         let key = GetRankMembersKey (en_keys E) (st_bizId st);
         raw \<leftarrow> HGet R key (FormatInt userID);
         case read_cached raw 32 of
           NegativeHit \<Rightarrow> State_Monad.return (Inr None)
         | Hit gid \<Rightarrow> State_Monad.return (Inr (Some (i32 gid)))
         | Failed err \<Rightarrow> State_Monad.return (Inl err)
         | Miss \<Rightarrow>
             (case st_mongo st of None \<Rightarrow> State_Monad.return (Inr None)
              | Some M \<Rightarrow> do {
                  r \<leftarrow> m_GetMember M (st_bizId st) userID;
                  case r of
                    Inl err \<Rightarrow> State_Monad.return (Inl err)
                  | Inr None \<Rightarrow> State_Monad.return (Inr None)
                  | Inr (Some gid) \<Rightarrow> do {
                      _ \<leftarrow> backfill E st key (ignore (HSet R key (FormatInt userID) (Txt (FormatInt gid))));
                      State_Monad.return (Inr (Some gid)) } }) })"

definition parse_member :: "string \<times> rval \<Rightarrow> (int64 \<times> int32) option" where
  "parse_member kv = (case kv of (k, v) \<Rightarrow>
     if v = Txt nullCacheEntry then None
     else let uid = fst (ParseInt k 64); gid = fst (rv_ParseInt v 32)
          in if uid \<noteq> 0 then Some (uid, i32 gid) else None)"

text \<open>A Go map with the later of two equal keys kept.\<close>

definition to_map :: "('k \<times> 'v) list \<Rightarrow> ('k \<times> 'v) list" where
  "to_map kvs = fold (\<lambda>(k, v) m. AList.update k v m) kvs []"

definition GetAllMembers :: "'w env \<Rightarrow> 'w store \<Rightarrow> ('w, goerr + (int64 \<times> int32) list) state" where
  "GetAllMembers E st = (case st_rdb st of None \<Rightarrow> State_Monad.return (Inr [])
     | Some R \<Rightarrow> do {
         let key = GetRankMembersKey (en_keys E) (st_bizId st);
         raw \<leftarrow> HGetAll R key;
         let cached = (case raw of Inl _ \<Rightarrow> [] | Inr kvs \<Rightarrow> to_map (List.map_filter parse_member kvs));
         if cached \<noteq> [] then State_Monad.return (Inr cached)
         else
           (case st_mongo st of None \<Rightarrow> State_Monad.return (Inr [])
            | Some M \<Rightarrow> do {
                checked \<leftarrow> isMongoChecked E st R;
                if checked then State_Monad.return (Inr [])
                else do {
                  r \<leftarrow> m_LoadAllMembers M (st_bizId st);
                  case r of
                    Inl err \<Rightarrow> State_Monad.return (Inl err)
                  | Inr [] \<Rightarrow> do { _ \<leftarrow> setMongoChecked E st R; State_Monad.return (Inr []) }
                  | Inr (m # ms) \<Rightarrow> do {
                      _ \<leftarrow> backfill E st key (for_each (m # ms) (\<lambda>(uid, gid).
                              ignore (HSet R key (FormatInt uid) (Txt (FormatInt gid)))));
                      State_Monad.return (Inr (m # ms)) } } }) })"

section \<open>Robots\<close>

definition save_robots_redis :: "'w redis \<Rightarrow> string \<Rightarrow> robot_state list \<Rightarrow> ('w, unit) state" where
  "save_robots_redis R key robots = for_each robots (\<lambda>r.
     ignore (HSet R key (FormatInt (ro_MemberID r)) (JTxt (marshal_robot r))))"

definition SaveRobots :: "'w env \<Rightarrow> 'w store \<Rightarrow> int32 \<Rightarrow> robot_state list \<Rightarrow> ('w, unit) state" where
  "SaveRobots E st groupID robots = (case st_rdb st of None \<Rightarrow> skip
     | Some R \<Rightarrow>
         (if robots = [] then skip
          else do {
            let key = GetRankRobotsKey (en_keys E) (st_bizId st) groupID;
            _ \<leftarrow> save_robots_redis R key robots;
            _ \<leftarrow> expireKey E st key;
            on_mongo st (\<lambda>M. m_SaveRobots M (st_bizId st) groupID robots) }))"

definition LoadRobots :: "'w env \<Rightarrow> 'w store \<Rightarrow> int32 \<Rightarrow> ('w, goerr + robot_state list) state" where
  "LoadRobots E st groupID = (case st_rdb st of None \<Rightarrow> State_Monad.return (Inr [])
     | Some R \<Rightarrow> do {
         let key = GetRankRobotsKey (en_keys E) (st_bizId st) groupID;
         raw \<leftarrow> HGetAll R key;
         case raw of
           Inr (kv # kvs) \<Rightarrow> State_Monad.return (Inr (List.map_filter (\<lambda>kv. unmarshal_robot (snd kv)) (kv # kvs)))
         | _ \<Rightarrow>
           (case st_mongo st of None \<Rightarrow> State_Monad.return (Inr [])
            | Some M \<Rightarrow> do {
                r \<leftarrow> m_LoadRobots M (st_bizId st) groupID;
                case r of
                  Inl err \<Rightarrow> State_Monad.return (Inl err)
                | Inr robots \<Rightarrow> do {
                    _ \<leftarrow> backfill E st key (save_robots_redis R key robots);
                    State_Monad.return (Inr robots) } }) })"

definition SaveUsedInfoIDs :: "'w env \<Rightarrow> 'w store \<Rightarrow> int32 \<Rightarrow> int64 list \<Rightarrow> ('w, unit) state" where
  "SaveUsedInfoIDs E st groupID ids = (case st_rdb st of None \<Rightarrow> skip
     | Some R \<Rightarrow>
         (if ids = [] then skip
          else do {
            let key = GetRankRobotInfosKey (en_keys E) (st_bizId st) groupID;
            _ \<leftarrow> SAdd R key (map (\<lambda>i. Txt (FormatInt i)) ids);
            expireKey E st key }))"

text \<open>Ids are parsed at 32 bits; what does not fit is dropped.\<close>

definition LoadUsedInfoIDs :: "'w env \<Rightarrow> 'w store \<Rightarrow> int32 \<Rightarrow> ('w, goerr + int64 list) state" where
  "LoadUsedInfoIDs E st groupID = (case st_rdb st of None \<Rightarrow> State_Monad.return (Inr [])
     | Some R \<Rightarrow> do {
         raw \<leftarrow> SMembers R (GetRankRobotInfosKey (en_keys E) (st_bizId st) groupID);
         State_Monad.return (case raw of
             Inl err \<Rightarrow> Inl err
           | Inr vs \<Rightarrow> Inr (remdups (List.map_filter
               (\<lambda>v. case rv_ParseInt v 32 of (n, True) \<Rightarrow> Some n | (n, False) \<Rightarrow> None) vs))) })"

section \<open>Expiry and cleanup\<close>

definition ExpireLiveData :: "'w env \<Rightarrow> 'w store \<Rightarrow> group list \<Rightarrow> int64 \<Rightarrow> ('w, unit) state" where
  "ExpireLiveData E st groups ttl = (case st_rdb st of None \<Rightarrow> skip
     | Some R \<Rightarrow> do {
         gs \<leftarrow> (if groups = []
                then do { loaded \<leftarrow> LoadGroups E st;
                          State_Monad.return (case loaded of Inr l \<Rightarrow> slice l | Inl _ \<Rightarrow> groups) }
                else State_Monad.return groups);
         let K = en_keys E; let b = st_bizId st;
         _ \<leftarrow> for_each [GetRankMetaKey K b, GetRankGroupsKey K b, GetRankMembersKey K b,
                        GetRankClaimsKey K b, GetRankMongoCheckedKey K b] (\<lambda>key. ignore (Expire R key ttl));
         for_each gs (\<lambda>g. do {
           _ \<leftarrow> Expire R (GetRankRobotsKey K b (gr_GroupID g)) ttl;
           ignore (Expire R (GetRankRobotInfosKey K b (gr_GroupID g)) ttl) }) })"

definition CleanupLiveData :: "'w env \<Rightarrow> 'w store \<Rightarrow> group list \<Rightarrow> ('w, unit) state" where
  "CleanupLiveData E st groups = ExpireLiveData E st groups (SettledCacheTTL (en_lib E))"

definition groupDocID :: "string \<Rightarrow> int32 \<Rightarrow> string" where
  "groupDocID bizId groupID = bizId @ '':'' @ FormatInt groupID"

definition queueDeleteAllDocIDs :: "'w env \<Rightarrow> 'w store \<Rightarrow> group list \<Rightarrow> ('w, unit) state" where
  "queueDeleteAllDocIDs E st groups = (case (st_rdb st, st_mongo st) of
     (Some R, Some M) \<Rightarrow> do {
       let b = st_bizId st;
       ms \<leftarrow> GetAllMembers E st;
       let members = (case ms of Inl _ \<Rightarrow> [] | Inr l \<Rightarrow> l);
       _ \<leftarrow> for_each groups (\<lambda>g. do {
         let gid = gr_GroupID g;
         _ \<leftarrow> m_QueueDeleteDocIDs M CT_RANK_GROUP [groupDocID b gid];
         _ \<leftarrow> m_QueueDeleteDocIDs M CT_RANK_INST [groupDocID b gid];
         _ \<leftarrow> m_QueueDeleteDocIDs M CT_RANK_SETTLED [groupDocID b gid];
         raw \<leftarrow> HGetAll R (GetRankRobotsKey (en_keys E) b gid);
         case raw of Inl _ \<Rightarrow> skip
         | Inr kvs \<Rightarrow> m_QueueDeleteDocIDs M CT_RANK_ROBOT
                       (map (\<lambda>kv. groupDocID b gid @ '':'' @ fst kv) kvs) });
       _ \<leftarrow> m_QueueDeleteDocIDs M CT_RANK_MEMBER (map (\<lambda>(uid, gid). b @ '':'' @ FormatInt uid) members);
       _ \<leftarrow> m_QueueDeleteDocIDs M CT_RANK_SCORE
              (map (\<lambda>(uid, gid). groupDocID b gid @ '':'' @ FormatInt uid) members);
       m_QueueDeleteDocIDs M CT_RANK_CLAIM (map (\<lambda>(uid, gid). b @ '':'' @ FormatInt uid) members) }
   | _ \<Rightarrow> skip)"

definition CleanupAll :: "'w env \<Rightarrow> 'w store \<Rightarrow> group list \<Rightarrow> ('w, unit) state" where
  "CleanupAll E st groups = (case st_rdb st of None \<Rightarrow> skip
     | Some R \<Rightarrow> do {
         gs \<leftarrow> (if groups = []
                then do { loaded \<leftarrow> LoadGroups E st;
                          State_Monad.return (case loaded of Inr l \<Rightarrow> slice l | Inl _ \<Rightarrow> groups) }
                else State_Monad.return groups);
         _ \<leftarrow> queueDeleteAllDocIDs E st gs;
         let K = en_keys E; let b = st_bizId st;
         _ \<leftarrow> for_each [GetRankMetaKey K b, GetRankGroupsKey K b, GetRankMembersKey K b,
                        GetRankClaimsKey K b, GetRankMongoCheckedKey K b] (\<lambda>key. ignore (Del R key));
         _ \<leftarrow> for_each gs (\<lambda>g. do {
           _ \<leftarrow> Del R (GetRankRobotsKey K b (gr_GroupID g));
           ignore (Del R (GetRankRobotInfosKey K b (gr_GroupID g))) });
         _ \<leftarrow> unregisterActive E st R;
         on_mongo st (\<lambda>M. m_DeleteAllByBizId M b) })"

section \<open>Claims\<close>

definition atomicClaimScript ::
  "'w redis \<Rightarrow> string \<Rightarrow> string \<Rightarrow> rval \<Rightarrow> rval \<Rightarrow> ('w, goerr + lua_value) state" where
  "atomicClaimScript R key1 argv1 argv2 argv3 = do {
     cur \<leftarrow> lua_HGet R key1 argv1;
     case cur of
       Inl err \<Rightarrow> State_Monad.return (Inl err)
     | Inr (Some v) \<Rightarrow>
         (if v \<noteq> argv3 then State_Monad.return (Inr (LuaArr [LuaInt 1, LuaStr v]))
          else do { r \<leftarrow> lua_HSet R key1 argv1 argv2;
                    State_Monad.return (case r of Some err \<Rightarrow> Inl err
                      | None \<Rightarrow> Inr (LuaArr [LuaInt 0, LuaStr argv2])) })
     | Inr None \<Rightarrow>
         do { r \<leftarrow> lua_HSet R key1 argv1 argv2;
              State_Monad.return (case r of Some err \<Rightarrow> Inl err
                | None \<Rightarrow> Inr (LuaArr [LuaInt 0, LuaStr argv2])) } }"

text \<open>\<open>EVAL\<close>: the script runs between two halves of a round trip that can fail.\<close>

definition Eval :: "'w redis \<Rightarrow> ('w, goerr + lua_value) state \<Rightarrow> ('w, goerr + lua_value) state" where
  "Eval R script = do {
     b \<leftarrow> eval_begin R;
     case b of Some err \<Rightarrow> State_Monad.return (Inl err)
     | None \<Rightarrow> do {
         v \<leftarrow> script;
         e \<leftarrow> eval_end R;
         State_Monad.return (case e of Some err \<Rightarrow> Inl err | None \<Rightarrow> v) } }"

definition claim_reply :: "lua_value \<Rightarrow> (int64 \<times> int64) option" where
  "claim_reply reply = (case reply of
     LuaArr (a # b # _) \<Rightarrow>
       Some (case a of LuaInt n \<Rightarrow> n | _ \<Rightarrow> 0,
             case b of LuaStr v \<Rightarrow> fst (rv_ParseInt v 64) | _ \<Rightarrow> fst (ParseInt [] 64))
   | _ \<Rightarrow> None)"

text \<open>The result is \<open>(claimed, claimTime)\<close> or an error.\<close>

definition AtomicClaim :: "'w env \<Rightarrow> 'w store \<Rightarrow> int64 \<Rightarrow> int64 \<Rightarrow> ('w, goerr + bool \<times> int64) state" where
  "AtomicClaim E st userID now = (case st_rdb st of
       None \<Rightarrow>
         (case st_mongo st of None \<Rightarrow> State_Monad.return (Inr (False, now))
          | Some M \<Rightarrow> do {
              r \<leftarrow> m_GetClaim M (st_bizId st) userID;
              case r of
                Inl e \<Rightarrow> State_Monad.return (Inl e)
              | Inr (Some ct) \<Rightarrow> State_Monad.return (Inr (True, ct))
              | Inr None \<Rightarrow> do {
                  s \<leftarrow> m_SaveClaim M (st_bizId st) userID now;
                  State_Monad.return (case s of Some e \<Rightarrow> Inl e | None \<Rightarrow> Inr (False, now)) } })
     | Some R \<Rightarrow> do {
         let uidStr = FormatInt userID;
         let claimsKey = GetRankClaimsKey (en_keys E) (st_bizId st);
         reply \<leftarrow> Eval R (atomicClaimScript R claimsKey uidStr (Txt (FormatInt now)) (Txt nullCacheEntry));
         case reply of
           Inl evalErr \<Rightarrow> State_Monad.return (Inl evalErr)
         | Inr v \<Rightarrow>
             (case claim_reply v of
                None \<Rightarrow> State_Monad.return (Inl (ErrText ''AtomicClaim: unexpected result type''))
              | Some (claimedInt, ct) \<Rightarrow>
                  (if claimedInt = 1 then State_Monad.return (Inr (True, ct))
                   else do {
                     ttl \<leftarrow> backfillTTL E st;
                     _ \<leftarrow> Expire R claimsKey ttl;
                     case st_mongo st of
                       None \<Rightarrow> State_Monad.return (Inr (False, now))
                     | Some M \<Rightarrow> do {
                         found \<leftarrow> m_GetClaim M (st_bizId st) userID;
                         case found of
                           Inl mongoErr \<Rightarrow> State_Monad.return (Inl mongoErr)
                         | Inr (Some mongoTime) \<Rightarrow> do {
                             _ \<leftarrow> HSet R claimsKey uidStr (Txt (FormatInt mongoTime));
                             State_Monad.return (Inr (True, mongoTime)) }
                         | Inr None \<Rightarrow> do {
                             saved \<leftarrow> m_SaveClaimIfNotExists M (st_bizId st) userID now;
                             case saved of
                               Inl e \<Rightarrow> State_Monad.return (Inl e)
                             | Inr (isFirst, savedTime) \<Rightarrow>
                                 (if \<not> isFirst then do {
                                    _ \<leftarrow> HSet R claimsKey uidStr (Txt (FormatInt savedTime));
                                    State_Monad.return (Inr (True, savedTime)) }
                                  else State_Monad.return (Inr (False, now))) } } })) })"

definition settleLockKey :: "string \<Rightarrow> int32 \<Rightarrow> string" where
  "settleLockKey bizId groupID = ''rank:settle:{'' @ bizId @ ''}:'' @ FormatInt groupID"

definition TryLockSettle :: "'w store \<Rightarrow> int32 \<Rightarrow> ('w, bool) state" where
  "TryLockSettle st groupID = (case st_rdb st of None \<Rightarrow> State_Monad.return True
     | Some R \<Rightarrow> do {
         r \<leftarrow> SetNX R (settleLockKey (st_bizId st) groupID) (Txt ''1'') (10 * minute_ns);
         State_Monad.return (case r of Inl err \<Rightarrow> True | Inr locked \<Rightarrow> locked) })"

definition robotTickLockKey :: "string \<Rightarrow> int64 \<Rightarrow> string" where
  "robotTickLockKey bizId tickSec = ''rank:robot_tick:{'' @ bizId @ ''}:'' @ FormatInt tickSec"

definition TryLockRobotTick :: "'w store \<Rightarrow> int64 \<Rightarrow> ('w, bool) state" where
  "TryLockRobotTick st nowMs = (case st_rdb st of None \<Rightarrow> State_Monad.return True
     | Some R \<Rightarrow> do {
         let tickSec = quot nowMs 1000;
         r \<leftarrow> SetNX R (robotTickLockKey (st_bizId st) tickSec) (Txt ''1'') (3 * second_ns);
         State_Monad.return (case r of Inl err \<Rightarrow> True | Inr locked \<Rightarrow> locked) })"

definition SetClaim :: "'w env \<Rightarrow> 'w store \<Rightarrow> int64 \<Rightarrow> int64 \<Rightarrow> ('w, unit) state" where
  "SetClaim E st userID claimTime = (case st_rdb st of None \<Rightarrow> skip
     | Some R \<Rightarrow> do {
         let key = GetRankClaimsKey (en_keys E) (st_bizId st);
         _ \<leftarrow> HSet R key (FormatInt userID) (Txt (FormatInt claimTime));
         _ \<leftarrow> expireKey E st key;
         on_mongo st (\<lambda>M. m_SaveClaim M (st_bizId st) userID claimTime) })"

definition GetClaim :: "'w env \<Rightarrow> 'w store \<Rightarrow> int64 \<Rightarrow> ('w, goerr + int64 option) state" where
  "GetClaim E st userID = (case st_rdb st of None \<Rightarrow> State_Monad.return (Inr None)
     | Some R \<Rightarrow> do {
         let key = GetRankClaimsKey (en_keys E) (st_bizId st);
         raw \<leftarrow> HGet R key (FormatInt userID);
         case read_cached raw 64 of
           NegativeHit \<Rightarrow> State_Monad.return (Inr None)
         | Hit t \<Rightarrow> State_Monad.return (Inr (Some t))
         | Failed err \<Rightarrow> State_Monad.return (Inl err)
         | Miss \<Rightarrow>
             (case st_mongo st of None \<Rightarrow> State_Monad.return (Inr None)
              | Some M \<Rightarrow> do {
                  r \<leftarrow> m_GetClaim M (st_bizId st) userID;
                  case r of
                    Inl err \<Rightarrow> State_Monad.return (Inl err)
                  | Inr (Some t) \<Rightarrow> do {
                      _ \<leftarrow> backfill E st key (ignore (HSet R key (FormatInt userID) (Txt (FormatInt t))));
                      State_Monad.return (Inr (Some t)) }
                  | Inr None \<Rightarrow> do {
                      _ \<leftarrow> backfill E st key (ignore (HSet R key (FormatInt userID) (Txt nullCacheEntry)));
                      State_Monad.return (Inr None) } }) })"

section \<open>Scores, settled snapshots, instances\<close>

definition SaveScore ::
  "'w store \<Rightarrow> int32 \<Rightarrow> int64 \<Rightarrow> int64 \<Rightarrow> int64 \<Rightarrow> int64 \<Rightarrow> int64 \<Rightarrow> avatar_info option \<Rightarrow> ('w, goerr option) state" where
  "SaveScore st groupID userID score enterTime sequence updateTime avatarInfo = (case st_mongo st of
       None \<Rightarrow> State_Monad.return None
     | Some M \<Rightarrow> m_SaveScore M (st_bizId st) groupID userID score enterTime sequence updateTime avatarInfo)"

definition LoadGroupScores :: "'w store \<Rightarrow> int32 \<Rightarrow> ('w, goerr + score_doc list) state" where
  "LoadGroupScores st groupID = (case st_mongo st of None \<Rightarrow> State_Monad.return (Inr [])
     | Some M \<Rightarrow> m_LoadGroupScores M (st_bizId st) groupID)"

definition RdbExists :: "'w store \<Rightarrow> string \<Rightarrow> ('w, bool) state" where
  "RdbExists st key = (case st_rdb st of None \<Rightarrow> State_Monad.return False
     | Some R \<Rightarrow> do { (ok, _) \<leftarrow> RExists R key; State_Monad.return ok })"

definition SaveSettled :: "'w store \<Rightarrow> int32 \<Rightarrow> snapshot list \<Rightarrow> int64 \<Rightarrow> ('w, goerr option) state" where
  "SaveSettled st groupID snaps settleTime = (case st_mongo st of None \<Rightarrow> State_Monad.return None
     | Some M \<Rightarrow> m_SaveSettled M (st_bizId st) groupID snaps settleTime)"

definition LoadGroupSettled :: "'w store \<Rightarrow> int32 \<Rightarrow> ('w, goerr + snapshot list) state" where
  "LoadGroupSettled st groupID = (case st_mongo st of None \<Rightarrow> State_Monad.return (Inr [])
     | Some M \<Rightarrow> m_LoadGroupSettled M (st_bizId st) groupID)"

text \<open>The MongoDB part of \<open>LoadGroupSettledCached\<close>, reached on a Redis miss.\<close>

definition settled_from_mongo :: "'w env \<Rightarrow> 'w store \<Rightarrow> string \<Rightarrow> int32 \<Rightarrow> ('w, goerr + snapshot list) state" where
  "settled_from_mongo E st instanceID groupID = (case st_mongo st of None \<Rightarrow> State_Monad.return (Inr [])
     | Some M \<Rightarrow> do {
         r \<leftarrow> m_LoadGroupSettled M (st_bizId st) groupID;
         case r of
           Inl err \<Rightarrow> State_Monad.return (Inl err)
         | Inr snaps \<Rightarrow> do {
             _ \<leftarrow> (case st_rdb st of None \<Rightarrow> skip
                  | Some R \<Rightarrow>
                      (if snaps = [] then skip
                       else case MarshalSnaps (en_lib E) snaps of None \<Rightarrow> skip
                       | Some data \<Rightarrow> do {
                           ttl \<leftarrow> backfillTTL E st;
                           ignore (SetEX R (GetRankSettledKey (en_keys E) instanceID) data ttl) }));
             State_Monad.return (Inr snaps) } })"

definition LoadGroupSettledCached :: "'w env \<Rightarrow> 'w store \<Rightarrow> string \<Rightarrow> int32 \<Rightarrow> ('w, goerr + snapshot list) state" where
  "LoadGroupSettledCached E st instanceID groupID = (case st_rdb st of
       None \<Rightarrow> settled_from_mongo E st instanceID groupID
     | Some R \<Rightarrow> do {
         let key = GetRankSettledKey (en_keys E) instanceID;
         raw \<leftarrow> RGet R key;
         case raw of
           Inr data \<Rightarrow>
             (case UnmarshalSnaps (en_lib E) data of
                Some (s # ss) \<Rightarrow> do {
                  ttl \<leftarrow> backfillTTL E st;
                  _ \<leftarrow> Expire R key ttl;
                  State_Monad.return (Inr (s # ss)) }
              | _ \<Rightarrow> settled_from_mongo E st instanceID groupID)
         | Inl err \<Rightarrow> if IsNil err then settled_from_mongo E st instanceID groupID
                     else State_Monad.return (Inl err) })"

definition SaveRankInst :: "'w store \<Rightarrow> int32 \<Rightarrow> rank_instance \<Rightarrow> ('w, goerr option) state" where
  "SaveRankInst st groupID inst = (case st_mongo st of None \<Rightarrow> State_Monad.return None
     | Some M \<Rightarrow> m_SaveRankInst M (st_bizId st) groupID inst)"

definition LoadGroupInst :: "'w store \<Rightarrow> int32 \<Rightarrow> ('w, goerr + rank_instance option) state" where
  "LoadGroupInst st groupID = (case st_mongo st of None \<Rightarrow> State_Monad.return (Inr None)
     | Some M \<Rightarrow> m_LoadGroupInst M (st_bizId st) groupID)"

end
