(* ===== verification/MemWorld.thy ===== *)
theory MemWorld
  imports Store
begin

text \<open>
  The laws of the outside world that properties assume, as named predicates, and a small in-memory
  world that satisfies them: hashes, strings, sets and expiry marks for Redis, tables for MongoDB.
  It serves the witnesses; no property is about it.
\<close>

section \<open>Laws\<close>

text \<open>The hash fields a reader sees.\<close>

definition hview :: "'w redis \<Rightarrow> 'w \<Rightarrow> string \<Rightarrow> string \<Rightarrow> goerr + rval" where
  "hview R w k f = result (HGet R k f) w"

definition keeps :: "('w \<Rightarrow> 'b) \<Rightarrow> ('w, 'a) state \<Rightarrow> bool" where
  "keeps f m \<longleftrightarrow> (\<forall>w. f (exec m w) = f w)"

text \<open>Redis hashes, between writes of others: reading changes nothing, a write that succeeds is seen
  and touches nothing else, giving a key a positive time to live does not change what is read.\<close>

definition hash_laws :: "'w redis \<Rightarrow> bool" where
  "hash_laws R \<longleftrightarrow>
     (\<forall>k f w. exec (HGet R k f) w = w)
   \<and> (\<forall>k f v w. result (HSet R k f v) w = None)
   \<and> (\<forall>k f v w k' f'. hview R (exec (HSet R k f v) w) k' f' =
        (if k' = k \<and> f' = f then Inr v else hview R w k' f'))
   \<and> (\<forall>k t w. 0 < t \<longrightarrow> hview R (exec (Expire R k t) w) = hview R w)"

text \<open>Times to live are positive and computing one leaves Redis alone.\<close>

definition ttl_laws :: "'w env \<Rightarrow> 'w redis \<Rightarrow> bool" where
  "ttl_laws E R \<longleftrightarrow> 0 < SettledCacheTTL (en_lib E)
   \<and> (\<forall>a. keeps (hview R) (TTLForActivityEnd (en_lib E) a))
   \<and> (\<forall>a w. 0 < result (TTLForActivityEnd (en_lib E) a) w)"

text \<open>Queueing a write for MongoDB leaves Redis alone.\<close>

definition mongo_apart :: "'w redis \<Rightarrow> 'w store_mongo \<Rightarrow> bool" where
  "mongo_apart R M \<longleftrightarrow>
     (\<forall>b u g. keeps (hview R) (m_SaveMember M b u g))
   \<and> (\<forall>b u t. keeps (hview R) (m_SaveClaim M b u t))
   \<and> (\<forall>b g. keeps (hview R) (m_SaveGroup M b g))
   \<and> (\<forall>b u. keeps (hview R) (m_GetMember M b u))
   \<and> (\<forall>b u. keeps (hview R) (m_GetClaim M b u))"

text \<open>Keys and expiry: \<open>P S w\<close> says that only the keys in \<open>S\<close> can be without a time to live. A write
  can create its key without one, a successful positive \<open>EXPIRE\<close> gives it one, and \<open>SET\<close> with a
  time to live leaves none behind.\<close>

definition expiry_laws :: "'w env \<Rightarrow> 'w redis \<Rightarrow> (string set \<Rightarrow> 'w \<Rightarrow> bool) \<Rightarrow> bool" where
  "expiry_laws E R P \<longleftrightarrow>
     0 < SettledCacheTTL (en_lib E) \<and> 0 < ColdDataTTL (en_lib E)
   \<and> (\<forall>S S' w. P S w \<longrightarrow> S \<subseteq> S' \<longrightarrow> P S' w)
   \<and> (\<forall>S a w. P S w \<longrightarrow> P S (exec (TTLForActivityEnd (en_lib E) a) w)
        \<and> 0 < result (TTLForActivityEnd (en_lib E) a) w)
   \<and> (\<forall>S w. P S w \<longrightarrow> P S (exec (Now (en_lib E)) w))
   \<and> (\<forall>S k f v w. P S w \<longrightarrow> P (insert k S) (exec (HSet R k f v) w))
   \<and> (\<forall>S k f n w. P S w \<longrightarrow> P (insert k S) (exec (HIncrBy R k f n) w)
        \<and> (result (HIncrBy R k f n) w \<in> range Inl \<longrightarrow> P S (exec (HIncrBy R k f n) w)))
   \<and> (\<forall>S k vs w. P S w \<longrightarrow> P (insert k S) (exec (SAdd R k vs) w))
   \<and> (\<forall>S k t w. P S w \<longrightarrow> 0 < t \<longrightarrow> P (S - {k}) (exec (Expire R k t) w))
   \<and> (\<forall>S k v t w. P S w \<longrightarrow> 0 < t \<longrightarrow> P S (exec (SetEX R k v t) w))
   \<and> (\<forall>S k v t w. P S w \<longrightarrow> 0 < t \<longrightarrow> P S (exec (SetNX R k v t) w))
   \<and> (\<forall>S k f w. P S w \<longrightarrow> P S (exec (HGet R k f) w))
   \<and> (\<forall>S k w. P S w \<longrightarrow> P S (exec (HGetAll R k) w))
   \<and> (\<forall>S k w. P S w \<longrightarrow> P S (exec (RExists R k) w))
   \<and> (\<forall>S k ms t w. P S w \<longrightarrow> 0 < t \<longrightarrow> P S (exec (PipeExec R [PSAdd k ms, PExpire k t]) w))"

text \<open>The MongoDB side does not touch Redis keys.\<close>

definition mongo_no_keys :: "'w store_mongo \<Rightarrow> (string set \<Rightarrow> 'w \<Rightarrow> bool) \<Rightarrow> bool" where
  "mongo_no_keys M P \<longleftrightarrow> (\<forall>S w. P S w \<longrightarrow>
       (\<forall>b g. P S (exec (m_SaveGroup M b g) w)) \<and> (\<forall>b. P S (exec (m_LoadGroups M b) w))
     \<and> (\<forall>b u g. P S (exec (m_SaveMember M b u g) w)) \<and> (\<forall>b u. P S (exec (m_GetMember M b u) w))
     \<and> (\<forall>b. P S (exec (m_LoadAllMembers M b) w))
     \<and> (\<forall>b g rs. P S (exec (m_SaveRobots M b g rs) w)) \<and> (\<forall>b g. P S (exec (m_LoadRobots M b g) w))
     \<and> (\<forall>b u t. P S (exec (m_SaveClaim M b u t) w)) \<and> (\<forall>b u. P S (exec (m_GetClaim M b u) w)))"

section \<open>A world in memory\<close>

record mem =
  mw_hash :: "(string \<times> (string \<times> rval) list) list"
  mw_str :: "(string \<times> rval) list"
  mw_sets :: "(string \<times> rval list) list"
  mw_permanent :: "string list"
  mw_claims :: "((string \<times> int64) \<times> int64) list"
  mw_members :: "((string \<times> int64) \<times> int32) list"
  mw_groups :: "((string \<times> int32) \<times> group) list"
  mw_mongo_down :: bool
  mw_now :: int

definition empty_mem :: mem where
  "empty_mem = \<lparr>mw_hash = [], mw_str = [], mw_sets = [], mw_permanent = [], mw_claims = [],
     mw_members = [], mw_groups = [], mw_mongo_down = False, mw_now = 0\<rparr>"

definition lookup_list :: "('k \<times> 'v list) list \<Rightarrow> 'k \<Rightarrow> 'v list" where
  "lookup_list m k = (case map_of m k of None \<Rightarrow> [] | Some x \<Rightarrow> x)"

definition mem_touch :: "string \<Rightarrow> bool \<Rightarrow> mem \<Rightarrow> mem" where
  "mem_touch k fresh w = (if fresh then w\<lparr>mw_permanent := List.insert k (mw_permanent w)\<rparr> else w)"

definition mem_hset :: "string \<Rightarrow> string \<Rightarrow> rval \<Rightarrow> mem \<Rightarrow> mem" where
  "mem_hset k f v w = (let h = lookup_list (mw_hash w) k in
     mem_touch k (h = []) (w\<lparr>mw_hash := AList.update k (AList.update f v h) (mw_hash w)\<rparr>))"

definition mem_expire :: "string \<Rightarrow> mem \<Rightarrow> mem" where
  "mem_expire k w = w\<lparr>mw_permanent := removeAll k (mw_permanent w)\<rparr>"

definition mem_hget :: "string \<Rightarrow> string \<Rightarrow> mem \<Rightarrow> rval option" where
  "mem_hget k f w = map_of (lookup_list (mw_hash w) k) f"

definition mem_has :: "string \<Rightarrow> mem \<Rightarrow> bool" where
  "mem_has k w \<longleftrightarrow> lookup_list (mw_hash w) k \<noteq> [] \<or> map_of (mw_str w) k \<noteq> None
     \<or> lookup_list (mw_sets w) k \<noteq> []"

definition mem_incr :: "string \<Rightarrow> string \<Rightarrow> int64 \<Rightarrow> mem \<Rightarrow> int64" where
  "mem_incr k f n w = i64 ((case mem_hget k f w of None \<Rightarrow> 0 | Some v \<Rightarrow> fst (rv_ParseInt v 64)) + n)"

definition mem_sadd :: "string \<Rightarrow> rval list \<Rightarrow> mem \<Rightarrow> mem" where
  "mem_sadd k vs w = mem_touch k (lookup_list (mw_sets w) k = [])
     (w\<lparr>mw_sets := AList.update k (remdups (lookup_list (mw_sets w) k @ vs)) (mw_sets w)\<rparr>)"

fun mem_cmd :: "pipe_cmd \<Rightarrow> mem \<Rightarrow> mem" where
  "mem_cmd (PSAdd k vs) w = mem_sadd k vs w"
| "mem_cmd (PSRem k vs) w = w\<lparr>mw_sets := AList.update k
     (filter (\<lambda>v. v \<notin> set vs) (lookup_list (mw_sets w) k)) (mw_sets w)\<rparr>"
| "mem_cmd (PExpire k t) w = (if 0 < t then mem_expire k w else w)"
| "mem_cmd (PSet k v t) w = mem_expire k (w\<lparr>mw_str := AList.update k v (mw_str w)\<rparr>)"
| "mem_cmd (PDel k) w = mem_expire k (w\<lparr>mw_hash := AList.delete k (mw_hash w),
     mw_str := AList.delete k (mw_str w), mw_sets := AList.delete k (mw_sets w)\<rparr>)"
| "mem_cmd (PHSet k f v) w = mem_hset k f v w"
| "mem_cmd (PHGetAll k) w = w"

definition eff :: "('w \<Rightarrow> 'w) \<Rightarrow> 'a \<Rightarrow> ('w, 'a) state" where
  "eff f x = State (\<lambda>w. (x, f w))"

definition view :: "('w \<Rightarrow> 'a) \<Rightarrow> ('w, 'a) state" where
  "view f = State (\<lambda>w. (f w, w))"

lemma exec_eff [simp]: "exec (eff f x) w = f w" and result_eff [simp]: "result (eff f x) w = x"
  and exec_view [simp]: "exec (view g) w = w" and result_view [simp]: "result (view g) w = g w"
  by (simp_all add: eff_def view_def)

definition mem_redis :: "mem redis" where
  "mem_redis = \<lparr>
     HGet = (\<lambda>k f. view (\<lambda>w. case mem_hget k f w of None \<Rightarrow> Inl RedisNil | Some v \<Rightarrow> Inr v)),
     HSet = (\<lambda>k f v. eff (mem_hset k f v) None),
     HDel = (\<lambda>k f. eff (\<lambda>w. w\<lparr>mw_hash := AList.update k (AList.delete f (lookup_list (mw_hash w) k)) (mw_hash w)\<rparr>) None),
     HGetAll = (\<lambda>k. view (\<lambda>w. Inr (lookup_list (mw_hash w) k))),
     HIncrBy = (\<lambda>k f n. State (\<lambda>w. (Inr (mem_incr k f n w), mem_hset k f (Txt (FormatInt (mem_incr k f n w))) w))),
     RExists = (\<lambda>k. view (\<lambda>w. (mem_has k w, None))),
     Expire = (\<lambda>k t. State (\<lambda>w. (Inr (mem_has k w), if 0 < t then mem_expire k w else w))),
     RGet = (\<lambda>k. view (\<lambda>w. case map_of (mw_str w) k of None \<Rightarrow> Inl RedisNil | Some v \<Rightarrow> Inr v)),
     SetEX = (\<lambda>k v t. eff (mem_cmd (PSet k v t)) None),
     SetNX = (\<lambda>k v t. State (\<lambda>w. case map_of (mw_str w) k of None \<Rightarrow> (Inr True, mem_cmd (PSet k v t) w)
                                | Some _ \<Rightarrow> (Inr False, w))),
     Del = (\<lambda>k. eff (mem_cmd (PDel k)) None),
     SAdd = (\<lambda>k vs. eff (mem_sadd k vs) None),
     SMembers = (\<lambda>k. view (\<lambda>w. Inr (lookup_list (mw_sets w) k))),
     PipeExec = (\<lambda>cs. eff (fold mem_cmd cs) None),
     lua_HGet = (\<lambda>k f. view (\<lambda>w. Inr (mem_hget k f w))),
     lua_HSet = (\<lambda>k f v. eff (mem_hset k f v) None),
     eval_begin = State_Monad.return None,
     eval_end = State_Monad.return None\<rparr>"

definition or_down :: "'a \<Rightarrow> mem \<Rightarrow> goerr + 'a" where
  "or_down x w = (if mw_mongo_down w then Inl (ErrText ''mongo down'') else Inr x)"

definition mem_mongo :: "mem store_mongo" where
  "mem_mongo = \<lparr>
     m_available = True,
     m_SaveGroup = (\<lambda>b g. eff (\<lambda>w. w\<lparr>mw_groups := AList.update (b, gr_GroupID g) g (mw_groups w)\<rparr>) None),
     m_LoadGroups = (\<lambda>b. view (\<lambda>w. or_down (map snd (filter (\<lambda>kv. fst (fst kv) = b) (mw_groups w))) w)),
     m_SaveMember = (\<lambda>b u g. eff (\<lambda>w. w\<lparr>mw_members := AList.update (b, u) g (mw_members w)\<rparr>) None),
     m_GetMember = (\<lambda>b u. view (\<lambda>w. or_down (map_of (mw_members w) (b, u)) w)),
     m_LoadAllMembers = (\<lambda>b. view (\<lambda>w. or_down (map (\<lambda>((_, u), g). (u, g))
        (filter (\<lambda>kv. fst (fst kv) = b) (mw_members w))) w)),
     m_SaveRobots = (\<lambda>b g rs. State_Monad.return None),
     m_LoadRobots = (\<lambda>b g. State_Monad.return (Inr [])),
     m_SaveClaimIfNotExists = (\<lambda>b u t. State (\<lambda>w.
        if mw_mongo_down w then (Inl (ErrText ''mongo down''), w)
        else case map_of (mw_claims w) (b, u) of
            None \<Rightarrow> (Inr (True, t), w\<lparr>mw_claims := AList.update (b, u) t (mw_claims w)\<rparr>)
          | Some t' \<Rightarrow> (Inr (False, t'), w))),
     m_SaveClaim = (\<lambda>b u t. eff (\<lambda>w. w\<lparr>mw_claims := AList.update (b, u) t (mw_claims w)\<rparr>) None),
     m_GetClaim = (\<lambda>b u. view (\<lambda>w. or_down (map_of (mw_claims w) (b, u)) w)),
     m_SaveScore = (\<lambda>b g u s e q t a. State_Monad.return None),
     m_LoadGroupScores = (\<lambda>b g. State_Monad.return (Inr [])),
     m_SaveSettled = (\<lambda>b g s t. State_Monad.return None),
     m_LoadGroupSettled = (\<lambda>b g. State_Monad.return (Inr [])),
     m_SaveRankInst = (\<lambda>b g i. State_Monad.return None),
     m_LoadGroupInst = (\<lambda>b g. State_Monad.return (Inr None)),
     m_DeleteAllByBizId = (\<lambda>b. State_Monad.return None),
     m_QueueDeleteDocIDs = (\<lambda>c ids. State_Monad.return ())\<rparr>"

definition prefixed :: "string \<Rightarrow> string \<Rightarrow> string" where
  "prefixed p s = p @ '':'' @ s"

definition mem_keys :: redis_keys where
  "mem_keys = \<lparr>GetRankMongoCheckedKey = prefixed ''checked'', GetRankGroupsKey = prefixed ''groups'',
     GetRankMembersKey = prefixed ''members'', GetRankClaimsKey = prefixed ''claims'',
     GetRankMetaKey = prefixed ''meta'',
     GetRankRobotsKey = (\<lambda>b g. prefixed ''robots'' (b @ '':'' @ FormatInt g)),
     GetRankRobotInfosKey = (\<lambda>b g. prefixed ''infos'' (b @ '':'' @ FormatInt g)),
     GetRankMbKey = prefixed ''mb'', GetRankInstKey = prefixed ''inst'',
     GetRankSettledKey = prefixed ''settled'', RankActiveServicesKey = ''active''\<rparr>"

definition mem_lib :: "mem rank_lib" where
  "mem_lib = \<lparr>Now = view mw_now,
     TTLForActivityEnd = (\<lambda>a. view (\<lambda>w. max minute_ns (a * 1000000 + 14 * 86400 * second_ns - mw_now w))),
     SettleAtOf = (\<lambda>c g. if g > 0 then g else c),
     SettledCacheTTL = 14 * 86400 * second_ns, ColdDataTTL = 7 * 86400 * second_ns,
     NewInstanceID = (\<lambda>r b g. r @ '':'' @ b @ '':'' @ g),
     MarshalSnaps = (\<lambda>snaps. Some (JTxt (JArr []))), UnmarshalSnaps = (\<lambda>v. None),
     Rand = State_Monad.return (\<lambda>n. 0)\<rparr>"

definition mem_env :: "mem env" where
  "mem_env = \<lparr>en_keys = mem_keys, en_lib = mem_lib\<rparr>"

definition mem_store :: "string \<Rightarrow> mem store" where
  "mem_store b = \<lparr>st_rdb = Some mem_redis, st_dao = Some mem_mongo, st_bizId = b, st_activityEnd = Some 1000\<rparr>"

text \<open>A ranking library that accepts everything and settles to one member.\<close>

definition one_snapshot :: snapshot where
  "one_snapshot = \<lparr>sn_MemberId = 42, sn_Score = 10, sn_Rank = 1, sn_EnterTime = 5, sn_UpdateTime = 5,
     sn_Sequence = 1, sn_AvatarInfo = None\<rparr>"

definition calm_rank :: "'w rank_service" where
  "calm_rank = \<lparr>GetInstance = (\<lambda>_. State_Monad.return (Inl ErrInstanceNotFound)),
     OpenInstance = (\<lambda>_. State_Monad.return None), CloseInstance = (\<lambda>_ _. State_Monad.return None),
     SettleInstance = (\<lambda>_ _. State_Monad.return (Inr [one_snapshot])),
     Snapshot = (\<lambda>_. State_Monad.return (Inr [])), Range = (\<lambda>_ _ _. State_Monad.return (Inr [])),
     RestoreInstance = (\<lambda>_. State_Monad.return None), RestoreMembers = (\<lambda>_ _. State_Monad.return None),
     ExpireInstance = (\<lambda>_ _. State_Monad.return None), BatchUpsertScore = (\<lambda>_ _. State_Monad.return None),
     GetMemRank = (\<lambda>_ _. State_Monad.return (Inr None)), DeleteInstance = (\<lambda>_. State_Monad.return None),
     DeleteRankDef = (\<lambda>_. State_Monad.return None)\<rparr>"

section \<open>The world in memory satisfies the laws\<close>

lemmas mem_simps = mem_redis_def mem_mongo_def mem_env_def mem_lib_def mem_keys_def mem_store_def

lemma lookup_list_update: "lookup_list (AList.update k v m) k' = (if k = k' then v else lookup_list m k')"
  by (simp add: lookup_list_def update_conv')

lemma mem_hget_hset: "mem_hget k' f' (mem_hset k f v w) = (if k' = k \<and> f' = f then Some v else mem_hget k' f' w)"
  by (auto simp: mem_hget_def mem_hset_def Let_def mem_touch_def lookup_list_update update_conv')

lemma mem_hget_expire [simp]: "mem_hget k' f' (mem_expire k w) = mem_hget k' f' w"
  by (simp add: mem_hget_def mem_expire_def)

lemma mem_hget_claims [simp]: "mem_hget k f (w\<lparr>mw_claims := c\<rparr>) = mem_hget k f w"
  by (simp add: mem_hget_def)

lemma mem_hash_laws: "hash_laws mem_redis"
  by (auto simp: hash_laws_def mem_redis_def hview_def mem_hget_hset fun_eq_iff split: option.splits)

lemma mem_ttl_laws: "ttl_laws mem_env mem_redis"
  by (auto simp: ttl_laws_def mem_env_def mem_lib_def keeps_def second_ns_def minute_ns_def)

lemma mem_mongo_apart: "mongo_apart mem_redis mem_mongo"
  by (auto simp: mongo_apart_def mem_mongo_def keeps_def mem_redis_def hview_def mem_hget_def fun_eq_iff)

definition mem_perm :: "string set \<Rightarrow> mem \<Rightarrow> bool" where
  "mem_perm S w \<longleftrightarrow> set (mw_permanent w) \<subseteq> S"

lemma mem_perm_mono: "mem_perm S w \<Longrightarrow> S \<subseteq> S' \<Longrightarrow> mem_perm S' w"
  by (auto simp: mem_perm_def)

lemma mem_perm_touch: "mem_perm S w \<Longrightarrow> mem_perm (insert k S) (mem_touch k b w)"
  by (auto simp: mem_perm_def mem_touch_def)

lemma mem_perm_hset: "mem_perm S w \<Longrightarrow> mem_perm (insert k S) (mem_hset k f v w)"
  unfolding mem_hset_def Let_def by (rule mem_perm_touch) (simp add: mem_perm_def)

lemma mem_perm_sadd: "mem_perm S w \<Longrightarrow> mem_perm (insert k S) (mem_sadd k vs w)"
  unfolding mem_sadd_def by (rule mem_perm_touch) (simp add: mem_perm_def)

lemma mem_perm_expire: "mem_perm S w \<Longrightarrow> mem_perm (S - {k}) (mem_expire k w)"
  by (auto simp: mem_perm_def mem_expire_def)

lemma mem_perm_set: "mem_perm S w \<Longrightarrow> mem_perm S (mem_cmd (PSet k v t) w)"
  by (auto simp: mem_perm_def mem_expire_def)

lemma mem_perm_pipe: "mem_perm S w \<Longrightarrow> mem_perm S (mem_expire k (mem_sadd k ms w))"
  using mem_perm_expire [OF mem_perm_sadd [of S w k ms], of k] by (auto simp: mem_perm_def)

lemma mem_mongo_no_keys: "mongo_no_keys mem_mongo mem_perm"
  by (simp add: mongo_no_keys_def mem_mongo_def mem_perm_def)

lemma mem_expiry_laws: "expiry_laws mem_env mem_redis mem_perm"
  unfolding expiry_laws_def mem_redis_def mem_env_def mem_lib_def
  by (auto simp: mem_perm_hset mem_perm_sadd mem_perm_expire mem_perm_set [simplified] mem_perm_pipe
      mem_perm_mono second_ns_def minute_ns_def split: option.splits)

end
