(* ===== verification/StoreExpiry.thy ===== *)
theory StoreExpiry
  imports MemWorld
begin

text \<open>
  The rule the comments of \<open>store.go\<close> repeat, that no key may be left without a time to live, as a
  Hoare logic over the set of keys that may be permanent: a write opens its key, the \<open>EXPIRE\<close> after
  it closes it, and every public operation starts and ends with the same set.
\<close>

section \<open>Triples\<close>

definition ht :: "(string set \<Rightarrow> 'w \<Rightarrow> bool) \<Rightarrow> string set \<Rightarrow> ('w, 'a) state \<Rightarrow> string set \<Rightarrow> bool" where
  "ht P S m S' \<longleftrightarrow> (\<forall>w. P S w \<longrightarrow> P S' (exec m w))"

named_theorems ht_rules "one rule per construct"

lemma ht_bind: "ht P S m S1 \<Longrightarrow> (\<And>x. ht P S1 (f x) S2) \<Longrightarrow> ht P S (State_Monad.bind m f) S2"
  by (simp add: ht_def)

lemma ht_return [ht_rules]: "ht P S (State_Monad.return x) S"
  and ht_skip [ht_rules]: "ht P S skip S"
  by (simp_all add: ht_def)

lemma ht_ignore [ht_rules]: "ht P S m S' \<Longrightarrow> ht P S (ignore m) S'"
  by (simp add: ht_def)

lemma ht_for_each: "(\<And>x. x \<in> set xs \<Longrightarrow> ht P S (f x) S) \<Longrightarrow> ht P S (for_each xs f) S"
proof (induction xs)
  case (Cons x xs)
  then show ?case by (auto intro: ht_bind)
qed (simp add: ht_return)

text \<open>The store under the laws.\<close>

definition expiry_ok :: "'w env \<Rightarrow> 'w store \<Rightarrow> 'w redis \<Rightarrow> (string set \<Rightarrow> 'w \<Rightarrow> bool) \<Rightarrow> bool" where
  "expiry_ok E st R P \<longleftrightarrow> st_rdb st = Some R \<and> expiry_laws E R P
     \<and> (\<forall>M. st_mongo st = Some M \<longrightarrow> mongo_no_keys M P)"

lemma expiry_parts:
  assumes "expiry_ok E st R P"
  shows "st_rdb st = Some R" "0 < SettledCacheTTL (en_lib E)" "0 < ColdDataTTL (en_lib E)"
    "\<forall>S S' w. P S w \<longrightarrow> S \<subseteq> S' \<longrightarrow> P S' w"
    "\<forall>S a w. P S w \<longrightarrow> P S (exec (TTLForActivityEnd (en_lib E) a) w)
        \<and> 0 < result (TTLForActivityEnd (en_lib E) a) w"
    "\<forall>S w. P S w \<longrightarrow> P S (exec (Now (en_lib E)) w)"
    "\<forall>S k f v w. P S w \<longrightarrow> P (insert k S) (exec (HSet R k f v) w)"
    "\<forall>S k f n w. P S w \<longrightarrow> P (insert k S) (exec (HIncrBy R k f n) w)
        \<and> (result (HIncrBy R k f n) w \<in> range Inl \<longrightarrow> P S (exec (HIncrBy R k f n) w))"
    "\<forall>S k vs w. P S w \<longrightarrow> P (insert k S) (exec (SAdd R k vs) w)"
    "\<forall>S k t w. P S w \<longrightarrow> 0 < t \<longrightarrow> P (S - {k}) (exec (Expire R k t) w)"
    "\<forall>S k v t w. P S w \<longrightarrow> 0 < t \<longrightarrow> P S (exec (SetEX R k v t) w)"
    "\<forall>S k v t w. P S w \<longrightarrow> 0 < t \<longrightarrow> P S (exec (SetNX R k v t) w)"
    "\<forall>S k f w. P S w \<longrightarrow> P S (exec (HGet R k f) w)"
    "\<forall>S k w. P S w \<longrightarrow> P S (exec (HGetAll R k) w)"
    "\<forall>S k w. P S w \<longrightarrow> P S (exec (RExists R k) w)"
    "\<forall>S k ms t w. P S w \<longrightarrow> 0 < t \<longrightarrow> P S (exec (PipeExec R [PSAdd k ms, PExpire k t]) w)"
  using assms unfolding expiry_ok_def expiry_laws_def by - (elim conjE, assumption)+

lemma ht_weaken:
  assumes "expiry_ok E st R P" "ht P S m S1" "S1 \<subseteq> S2"
  shows "ht P S m S2"
  using expiry_parts(4) [OF assms(1)] assms(2,3) unfolding ht_def by blast

lemma ht_HSet: "expiry_ok E st R P \<Longrightarrow> k \<in> S \<Longrightarrow> ht P S (HSet R k f v) S"
  using expiry_parts(7) [of E st R P] insert_absorb [of k S] unfolding ht_def by metis

lemma ht_open: "expiry_ok E st R P \<Longrightarrow> ht P (insert k S) m S' \<Longrightarrow> ht P S m S'"
  using expiry_parts(4) [of E st R P] subset_insertI [of S k] unfolding ht_def by blast

lemma ht_reads:
  assumes "expiry_ok E st R P"
  shows "ht P S (HGet R k f) S" "ht P S (HGetAll R k) S" "ht P S (RExists R k) S"
    "ht P S (TTLForActivityEnd (en_lib E) a) S" "ht P S (Now (en_lib E)) S"
  using expiry_parts(5,6,13,14,15) [OF assms] unfolding ht_def by simp_all

lemma ht_SAdd: "expiry_ok E st R P \<Longrightarrow> k \<in> S \<Longrightarrow> ht P S (SAdd R k vs) S"
  using expiry_parts(9) [of E st R P] insert_absorb [of k S] unfolding ht_def by metis

lemma ht_mongo:
  assumes "expiry_ok E st R P" "st_mongo st = Some M"
  shows "ht P S (m_SaveGroup M b g) S" "ht P S (m_LoadGroups M b) S" "ht P S (m_SaveMember M b u gid) S"
    "ht P S (m_GetMember M b u) S" "ht P S (m_LoadAllMembers M b) S" "ht P S (m_SaveRobots M b gid rs) S"
    "ht P S (m_LoadRobots M b gid) S" "ht P S (m_SaveClaim M b u t) S" "ht P S (m_GetClaim M b u) S"
proof -
  have "mongo_no_keys M P" using assms by (simp add: expiry_ok_def)
  then show "ht P S (m_SaveGroup M b g) S" "ht P S (m_LoadGroups M b) S" "ht P S (m_SaveMember M b u gid) S"
    "ht P S (m_GetMember M b u) S" "ht P S (m_LoadAllMembers M b) S" "ht P S (m_SaveRobots M b gid rs) S"
    "ht P S (m_LoadRobots M b gid) S" "ht P S (m_SaveClaim M b u t) S" "ht P S (m_GetClaim M b u) S"
    unfolding mongo_no_keys_def ht_def by simp_all
qed

lemma ht_on_mongo:
  assumes "\<And>M. st_mongo st = Some M \<Longrightarrow> ht P S (f M) S"
  shows "ht P S (on_mongo st f) S"
  using assms by (auto simp: on_mongo_def ht_skip intro: ht_ignore split: option.splits)

section \<open>Closing a key\<close>

lemma ttl_positive:
  assumes "expiry_ok E st R P" "P S w"
  shows "0 < result (writeTTL E st) w" "0 < result (backfillTTL E st) w"
  using expiry_parts(2,5) [OF assms(1)] assms(2)
  by (auto simp: writeTTL_def backfillTTL_def backfillTTLFor_def ttlFor_def)

lemma ht_ttls:
  assumes "expiry_ok E st R P"
  shows "ht P S (writeTTL E st) S" "ht P S (backfillTTL E st) S"
  using ht_reads(4) [OF assms] unfolding writeTTL_def backfillTTL_def backfillTTLFor_def ttlFor_def
  by (auto intro!: ht_bind intro: ht_return)

lemma expire_closes:
  assumes "expiry_ok E st R P" "P (insert k S) w" "0 < t"
  shows "P S (exec (Expire R k t) w)"
proof -
  have "P (insert k S - {k}) (exec (Expire R k t) w)"
    using expiry_parts(10) [OF assms(1)] assms(2,3) by blast
  moreover have "insert k S - {k} \<subseteq> S" by blast
  ultimately show ?thesis using expiry_parts(4) [OF assms(1)] by blast
qed

lemma ht_expireKey:
  assumes "expiry_ok E st R P"
  shows "ht P (insert k S) (expireKey E st k) S"
proof -
  have "st_rdb st = Some R" using assms by (simp add: expiry_ok_def)
  then show ?thesis
    using ttl_positive(1) [OF assms] ht_ttls(1) [OF assms]
    by (auto simp: expireKey_def ht_def intro!: expire_closes [OF assms])
qed

lemma ht_backfill:
  assumes "expiry_ok E st R P" "ht P (insert k S) write (insert k S)"
  shows "ht P S (backfill E st k write) S"
proof (rule ht_open [OF assms(1), of k])
  have "st_rdb st = Some R" using assms by (simp add: expiry_ok_def)
  then show "ht P (insert k S) (backfill E st k write) S"
    using assms(2) ttl_positive(2) [OF assms(1)] ht_ttls(2) [OF assms(1)]
    by (auto simp: backfill_def ht_def intro!: expire_closes [OF assms(1)])
qed

text \<open>A write to \<open>k\<close> followed by \<open>expireKey\<close>, and then the rest.\<close>

lemma ht_write_expire:
  assumes "expiry_ok E st R P" "ht P (insert k S) m (insert k S)" "\<And>x. ht P S (rest x) S"
  shows "ht P S (State_Monad.bind m (\<lambda>_. State_Monad.bind (expireKey E st k) rest)) S"
  by (rule ht_open [OF assms(1), of k], rule ht_bind [OF assms(2)],
      rule ht_bind [OF ht_expireKey [OF assms(1)]], rule assms(3))

lemma ht_write_expire_last:
  assumes "expiry_ok E st R P" "ht P (insert k S) m (insert k S)"
  shows "ht P S (State_Monad.bind m (\<lambda>_. expireKey E st k)) S"
  by (rule ht_open [OF assms(1), of k], rule ht_bind [OF assms(2)], rule ht_expireKey [OF assms(1)])

lemma ht_HSet_insert: "expiry_ok E st R P \<Longrightarrow> ht P (insert k S) (HSet R k f v) (insert k S)"
  by (rule ht_HSet) auto

lemma ht_mongoChecked:
  assumes "expiry_ok E st R P"
  shows "ht P S (isMongoChecked E st R) S" "ht P S (setMongoChecked E st R) S"
proof -
  show "ht P S (isMongoChecked E st R) S"
    unfolding isMongoChecked_def
    by (rule ht_bind [OF ht_reads(3) [OF assms]]) (auto intro: ht_return split: prod.splits)
  show "ht P S (setMongoChecked E st R) S"
    using expiry_parts(12) [OF assms]
    by (auto simp: setMongoChecked_def ht_def mongoCheckedTTL_def minute_ns_def)
qed

section \<open>The operations\<close>

lemma ht_SaveGroup:
  assumes "expiry_ok E st R P"
  shows "ht P S (SaveGroup E st g) S"
  unfolding SaveGroup_def Let_def expiry_parts(1) [OF assms] option.case
  by (intro ht_write_expire [OF assms] ht_HSet_insert [OF assms] ht_on_mongo ht_mongo(1) [OF assms])

lemma ht_SetMember:
  assumes "expiry_ok E st R P"
  shows "ht P S (SetMember E st u gid) S"
  unfolding SetMember_def Let_def expiry_parts(1) [OF assms] option.case
  by (intro ht_write_expire [OF assms] ht_HSet_insert [OF assms] ht_on_mongo ht_mongo(3) [OF assms])

lemma ht_SetClaim:
  assumes "expiry_ok E st R P"
  shows "ht P S (SetClaim E st u t) S"
  unfolding SetClaim_def Let_def expiry_parts(1) [OF assms] option.case
  by (intro ht_write_expire [OF assms] ht_HSet_insert [OF assms] ht_on_mongo ht_mongo(8) [OF assms])

lemma ht_SaveRobots:
  assumes "expiry_ok E st R P"
  shows "ht P S (SaveRobots E st gid robots) S"
proof -
  have w: "ht P (insert k S) (save_robots_redis R k robots) (insert k S)" for k
    unfolding save_robots_redis_def
    by (intro ht_for_each ht_ignore ht_HSet_insert [OF assms])
  show ?thesis
    unfolding SaveRobots_def Let_def expiry_parts(1) [OF assms] option.case
    by (auto intro!: ht_write_expire [OF assms] w ht_on_mongo ht_mongo(6) [OF assms] ht_skip)
qed

lemma ht_SaveUsedInfoIDs:
  assumes "expiry_ok E st R P"
  shows "ht P S (SaveUsedInfoIDs E st gid ids) S"
  unfolding SaveUsedInfoIDs_def Let_def expiry_parts(1) [OF assms] option.case
  by (auto intro!: ht_write_expire_last [OF assms] ht_SAdd [OF assms] ht_skip)

lemma ht_HIncrBy_cases:
  assumes "expiry_ok E st R P" "P S w"
    and "\<And>e. result (HIncrBy R k f n) w = Inl e \<Longrightarrow> P S (exec (HIncrBy R k f n) w) \<Longrightarrow> Q"
    and "\<And>v. result (HIncrBy R k f n) w = Inr v \<Longrightarrow> P (insert k S) (exec (HIncrBy R k f n) w) \<Longrightarrow> Q"
  shows Q
proof (cases "result (HIncrBy R k f n) w")
  case (Inl e)
  then have "result (HIncrBy R k f n) w \<in> range Inl" by simp
  then show ?thesis using expiry_parts(8) [OF assms(1)] assms(2,3) Inl by blast
next
  case (Inr v)
  then show ?thesis using expiry_parts(8) [OF assms(1)] assms(2,4) by blast
qed

lemma ht_exec: "ht P S m S' \<Longrightarrow> P S w \<Longrightarrow> P S' (exec m w)"
  by (simp add: ht_def)

lemma ht_incr_then:
  assumes ok: "expiry_ok E st R P" and err: "\<And>e. ht P S (fe (Inl e)) S"
    and cont: "\<And>v. ht P (insert k S) (fe (Inr v)) S"
  shows "ht P S (State_Monad.bind (HIncrBy R k f n) fe) S"
proof (unfold ht_def, intro allI impI)
  fix w assume w: "P S w"
  show "P S (exec (State_Monad.bind (HIncrBy R k f n) fe) w)"
    by (rule ht_HIncrBy_cases [OF ok w, of k f n]) (auto intro: ht_exec [OF err] ht_exec [OF cont])
qed

lemma ht_NextGroupID:
  assumes "expiry_ok E st R P"
  shows "ht P S (NextGroupID E st) S"
  unfolding NextGroupID_def expiry_parts(1) [OF assms] option.case
  by (rule ht_incr_then [OF assms])
    (auto intro!: ht_bind [OF ht_expireKey [OF assms]] ht_return)

lemma ht_IncrRealCount:
  assumes "expiry_ok E st R P"
  shows "ht P S (IncrRealCount E st g) S"
  unfolding IncrRealCount_def Let_def expiry_parts(1) [OF assms] option.case
proof (rule ht_incr_then [OF assms], goal_cases)
  case (1 e)
  show ?case by (simp add: ht_return)
next
  case (2 v)
  show ?case
    by (auto intro!: ht_bind [OF ht_expireKey [OF assms]] ht_write_expire [OF assms] ht_HSet_insert [OF assms]
        ht_bind [OF ht_on_mongo] ht_mongo(1) [OF assms] ht_return)
qed

lemma ht_RestoreNextGroupID:
  assumes "expiry_ok E st R P"
  shows "ht P S (RestoreNextGroupID E st n) S"
proof -
  have "ht P S (State_Monad.bind (HGet R k f) (\<lambda>cur. State_Monad.bind
          (if b cur then ignore (HSet R k f' v) else skip) (\<lambda>_. expireKey E st k))) S" for k f f' v b
    by (rule ht_bind [OF ht_reads(1) [OF assms]])
      (auto intro!: ht_write_expire_last [OF assms] ht_ignore ht_HSet_insert [OF assms] ht_skip)
  then show ?thesis
    unfolding RestoreNextGroupID_def Let_def expiry_parts(1) [OF assms] option.case
    by (auto intro: ht_skip)
qed

lemma ht_RestoreSettled:
  assumes "expiry_ok E st R P"
  shows "ht P S (RestoreSettled E st i snaps) S"
proof -
  have "ht P S (State_Monad.bind (backfillTTL E st) (\<lambda>ttl. ignore (SetEX R k v ttl))) S" for k v
    using ht_ttls(2) [OF assms] ttl_positive(2) [OF assms] expiry_parts(11) [OF assms]
    by (auto simp: ht_def)
  then show ?thesis
    unfolding RestoreSettled_def expiry_parts(1) [OF assms] option.case
    by (auto intro: ht_skip split: option.splits)
qed

lemma ht_registerActive:
  assumes "expiry_ok E st R P"
  shows "ht P S (registerActive E st R c g) S"
proof -
  have pipe: "ht P S (ignore (PipeExec R [PSAdd k ms, PExpire k (ColdDataTTL (en_lib E))])) S" for k ms
    using expiry_parts(3,16) [OF assms] by (auto simp: ht_def)
  show ?thesis
    unfolding registerActive_def Let_def
    by (rule ht_bind [of P S _ S])
      (auto intro!: pipe ht_bind [OF ht_reads(5) [OF assms]] ht_return)
qed

lemma ht_SaveActivityTimes:
  assumes "expiry_ok E st R P"
  shows "ht P S (SaveActivityTimes E st o1 c g) S"
proof -
  have ex: "P S (exec (Expire R k (result (ttlFor E a) w)) (exec (ttlFor E a) w))"
    if "P (insert k S) w" for k a w
    using expiry_parts(5) [OF assms] that unfolding ttlFor_def
    by (intro expire_closes [OF assms]) blast+
  have close: "ht P (insert k S) (State_Monad.bind (ttlFor E a) (\<lambda>ttl. State_Monad.bind (Expire R k ttl)
      (\<lambda>_. registerActive E st R c g))) S" for k a
    unfolding ht_def by (auto intro: ht_exec [OF ht_registerActive [OF assms]] ex)
  show ?thesis
    unfolding SaveActivityTimes_def Let_def expiry_parts(1) [OF assms] option.case
    by (rule ht_open [OF assms, of "GetRankMetaKey (en_keys E) (st_bizId st)"],
        (rule ht_bind [OF ht_HSet_insert [OF assms]])+, rule close)
qed

lemma ht_LoadGroups:
  assumes "expiry_ok E st R P"
  shows "ht P S (LoadGroups E st) S"
proof -
  have w: "ht P (insert k S) (save_groups_redis R k gs) (insert k S)" for k gs
    unfolding save_groups_redis_def by (intro ht_for_each ht_ignore ht_HSet_insert [OF assms])
  show ?thesis
    unfolding LoadGroups_def Let_def expiry_parts(1) [OF assms] option.case
    by (auto intro!: ht_bind [OF ht_reads(2) [OF assms]] ht_bind [OF ht_mongoChecked(1) [OF assms]]
        ht_bind [OF ht_mongo(2) [OF assms]] ht_bind [OF ht_mongoChecked(2) [OF assms]]
        ht_bind [OF ht_backfill [OF assms w]] ht_return split: sum.splits list.splits option.splits)
qed

lemma ht_LoadRobots:
  assumes "expiry_ok E st R P"
  shows "ht P S (LoadRobots E st gid) S"
proof -
  have w: "ht P (insert k S) (save_robots_redis R k rs) (insert k S)" for k rs
    unfolding save_robots_redis_def by (intro ht_for_each ht_ignore ht_HSet_insert [OF assms])
  show ?thesis
    unfolding LoadRobots_def Let_def expiry_parts(1) [OF assms] option.case
    by (auto intro!: ht_bind [OF ht_reads(2) [OF assms]] ht_bind [OF ht_mongo(7) [OF assms]]
        ht_bind [OF ht_backfill [OF assms w]] ht_return split: sum.splits list.splits option.splits)
qed

lemma ht_GetMember:
  assumes "expiry_ok E st R P"
  shows "ht P S (GetMember E st u) S"
  unfolding GetMember_def Let_def expiry_parts(1) [OF assms] option.case
  by (auto intro!: ht_bind [OF ht_reads(1) [OF assms]] ht_bind [OF ht_mongo(4) [OF assms]]
      ht_bind [OF ht_backfill [OF assms]] ht_ignore ht_HSet_insert [OF assms] ht_return
      split: sum.splits cached.splits option.splits)

lemma ht_GetClaim:
  assumes "expiry_ok E st R P"
  shows "ht P S (GetClaim E st u) S"
  unfolding GetClaim_def Let_def expiry_parts(1) [OF assms] option.case
  by (auto intro!: ht_bind [OF ht_reads(1) [OF assms]] ht_bind [OF ht_mongo(9) [OF assms]]
      ht_bind [OF ht_backfill [OF assms]] ht_ignore ht_HSet_insert [OF assms] ht_return
      split: sum.splits cached.splits option.splits)

lemma ht_GetAllMembers:
  assumes "expiry_ok E st R P"
  shows "ht P S (GetAllMembers E st) S"
proof -
  have w: "ht P (insert k S) (for_each ms (\<lambda>(uid, gid). ignore (HSet R k (f uid) (v gid)))) (insert k S)"
    for k ms f v
    by (intro ht_for_each) (auto intro!: ht_ignore ht_HSet_insert [OF assms])
  show ?thesis
    unfolding GetAllMembers_def Let_def expiry_parts(1) [OF assms] option.case
    by (auto intro!: ht_bind [OF ht_reads(2) [OF assms]] ht_bind [OF ht_mongoChecked(1) [OF assms]]
        ht_bind [OF ht_mongo(5) [OF assms]] ht_bind [OF ht_mongoChecked(2) [OF assms]]
        ht_bind [OF ht_backfill [OF assms w]] ht_return simp del: for_each.simps
        split: sum.splits list.splits option.splits)
qed


lemma mem_expiry_ok: "expiry_ok mem_env (mem_store b) mem_redis mem_perm"
  using mem_expiry_laws mem_mongo_no_keys
  by (simp add: expiry_ok_def mem_store_def st_mongo_def)


end
