(* ===== verification/Claims.thy ===== *)
theory Claims
  imports MemWorld
begin

text \<open>
  Reward claims (\<open>Store.AtomicClaim\<close>, \<open>Store.GetClaim\<close>): MongoDB's ledger decides who claimed first,
  Redis is a cache in front of it.
\<close>

section \<open>The ledger\<close>

text \<open>\<open>ledger w (bizId, userID)\<close> is the claim time MongoDB holds. A conditional insert that answers
  inserts exactly when there is no entry; one that fails may or may not have inserted, but never
  changes an entry. Reading tells the entry.\<close>

definition claim_laws :: "'w store_mongo \<Rightarrow> ('w \<Rightarrow> string \<times> int64 \<Rightarrow> int64 option) \<Rightarrow> bool" where
  "claim_laws M ledger \<longleftrightarrow>
     (\<forall>b u t w k v. ledger w k = Some v \<longrightarrow> ledger (exec (m_SaveClaimIfNotExists M b u t) w) k = Some v)
   \<and> (\<forall>b u t w t'. result (m_SaveClaimIfNotExists M b u t) w = Inr (True, t') \<longrightarrow>
        t' = t \<and> ledger w (b, u) = None \<and> ledger (exec (m_SaveClaimIfNotExists M b u t) w) (b, u) = Some t)
   \<and> (\<forall>b u t w t'. result (m_SaveClaimIfNotExists M b u t) w = Inr (False, t') \<longrightarrow> ledger w (b, u) = Some t')
   \<and> (\<forall>b u w. ledger (exec (m_GetClaim M b u) w) = ledger w)
   \<and> (\<forall>b u w x. result (m_GetClaim M b u) w = Inr x \<longrightarrow> x = ledger w (b, u))"

text \<open>Redis and the clock do not touch the ledger.\<close>

definition redis_apart :: "'w env \<Rightarrow> 'w redis \<Rightarrow> ('w \<Rightarrow> string \<times> int64 \<Rightarrow> int64 option) \<Rightarrow> bool" where
  "redis_apart E R ledger \<longleftrightarrow>
     (\<forall>k f. keeps ledger (lua_HGet R k f)) \<and> (\<forall>k f v. keeps ledger (lua_HSet R k f v))
   \<and> keeps ledger (eval_begin R) \<and> keeps ledger (eval_end R)
   \<and> (\<forall>k f v. keeps ledger (HSet R k f v)) \<and> (\<forall>k t. keeps ledger (Expire R k t))
   \<and> (\<forall>a. keeps ledger (TTLForActivityEnd (en_lib E) a))"

definition claims_ok ::
  "'w env \<Rightarrow> 'w store \<Rightarrow> 'w redis \<Rightarrow> 'w store_mongo \<Rightarrow> ('w \<Rightarrow> string \<times> int64 \<Rightarrow> int64 option) \<Rightarrow> bool" where
  "claims_ok E st R M ledger \<longleftrightarrow> st_rdb st = Some R \<and> st_mongo st = Some M
     \<and> claim_laws M ledger \<and> redis_apart E R ledger"

lemma keeps_exec: "keeps f m \<Longrightarrow> f (exec m w) = f w"
  by (simp add: keeps_def)

lemma ledger_Eval:
  assumes "redis_apart E R ledger"
  shows "ledger (exec (Eval R (atomicClaimScript R k a b c)) w) = ledger w"
  using assms unfolding redis_apart_def
  by (auto simp: Eval_def atomicClaimScript_def keeps_def split: sum.splits option.splits)

lemma ledger_backfillTTL:
  assumes "redis_apart E R ledger"
  shows "ledger (exec (backfillTTL E st) w) = ledger w"
  using assms by (simp add: redis_apart_def keeps_def backfillTTL_def backfillTTLFor_def ttlFor_def)

lemma ledger_writes:
  assumes "redis_apart E R ledger"
  shows "ledger (exec (HSet R k f v) w) = ledger w" "ledger (exec (Expire R k t) w) = ledger w"
  using assms by (simp_all add: redis_apart_def keeps_def)

lemma claim_parts:
  assumes "claim_laws M ledger"
  shows "\<forall>b u t w k v. ledger w k = Some v \<longrightarrow> ledger (exec (m_SaveClaimIfNotExists M b u t) w) k = Some v"
    "\<forall>b u t w t'. result (m_SaveClaimIfNotExists M b u t) w = Inr (True, t') \<longrightarrow>
        t' = t \<and> ledger w (b, u) = None \<and> ledger (exec (m_SaveClaimIfNotExists M b u t) w) (b, u) = Some t"
    "\<forall>b u t w t'. result (m_SaveClaimIfNotExists M b u t) w = Inr (False, t') \<longrightarrow> ledger w (b, u) = Some t'"
    "\<forall>b u w. ledger (exec (m_GetClaim M b u) w) = ledger w"
    "\<forall>b u w x. result (m_GetClaim M b u) w = Inr x \<longrightarrow> x = ledger w (b, u)"
  using assms unfolding claim_laws_def by - (elim conjE, assumption)+

text \<open>A first claim is new to MongoDB and recorded there; a recorded claim is never changed.\<close>

lemma AtomicClaim_ledger:
  assumes "claims_ok E st R M ledger"
  shows "result (AtomicClaim E st u now) w = Inr (False, t) \<Longrightarrow>
      t = now \<and> ledger w (st_bizId st, u) = None
      \<and> ledger (exec (AtomicClaim E st u now) w) (st_bizId st, u) = Some now"
    and "ledger w k = Some v \<Longrightarrow> ledger (exec (AtomicClaim E st u now) w) k = Some v"
proof -
  have p: "st_rdb st = Some R" "st_mongo st = Some M" "claim_laws M ledger" "redis_apart E R ledger"
    using assms by (simp_all add: claims_ok_def)
  have mono: "ledger w k = Some x \<Longrightarrow> ledger (exec (m_SaveClaimIfNotExists M b v t) w) k = Some x" for b v t w k x
    using claim_parts(1) [OF p(3)] by blast
  have first: "result (m_SaveClaimIfNotExists M b v t) w = Inr (True, t') \<Longrightarrow>
      t' = t \<and> ledger w (b, v) = None \<and> ledger (exec (m_SaveClaimIfNotExists M b v t) w) (b, v) = Some t"
    for b v t w t'
    using claim_parts(2) [OF p(3)] by blast
  have get: "ledger (exec (m_GetClaim M b v) w) = ledger w" for b v w
    using claim_parts(4) [OF p(3)] by blast
  note A = ledger_Eval [OF p(4)] ledger_backfillTTL [OF p(4)] ledger_writes [OF p(4)] get
  show "result (AtomicClaim E st u now) w = Inr (False, t) \<Longrightarrow>
      t = now \<and> ledger w (st_bizId st, u) = None
      \<and> ledger (exec (AtomicClaim E st u now) w) (st_bizId st, u) = Some now"
    unfolding AtomicClaim_def p(1,2) option.case Let_def
    by (auto simp: A mono dest!: first split: sum.splits option.splits prod.splits if_splits)
  show "ledger w k = Some v \<Longrightarrow> ledger (exec (AtomicClaim E st u now) w) k = Some v"
    unfolding AtomicClaim_def p(1,2) option.case Let_def
    by (auto simp: A mono split: sum.splits option.splits prod.splits if_splits)
qed

section \<open>Any number of claims\<close>

text \<open>Claims of one user, one after the other, each preceded by whatever happens in between.\<close>

fun claim_run ::
  "'w env \<Rightarrow> 'w store \<Rightarrow> int64 \<Rightarrow> (('w \<Rightarrow> 'w) \<times> int64) list \<Rightarrow> 'w \<Rightarrow> (goerr + bool \<times> int64) list" where
  "claim_run E st u [] w = []"
| "claim_run E st u ((f, now) # cs) w =
     result (AtomicClaim E st u now) (f w) # claim_run E st u cs (exec (AtomicClaim E st u now) (f w))"

definition is_first :: "goerr + bool \<times> int64 \<Rightarrow> bool" where
  "is_first r = (case r of Inr (False, _) \<Rightarrow> True | _ \<Rightarrow> False)"

definition keeps_claims :: "('w \<Rightarrow> string \<times> int64 \<Rightarrow> int64 option) \<Rightarrow> ('w \<Rightarrow> 'w) \<Rightarrow> bool" where
  "keeps_claims ledger f \<longleftrightarrow> (\<forall>w k v. ledger w k = Some v \<longrightarrow> ledger (f w) k = Some v)"

lemma no_first_after_claim:
  assumes "claims_ok E st R M ledger" "\<forall>c \<in> set cs. keeps_claims ledger (fst c)"
    and "ledger w (st_bizId st, u) = Some t"
  shows "filter is_first (claim_run E st u cs w) = []"
  using assms(2,3)
proof (induction cs arbitrary: w t)
  case (Cons c cs)
  obtain f now where c: "c = (f, now)" by (cases c)
  have f: "ledger (f w) (st_bizId st, u) = Some t"
    using Cons.prems c by (auto simp: keeps_claims_def)
  have "\<not> is_first (result (AtomicClaim E st u now) (f w))"
    using AtomicClaim_ledger(1) [OF assms(1), of u now "f w"] f
    by (auto simp: is_first_def split: sum.splits prod.splits bool.splits)
  moreover have "ledger (exec (AtomicClaim E st u now) (f w)) (st_bizId st, u) = Some t"
    using AtomicClaim_ledger(2) [OF assms(1)] f by blast
  ultimately show ?case using Cons c by simp
qed simp

text \<open>Claim C3: a reward is granted at most once. In any sequence of claims of a user, at any times and
  with anything happening in between that does not delete claims from MongoDB (evictions and stale
  entries in Redis, failures, claims of other users, other nodes), at most one call answers that
  the claim is the first, and then MongoDB had no claim of the user before and holds this one after.\<close>

theorem at_most_one_first_claim:
  assumes "claims_ok E st R M ledger" "\<forall>c \<in> set cs. keeps_claims ledger (fst c)"
  shows "length (filter is_first (claim_run E st u cs w)) \<le> 1
    \<and> (\<forall>now t. result (AtomicClaim E st u now) w = Inr (False, t) \<longrightarrow>
        t = now \<and> ledger w (st_bizId st, u) = None
        \<and> ledger (exec (AtomicClaim E st u now) w) (st_bizId st, u) = Some now)"
proof -
  have "length (filter is_first (claim_run E st u cs w)) \<le> 1"
    using assms(2)
  proof (induction cs arbitrary: w)
    case (Cons c cs)
    obtain f now where c: "c = (f, now)" by (cases c)
    show ?case
    proof (cases "is_first (result (AtomicClaim E st u now) (f w))")
      case True
      then have "ledger (exec (AtomicClaim E st u now) (f w)) (st_bizId st, u) = Some now"
        using AtomicClaim_ledger(1) [OF assms(1), of u now "f w"]
        by (auto simp: is_first_def split: sum.splits prod.splits bool.splits)
      then have "filter is_first (claim_run E st u cs (exec (AtomicClaim E st u now) (f w))) = []"
        using Cons.prems by (intro no_first_after_claim [OF assms(1)]) auto
      then show ?thesis using c by simp
    next
      case False
      then show ?thesis using c Cons by simp
    qed
  qed simp
  then show ?thesis using AtomicClaim_ledger(1) [OF assms(1)] by blast
qed

section \<open>The cache in front of the ledger\<close>

text \<open>Redis as the script sees it, with nobody else writing.\<close>

definition lview :: "'w redis \<Rightarrow> 'w \<Rightarrow> string \<Rightarrow> string \<Rightarrow> goerr + rval option" where
  "lview R w k f = result (lua_HGet R k f) w"

definition lua_laws :: "'w env \<Rightarrow> 'w redis \<Rightarrow> 'w store_mongo \<Rightarrow> bool" where
  "lua_laws E R M \<longleftrightarrow>
     (\<forall>k f w. exec (lua_HGet R k f) w = w)
   \<and> (\<forall>k f v w. result (lua_HSet R k f v) w = None
        \<and> lview R (exec (lua_HSet R k f v) w) = (lview R w)(k := (lview R w k)(f := Inr (Some v))))
   \<and> (\<forall>k f v w. lview R (exec (HSet R k f v) w) = (lview R w)(k := (lview R w k)(f := Inr (Some v))))
   \<and> keeps (lview R) (eval_begin R) \<and> keeps (lview R) (eval_end R)
   \<and> (\<forall>k t. keeps (lview R) (Expire R k t))
   \<and> (\<forall>a. keeps (lview R) (TTLForActivityEnd (en_lib E) a))
   \<and> (\<forall>b u. keeps (lview R) (m_GetClaim M b u))
   \<and> (\<forall>b u t. keeps (lview R) (m_SaveClaimIfNotExists M b u t))"

definition in_cache :: "'w env \<Rightarrow> 'w store \<Rightarrow> 'w redis \<Rightarrow> 'w \<Rightarrow> int64 \<Rightarrow> int64 \<Rightarrow> bool" where
  "in_cache E st R w u t \<longleftrightarrow> (\<exists>v. lview R w (GetRankClaimsKey (en_keys E) (st_bizId st)) (FormatInt u) = Inr (Some v)
     \<and> v \<noteq> Txt nullCacheEntry \<and> fst (rv_ParseInt v 64) = t)"

lemma FormatInt_not_null: "FormatInt n \<noteq> nullCacheEntry"
proof
  assume "FormatInt n = nullCacheEntry"
  then have "CHR 0x00 \<in> set (FormatInt n)" by (simp add: nullCacheEntry_def)
  then have "is_digit CHR 0x00 \<or> CHR 0x00 = CHR ''-''" by (rule FormatInt_chars)
  then show False by (simp add: is_digit_def)
qed

lemma cached_write:
  assumes "lua_laws E R M" "in64 t"
  shows "in_cache E st R (exec (HSet R (GetRankClaimsKey (en_keys E) (st_bizId st)) (FormatInt u) (Txt (FormatInt t))) w) u t"
  using assms FormatInt_not_null by (simp add: in_cache_def lua_laws_def)

text \<open>A cached claim answers the next call: nothing is written, MongoDB is not asked.\<close>

lemma AtomicClaim_cached:
  assumes st: "st_rdb st = Some R" and "lua_laws E R M" "in_cache E st R w u t"
    and up: "\<And>w. result (eval_begin R) w = None" "\<And>w. result (eval_end R) w = None"
  shows "result (AtomicClaim E st u now) w = Inr (True, t)"
proof -
  let ?k = "GetRankClaimsKey (en_keys E) (st_bizId st)"
  obtain v where v: "lview R w ?k (FormatInt u) = Inr (Some v)" "v \<noteq> Txt nullCacheEntry"
      "fst (rv_ParseInt v 64) = t"
    using assms(3) by (auto simp: in_cache_def)
  have "lview R (exec (eval_begin R) w) = lview R w"
    using assms(2) by (simp add: lua_laws_def keeps_def)
  then have get: "result (lua_HGet R ?k (FormatInt u)) (exec (eval_begin R) w) = Inr (Some v)"
    using v(1) by (simp add: lview_def fun_eq_iff)
  show ?thesis
    unfolding AtomicClaim_def st option.case Let_def
    using v get up by (simp add: Eval_def atomicClaimScript_def claim_reply_def)
qed

text \<open>After the script set the cell, whatever the rest of the call did, the user's cell holds a claim
  time: this call's, or the one MongoDB answered.\<close>

lemma AtomicClaim_fills_cache:
  assumes ok: "claims_ok E st R M ledger" and L: "lua_laws E R M"
    and up: "\<And>w. result (eval_begin R) w = None" "\<And>w. result (eval_end R) w = None"
    and empty: "lview R w (GetRankClaimsKey (en_keys E) (st_bizId st)) (FormatInt u) = Inr None"
    and "in64 now" and times: "\<And>t. ledger w (st_bizId st, u) = Some t \<Longrightarrow> in64 t"
  shows "(case result (AtomicClaim E st u now) w of
      Inl _ \<Rightarrow> in_cache E st R (exec (AtomicClaim E st u now) w) u now
    | Inr (_, t) \<Rightarrow> in_cache E st R (exec (AtomicClaim E st u now) w) u t)"
proof -
  let ?k = "GetRankClaimsKey (en_keys E) (st_bizId st)"
  have st: "st_rdb st = Some R" "st_mongo st = Some M" "claim_laws M ledger" "redis_apart E R ledger"
    using ok by (simp_all add: claims_ok_def)
  have get_mongo: "result (m_GetClaim M b v) x = Inr y \<Longrightarrow> y = ledger x (b, v)" for b v x y
    using claim_parts(5) [OF st(3)] by metis
  have save_first: "result (m_SaveClaimIfNotExists M b v s) x = Inr (True, t) \<Longrightarrow> t = s" for b v s x t
    using claim_parts(2) [OF st(3)] by metis
  have save_again: "result (m_SaveClaimIfNotExists M b v s) x = Inr (False, t) \<Longrightarrow> ledger x (b, v) = Some t"
    for b v s x t
    using claim_parts(3) [OF st(3)] by metis
  have get_keeps: "ledger (exec (m_GetClaim M b v) x) = ledger x" for b v x
    using claim_parts(4) [OF st(3)] by metis
  have keep: "lview R (exec (eval_begin R) w) = lview R w" "lview R (exec (eval_end R) w) = lview R w"
    "lview R (exec (Expire R k t) w) = lview R w" "lview R (exec (backfillTTL E st) w) = lview R w"
    "lview R (exec (m_GetClaim M b v) w) = lview R w"
    "lview R (exec (m_SaveClaimIfNotExists M b v t) w) = lview R w" for k t b v w
    using L by (simp_all add: lua_laws_def keeps_def backfillTTL_def backfillTTLFor_def ttlFor_def)
  have get: "result (lua_HGet R ?k (FormatInt u)) (exec (eval_begin R) w) = Inr None"
    "exec (lua_HGet R k f) x = x" "result (lua_HSet R k f v) x = None"
    "lview R (exec (lua_HSet R k f v) x) = (lview R x)(k := (lview R x k)(f := Inr (Some v)))" for k f v x
    using empty keep(1) [of w] L by (simp_all add: lview_def lua_laws_def fun_eq_iff)
  have hset: "in64 t \<Longrightarrow> in_cache E st R (exec (HSet R ?k (FormatInt u) (Txt (FormatInt t))) x) u t" for t x
    using cached_write [OF L] by blast
  have now: "in_cache E st R x u now" if "lview R x ?k (FormatInt u) = Inr (Some (Txt (FormatInt now)))" for x
    using that FormatInt_not_null \<open>in64 now\<close> by (simp add: in_cache_def)
  let ?script = "Eval R (atomicClaimScript R ?k (FormatInt u) (Txt (FormatInt now)) (Txt nullCacheEntry))"
  define w1 where "w1 = exec ?script w"
  have script: "result ?script w = Inr (LuaArr [LuaInt 0, LuaStr (Txt (FormatInt now))])"
    "lview R w1 ?k (FormatInt u) = Inr (Some (Txt (FormatInt now)))"
    by (simp_all add: Eval_def atomicClaimScript_def up get keep w1_def)
  define w4 where "w4 = exec (Expire R ?k (result (backfillTTL E st) w1)) (exec (backfillTTL E st) w1)"
  have w4: "lview R w4 ?k (FormatInt u) = Inr (Some (Txt (FormatInt now)))" "ledger w4 = ledger w"
    using script(2) ledger_Eval [OF st(4)] ledger_backfillTTL [OF st(4)] ledger_writes [OF st(4)]
    by (simp_all add: w4_def keep w1_def)
  let ?found = "result (m_GetClaim M (st_bizId st) u) w4" and ?w5 = "exec (m_GetClaim M (st_bizId st) u) w4"
  let ?saved = "result (m_SaveClaimIfNotExists M (st_bizId st) u now) ?w5"
  have run: "run_state (AtomicClaim E st u now) w = (case ?found of
      Inl e \<Rightarrow> (Inl e, ?w5)
    | Inr (Some t) \<Rightarrow> (Inr (True, t), exec (HSet R ?k (FormatInt u) (Txt (FormatInt t))) ?w5)
    | Inr None \<Rightarrow> (case ?saved of
          Inl e \<Rightarrow> (Inl e, exec (m_SaveClaimIfNotExists M (st_bizId st) u now) ?w5)
        | Inr (True, t) \<Rightarrow> (Inr (False, now), exec (m_SaveClaimIfNotExists M (st_bizId st) u now) ?w5)
        | Inr (False, t) \<Rightarrow> (Inr (True, t), exec (HSet R ?k (FormatInt u) (Txt (FormatInt t)))
              (exec (m_SaveClaimIfNotExists M (st_bizId st) u now) ?w5))))"
    unfolding AtomicClaim_def st(1,2) option.case Let_def run_state_split
    using \<open>in64 now\<close>
    by (simp add: script(1) claim_reply_def w1_def [symmetric] w4_def [symmetric]
        split: sum.splits option.splits prod.splits bool.splits)
  have cell: "in_cache E st R ?w5 u now"
    "in_cache E st R (exec (m_SaveClaimIfNotExists M (st_bizId st) u now) ?w5) u now"
    using w4(1) by (auto intro: now simp: keep)
  have t64: "?found = Inr (Some t) \<Longrightarrow> in64 t" "?saved = Inr (False, t) \<Longrightarrow> in64 t" for t
    using get_mongo [of "st_bizId st" u w4] save_again [of "st_bizId st" u now ?w5] times w4(2) get_keeps
    by force+
  show ?thesis
    unfolding result_def [of "AtomicClaim E st u now"] exec_def [of "AtomicClaim E st u now"] run
    by (auto simp: cell intro: hset t64 split: sum.splits option.splits prod.splits bool.splits)
qed

text \<open>A retry is told the truth. After a claim that was answered, a second claim of the
  user finds the time in Redis and answers \<open>claimed\<close> with the very time the first was told; it
  does not need MongoDB.\<close>

theorem claim_retry_same_time:
  assumes "claims_ok E st R M ledger" "lua_laws E R M"
    and "\<forall>w. result (eval_begin R) w = None" "\<forall>w. result (eval_end R) w = None"
    and "lview R w (GetRankClaimsKey (en_keys E) (st_bizId st)) (FormatInt u) = Inr None"
    and "in64 now" "\<forall>t. ledger w (st_bizId st, u) = Some t \<longrightarrow> in64 t"
    and "result (AtomicClaim E st u now) w = Inr (c, t)"
  shows "result (AtomicClaim E st u later) (exec (AtomicClaim E st u now) w) = Inr (True, t)"
proof -
  have "in_cache E st R (exec (AtomicClaim E st u now) w) u t"
    using AtomicClaim_fills_cache [OF assms(1,2), of w u now] assms by simp
  then show ?thesis using AtomicClaim_cached [of st R E M] assms unfolding claims_ok_def by blast
qed

text \<open>Claim C37: a fault of the code. When the first claim of a user fails at MongoDB, the call reports
  the error, but Redis keeps the claim time the script wrote. However the world goes on, as long as
  the cell stays in Redis, every later call answers that the reward was already claimed, though no
  call ever granted it. (In the witness MongoDB is down for the first call and back for the
  second, and holds no claim at the end.)\<close>

theorem failed_claim_is_lost:
  assumes "claims_ok E st R M ledger" "lua_laws E R M"
    and "\<forall>w. result (eval_begin R) w = None" "\<forall>w. result (eval_end R) w = None"
    and "lview R w (GetRankClaimsKey (en_keys E) (st_bizId st)) (FormatInt u) = Inr None"
    and "in64 now" "\<forall>t. ledger w (st_bizId st, u) = Some t \<longrightarrow> in64 t"
    and "result (AtomicClaim E st u now) w = Inl e"
    and "\<forall>w. lview R (f w) = lview R w"
  shows "result (AtomicClaim E st u later) (f (exec (AtomicClaim E st u now) w)) = Inr (True, now)"
proof -
  have "in_cache E st R (exec (AtomicClaim E st u now) w) u now"
    using AtomicClaim_fills_cache [OF assms(1,2), of w u now] assms by simp
  then have "in_cache E st R (f (exec (AtomicClaim E st u now) w)) u now"
    using assms by (simp add: in_cache_def)
  then show ?thesis using AtomicClaim_cached [of st R E M] assms unfolding claims_ok_def by blast
qed

section \<open>Witnesses\<close>

definition mem_ledger :: "mem \<Rightarrow> string \<times> int64 \<Rightarrow> int64 option" where
  "mem_ledger w k = map_of (mw_claims w) k"

lemma mem_claims_ok: "claims_ok mem_env (mem_store b) mem_redis mem_mongo mem_ledger"
proof -
  have l: "mem_ledger (mem_hset k f v w) = mem_ledger w" "mem_ledger (mem_expire k w) = mem_ledger w" for k f v w
    by (auto simp: mem_ledger_def mem_hset_def mem_touch_def mem_expire_def Let_def fun_eq_iff)
  have "claim_laws mem_mongo mem_ledger"
    by (auto simp: claim_laws_def mem_mongo_def mem_ledger_def or_down_def update_conv'
        split: option.splits if_splits)
  moreover have "redis_apart mem_env mem_redis mem_ledger"
    by (auto simp: redis_apart_def mem_redis_def mem_env_def mem_lib_def keeps_def l)
  ultimately show ?thesis by (simp add: claims_ok_def mem_store_def st_mongo_def mem_mongo_def)
qed

lemma mem_lua_laws: "lua_laws mem_env mem_redis mem_mongo"
  by (auto simp: lua_laws_def mem_simps lview_def keeps_def mem_hget_hset fun_eq_iff split: option.splits)

theorem at_most_one_first_claim_witness:
  "length (filter is_first (claim_run mem_env (mem_store ''a_1'') 42
     [(id, 100), (\<lambda>w. w\<lparr>mw_hash := []\<rparr>, 200), (id, 300)] empty_mem)) \<le> 1"
  using at_most_one_first_claim [OF mem_claims_ok, of "[(id, 100), (\<lambda>w. w\<lparr>mw_hash := []\<rparr>, 200), (id, 300)]"
      "''a_1''" 42 empty_mem]
  by (simp add: keeps_claims_def mem_ledger_def)

definition down_mem :: mem where
  "down_mem = empty_mem\<lparr>mw_mongo_down := True\<rparr>"

lemmas mem_claim_simps = AtomicClaim_def mem_simps st_mongo_def Eval_def atomicClaimScript_def claim_reply_def
  empty_mem_def mem_hget_def lookup_list_def or_down_def backfillTTL_def backfillTTLFor_def
  ttlFor_def mem_hset_def mem_touch_def mem_expire_def Let_def

lemma mem_first_claim: "result (AtomicClaim mem_env (mem_store ''a_1'') 42 100) empty_mem = Inr (False, 100)"
  by (simp add: mem_claim_simps in64_def)

lemma mem_first_fails:
  "result (AtomicClaim mem_env (mem_store ''a_1'') 42 100) down_mem = Inl (ErrText ''mongo down'')"
  "mw_claims (exec (AtomicClaim mem_env (mem_store ''a_1'') 42 100) down_mem) = []"
  by (simp_all add: mem_claim_simps down_mem_def in64_def)

lemma mem_eval_up: "result (eval_begin mem_redis) w = None" "result (eval_end mem_redis) w = None"
  by (simp_all add: mem_redis_def)

lemma mem_cell_empty: "lview mem_redis empty_mem k f = Inr None" "lview mem_redis down_mem k f = Inr None"
  by (simp_all add: lview_def mem_redis_def down_mem_def empty_mem_def mem_hget_def lookup_list_def)

lemma mem_ledger_empty: "mem_ledger empty_mem k = None" "mem_ledger down_mem k = None"
  by (simp_all add: mem_ledger_def down_mem_def empty_mem_def)

lemma lview_recover: "lview mem_redis (mw_mongo_down_update f w) = lview mem_redis w"
  by (simp add: lview_def mem_redis_def mem_hget_def fun_eq_iff)

theorem claim_retry_same_time_witness:
  "result (AtomicClaim mem_env (mem_store ''a_1'') 42 250)
     (exec (AtomicClaim mem_env (mem_store ''a_1'') 42 100) empty_mem) = Inr (True, 100)"
  by (rule claim_retry_same_time [OF mem_claims_ok mem_lua_laws _ _ _ _ _ mem_first_claim])
    (simp_all add: mem_eval_up mem_cell_empty in64_def mem_ledger_empty)

theorem failed_claim_is_lost_witness:
  "result (AtomicClaim mem_env (mem_store ''a_1'') 42 250)
     (mw_mongo_down_update (\<lambda>_. False) (exec (AtomicClaim mem_env (mem_store ''a_1'') 42 100) down_mem))
     = Inr (True, 100)
   \<and> mw_claims (mw_mongo_down_update (\<lambda>_. False)
       (exec (AtomicClaim mem_env (mem_store ''a_1'') 42 100) down_mem)) = []"
proof
  show "result (AtomicClaim mem_env (mem_store ''a_1'') 42 250)
     (mw_mongo_down_update (\<lambda>_. False) (exec (AtomicClaim mem_env (mem_store ''a_1'') 42 100) down_mem))
     = Inr (True, 100)"
    by (rule failed_claim_is_lost [OF mem_claims_ok mem_lua_laws _ _ _ _ _ mem_first_fails(1)])
      (simp_all add: mem_eval_up mem_cell_empty in64_def mem_ledger_empty lview_recover)
  show "mw_claims (mw_mongo_down_update (\<lambda>_. False)
       (exec (AtomicClaim mem_env (mem_store ''a_1'') 42 100) down_mem)) = []"
    using mem_first_fails(2) by simp
qed

end
