(* ===== verification/StoreReads.thy ===== *)
theory StoreReads
  imports MemWorld
begin

text \<open>
  Reading back what was written through the store, under the laws of Redis hashes: members, claims
  and groups; the read-through from MongoDB; and the set of display ids in use.
\<close>

section \<open>What a write leaves in the cache\<close>

definition cache_ok :: "'w env \<Rightarrow> 'w store \<Rightarrow> 'w redis \<Rightarrow> bool" where
  "cache_ok E st R \<longleftrightarrow> st_rdb st = Some R \<and> hash_laws R \<and> ttl_laws E R
     \<and> (\<forall>M. st_mongo st = Some M \<longrightarrow> mongo_apart R M)"

lemma hview_HSet:
  "hash_laws R \<Longrightarrow> hview R (exec (HSet R k f v) w) = (hview R w)(k := (hview R w k)(f := Inr v))"
  by (auto simp: hash_laws_def fun_eq_iff)

lemma hview_ttl:
  assumes "ttl_laws E R"
  shows "hview R (exec (writeTTL E st) w) = hview R w" "hview R (exec (backfillTTL E st) w) = hview R w"
    "0 < result (writeTTL E st) w" "0 < result (backfillTTL E st) w"
  using assms by (simp_all add: ttl_laws_def keeps_def writeTTL_def backfillTTL_def backfillTTLFor_def ttlFor_def)

lemma hview_expireKey:
  assumes "cache_ok E st R"
  shows "hview R (exec (expireKey E st k) w) = hview R w"
proof -
  have "\<And>k t w. 0 < t \<Longrightarrow> hview R (exec (Expire R k t) w) = hview R w"
    using assms by (simp add: cache_ok_def hash_laws_def)
  then show ?thesis
    using assms hview_ttl [of E R] by (simp add: cache_ok_def expireKey_def)
qed

lemma hview_backfill:
  assumes "cache_ok E st R"
  shows "hview R (exec (backfill E st k (ignore (HSet R k f v))) w) = (hview R w)(k := (hview R w k)(f := Inr v))"
proof -
  have "\<And>k t w. 0 < t \<Longrightarrow> hview R (exec (Expire R k t) w) = hview R w"
    using assms by (simp add: cache_ok_def hash_laws_def)
  then show ?thesis
    using assms hview_ttl [of E R] hview_HSet [of R] by (simp add: cache_ok_def backfill_def)
qed

lemma hview_on_mongo:
  assumes "\<And>M. st_mongo st = Some M \<Longrightarrow> keeps (hview R) (f M)"
  shows "hview R (exec (on_mongo st f) w) = hview R w"
  using assms by (auto simp: on_mongo_def keeps_def split: option.splits)

lemma hview_SetMember:
  assumes "cache_ok E st R"
  shows "hview R (exec (SetMember E st u gid) w) =
    (let k = GetRankMembersKey (en_keys E) (st_bizId st)
     in (hview R w)(k := (hview R w k)(FormatInt u := Inr (Txt (FormatInt gid)))))"
proof -
  have p: "st_rdb st = Some R" "hash_laws R" "\<And>M. st_mongo st = Some M \<Longrightarrow> mongo_apart R M"
    using assms by (simp_all add: cache_ok_def)
  show ?thesis
    by (simp add: SetMember_def p(1) Let_def hview_expireKey [OF assms] hview_HSet [OF p(2)]
        hview_on_mongo p(3) [unfolded mongo_apart_def])
qed

lemma hview_SetClaim:
  assumes "cache_ok E st R"
  shows "hview R (exec (SetClaim E st u t) w) =
    (let k = GetRankClaimsKey (en_keys E) (st_bizId st)
     in (hview R w)(k := (hview R w k)(FormatInt u := Inr (Txt (FormatInt t)))))"
proof -
  have p: "st_rdb st = Some R" "hash_laws R" "\<And>M. st_mongo st = Some M \<Longrightarrow> mongo_apart R M"
    using assms by (simp_all add: cache_ok_def)
  show ?thesis
    by (simp add: SetClaim_def p(1) Let_def hview_expireKey [OF assms] hview_HSet [OF p(2)]
        hview_on_mongo p(3) [unfolded mongo_apart_def])
qed

lemma hview_SaveGroup:
  assumes "cache_ok E st R"
  shows "hview R (exec (SaveGroup E st g) w) =
    (let k = GetRankGroupsKey (en_keys E) (st_bizId st)
     in (hview R w)(k := (hview R w k)(FormatInt (gr_GroupID g) := Inr (JTxt (marshal_group g)))))"
proof -
  have p: "st_rdb st = Some R" "hash_laws R" "\<And>M. st_mongo st = Some M \<Longrightarrow> mongo_apart R M"
    using assms by (simp_all add: cache_ok_def)
  show ?thesis
    by (simp add: SaveGroup_def p(1) Let_def hview_expireKey [OF assms] hview_HSet [OF p(2)]
        hview_on_mongo p(3) [unfolded mongo_apart_def])
qed

section \<open>What a read finds\<close>

lemma FormatInt_not_nullCache: "FormatInt n \<noteq> nullCacheEntry"
proof
  assume "FormatInt n = nullCacheEntry"
  then have "CHR 0x00 \<in> set (FormatInt n)" by (simp add: nullCacheEntry_def)
  then have "is_digit CHR 0x00 \<or> CHR 0x00 = CHR ''-''" by (rule FormatInt_chars)
  then show False by (simp add: is_digit_def)
qed

lemma read_cached_int [simp]:
  "in32 n \<Longrightarrow> read_cached (Inr (Txt (FormatInt n))) 32 = Hit n"
  "in64 n \<Longrightarrow> read_cached (Inr (Txt (FormatInt n))) 64 = Hit n"
  by (simp_all add: read_cached_def FormatInt_not_nullCache)

lemma GetMember_cached:
  assumes "st_rdb st = Some R"
    and "hview R w (GetRankMembersKey (en_keys E) (st_bizId st)) (FormatInt u) = Inr (Txt (FormatInt gid))" "in32 gid"
  shows "result (GetMember E st u) w = Inr (Some gid)"
  using assms by (simp add: GetMember_def hview_def Let_def)

lemma GetClaim_cached:
  assumes "st_rdb st = Some R"
    and "hview R w (GetRankClaimsKey (en_keys E) (st_bizId st)) (FormatInt u) = Inr (Txt (FormatInt t))" "in64 t"
  shows "result (GetClaim E st u) w = Inr (Some t)"
  using assms by (simp add: GetClaim_def hview_def Let_def)


text \<open>Reads fill the cache. Whatever \<open>GetMember\<close> found in MongoDB, a second call finds in
  Redis without asking again (MongoDB may be gone by then); a claim that MongoDB does not have is
  remembered as absent, so a second \<open>GetClaim\<close> does not ask either.\<close>

theorem reads_fill_cache:
  assumes "cache_ok E st R" "st_mongo st = Some M"
    and "hview R w (GetRankMembersKey (en_keys E) (st_bizId st)) (FormatInt u) = Inl RedisNil"
    and "hview R w (GetRankClaimsKey (en_keys E) (st_bizId st)) (FormatInt u) = Inl RedisNil"
    and "\<forall>gid. result (m_GetMember M (st_bizId st) u) w = Inr (Some gid) \<longrightarrow> in32 gid"
  shows "(\<forall>gid st'. result (GetMember E st u) w = Inr (Some gid) \<longrightarrow> st_rdb st' = Some R \<longrightarrow> st_bizId st' = st_bizId st
       \<longrightarrow> result (GetMember E st' u) (exec (GetMember E st u) w) = Inr (Some gid))
    \<and> (\<forall>st'. result (GetClaim E st u) w = Inr None \<longrightarrow> st_rdb st' = Some R \<longrightarrow> st_bizId st' = st_bizId st
       \<longrightarrow> result (GetClaim E st' u) (exec (GetClaim E st u) w) = Inr None)"
proof -
  have R: "st_rdb st = Some R" and H: "hash_laws R" and M: "mongo_apart R M"
    using assms(1,2) by (auto simp: cache_ok_def)
  let ?mk = "GetRankMembersKey (en_keys E) (st_bizId st)" and ?ck = "GetRankClaimsKey (en_keys E) (st_bizId st)"
  have h: "result (HGet R ?mk (FormatInt u)) w = Inl RedisNil" "result (HGet R ?ck (FormatInt u)) w = Inl RedisNil"
    "exec (HGet R k f) x = x" for k f x
    using assms(3,4) H by (simp_all add: hview_def hash_laws_def)
  have miss: "read_cached (Inl RedisNil) n = Miss" for n by (simp add: read_cached_def IsNil_def)
  show ?thesis
  proof (intro conjI allI impI)
    fix gid and st' :: "'a store"
    assume g: "result (GetMember E st u) w = Inr (Some gid)" and st': "st_rdb st' = Some R" "st_bizId st' = st_bizId st"
    have found: "result (m_GetMember M (st_bizId st) u) w = Inr (Some gid)"
      using g by (auto simp: GetMember_def R Let_def h miss assms(2) split: sum.splits option.splits)
    have "hview R (exec (GetMember E st u) w) ?mk (FormatInt u) = Inr (Txt (FormatInt gid))"
      by (simp add: GetMember_def R Let_def h miss assms(2) found hview_backfill [OF assms(1)])
    then show "result (GetMember E st' u) (exec (GetMember E st u) w) = Inr (Some gid)"
      using assms(5) found st' by (intro GetMember_cached [of st' R]) auto
  next
    fix st' :: "'a store"
    assume g: "result (GetClaim E st u) w = Inr None" and st': "st_rdb st' = Some R" "st_bizId st' = st_bizId st"
    have found: "result (m_GetClaim M (st_bizId st) u) w = Inr None"
      using g by (auto simp: GetClaim_def R Let_def h miss assms(2) split: sum.splits option.splits)
    have "hview R (exec (GetClaim E st u) w) ?ck (FormatInt u) = Inr (Txt nullCacheEntry)"
      by (simp add: GetClaim_def R Let_def h miss assms(2) found hview_backfill [OF assms(1)])
    then have "result (HGet R ?ck (FormatInt u)) (exec (GetClaim E st u) w) = Inr (Txt nullCacheEntry)"
      by (simp add: hview_def)
    then show "result (GetClaim E st' u) (exec (GetClaim E st u) w) = Inr None"
      using st' by (simp add: GetClaim_def [of E st'] read_cached_def Let_def)
  qed
qed

text \<open>A fault of the code. The display ids in use are 64-bit numbers but are read back with
  a 32-bit parser. Exactly those that fit 32 bits come back; the others count as unused, so their
  robots' display data can be handed out a second time in the same group.\<close>

theorem LoadUsedInfoIDs_drops_large:
  assumes "st_rdb st = Some R"
    and "result (SMembers R (GetRankRobotInfosKey (en_keys E) (st_bizId st) gid)) w = Inr (map (\<lambda>i. Txt (FormatInt i)) ids)"
    and "\<forall>i \<in> set ids. in64 i"
  shows "\<exists>loaded. result (LoadUsedInfoIDs E st gid) w = Inr loaded \<and> set loaded = {i \<in> set ids. in32 i}"
proof -
  let ?parse = "\<lambda>v. case rv_ParseInt v 32 of (n, True) \<Rightarrow> Some n | (n, False) \<Rightarrow> None"
  have p: "?parse (Txt (FormatInt i)) = (if in32 i then Some i else None)" for i
    using ParseInt32_large [of i] by (cases "in32 i"; cases "ParseInt (FormatInt i) 32") auto
  then have q: "(case ParseInt (FormatInt i) 32 of (n, True) \<Rightarrow> Some n | (n, False) \<Rightarrow> None)
      = (if in32 i then Some i else None)" for i by simp
  have "List.map_filter ?parse (map (\<lambda>i. Txt (FormatInt i)) ids) = filter in32 ids"
    by (induction ids) (simp_all add: q)
  then show ?thesis using assms(1,2) by (auto simp: LoadUsedInfoIDs_def)
qed

section \<open>Witnesses\<close>

lemma mem_cache_ok: "cache_ok mem_env (mem_store b) mem_redis"
  using mem_hash_laws mem_ttl_laws mem_mongo_apart
  by (simp add: cache_ok_def mem_store_def st_mongo_def split: if_splits)

definition sample_group :: group where
  "sample_group = \<lparr>gr_GroupID = 1, gr_InstanceID = ''rank:arena_7:group_1'', gr_RealCount = 3,
     gr_RobotCount = 2, gr_State = GroupStateOpen\<rparr>"


definition member_mem :: mem where
  "member_mem = empty_mem\<lparr>mw_members := [((''arena_7'', 42), 3)]\<rparr>"

theorem reads_fill_cache_witness:
  "result (GetClaim mem_env ((mem_store ''arena_7'')\<lparr>st_dao := None\<rparr>) 42)
     (exec (GetClaim mem_env (mem_store ''arena_7'') 42) empty_mem) = Inr None"
proof -
  have e: "hview mem_redis empty_mem k f = Inl RedisNil" for k f
    by (simp add: hview_def mem_redis_def mem_hget_def lookup_list_def empty_mem_def)
  have m: "st_mongo (mem_store ''arena_7'') = Some mem_mongo" by (simp add: mem_store_def st_mongo_def mem_mongo_def)
  have n: "result (GetClaim mem_env (mem_store ''arena_7'') 42) empty_mem = Inr None"
    by (simp add: GetClaim_def mem_simps st_mongo_def Let_def mem_hget_def lookup_list_def empty_mem_def
        read_cached_def IsNil_def or_down_def)
  have g: "result (m_GetMember mem_mongo b u) empty_mem = Inr None" for b u
    by (simp add: mem_mongo_def or_down_def empty_mem_def)
  show ?thesis
    using reads_fill_cache [OF mem_cache_ok m e e] n g by (auto simp: mem_store_def)
qed

theorem LoadUsedInfoIDs_drops_large_witness:
  "\<exists>loaded. result (LoadUsedInfoIDs mem_env (mem_store ''arena_7'') 1)
      (exec (SaveUsedInfoIDs mem_env (mem_store ''arena_7'') 1 [7, 3000000000]) empty_mem) = Inr loaded
    \<and> set loaded = {7}"
proof -
  have ne: "FormatInt 7 \<noteq> FormatInt 3000000000"
    using FormatInt_inject [of 7 3000000000] by (auto simp: in64_def)
  have "result (SMembers mem_redis (GetRankRobotInfosKey (en_keys mem_env) (st_bizId (mem_store ''arena_7'')) 1))
      (exec (SaveUsedInfoIDs mem_env (mem_store ''arena_7'') 1 [7, 3000000000]) empty_mem)
    = Inr (map (\<lambda>i. Txt (FormatInt i)) [7, 3000000000])"
    using ne by (simp add: SaveUsedInfoIDs_def mem_simps Let_def mem_sadd_def mem_touch_def lookup_list_def
        empty_mem_def expireKey_def writeTTL_def ttlFor_def mem_expire_def)
  moreover have "{i \<in> set [7, 3000000000]. in32 i} = {7}" by (auto simp: in32_def)
  ultimately show ?thesis
    using LoadUsedInfoIDs_drops_large [of "mem_store ''arena_7''" mem_redis mem_env 1 _ "[7, 3000000000]"]
    by (simp add: mem_store_def in64_def)
qed

end
