(* ===== verification/Robot.thy ===== *)
theory Robot
  imports RankTypes
begin

text \<open>
  \<open>internal/rank/engine/robot.go\<close>: robot ids, the spawn plan, the choice of display data, the
  initial score and one growth step. Go's \<open>math/rand\<close> is an argument: \<open>rnd n\<close> is the number
  \<open>rand.Int63n(n)\<close> returned, of which the code relies only on \<open>0 \<le> rnd n < n\<close> for
  positive \<open>n\<close> (\<open>rand_ok\<close>).
\<close>

section \<open>Robot ids\<close>

definition robotIDGroupStride :: int64 where
  "robotIDGroupStride = 10000"

definition IsRobotMemberID :: "int64 \<Rightarrow> bool" where
  "IsRobotMemberID m \<longleftrightarrow> m < 0"

definition robotMemberID :: "int32 \<Rightarrow> int32 \<Rightarrow> int64" where
  "robotMemberID groupID index = i64 (- i64 (i64 (groupID * robotIDGroupStride) + index))"

lemma robotMemberID_eq:
  assumes "0 \<le> g" "in32 g" "0 \<le> i" "in32 i"
  shows "robotMemberID g i = - (g * 10000 + i)"
proof -
  have "in64 (g * 10000)" "in64 (g * 10000 + i)" "in64 (- (g * 10000 + i))"
    using assms by (simp_all add: in32_def in64_def)
  then show ?thesis by (simp add: robotMemberID_def robotIDGroupStride_def)
qed

section \<open>Spawn plan\<close>

record spawn_entry =
  se_TierID :: int32
  se_Count :: int32

fun spawn_loop :: "robot_tier list \<Rightarrow> int32 \<Rightarrow> spawn_entry list" where
  "spawn_loop [] remaining = []"
| "spawn_loop (tier # tiers) remaining =
     (if remaining \<le> 0 then []
      else let count = (if ti_Num tier > remaining then remaining else ti_Num tier) in
           if count > 0
           then \<lparr>se_TierID = ti_TierID tier, se_Count = count\<rparr> # spawn_loop tiers (i32 (remaining - count))
           else spawn_loop tiers remaining)"

definition buildRobotSpawnPlan :: "robot_tier list \<Rightarrow> int32 \<Rightarrow> spawn_entry list" where
  "buildRobotSpawnPlan tiers capacity = spawn_loop tiers capacity"

fun totalRobotsInPlan_from :: "int32 \<Rightarrow> spawn_entry list \<Rightarrow> int32" where
  "totalRobotsInPlan_from tot [] = tot"
| "totalRobotsInPlan_from tot (e # es) = totalRobotsInPlan_from (i32 (tot + se_Count e)) es"

definition totalRobotsInPlan :: "spawn_entry list \<Rightarrow> int32" where
  "totalRobotsInPlan plan = totalRobotsInPlan_from 0 plan"

definition plan_sum :: "spawn_entry list \<Rightarrow> int" where
  "plan_sum plan = sum_list (map se_Count plan)"

text \<open>What the tiers ask for in all, tiers with a number that is not positive asking for nothing.\<close>

definition demand :: "robot_tier list \<Rightarrow> int" where
  "demand tiers = sum_list (map (\<lambda>t. max 0 (ti_Num t)) tiers)"

lemma demand_simps [simp]: "demand [] = 0" "demand (t # ts) = max 0 (ti_Num t) + demand ts"
  by (simp_all add: demand_def)

lemma demand_nonneg: "0 \<le> demand ts"
  by (induction ts) auto

lemma plan_sum_simps [simp]: "plan_sum [] = 0" "plan_sum (e # es) = se_Count e + plan_sum es"
  by (simp_all add: plan_sum_def)

lemma spawn_loop_counts:
  assumes "e \<in> set (spawn_loop tiers remaining)"
  shows "0 < se_Count e \<and> (\<exists>t \<in> set tiers. ti_TierID t = se_TierID e \<and> se_Count e \<le> ti_Num t)"
  using assms
  by (induction tiers remaining rule: spawn_loop.induct) (auto simp: Let_def split: if_splits)

text \<open>The plan fills the capacity as far as the tiers ask: exactly the minimum of the two.\<close>

lemma spawn_loop_sum:
  assumes "0 \<le> remaining" "in32 remaining"
  shows "plan_sum (spawn_loop tiers remaining) = min remaining (demand tiers)"
  using assms
proof (induction tiers remaining rule: spawn_loop.induct)
  case (2 tier tiers remaining)
  define count where "count = (if ti_Num tier > remaining then remaining else ti_Num tier)"
  show ?case
  proof (cases "remaining \<le> 0")
    case True
    with "2.prems" show ?thesis using demand_nonneg [of tiers] by (simp add: min_def)
  next
    case False
    show ?thesis
    proof (cases "count > 0")
      case True
      have le: "count \<le> remaining" by (simp add: count_def)
      have r: "in32 (remaining - count)" using le True "2.prems" by (auto simp: in32_def)
      have "plan_sum (spawn_loop tiers (remaining - count)) = min (remaining - count) (demand tiers)"
        using "2.IH"(1) [OF False count_def] True r le by simp
      then show ?thesis using False True r le count_def
        using demand_nonneg [of tiers] by (auto simp: Let_def min_def max_def)
    next
      case c: False
      then have "ti_Num tier \<le> 0" using False by (simp add: count_def split: if_splits)
      with c False "2.IH"(2) [OF False count_def] "2.prems" show ?thesis
        by (simp add: Let_def)
    qed
  qed
qed simp

lemma totalRobots_from:
  assumes "\<And>e. e \<in> set es \<Longrightarrow> 0 \<le> se_Count e" "0 \<le> a" "in32 (a + plan_sum es)"
  shows "totalRobotsInPlan_from a es = a + plan_sum es"
  using assms
proof (induction es arbitrary: a)
  case (Cons e es)
  have nn: "0 \<le> plan_sum es" using Cons.prems(1)
    by (simp add: plan_sum_def sum_list_nonneg_member)
  have e: "0 \<le> se_Count e" using Cons.prems(1) by simp
  have "in32 (a + se_Count e)" using Cons.prems(2,3) nn e by (simp add: in32_def)
  then show ?case using Cons e by (simp add: algebra_simps)
qed simp

section \<open>Display data and initial score\<close>

definition rand_ok :: "(int \<Rightarrow> int) \<Rightarrow> bool" where
  "rand_ok rnd \<longleftrightarrow> (\<forall>n>0. 0 \<le> rnd n \<and> rnd n < n)"

definition pickRobotInfo :: "(int \<Rightarrow> int) \<Rightarrow> robot_info list \<Rightarrow> int64 set \<Rightarrow> robot_info option" where
  "pickRobotInfo rnd infos used =
     (let avail = filter (\<lambda>info. ri_InfoID info \<notin> used) infos in
      if length avail = 0 then None else Some (avail ! nat (rnd (int (length avail)))))"

lemma pickRobotInfo_Some:
  assumes "rand_ok rnd" "pickRobotInfo rnd infos used = Some info"
  shows "info \<in> set infos \<and> ri_InfoID info \<notin> used"
proof -
  define avail where "avail = filter (\<lambda>info. ri_InfoID info \<notin> used) infos"
  have ne: "avail \<noteq> []" and i: "info = avail ! nat (rnd (int (length avail)))"
    using assms(2) by (auto simp: pickRobotInfo_def avail_def Let_def split: if_splits)
  have "0 \<le> rnd (int (length avail))" "rnd (int (length avail)) < int (length avail)"
    using assms(1) ne by (auto simp: rand_ok_def)
  then have "nat (rnd (int (length avail))) < length avail" by linarith
  then have "info \<in> set avail" using i by simp
  then show ?thesis by (simp add: avail_def)
qed

lemma pickRobotInfo_None:
  "pickRobotInfo rnd infos used = None \<longleftrightarrow> (\<forall>info \<in> set infos. ri_InfoID info \<in> used)"
  by (auto simp: pickRobotInfo_def Let_def filter_empty_conv)

definition initRobotScore :: "(int \<Rightarrow> int) \<Rightarrow> int64 \<Rightarrow> int64 \<Rightarrow> int64" where
  "initRobotScore rnd mn mx =
     (if mx \<le> mn then mn else i64 (mn + rnd (i64 (i64 (mx - mn) + 1))))"

lemma initRobotScore_bounds:
  assumes "rand_ok rnd" "mn \<le> mx" "0 \<le> mn" "in64 mx" "in64 (mx + 1)"
  shows "mn \<le> initRobotScore rnd mn mx \<and> initRobotScore rnd mn mx \<le> mx"
proof (cases "mx \<le> mn")
  case True
  with assms show ?thesis by (simp add: initRobotScore_def)
next
  case False
  then have r: "in64 (mx - mn)" "in64 (mx - mn + 1)" using assms by (auto simp: in64_def)
  have "0 < mx - mn + 1" using False by simp
  then have "0 \<le> rnd (mx - mn + 1)" "rnd (mx - mn + 1) < mx - mn + 1"
    using assms(1) unfolding rand_ok_def by blast+
  moreover from this have "in64 (mn + rnd (mx - mn + 1))" using assms by (auto simp: in64_def)
  ultimately show ?thesis using False r by (simp add: initRobotScore_def)
qed

section \<open>One growth step\<close>

definition calcGrowTarget :: "(int \<Rightarrow> int) \<Rightarrow> int64 \<Rightarrow> int64 \<Rightarrow> int64 \<Rightarrow> int64" where
  "calcGrowTarget rnd firstScore minBps maxBps =
     (if firstScore \<le> 0 \<or> minBps \<ge> maxBps
      then i64 (quot (i64 (firstScore * minBps)) 10000)
      else let r = i64 (minBps + rnd (i64 (i64 (maxBps - minBps) + 1)))
           in i64 (quot (i64 (firstScore * r)) 10000))"

definition calcPendingRelease :: "robot_state \<Rightarrow> robot_tier \<Rightarrow> int64 \<Rightarrow> int64 \<times> int64" where
  "calcPendingRelease robot tier nowMs =
     (if ro_PendingScore robot \<le> 0 \<or> ro_PendingPerSlice robot \<le> 0 \<or> ti_OvertakeIntervalMs tier \<le> 0
      then (0, 0)
      else let elapsed = i64 (nowMs - ro_PendingStartAt robot) in
           if elapsed < ti_OvertakeIntervalMs tier then (0, 0)
           else (if ro_PendingPerSlice robot > ro_PendingScore robot then ro_PendingScore robot
                 else ro_PendingPerSlice robot, 1))"

text \<open>The number of slices of a staged growth.\<close>

definition slices_of :: "robot_tier \<Rightarrow> int64" where
  "slices_of tier =
     (let n = i64 (quot (i64 (i64 (ti_OvertakeTimeMs tier + ti_OvertakeIntervalMs tier) - 1))
                        (ti_OvertakeIntervalMs tier))
      in if n \<le> 0 then 1 else n)"

text \<open>The last part of \<open>tickRobotScore\<close>: the growth to \<open>newScore\<close>, at once or staged.\<close>

definition applyGrowth :: "robot_state \<Rightarrow> robot_tier \<Rightarrow> int64 \<Rightarrow> int64 \<Rightarrow> robot_state" where
  "applyGrowth robot tier newScore nowMs =
     (let delta = i64 (newScore - ro_Score robot) in
      if ti_OvertakeTimeMs tier > 0 \<and> ti_OvertakeIntervalMs tier > 0
      then let n = slices_of tier;
               perSlice = i64 (quot (i64 (i64 (delta + n) - 1)) n);
               p = i64 (delta - perSlice)
           in robot\<lparr>ro_LastGrowAt := nowMs, ro_PendingPerSlice := perSlice,
                    ro_PendingScore := (if p < 0 then 0 else p),
                    ro_PendingStartAt := nowMs,
                    ro_Score := i64 (ro_Score robot + perSlice)\<rparr>
      else robot\<lparr>ro_LastGrowAt := nowMs, ro_Score := newScore\<rparr>)"

text \<open>The two caps of a growth target.\<close>

definition capGrowth :: "robot_tier \<Rightarrow> int64 \<Rightarrow> int64 \<Rightarrow> int64" where
  "capGrowth tier realFirstScore targetScore =
     (let n = (if realFirstScore > 0 \<and> targetScore > i64 (realFirstScore + ti_MaxDifferenceToken tier)
               then i64 (realFirstScore + ti_MaxDifferenceToken tier) else targetScore)
      in if n > ti_MaxToken tier then ti_MaxToken tier else n)"

text \<open>The release of one slice of the pending amount.\<close>

definition releasePending :: "robot_state \<Rightarrow> robot_tier \<Rightarrow> int64 \<Rightarrow> robot_state" where
  "releasePending robot tier nowMs =
     (let (release, slices) = calcPendingRelease robot tier nowMs in
      if release > 0
      then let p = i64 (ro_PendingScore robot - release) in
           robot\<lparr>ro_Score := i64 (ro_Score robot + release),
                 ro_PendingScore := (if p < 0 then 0 else p),
                 ro_PendingStartAt := i64 (ro_PendingStartAt robot
                    + i64 (slices * ti_OvertakeIntervalMs tier))\<rparr>
      else robot)"

text \<open>The whole step: the robot after it and the score returned.\<close>

definition tickRobotScore ::
  "(int \<Rightarrow> int) \<Rightarrow> robot_state \<Rightarrow> robot_tier \<Rightarrow> int64 \<Rightarrow> int64 \<Rightarrow> int64 \<Rightarrow> int64 \<Rightarrow> robot_state \<times> int64" where
  "tickRobotScore rnd robot tier firstScore realFirstScore nowMs gameEndTimeMs =
     (if gameEndTimeMs > 0 \<and> i64 (gameEndTimeMs - nowMs) \<le> ti_LockTokenTimeMs tier
      then (robot, ro_Score robot)
      else if ti_OvertakeTimeMs tier > 0 \<and> ti_OvertakeIntervalMs tier > 0 \<and> ro_PendingScore robot > 0
      then let robot' = releasePending robot tier nowMs in (robot', ro_Score robot')
      else if i64 (nowMs - ro_LastGrowAt robot) < ti_GrowTokenCdMs tier
      then (robot, ro_Score robot)
      else
        let targetScore = calcGrowTarget rnd firstScore (ti_GrowTokenMinBps tier) (ti_GrowTokenMaxBps tier) in
        if targetScore \<le> ro_Score robot
        then (robot\<lparr>ro_LastGrowAt := nowMs\<rparr>, ro_Score robot)
        else
          let newScore = capGrowth tier realFirstScore targetScore in
          if newScore \<le> ro_Score robot
          then (robot\<lparr>ro_LastGrowAt := nowMs\<rparr>, ro_Score robot)
          else let robot' = applyGrowth robot tier newScore nowMs in (robot', ro_Score robot'))"

section \<open>What a growth step keeps\<close>

text \<open>
  A robot is within its tier when its score and what is still pending are non-negative and
  together stay under the tier's cap, and a pending amount comes with a positive slice and a
  tier that stages its growth.
\<close>

definition robot_ok :: "robot_tier \<Rightarrow> robot_state \<Rightarrow> bool" where
  "robot_ok tier r \<longleftrightarrow> 0 \<le> ro_Score r \<and> 0 \<le> ro_PendingScore r \<and> in64 (ro_PendingPerSlice r)
     \<and> ro_Score r + ro_PendingScore r \<le> ti_MaxToken tier
     \<and> (ro_PendingScore r > 0 \<longrightarrow> ro_PendingPerSlice r > 0
          \<and> ti_OvertakeTimeMs tier > 0 \<and> ti_OvertakeIntervalMs tier > 0)"

definition tier_ok :: "robot_tier \<Rightarrow> bool" where
  "tier_ok tier \<longleftrightarrow> in64 (ti_MaxToken tier)
     \<and> in64 (ti_MaxToken tier + ti_OvertakeTimeMs tier + ti_OvertakeIntervalMs tier)
     \<and> in64 (ti_OvertakeTimeMs tier) \<and> in64 (ti_OvertakeIntervalMs tier)"

lemma slices_of_bounds:
  assumes "tier_ok tier" "0 \<le> ti_MaxToken tier" "0 < ti_OvertakeTimeMs tier"
    "0 < ti_OvertakeIntervalMs tier"
  shows "1 \<le> slices_of tier \<and> slices_of tier \<le> ti_OvertakeTimeMs tier
     \<and> slices_of tier = (ti_OvertakeTimeMs tier + ti_OvertakeIntervalMs tier - 1) div ti_OvertakeIntervalMs tier"
proof -
  let ?o = "ti_OvertakeTimeMs tier" and ?i = "ti_OvertakeIntervalMs tier"
  have r: "in64 (?o + ?i)" "in64 (?o + ?i - 1)"
    using assms by (auto simp: tier_ok_def in64_def)
  have q: "quot (?o + ?i - 1) ?i = (?o + ?i - 1) div ?i"
    using assms by (intro quot_nonneg) auto
  have b: "0 < (?o + ?i - 1) div ?i" "(?o + ?i - 1) div ?i \<le> ?o"
    using assms ceil_div_pos [of ?i ?o] ceil_div_le [of ?i ?o] by auto
  then have "in64 ((?o + ?i - 1) div ?i)" using assms by (auto simp: tier_ok_def in64_def)
  with r q b show ?thesis by (simp add: slices_of_def Let_def)
qed

lemma slice_size:
  assumes "tier_ok tier" "0 < d" "d \<le> ti_MaxToken tier" "0 < ti_OvertakeTimeMs tier"
    "0 < ti_OvertakeIntervalMs tier"
  defines "n \<equiv> slices_of tier"
  shows "i64 (quot (i64 (i64 (d + n) - 1)) n) = (d + n - 1) div n"
    and "0 < (d + n - 1) div n" and "(d + n - 1) div n \<le> d" and "in64 ((d + n - 1) div n)"
proof -
  have n: "1 \<le> n" "n \<le> ti_OvertakeTimeMs tier"
    using slices_of_bounds [of tier] assms by auto
  have r: "in64 (d + n)" "in64 (d + n - 1)" using assms n by (auto simp: tier_ok_def in64_def)
  have q: "quot (d + n - 1) n = (d + n - 1) div n" using assms n by (intro quot_nonneg) auto
  show p: "0 < (d + n - 1) div n" using n assms ceil_div_pos [of n d] by simp
  show l: "(d + n - 1) div n \<le> d" using n assms ceil_div_le [of n d] by simp
  show i: "in64 ((d + n - 1) div n)" using p l assms by (auto simp: tier_ok_def in64_def)
  show "i64 (quot (i64 (i64 (d + n) - 1)) n) = (d + n - 1) div n" using r q i by simp
qed

text \<open>The release branch, with the arithmetic carried out: exactly what is released moves.\<close>

lemma releasePending_eq:
  fixes now :: int64
  assumes ok: "tier_ok tier" "robot_ok tier r" and pend: "ro_PendingScore r > 0"
  defines "rel \<equiv> (if i64 (now - ro_PendingStartAt r) < ti_OvertakeIntervalMs tier then 0
                   else min (ro_PendingPerSlice r) (ro_PendingScore r))"
  shows "releasePending r tier now =
     (if rel > 0 then r\<lparr>ro_Score := ro_Score r + rel, ro_PendingScore := ro_PendingScore r - rel,
          ro_PendingStartAt := i64 (ro_PendingStartAt r + ti_OvertakeIntervalMs tier)\<rparr>
      else r)"
    and "0 \<le> rel" "rel \<le> ro_PendingScore r"
proof -
  have slice: "ro_PendingPerSlice r > 0" "ti_OvertakeTimeMs tier > 0" "ti_OvertakeIntervalMs tier > 0"
    using ok pend by (simp_all add: robot_ok_def)
  show b: "0 \<le> rel" "rel \<le> ro_PendingScore r"
    using pend slice by (auto simp: rel_def min_def)
  have r64: "in64 (ro_PendingScore r - rel)" "in64 (ro_Score r + rel)"
    using b ok by (auto simp: robot_ok_def tier_ok_def in64_def)
  have i64i: "i64 (ti_OvertakeIntervalMs tier) = ti_OvertakeIntervalMs tier"
    using ok by (simp add: tier_ok_def)
  have c: "calcPendingRelease r tier now = (rel, if rel > 0 then 1 else 0)"
    using pend slice by (auto simp: rel_def calcPendingRelease_def Let_def min_def)
  show "releasePending r tier now =
     (if rel > 0 then r\<lparr>ro_Score := ro_Score r + rel, ro_PendingScore := ro_PendingScore r - rel,
          ro_PendingStartAt := i64 (ro_PendingStartAt r + ti_OvertakeIntervalMs tier)\<rparr>
      else r)"
    using r64 b i64i by (simp add: releasePending_def c Let_def)
qed

lemma capGrowth_le: "capGrowth tier rfs t \<le> ti_MaxToken tier"
  by (simp add: capGrowth_def Let_def)

lemma capGrowth_real_first:
  "rfs > 0 \<Longrightarrow> in64 (rfs + ti_MaxDifferenceToken tier) \<Longrightarrow>
   capGrowth tier rfs t \<le> rfs + ti_MaxDifferenceToken tier"
  by (auto simp: capGrowth_def Let_def)

lemma capGrowth_target: "capGrowth tier rfs t \<le> t"
  by (auto simp: capGrowth_def Let_def)

text \<open>The growth branch: the score plus what is pending becomes the capped target.\<close>

lemma applyGrowth_facts:
  fixes now :: int64
  assumes ok: "tier_ok tier" "robot_ok tier r" and pend: "ro_PendingScore r = 0"
    and t: "ro_Score r < t" "t \<le> ti_MaxToken tier"
  defines "r' \<equiv> applyGrowth r tier t now"
  shows "robot_ok tier r'" "ro_Score r < ro_Score r'" "ro_Score r' + ro_PendingScore r' = t"
    "ro_LastGrowAt r' = now" "ro_MemberID r' = ro_MemberID r" "ro_TierID r' = ro_TierID r"
    "ro_InfoID r' = ro_InfoID r"
proof -
  define d where "d = t - ro_Score r"
  define n where "n = slices_of tier"
  define q where "q = (d + n - 1) div n"
  have d: "0 < d" "d \<le> ti_MaxToken tier" "in64 d" "i64 (t - ro_Score r) = d"
    using t ok by (auto simp: d_def robot_ok_def tier_ok_def in64_def intro!: i64_id)
  have all: "robot_ok tier r' \<and> ro_Score r < ro_Score r' \<and> ro_Score r' + ro_PendingScore r' = t
    \<and> ro_LastGrowAt r' = now \<and> ro_MemberID r' = ro_MemberID r \<and> ro_TierID r' = ro_TierID r
    \<and> ro_InfoID r' = ro_InfoID r"
  proof (cases "ti_OvertakeTimeMs tier > 0 \<and> ti_OvertakeIntervalMs tier > 0")
    case st: True
    have q: "i64 (quot (i64 (i64 (d + n) - 1)) n) = q" "0 < q" "q \<le> d" "in64 q"
      using slice_size [OF ok(1) d(1,2)] st unfolding n_def q_def by auto
    have r64: "i64 (d - q) = d - q" "i64 (ro_Score r + q) = ro_Score r + q"
      using q d t ok by (auto simp: in64_def d_def robot_ok_def tier_ok_def intro!: i64_id)
    have "r' = r\<lparr>ro_LastGrowAt := now, ro_PendingPerSlice := q, ro_PendingScore := d - q,
             ro_PendingStartAt := now, ro_Score := ro_Score r + q\<rparr>"
      unfolding r'_def applyGrowth_def Let_def d(4) n_def [symmetric] q(1) r64 using st q by simp
    then show ?thesis using ok q d st t by (simp add: robot_ok_def d_def)
  next
    case st: False
    then have "r' = r\<lparr>ro_LastGrowAt := now, ro_Score := t\<rparr>"
      by (auto simp: r'_def applyGrowth_def Let_def)
    then show ?thesis using ok pend t by (simp add: robot_ok_def)
  qed
  then show "robot_ok tier r'" "ro_Score r < ro_Score r'" "ro_Score r' + ro_PendingScore r' = t"
    "ro_LastGrowAt r' = now" "ro_MemberID r' = ro_MemberID r" "ro_TierID r' = ro_TierID r"
    "ro_InfoID r' = ro_InfoID r" by auto
qed

text \<open>The release branch as facts: the sum of score and pending is untouched.\<close>

lemma releasePending_facts:
  fixes now :: int64
  assumes ok: "tier_ok tier" "robot_ok tier r" and pend: "ro_PendingScore r > 0"
  defines "r' \<equiv> releasePending r tier now"
  shows "robot_ok tier r'" "ro_Score r \<le> ro_Score r'"
    "ro_Score r' + ro_PendingScore r' = ro_Score r + ro_PendingScore r"
    "ro_MemberID r' = ro_MemberID r" "ro_TierID r' = ro_TierID r" "ro_InfoID r' = ro_InfoID r"
    "ro_PendingPerSlice r' = ro_PendingPerSlice r"
  using releasePending_eq [OF ok pend, of now] ok pend
  by (auto simp: r'_def robot_ok_def)

lemmas tick_branches = tickRobotScore_def Let_def

text \<open>Each branch in one rule: a step is idle, resets the clock, releases or grows.\<close>

lemma tick_cases:
  fixes now :: int64
  assumes "robot_ok tier r"
  obtains (idle) "tickRobotScore rnd r tier fs rfs now ge = (r, ro_Score r)"
  | (reset) "tickRobotScore rnd r tier fs rfs now ge = (r\<lparr>ro_LastGrowAt := now\<rparr>, ro_Score r)"
      "ro_PendingScore r = 0"
  | (release) "ro_PendingScore r > 0"
      "tickRobotScore rnd r tier fs rfs now ge =
        (releasePending r tier now, ro_Score (releasePending r tier now))"
  | (grow) t where "ro_PendingScore r = 0" "ro_Score r < capGrowth tier rfs t"
      "t = calcGrowTarget rnd fs (ti_GrowTokenMinBps tier) (ti_GrowTokenMaxBps tier)"
      "tickRobotScore rnd r tier fs rfs now ge =
        (applyGrowth r tier (capGrowth tier rfs t) now,
         ro_Score (applyGrowth r tier (capGrowth tier rfs t) now))"
proof (cases "ro_PendingScore r > 0")
  case True
  with assms have "tickRobotScore rnd r tier fs rfs now ge = (r, ro_Score r)
    \<or> tickRobotScore rnd r tier fs rfs now ge =
        (releasePending r tier now, ro_Score (releasePending r tier now))"
    by (simp add: tick_branches robot_ok_def)
  then show ?thesis using idle release True by blast
next
  case False
  then have z: "ro_PendingScore r = 0" using assms by (simp add: robot_ok_def)
  define t where "t = calcGrowTarget rnd fs (ti_GrowTokenMinBps tier) (ti_GrowTokenMaxBps tier)"
  have "tickRobotScore rnd r tier fs rfs now ge = (r, ro_Score r)
    \<or> tickRobotScore rnd r tier fs rfs now ge = (r\<lparr>ro_LastGrowAt := now\<rparr>, ro_Score r)
    \<or> (ro_Score r < capGrowth tier rfs t \<and> tickRobotScore rnd r tier fs rfs now ge =
        (applyGrowth r tier (capGrowth tier rfs t) now,
         ro_Score (applyGrowth r tier (capGrowth tier rfs t) now)))"
    using z by (simp add: tick_branches t_def [symmetric])
  then show ?thesis using idle reset grow z t_def by blast
qed

lemma tick_keeps_ok:
  assumes "tier_ok tier" "robot_ok tier r"
    and "tickRobotScore rnd r tier fs rfs now ge = (r', sc)"
  shows "robot_ok tier r' \<and> ro_Score r \<le> ro_Score r' \<and> sc = ro_Score r'
    \<and> ro_MemberID r' = ro_MemberID r \<and> ro_TierID r' = ro_TierID r \<and> ro_InfoID r' = ro_InfoID r"
  using assms(2)
proof (cases rule: tick_cases [where rnd = rnd and fs = fs and rfs = rfs and now = now and ge = ge])
  case idle
  then show ?thesis using assms by auto
next
  case reset
  then show ?thesis using assms by (auto simp: robot_ok_def)
next
  case release
  then show ?thesis using assms releasePending_facts [OF assms(1,2) release(1), of now] by auto
next
  case (grow t)
  then show ?thesis
    using assms applyGrowth_facts [OF assms(1,2) grow(1,2) capGrowth_le, of now] by auto
qed

text \<open>Claim C22: one growth step of a robot keeps it within its tier (score and pending
  non-negative, their sum at most \<open>MaxToken\<close>, a pending amount has a positive slice), never
  lowers the score, returns the score it leaves, and does not touch the robot's identity.\<close>

theorem tickRobotScore_invariant:
  assumes "tier_ok tier" "robot_ok tier r"
    and "tickRobotScore rnd r tier fs rfs now ge = (r', sc)"
  shows "robot_ok tier r' \<and> ro_Score r \<le> ro_Score r' \<and> sc = ro_Score r'
    \<and> ro_MemberID r' = ro_MemberID r \<and> ro_TierID r' = ro_TierID r \<and> ro_InfoID r' = ro_InfoID r"
  using assms by (rule tick_keeps_ok)

text \<open>Claim C23: a step never lifts score plus pending above what it was, except to a growth
  target that respects both caps: \<open>MaxToken\<close>, and with a real player in first place that
  player's score plus \<open>MaxDifferenceToken\<close>. While an amount is pending no new growth starts and
  the sum is unchanged.\<close>

theorem tickRobotScore_caps:
  assumes "tier_ok tier" "robot_ok tier r"
    and "in64 (rfs + ti_MaxDifferenceToken tier)"
    and "tickRobotScore rnd r tier fs rfs now ge = (r', sc)"
  shows "(if ro_PendingScore r > 0 then ro_Score r' + ro_PendingScore r' = ro_Score r + ro_PendingScore r
     else ro_Score r' + ro_PendingScore r' = ro_Score r
       \<or> (ro_Score r < ro_Score r' + ro_PendingScore r'
          \<and> ro_Score r' + ro_PendingScore r' \<le> ti_MaxToken tier
          \<and> ro_Score r' + ro_PendingScore r'
              \<le> calcGrowTarget rnd fs (ti_GrowTokenMinBps tier) (ti_GrowTokenMaxBps tier)
          \<and> (rfs > 0 \<longrightarrow> ro_Score r' + ro_PendingScore r' \<le> rfs + ti_MaxDifferenceToken tier)))"
  using assms(2)
proof (cases rule: tick_cases [where rnd = rnd and fs = fs and rfs = rfs and now = now and ge = ge])
  case idle
  then show ?thesis using assms by (auto simp: robot_ok_def)
next
  case reset
  then show ?thesis using assms by auto
next
  case release
  then show ?thesis using assms releasePending_facts [OF assms(1,2) release(1), of now] by auto
next
  case (grow t)
  then show ?thesis
    using assms applyGrowth_facts [OF assms(1,2) grow(1,2) capGrowth_le, of now]
      capGrowth_le [of tier rfs t] capGrowth_target [of tier rfs t]
      capGrowth_real_first [of rfs tier t] by auto
qed

section \<open>Draining the pending amount\<close>

text \<open>Steps at the given times, and times at which each next slice is due.\<close>

fun tick_run :: "(int \<Rightarrow> int) \<Rightarrow> robot_tier \<Rightarrow> int64 \<Rightarrow> int64 \<Rightarrow> int64 \<Rightarrow> robot_state \<Rightarrow> int64 list \<Rightarrow> robot_state" where
  "tick_run rnd tier fs rfs ge r [] = r"
| "tick_run rnd tier fs rfs ge r (t # ts) =
     tick_run rnd tier fs rfs ge (fst (tickRobotScore rnd r tier fs rfs t ge)) ts"

fun due_times :: "int64 \<Rightarrow> int64 \<Rightarrow> int64 list \<Rightarrow> bool" where
  "due_times start interval [] = True"
| "due_times start interval (t # ts) \<longleftrightarrow> start + interval \<le> t \<and> in64 t \<and> due_times (start + interval) interval ts"

definition unlocked :: "robot_tier \<Rightarrow> int64 \<Rightarrow> int64 \<Rightarrow> bool" where
  "unlocked tier ge t \<longleftrightarrow> \<not> (ge > 0 \<and> i64 (ge - t) \<le> ti_LockTokenTimeMs tier)"

lemma release_due:
  assumes ok: "tier_ok tier" "robot_ok tier r" "ro_PendingScore r > 0"
    and st: "0 \<le> ro_PendingStartAt r" "ro_PendingStartAt r + ti_OvertakeIntervalMs tier \<le> t" "in64 t"
    and un: "unlocked tier ge t"
  defines "rel \<equiv> min (ro_PendingPerSlice r) (ro_PendingScore r)"
  shows "fst (tickRobotScore rnd r tier fs rfs t ge) =
    r\<lparr>ro_Score := ro_Score r + rel, ro_PendingScore := ro_PendingScore r - rel,
      ro_PendingStartAt := ro_PendingStartAt r + ti_OvertakeIntervalMs tier\<rparr>"
proof -
  have sl: "0 < ro_PendingPerSlice r" "0 < ti_OvertakeTimeMs tier" "0 < ti_OvertakeIntervalMs tier"
    using ok by (simp_all add: robot_ok_def)
  have w: "in64 (t - ro_PendingStartAt r)" "in64 (ro_PendingStartAt r + ti_OvertakeIntervalMs tier)"
    using st sl by (auto simp: in64_def)
  have "releasePending r tier t = r\<lparr>ro_Score := ro_Score r + rel, ro_PendingScore := ro_PendingScore r - rel,
      ro_PendingStartAt := ro_PendingStartAt r + ti_OvertakeIntervalMs tier\<rparr>"
    using releasePending_eq(1) [OF ok, of t] w st sl ok by (simp add: rel_def)
  moreover have "fst (tickRobotScore rnd r tier fs rfs t ge) = releasePending r tier t"
    using un sl ok by (auto simp: tick_branches unlocked_def)
  ultimately show ?thesis by simp
qed

text \<open>Claim C24: staged growth completes. If the robot is ticked at times at which each next
  slice is due, outside the lock window, then after as many ticks as the pending amount has
  slices (rounded up) nothing is pending and the whole amount has been added to the score.\<close>

theorem pending_drains:
  assumes "tier_ok tier" "robot_ok tier r" "0 \<le> ro_PendingStartAt r"
    and "due_times (ro_PendingStartAt r) (ti_OvertakeIntervalMs tier) ts"
    and "\<forall>t \<in> set ts. unlocked tier ge t"
    and "ro_PendingScore r \<le> int (length ts) * ro_PendingPerSlice r"
    and "(int (length ts) - 1) * ro_PendingPerSlice r < ro_PendingScore r"
  shows "ro_PendingScore (tick_run rnd tier fs rfs ge r ts) = 0
    \<and> ro_Score (tick_run rnd tier fs rfs ge r ts) = ro_Score r + ro_PendingScore r"
  using assms
proof (induction ts arbitrary: r)
  case Nil
  then show ?case by (simp add: robot_ok_def)
next
  case (Cons t ts)
  let ?s = "ro_PendingPerSlice r"
  define rel where "rel = min ?s (ro_PendingScore r)"
  have pend: "0 < ro_PendingScore r"
  proof (rule ccontr)
    assume "\<not> 0 < ro_PendingScore r"
    then have z: "ro_PendingScore r = 0" using Cons.prems(2) by (simp add: robot_ok_def)
    show False
    proof (cases "?s < 0")
      case True
      then have "int (length (t # ts)) * ?s < 0" by (intro mult_pos_neg) auto
      then show False using Cons.prems(6) z by simp
    next
      case False
      then have "0 \<le> (int (length (t # ts)) - 1) * ?s" by simp
      then show False using Cons.prems(7) z by simp
    qed
  qed
  have sl: "0 < ?s" "0 < ti_OvertakeIntervalMs tier"
    using Cons.prems(2) pend by (simp_all add: robot_ok_def)
  define r1 where "r1 = r\<lparr>ro_Score := ro_Score r + rel, ro_PendingScore := ro_PendingScore r - rel,
      ro_PendingStartAt := ro_PendingStartAt r + ti_OvertakeIntervalMs tier\<rparr>"
  have step: "fst (tickRobotScore rnd r tier fs rfs t ge) = r1"
    unfolding r1_def rel_def using Cons.prems pend by (intro release_due) auto
  have ok1: "robot_ok tier r1"
    using tick_keeps_ok [OF Cons.prems(1,2), of rnd fs rfs t ge r1] step
    by (metis prod.collapse)
  show ?case
  proof (cases ts)
    case Nil
    then have "rel = ro_PendingScore r" using Cons.prems(6) by (simp add: rel_def)
    then show ?thesis using Nil step by (simp add: r1_def)
  next
    case (Cons t' ts')
    have big: "?s < ro_PendingScore r"
    proof -
      have "1 * ?s \<le> (int (length (t # ts)) - 1) * ?s"
        using sl Cons by (intro mult_right_mono) auto
      then show ?thesis using Cons.prems(7) by linarith
    qed
    then have rel: "rel = ?s" by (simp add: rel_def)
    have "ro_PendingScore (tick_run rnd tier fs rfs ge r1 ts) = 0
      \<and> ro_Score (tick_run rnd tier fs rfs ge r1 ts) = ro_Score r1 + ro_PendingScore r1"
      using Cons.prems ok1 sl rel big
      by (intro Cons.IH) (auto simp: r1_def algebra_simps)
    then show ?thesis using step by (simp add: r1_def)
  qed
qed

text \<open>Inside the lock window before the end of the game a step changes nothing.\<close>

lemma tick_locked:
  assumes "\<not> unlocked tier ge now"
  shows "tickRobotScore rnd r tier fs rfs now ge = (r, ro_Score r)"
  using assms by (simp add: tickRobotScore_def unlocked_def)

lemma plan_total:
  assumes "in32 capacity" "0 \<le> capacity"
  shows "totalRobotsInPlan (buildRobotSpawnPlan tiers capacity) = min capacity (demand tiers)"
proof -
  let ?plan = "spawn_loop tiers capacity"
  have sum: "plan_sum ?plan = min capacity (demand tiers)" using assms by (intro spawn_loop_sum)
  have "in32 (plan_sum ?plan)" using sum assms demand_nonneg [of tiers] by (auto simp: in32_def)
  then have "totalRobotsInPlan_from 0 ?plan = 0 + plan_sum ?plan"
    by (intro totalRobots_from) (auto dest: spawn_loop_counts)
  then show ?thesis using sum by (simp add: buildRobotSpawnPlan_def totalRobotsInPlan_def)
qed

text \<open>The spawn plan fills the free capacity as far as the tiers ask for robots, no
  further: its total, also as the code adds it up in 32 bits, is the smaller of the two, and
  each entry is for a configured tier and has a positive count within that tier's number.\<close>

theorem spawn_plan_total:
  assumes "in32 capacity" "0 \<le> capacity"
  shows "totalRobotsInPlan (buildRobotSpawnPlan tiers capacity) = min capacity (demand tiers)
    \<and> (\<forall>e \<in> set (buildRobotSpawnPlan tiers capacity). 0 < se_Count e
         \<and> (\<exists>t \<in> set tiers. ti_TierID t = se_TierID e \<and> se_Count e \<le> ti_Num t))"
  using plan_total [OF assms] spawn_loop_counts by (auto simp: buildRobotSpawnPlan_def)

text \<open>Robot ids are negative, so never taken for a player's, and distinct for distinct
  group and index as long as a group has fewer than 10000 robots.\<close>

theorem robotMemberID_injective:
  assumes "0 < g" "in32 g" "0 < g'" "in32 g'" "0 \<le> i" "i < 10000" "0 \<le> i'" "i' < 10000"
  shows "IsRobotMemberID (robotMemberID g i)
    \<and> (robotMemberID g i = robotMemberID g' i' \<longleftrightarrow> g = g' \<and> i = i')"
proof -
  have e: "robotMemberID g i = - (g * 10000 + i)" "robotMemberID g' i' = - (g' * 10000 + i')"
    using robotMemberID_eq [of g i] robotMemberID_eq [of g' i'] assms by (simp_all add: in32_def)
  have d: "(g * 10000 + i) div 10000 = g" "(g' * 10000 + i') div 10000 = g'"
    using assms by (simp_all add: div_add1_eq)
  have "g * 10000 + i = g' * 10000 + i' \<Longrightarrow> g = g' \<and> i = i'"
    using d by simp
  moreover have "IsRobotMemberID (robotMemberID g i)" using assms by (simp add: e IsRobotMemberID_def)
  ultimately show ?thesis unfolding e by auto
qed

section \<open>Witnesses\<close>

definition sample_tier :: robot_tier where
  "sample_tier = \<lparr>ti_TierID = 1, ti_Num = 3, ti_DefaultTokenMin = 10, ti_DefaultTokenMax = 20,
     ti_GrowTokenCdMs = 1000, ti_GrowTokenMinBps = 9000, ti_GrowTokenMaxBps = 9000, ti_MaxToken = 500,
     ti_MaxDifferenceToken = 50, ti_LockTokenTimeMs = 5000, ti_OvertakeTimeMs = 3000,
     ti_OvertakeIntervalMs = 1000\<rparr>"

definition sample_robot :: robot_state where
  "sample_robot = \<lparr>ro_MemberID = - 10000, ro_TierID = 1, ro_InfoID = 7, ro_Score = 10,
     ro_LastGrowAt = 0, ro_PendingScore = 0, ro_PendingStartAt = 0, ro_PendingPerSlice = 0\<rparr>"

definition staged_robot :: robot_state where
  "staged_robot = sample_robot\<lparr>ro_PendingScore := 25, ro_PendingPerSlice := 10\<rparr>"

lemmas sample_simps = sample_tier_def sample_robot_def staged_robot_def tier_ok_def robot_ok_def
  in64_def in32_def unlocked_def

lemma sample_tick: "tickRobotScore (\<lambda>n. 0) sample_robot sample_tier 200 0 1000 0 =
  (sample_robot\<lparr>ro_Score := 67, ro_LastGrowAt := 1000, ro_PendingScore := 113,
     ro_PendingStartAt := 1000, ro_PendingPerSlice := 57\<rparr>, 67)"
  by code_simp

theorem tickRobotScore_invariant_witness:
  "robot_ok sample_tier (sample_robot\<lparr>ro_Score := 67, ro_LastGrowAt := 1000, ro_PendingScore := 113,
     ro_PendingStartAt := 1000, ro_PendingPerSlice := 57\<rparr>)"
  by (rule tickRobotScore_invariant [OF _ _ sample_tick, THEN conjunct1]) (simp_all add: sample_simps)

theorem tickRobotScore_caps_witness:
  "ro_Score (fst (tickRobotScore (\<lambda>n. 0) sample_robot sample_tier 200 0 1000 0))
   + ro_PendingScore (fst (tickRobotScore (\<lambda>n. 0) sample_robot sample_tier 200 0 1000 0)) \<le> 500"
  using tickRobotScore_caps [OF _ _ _ sample_tick] unfolding sample_tick by (simp add: sample_simps)

theorem pending_drains_witness:
  "ro_Score (tick_run (\<lambda>n. 0) sample_tier 200 0 0 staged_robot [1000, 2500, 3000]) = 35"
  using pending_drains [of sample_tier staged_robot "[1000, 2500, 3000]" 0 "\<lambda>n. 0" 200 0]
  by (simp add: sample_simps)

theorem spawn_plan_total_witness:
  "totalRobotsInPlan (buildRobotSpawnPlan [sample_tier, sample_tier] 5) = 5"
  using spawn_plan_total [of 5 "[sample_tier, sample_tier]"] by (simp add: sample_simps)

theorem robotMemberID_injective_witness: "robotMemberID 1 9999 \<noteq> robotMemberID 2 0"
  using robotMemberID_injective [of 1 2 9999 0] by (simp add: sample_simps)

end
