(* ===== verification/Snapshot.thy ===== *)
theory Snapshot
  imports RankTypes
begin

text \<open>
  \<open>internal/rank/engine/snapshot.go\<close>: the copy and the slice of a list of member snapshots. The
  copy's purpose is that no caller shares the avatar structs behind the list's pointers; in values
  it is the identity. A \<open>nil\<close> slice and an empty one are both \<open>[]\<close> (no caller tells them apart).
\<close>

definition cloneSnapshots :: "snapshot list \<Rightarrow> snapshot list" where
  "cloneSnapshots src = (if length src = 0 then []
     else map (\<lambda>item. case sn_AvatarInfo item of None \<Rightarrow> item
                      | Some info \<Rightarrow> item\<lparr>sn_AvatarInfo := Some info\<rparr>) src)"

definition sliceSnapshots :: "snapshot list \<Rightarrow> int64 \<Rightarrow> int64 \<Rightarrow> snapshot list" where
  "sliceSnapshots src start end0 =
     (if length src = 0 then []
      else let start = (if start < 0 then 0 else start);
               end1 = (if end0 < 0 then int (length src) - 1 else end0)
           in if end1 < start then []
              else if start \<ge> int (length src) then []
              else let end2 = (if end1 \<ge> int (length src) then int (length src) - 1 else end1)
                   in cloneSnapshots (take (nat (end2 + 1 - start)) (drop (nat start) src)))"

lemma cloneSnapshots_id [simp]: "cloneSnapshots src = src"
proof -
  have "map (\<lambda>item. case sn_AvatarInfo item of None \<Rightarrow> item
                    | Some info \<Rightarrow> item\<lparr>sn_AvatarInfo := Some info\<rparr>) src = src"
    by (rule map_idI) (auto split: option.splits)
  then show ?thesis by (simp add: cloneSnapshots_def)
qed

text \<open>The members whose 0-based rank lies in the closed interval, an open end meaning the last.\<close>

definition rank_interval :: "snapshot list \<Rightarrow> int64 \<Rightarrow> int64 \<Rightarrow> snapshot list" where
  "rank_interval src start end0 =
     map snd (filter (\<lambda>(i, _). start \<le> int i \<and> (end0 < 0 \<or> int i \<le> end0)) (enumerate 0 src))"

lemma filter_enumerate_interval:
  "map snd (filter (\<lambda>(i, _). s \<le> int i \<and> int i \<le> e) (enumerate n xs)) =
    take (nat (e + 1 - max s (int n))) (drop (nat (s - int n)) xs)"
proof (induction xs arbitrary: n)
  case (Cons x xs)
  consider "int n < s" | "s \<le> int n" "int n \<le> e" | "s \<le> int n" "e < int n" by linarith
  then show ?case
  proof cases
    case 1
    then have d: "nat (s - int n) = Suc (nat (s - int (Suc n)))" by simp
    have m: "max s (int n) = s" "max s (int (Suc n)) = s" using 1 by auto
    show ?thesis using 1 Cons.IH [of "Suc n"] by (simp add: d m)
  next
    case 2
    then have d: "nat (s - int n) = 0" "nat (s - int (Suc n)) = 0" by simp_all
    have m: "max s (int n) = int n" "max s (int (Suc n)) = int (Suc n)" using 2 by auto
    have t: "nat (e + 1 - int n) = Suc (nat (e + 1 - int (Suc n)))" using 2 by simp
    show ?thesis using 2 Cons.IH [of "Suc n"] by (simp add: d m t)
  next
    case 3
    then have "nat (e + 1 - max s (int n)) = 0" "nat (e + 1 - max s (int (Suc n))) = 0" by auto
    then show ?thesis using 3 Cons.IH [of "Suc n"] by simp
  qed
qed simp

text \<open>\<open>sliceSnapshots\<close> returns exactly the members whose 0-based position lies between
  start and end inclusive, in order; a negative end means to the last, a negative start from the
  first, and positions past the end are ignored, so it never reads out of range.\<close>

theorem sliceSnapshots_interval: "sliceSnapshots src start end0 = rank_interval src start end0"
proof -
  define e where "e = (if end0 < 0 then int (length src) - 1 else end0)"
  have fe: "filter (\<lambda>(i, _). start \<le> int i \<and> (end0 < 0 \<or> int i \<le> end0)) (enumerate 0 src)
    = filter (\<lambda>(i, _). start \<le> int i \<and> int i \<le> e) (enumerate 0 src)"
    by (rule filter_cong) (auto simp: e_def in_set_enumerate_eq)
  have r: "rank_interval src start end0 = take (nat (e + 1 - max start 0)) (drop (nat start) src)"
    unfolding rank_interval_def fe using filter_enumerate_interval [of start e 0 src] by simp
  have d: "drop (nat (max start 0)) src = drop (nat start) src" by (simp add: max_def)
  have m: "(if start < 0 then 0 else start) = max start 0" by simp
  show ?thesis
    unfolding r sliceSnapshots_def Let_def m e_def [symmetric] cloneSnapshots_id d
    by (auto simp: min_def nat_diff_distrib)
qed

end
