(* ===== verification/RankGroups.thy ===== *)
theory RankGroups
  imports Store Robot Snapshot
begin

text \<open>
  The state of an \<open>engine.Service\<close> (\<open>internal/rank/engine/service.go\<close>) and its groups
  (\<open>internal/rank/engine/group.go\<close>): merging the groups other nodes wrote, finding or opening a
  group with room, and making sure a group's ranking instance exists.

  A method runs over the pair of the service's memory and the outside world. Methods take the
  service's mutex for their critical section, so a method call is one transition here; what other
  nodes do happens in the world. The groups of \<open>s.groups\<close> are pointers in the code: a function
  that returns or changes one works on its index. Caches keep the time they expire at in
  nanoseconds.
\<close>

section \<open>The service\<close>

record score_entry =
  sc_firstScore :: int64
  sc_realFirstScore :: int64
  sc_expiry :: int

record robots_entry =
  rc_robots :: "robot_state list"
  rc_expiry :: int

record 'w service =
  s_config :: config
  s_rankService :: "'w rank_service"
  s_store :: "'w store"
  s_groups :: "group list"
  s_memberGroup :: "(int64 \<times> int32) list"
  s_settledGroup :: "(int32 \<times> snapshot list) list"
  s_nextGroupID :: int32
  s_onMemberJoin :: "(int64 \<Rightarrow> int32 \<Rightarrow> ('w, unit) state) option"
  s_loaded :: bool
  s_rankDef :: "rank_def option"
  s_tierMap :: "(int32 \<times> robot_tier) list"
  s_infoMap :: "(int64 \<times> robot_info) list"
  s_instanceStates :: "(string \<times> int64) list"
  s_groupsCache :: "group list option"
  s_groupsCacheExpiry :: int
  s_robotsCache :: "(int32 \<times> robots_entry) list"
  s_scoreCache :: "(int32 \<times> score_entry) list"
  s_settledAt :: int64
  s_activityEnd :: int64

type_synonym ('w, 'a) svc = "('w service \<times> 'w, 'a) state"

definition sget :: "('w service \<Rightarrow> 'a) \<Rightarrow> ('w, 'a) svc" where
  "sget f = State (\<lambda>(s, w). (f s, (s, w)))"

definition smod :: "('w service \<Rightarrow> 'w service) \<Rightarrow> ('w, unit) svc" where
  "smod f = State (\<lambda>(s, w). ((), (f s, w)))"

text \<open>The store as its methods see it: the closure yields the present atomic copy.\<close>

definition store_now :: "'w service \<Rightarrow> 'w store" where
  "store_now s = (s_store s)\<lparr>st_activityEnd := Some (s_activityEnd s)\<rparr>"

definition with_store :: "('w store \<Rightarrow> ('w, 'a) state) \<Rightarrow> ('w, 'a) svc" where
  "with_store f = do { st \<leftarrow> sget store_now; lift_ext (f st) }"

definition with_rank :: "('w rank_service \<Rightarrow> ('w, 'a) state) \<Rightarrow> ('w, 'a) svc" where
  "with_rank f = do { r \<leftarrow> sget s_rankService; lift_ext (f r) }"

lemma exec_sget [simp]: "exec (sget f) sw = sw" and result_sget [simp]: "result (sget f) sw = f (fst sw)"
  by (simp_all add: sget_def split: prod.splits)

lemma exec_smod [simp]: "exec (smod f) sw = (f (fst sw), snd sw)"
  and result_smod [simp]: "result (smod f) sw = ()"
  by (simp_all add: smod_def split: prod.splits)

lemma exec_with_store [simp]: "exec (with_store f) sw = (fst sw, exec (f (store_now (fst sw))) (snd sw))"
  and result_with_store [simp]: "result (with_store f) sw = result (f (store_now (fst sw))) (snd sw)"
  by (simp_all add: with_store_def)

lemma exec_with_rank [simp]: "exec (with_rank f) sw = (fst sw, exec (f (s_rankService (fst sw))) (snd sw))"
  and result_with_rank [simp]: "result (with_rank f) sw = result (f (s_rankService (fst sw))) (snd sw)"
  by (simp_all add: with_rank_def)

definition svc_available :: "'w service \<Rightarrow> bool" where
  "svc_available s = available (s_store s)"

section \<open>\<open>group.go\<close>\<close>

definition svc_bizId :: "'w service \<Rightarrow> string" where
  "svc_bizId s = computeBizId (s_config s)"

definition groupInstanceID :: "'w env \<Rightarrow> 'w service \<Rightarrow> int32 \<Rightarrow> string" where
  "groupInstanceID E s groupID =
     NewInstanceID (en_lib E) (cf_RankCode (s_config s)) (svc_bizId s) (''group_'' @ FormatInt groupID)"

text \<open>\<open>byID\<close> points at the last group with an id.\<close>

definition update_last :: "('a \<Rightarrow> bool) \<Rightarrow> ('a \<Rightarrow> 'a) \<Rightarrow> 'a list \<Rightarrow> 'a list" where
  "update_last p f xs = rev (update_first p f (rev xs))"

fun merge_groups :: "group list \<Rightarrow> group list \<times> int32 \<Rightarrow> group list \<times> int32" where
  "merge_groups [] acc = acc"
| "merge_groups (fg # fresh) (groups, nextID) =
     merge_groups fresh
       (if \<exists>g \<in> set groups. gr_GroupID g = gr_GroupID fg
        then (update_last (\<lambda>g. gr_GroupID g = gr_GroupID fg) (\<lambda>_. fg) groups, nextID)
        else (groups @ [fg], if gr_GroupID fg > nextID then gr_GroupID fg else nextID))"

definition mergeGroupsLocked :: "group list \<Rightarrow> ('w, unit) svc" where
  "mergeGroupsLocked fresh = smod (\<lambda>s.
     case merge_groups fresh (s_groups s, s_nextGroupID s) of
       (groups, nextID) \<Rightarrow> s\<lparr>s_groups := groups, s_nextGroupID := nextID\<rparr>)"

fun find_index :: "('a \<Rightarrow> bool) \<Rightarrow> 'a list \<Rightarrow> nat option" where
  "find_index p [] = None"
| "find_index p (x # xs) = (if p x then Some 0 else map_option Suc (find_index p xs))"

definition has_room :: "'w service \<Rightarrow> group \<Rightarrow> bool" where
  "has_room s g \<longleftrightarrow> gr_State g = GroupStateOpen \<and> totalCount g < cf_RankPeopleNum (s_config s)"

definition addGroup :: "'w env \<Rightarrow> int32 \<Rightarrow> ('w, nat) svc" where
  "addGroup E newID = do {
     s \<leftarrow> sget (\<lambda>s. s);
     let grp = \<lparr>gr_GroupID = newID, gr_InstanceID = groupInstanceID E s newID, gr_RealCount = 0,
                gr_RobotCount = 0, gr_State = GroupStateOpen\<rparr>;
     _ \<leftarrow> smod (\<lambda>s. s\<lparr>s_groups := s_groups s @ [grp]\<rparr>);
     _ \<leftarrow> with_store (\<lambda>st. SaveGroup E st grp);
     State_Monad.return (length (s_groups s)) }"

text \<open>The index of the group in \<open>s.groups\<close>.\<close>

definition ensureGroupLocked :: "'w env \<Rightarrow> ('w, goerr + nat) svc" where
  "ensureGroupLocked E = do {
     avail \<leftarrow> sget svc_available;
     _ \<leftarrow> (if avail then do {
             fresh \<leftarrow> with_store (LoadGroups E);
             case fresh of
               Inr (Some (g # gs)) \<Rightarrow> mergeGroupsLocked (sort_key gr_GroupID (g # gs))
             | _ \<Rightarrow> skip }
           else skip);
     s \<leftarrow> sget (\<lambda>s. s);
     case find_index (has_room s) (s_groups s) of
       Some i \<Rightarrow> State_Monad.return (Inr i)
     | None \<Rightarrow>
         (if avail then do {
            r \<leftarrow> with_store (NextGroupID E);
            case r of
              Inl err \<Rightarrow> State_Monad.return (Inl (ErrWrap ''next group id'' err))
            | Inr newID \<Rightarrow> do { i \<leftarrow> addGroup E newID; State_Monad.return (Inr i) } }
          else do {
            _ \<leftarrow> smod (\<lambda>s. s\<lparr>s_nextGroupID := i32 (s_nextGroupID s + 1)\<rparr>);
            newID \<leftarrow> sget s_nextGroupID;
            i \<leftarrow> addGroup E newID;
            State_Monad.return (Inr i) }) }"

definition instanceVerifyInterval :: int64 where
  "instanceVerifyInterval = 60 * 1000"

definition markInstanceVerified :: "string \<Rightarrow> int64 \<Rightarrow> ('w, unit) svc" where
  "markInstanceVerified instanceID now =
     smod (\<lambda>s. s\<lparr>s_instanceStates := AList.update instanceID now (s_instanceStates s)\<rparr>)"

definition invalidateInstanceState :: "string \<Rightarrow> ('w, unit) svc" where
  "invalidateInstanceState instanceID =
     smod (\<lambda>s. s\<lparr>s_instanceStates := AList.delete instanceID (s_instanceStates s)\<rparr>)"

definition instanceVerified :: "'w service \<Rightarrow> string \<Rightarrow> int64 \<Rightarrow> bool" where
  "instanceVerified s instanceID now = (case map_of (s_instanceStates s) instanceID of
     None \<Rightarrow> False | Some verifiedAt \<Rightarrow> i64 (now - verifiedAt) < instanceVerifyInterval)"

definition newInstance :: "'w service \<Rightarrow> string \<Rightarrow> int64 \<Rightarrow> rank_instance" where
  "newInstance s instanceID now =
     \<lparr>in_InstanceId = instanceID, in_RankCode = cf_RankCode (s_config s), in_BizId = svc_bizId s,
      in_State = InstanceStateOpen, in_OpenTime = cf_OpenTime (s_config s),
      in_CloseTime = cf_CloseTime (s_config s), in_GameEndTime = cf_GameEndTime (s_config s),
      in_SettleTime = 0, in_CreateTime = now, in_UpdateTime = now, in_MemberCount = 0, in_Version = 0\<rparr>"

definition ensureGroupInstance :: "string \<Rightarrow> int32 \<Rightarrow> int64 \<Rightarrow> ('w, goerr option) svc" where
  "ensureGroupInstance instanceID groupID now = do {
     s \<leftarrow> sget (\<lambda>s. s);
     if instanceVerified s instanceID now then State_Monad.return None
     else do {
       r \<leftarrow> with_rank (\<lambda>rs. GetInstance rs instanceID);
       case r of
         Inr inst \<Rightarrow> do {
           _ \<leftarrow> with_store (\<lambda>st. SaveRankInst st groupID inst);
           _ \<leftarrow> markInstanceVerified instanceID now;
           State_Monad.return None }
       | Inl err \<Rightarrow>
           (if err \<noteq> ErrInstanceNotFound then State_Monad.return (Some err)
            else do {
              let newInst = newInstance s instanceID now;
              openErr \<leftarrow> with_rank (\<lambda>rs. OpenInstance rs newInst);
              case openErr of
                Some e \<Rightarrow> State_Monad.return (Some e)
              | None \<Rightarrow> do {
                  _ \<leftarrow> with_store (\<lambda>st. SaveRankInst st groupID newInst);
                  _ \<leftarrow> markInstanceVerified instanceID now;
                  State_Monad.return None } }) } }"

end
