(* ===== verification/Recovery.thy ===== *)
theory Recovery
  imports RankGroups Robot
begin

text \<open>
  \<open>internal/rank/engine/service.go\<close>, the part that builds a service and rebuilds its state:
  construction, the lazy load of groups, members and robots with the restoration of evicted
  ranking instances, and the recovery of one group at run time.
\<close>

section \<open>Construction\<close>

definition effectiveSettleAt :: "'w service \<Rightarrow> int64" where
  "effectiveSettleAt s = s_activityEnd s"

definition refreshActivityEndLocked :: "'w env \<Rightarrow> 'w service \<Rightarrow> 'w service" where
  "refreshActivityEndLocked E s =
     s\<lparr>s_activityEnd := settleAtOf E (cf_CloseTime (s_config s)) (cf_GameEndTime (s_config s))\<rparr>"

definition buildRobotLookupMaps :: "'w service \<Rightarrow> 'w service" where
  "buildRobotLookupMaps s =
     s\<lparr>s_tierMap := (if cf_RobotTiers (s_config s) = [] then s_tierMap s
                    else to_map (map (\<lambda>t. (ti_TierID t, t)) (cf_RobotTiers (s_config s)))),
       s_infoMap := (if cf_RobotInfos (s_config s) = [] then s_infoMap s
                    else to_map (map (\<lambda>i. (ri_InfoID i, i)) (cf_RobotInfos (s_config s))))\<rparr>"

text \<open>The two options are the callback and the rank definition.\<close>

definition NewService ::
  "'w env \<Rightarrow> 'w rank_service option \<Rightarrow> config \<Rightarrow> 'w redis option \<Rightarrow> 'w store_mongo option
   \<Rightarrow> (int64 \<Rightarrow> int32 \<Rightarrow> ('w, unit) state) option \<Rightarrow> rank_def option
   \<Rightarrow> ('w, goerr + 'w service) state" where
  "NewService E rankService config rdb dao onJoin rankDef =
     (case rankService of
        None \<Rightarrow> State_Monad.return (Inl ErrInvalidRankSpec)
      | Some rs \<Rightarrow>
        (if cf_RankCode config = [] \<or> cf_RankPeopleNum config \<le> 0
         then State_Monad.return (Inl ErrInvalidRankSpec)
         else
           let s0 = \<lparr>s_config = config, s_rankService = rs,
                 s_store = \<lparr>st_rdb = rdb, st_dao = dao, st_bizId = computeBizId config, st_activityEnd = None\<rparr>,
                 s_groups = [], s_memberGroup = [], s_settledGroup = [], s_nextGroupID = 0,
                 s_onMemberJoin = onJoin, s_loaded = False, s_rankDef = rankDef, s_tierMap = [],
                 s_infoMap = [], s_instanceStates = [], s_groupsCache = None, s_groupsCacheExpiry = 0,
                 s_robotsCache = [], s_scoreCache = [], s_settledAt = 0, s_activityEnd = 0\<rparr>;
               s1 = buildRobotLookupMaps (refreshActivityEndLocked E s0)
           in do {
             _ \<leftarrow> SaveActivityTimes E (store_now s1) (cf_OpenTime config) (cf_CloseTime config) (cf_GameEndTime config);
             State_Monad.return (Inr s1) }))"

section \<open>What is written back after an eviction\<close>

definition score_doc_item :: "score_doc \<Rightarrow> score_item" where
  "score_doc_item doc = \<lparr>it_MemberId = sd_UserID doc, it_Score = sd_Score doc, it_AtTime = sd_UpdateTime doc,
     it_EnterTime = sd_EnterTime doc, it_Sequence = sd_Sequence doc, it_AvatarInfo = sd_AvatarInfo doc\<rparr>"

definition robot_item :: "robot_info list \<Rightarrow> robot_state \<Rightarrow> score_item" where
  "robot_item infos r =
     \<lparr>it_MemberId = ro_MemberID r, it_Score = ro_Score r, it_AtTime = ro_LastGrowAt r,
      it_EnterTime = ro_LastGrowAt r, it_Sequence = 0,
      it_AvatarInfo = (case find (\<lambda>info. ri_InfoID info = ro_InfoID r) infos of
          None \<Rightarrow> None
        | Some info \<Rightarrow> Some \<lparr>av_UserId = ri_InfoID info, av_Name = ri_Name info,
                             av_Avatar = ri_Avatar info, av_Frame = ri_Frame info\<rparr>)\<rparr>"

definition restore_items :: "config \<Rightarrow> score_doc list \<Rightarrow> robot_state list \<Rightarrow> score_item list" where
  "restore_items config docs robots =
     map score_doc_item docs @ map (robot_item (cf_RobotInfos config)) robots"

definition openInstanceOf :: "'w service \<Rightarrow> string \<Rightarrow> int64 \<Rightarrow> rank_instance" where
  "openInstanceOf s instanceID memberCount =
     (newInstance s instanceID (cf_OpenTime (s_config s)))\<lparr>in_MemberCount := memberCount\<rparr>"

definition settledInstanceOf :: "'w service \<Rightarrow> string \<Rightarrow> int64 \<Rightarrow> rank_instance" where
  "settledInstanceOf s instanceID memberCount =
     (newInstance s instanceID (cf_OpenTime (s_config s)))
       \<lparr>in_State := InstanceStateSettled, in_SettleTime := cf_GameEndTime (s_config s),
        in_UpdateTime := cf_GameEndTime (s_config s), in_MemberCount := memberCount, in_Version := 1\<rparr>"

text \<open>Restore the instance unless its key is there; MongoDB's copy has precedence.\<close>

definition restoreInstanceIfMissing :: "'w env \<Rightarrow> int32 \<Rightarrow> string \<Rightarrow> rank_instance \<Rightarrow> ('w, unit) svc" where
  "restoreInstanceIfMissing E groupID instanceID inst = do {
     instExists \<leftarrow> with_store (\<lambda>st. RdbExists st (GetRankInstKey (en_keys E) instanceID));
     if instExists then skip
     else do {
       m \<leftarrow> with_store (\<lambda>st. LoadGroupInst st groupID);
       ignore (with_rank (\<lambda>rs. RestoreInstance rs
         (case m of Inr (Some mongoInst) \<Rightarrow> mongoInst | _ \<Rightarrow> inst))) } }"

definition backfillScores :: "int32 \<Rightarrow> snapshot list \<Rightarrow> ('w, unit) svc" where
  "backfillScores groupID snaps = for_each snaps (\<lambda>snap.
     if IsRobotMemberID (sn_MemberId snap) then skip
     else ignore (with_store (\<lambda>st. SaveScore st groupID (sn_MemberId snap) (sn_Score snap)
            (if sn_EnterTime snap = 0 then sn_UpdateTime snap else sn_EnterTime snap)
            (sn_Sequence snap) (sn_UpdateTime snap) (sn_AvatarInfo snap))))"

definition restoreSettledGroup :: "'w env \<Rightarrow> int32 \<Rightarrow> string \<Rightarrow> ('w, unit) svc" where
  "restoreSettledGroup E groupID instanceID = do {
     settledExists \<leftarrow> with_store (\<lambda>st. RdbExists st (GetRankSettledKey (en_keys E) instanceID));
     mongoSettled \<leftarrow> with_store (\<lambda>st. LoadGroupSettled st groupID);
     s \<leftarrow> sget (\<lambda>s. s);
     if settledExists
     then (case mongoSettled of
         Inr [] \<Rightarrow> do {
           snaps \<leftarrow> with_rank (\<lambda>rs. Snapshot rs instanceID);
           case snaps of
             Inr (x # xs) \<Rightarrow> ignore (with_store (\<lambda>st. SaveSettled st groupID (x # xs) (cf_GameEndTime (s_config s))))
           | _ \<Rightarrow> skip }
       | _ \<Rightarrow> skip)
     else (case mongoSettled of
         Inr (x # xs) \<Rightarrow> do {
           _ \<leftarrow> smod (\<lambda>s. s\<lparr>s_settledGroup := AList.update groupID (x # xs) (s_settledGroup s)\<rparr>);
           _ \<leftarrow> with_store (\<lambda>st. RestoreSettled E st instanceID (x # xs));
           restoreInstanceIfMissing E groupID instanceID
             (settledInstanceOf s instanceID (int (length (x # xs)))) }
       | _ \<Rightarrow> skip) }"

definition restoreGroup :: "'w env \<Rightarrow> group \<Rightarrow> ('w, unit) svc" where
  "restoreGroup E g = do {
     s \<leftarrow> sget (\<lambda>s. s);
     let gid = gr_GroupID g;
     let instanceID = groupInstanceID E s gid;
     mbExists \<leftarrow> with_store (\<lambda>st. RdbExists st (GetRankMbKey (en_keys E) instanceID));
     r \<leftarrow> with_store (\<lambda>st. LoadGroupScores st gid);
     let mongoScores = (case r of Inl _ \<Rightarrow> [] | Inr docs \<Rightarrow> docs);
     _ \<leftarrow> (if mbExists
          then do {
            _ \<leftarrow> restoreInstanceIfMissing E gid instanceID (openInstanceOf s instanceID 0);
            if mongoScores = [] then do {
              snaps \<leftarrow> with_rank (\<lambda>rs. Snapshot rs instanceID);
              case snaps of Inl _ \<Rightarrow> skip | Inr xs \<Rightarrow> backfillScores gid xs }
            else skip }
          else do {
            rr \<leftarrow> with_store (\<lambda>st. LoadRobots E st gid);
            let items = restore_items (s_config s) mongoScores (case rr of Inl _ \<Rightarrow> [] | Inr rs \<Rightarrow> rs);
            _ \<leftarrow> (if items = [] then skip
                 else ignore (with_rank (\<lambda>rs. RestoreMembers rs instanceID items)));
            restoreInstanceIfMissing E gid instanceID (openInstanceOf s instanceID (int (length items))) });
     _ \<leftarrow> (if gr_State g = GroupStateSettled then restoreSettledGroup E gid instanceID else skip);
     ttl \<leftarrow> with_store (backfillTTL E);
     ignore (with_rank (\<lambda>rs. ExpireInstance rs instanceID ttl)) }"

text \<open>The display ids in use are written back when Redis lost them.\<close>

definition restoreUsedInfoIDs :: "'w env \<Rightarrow> group \<Rightarrow> ('w, unit) svc" where
  "restoreUsedInfoIDs E g = do {
     ids \<leftarrow> with_store (\<lambda>st. LoadUsedInfoIDs E st (gr_GroupID g));
     case ids of
       Inr [] \<Rightarrow> do {
         robots \<leftarrow> with_store (\<lambda>st. LoadRobots E st (gr_GroupID g));
         case robots of
           Inr (r # rs) \<Rightarrow> with_store (\<lambda>st. SaveUsedInfoIDs E st (gr_GroupID g) (remdups (map ro_InfoID (r # rs))))
         | _ \<Rightarrow> skip }
     | _ \<Rightarrow> skip }"

definition max_groupID :: "int32 \<Rightarrow> group list \<Rightarrow> int32" where
  "max_groupID n groups = fold (\<lambda>g n. if gr_GroupID g > n then gr_GroupID g else n) groups n"

definition loadGroups :: "'w env \<Rightarrow> ('w, unit) svc" where
  "loadGroups E = do {
     groups \<leftarrow> with_store (LoadGroups E);
     case groups of
       Inr (Some (g # gs)) \<Rightarrow> do {
         _ \<leftarrow> smod (\<lambda>s. s\<lparr>s_groups := sort_key gr_GroupID (g # gs)\<rparr>);
         _ \<leftarrow> smod (\<lambda>s. s\<lparr>s_nextGroupID := max_groupID (s_nextGroupID s) (s_groups s)\<rparr>);
         n \<leftarrow> sget s_nextGroupID;
         with_store (\<lambda>st. RestoreNextGroupID E st n) }
     | _ \<Rightarrow> skip }"

definition memberJoined :: "int64 \<Rightarrow> int32 \<Rightarrow> ('w, unit) svc" where
  "memberJoined userID groupID = do {
     cb \<leftarrow> sget s_onMemberJoin;
     case cb of None \<Rightarrow> skip | Some f \<Rightarrow> lift_ext (f userID groupID) }"

definition put_members :: "(int64 \<times> int32) list \<Rightarrow> (int64 \<times> int32) list \<Rightarrow> (int64 \<times> int32) list" where
  "put_members kvs m = fold (\<lambda>(k, v) m. AList.update k v m) kvs m"

definition loadMembers :: "'w env \<Rightarrow> ('w, unit) svc" where
  "loadMembers E = do {
     members \<leftarrow> with_store (GetAllMembers E);
     case members of
       Inl _ \<Rightarrow> skip
     | Inr ms \<Rightarrow> do {
         _ \<leftarrow> smod (\<lambda>s. s\<lparr>s_memberGroup := put_members ms (s_memberGroup s)\<rparr>);
         all_members \<leftarrow> sget s_memberGroup;
         for_each all_members (\<lambda>(uid, gid). memberJoined uid gid) } }"

definition ensureLoaded :: "'w env \<Rightarrow> ('w, unit) svc" where
  "ensureLoaded E = do {
     s \<leftarrow> sget (\<lambda>s. s);
     if s_loaded s \<or> \<not> svc_available s then skip
     else do {
       _ \<leftarrow> smod (\<lambda>s. s\<lparr>s_loaded := True\<rparr>);
       _ \<leftarrow> loadGroups E;
       _ \<leftarrow> loadMembers E;
       groups \<leftarrow> sget s_groups;
       _ \<leftarrow> for_each groups (restoreUsedInfoIDs E);
       for_each groups (restoreGroup E) } }"

definition WarmUp :: "'w env \<Rightarrow> ('w, unit) svc" where
  "WarmUp E = do {
     loaded \<leftarrow> sget s_loaded;
     if loaded then skip else ensureLoaded E }"

definition recoverGroupData :: "'w env \<Rightarrow> int32 \<Rightarrow> string \<Rightarrow> ('w, unit) svc" where
  "recoverGroupData E groupID instanceID = do {
     s \<leftarrow> sget (\<lambda>s. s);
     if \<not> svc_available s \<or> \<not> hasMongo (s_store s) then skip
     else do {
       r \<leftarrow> with_store (\<lambda>st. LoadGroupScores st groupID);
       case r of
         Inl err \<Rightarrow> skip
       | Inr mongoScores \<Rightarrow> do {
           rr \<leftarrow> with_store (\<lambda>st. LoadRobots E st groupID);
           let items = restore_items (s_config s) mongoScores (case rr of Inl _ \<Rightarrow> [] | Inr rs \<Rightarrow> rs);
           restoreErr \<leftarrow> (if items = [] then State_Monad.return None
                         else with_rank (\<lambda>rs. RestoreMembers rs instanceID items));
           case restoreErr of
             Some err \<Rightarrow> skip
           | None \<Rightarrow> do {
               _ \<leftarrow> restoreInstanceIfMissing E groupID instanceID
                      (openInstanceOf s instanceID (int (length items)));
               ttl \<leftarrow> with_store (backfillTTL E);
               ignore (with_rank (\<lambda>rs. ExpireInstance rs instanceID ttl)) } } } }"

end
