(* ===== verification/RobotTicks.thy ===== *)
theory RobotTicks
  imports Recovery
begin

text \<open>
  \<open>internal/rank/engine/service_robot.go\<close>: the robots of a group are created when its first player
  joins, and grow once a second. The tick works on three short-lived caches (groups, robots, first
  scores). The robots of a cache entry are pointers the tick changes in place: the tick writes the
  changed robots back to its entry.
\<close>

section \<open>The caches\<close>

definition tickGroupsCacheTTL :: int64 where
  "tickGroupsCacheTTL = 2 * second_ns"

definition now_ns :: "'w env \<Rightarrow> ('w, int) svc" where
  "now_ns E = lift_ext (Now (en_lib E))"

definition tickGroups :: "'w env \<Rightarrow> ('w, group list option \<times> bool) svc" where
  "tickGroups E = do {
     now \<leftarrow> now_ns E;
     s \<leftarrow> sget (\<lambda>s. s);
     if s_groupsCache s \<noteq> None \<and> now < s_groupsCacheExpiry s
     then State_Monad.return (s_groupsCache s, True)
     else do {
       r \<leftarrow> with_store (LoadGroups E);
       case r of
         Inl err \<Rightarrow> State_Monad.return (None, False)
       | Inr groups \<Rightarrow> do {
           _ \<leftarrow> smod (\<lambda>s. s\<lparr>s_groupsCache := groups, s_groupsCacheExpiry := now + tickGroupsCacheTTL\<rparr>);
           State_Monad.return (groups, True) } } }"

definition tickRobots :: "'w env \<Rightarrow> int32 \<Rightarrow> ('w, robot_state list \<times> bool) svc" where
  "tickRobots E groupID = do {
     now \<leftarrow> now_ns E;
     s \<leftarrow> sget (\<lambda>s. s);
     let fresh = (case map_of (s_robotsCache s) groupID of
         None \<Rightarrow> None | Some e \<Rightarrow> if now < rc_expiry e then Some (rc_robots e) else None);
     case fresh of
       Some robots \<Rightarrow> State_Monad.return (robots, True)
     | None \<Rightarrow> do {
         r \<leftarrow> with_store (\<lambda>st. LoadRobots E st groupID);
         case r of
           Inl err \<Rightarrow> State_Monad.return ([], False)
         | Inr robots \<Rightarrow> do {
             _ \<leftarrow> smod (\<lambda>s. s\<lparr>s_robotsCache := AList.update groupID
                    \<lparr>rc_robots = robots, rc_expiry = now + tickGroupsCacheTTL\<rparr> (s_robotsCache s)\<rparr>);
             State_Monad.return (robots, True) } } }"

definition invalidateRobotsCache :: "int32 \<Rightarrow> ('w, unit) svc" where
  "invalidateRobotsCache groupID =
     smod (\<lambda>s. s\<lparr>s_robotsCache := AList.delete groupID (s_robotsCache s)\<rparr>)"

definition firstRealScore :: "snapshot list \<Rightarrow> int64" where
  "firstRealScore snaps = (case find (\<lambda>snap. \<not> IsRobotMemberID (sn_MemberId snap)) snaps of
     None \<Rightarrow> 0 | Some snap \<Rightarrow> sn_Score snap)"

definition tickGroupScores :: "'w env \<Rightarrow> int32 \<Rightarrow> string \<Rightarrow> ('w, score_entry option) svc" where
  "tickGroupScores E groupID instanceID = do {
     now \<leftarrow> now_ns E;
     s \<leftarrow> sget (\<lambda>s. s);
     let fresh = (case map_of (s_scoreCache s) groupID of
         None \<Rightarrow> None | Some e \<Rightarrow> if now < sc_expiry e then Some e else None);
     case fresh of
       Some e \<Rightarrow> State_Monad.return (Some e)
     | None \<Rightarrow> do {
         r \<leftarrow> with_rank (\<lambda>rs. Range rs instanceID 0 (- 1));
         case r of
           Inr (snap # snaps) \<Rightarrow> do {
             let e = \<lparr>sc_firstScore = sn_Score snap, sc_realFirstScore = firstRealScore (snap # snaps),
                      sc_expiry = now + tickGroupsCacheTTL\<rparr>;
             _ \<leftarrow> smod (\<lambda>s. s\<lparr>s_scoreCache := AList.update groupID e (s_scoreCache s)\<rparr>);
             State_Monad.return (Some e) }
         | _ \<Rightarrow> State_Monad.return None } }"

section \<open>Creating the robots of a group\<close>

definition findTier :: "'w service \<Rightarrow> int32 \<Rightarrow> robot_tier option" where
  "findTier s tierID = map_of (s_tierMap s) tierID"

definition robotAvatarInfo :: "'w service \<Rightarrow> robot_state \<Rightarrow> avatar_info" where
  "robotAvatarInfo s robot = (case map_of (s_infoMap s) (ro_InfoID robot) of
     Some info \<Rightarrow> \<lparr>av_UserId = ro_MemberID robot, av_Name = ri_Name info, av_Avatar = ri_Avatar info,
                   av_Frame = ri_Frame info\<rparr>
   | None \<Rightarrow> \<lparr>av_UserId = ro_MemberID robot, av_Name = [], av_Avatar = 0, av_Frame = 0\<rparr>)"

record spawn_state =
  sp_index :: int32
  sp_used :: "int64 list"
  sp_robots :: "robot_state list"
  sp_items :: "score_item list"

definition spawnRobot :: "int32 \<Rightarrow> robot_tier \<Rightarrow> int64 \<Rightarrow> int64 \<Rightarrow> robot_info \<Rightarrow> int32 \<Rightarrow> robot_state \<times> score_item" where
  "spawnRobot groupID tier now initScore info index =
     (let memberID = robotMemberID groupID index;
          score = (if initScore > ti_MaxToken tier then ti_MaxToken tier else initScore)
      in (\<lparr>ro_MemberID = memberID, ro_TierID = ti_TierID tier, ro_InfoID = ri_InfoID info, ro_Score = score,
           ro_LastGrowAt = now, ro_PendingScore = 0, ro_PendingStartAt = 0, ro_PendingPerSlice = 0\<rparr>,
          \<lparr>it_MemberId = memberID, it_Score = score, it_AtTime = now, it_EnterTime = now, it_Sequence = 0,
           it_AvatarInfo = Some \<lparr>av_UserId = memberID, av_Name = ri_Name info, av_Avatar = ri_Avatar info,
                                 av_Frame = ri_Frame info\<rparr>\<rparr>))"

text \<open>The inner loop: at most \<open>n\<close> robots of one tier, until the display data run out.\<close>

fun spawn_tier ::
  "'w env \<Rightarrow> config \<Rightarrow> int32 \<Rightarrow> int64 \<Rightarrow> robot_tier \<Rightarrow> nat \<Rightarrow> spawn_state \<Rightarrow> ('w, spawn_state) state" where
  "spawn_tier E config groupID now tier 0 sp = State_Monad.return sp"
| "spawn_tier E config groupID now tier (Suc n) sp = do {
     let index = i32 (sp_index sp + 1);
     rnd1 \<leftarrow> Rand (en_lib E);
     case pickRobotInfo rnd1 (cf_RobotInfos config) (set (sp_used sp)) of
       None \<Rightarrow> State_Monad.return (sp\<lparr>sp_index := index\<rparr>)
     | Some info \<Rightarrow> do {
         rnd2 \<leftarrow> Rand (en_lib E);
         let initScore = initRobotScore rnd2 (ti_DefaultTokenMin tier) (ti_DefaultTokenMax tier);
         let robot_and_item = spawnRobot groupID tier now initScore info index;
         spawn_tier E config groupID now tier n
           (sp\<lparr>sp_index := index, sp_used := ri_InfoID info # sp_used sp,
               sp_robots := sp_robots sp @ [fst robot_and_item],
               sp_items := sp_items sp @ [snd robot_and_item]\<rparr>) } }"

definition spawn_entry_robots ::
  "'w env \<Rightarrow> 'w service \<Rightarrow> int32 \<Rightarrow> int64 \<Rightarrow> spawn_entry \<Rightarrow> spawn_state \<Rightarrow> ('w, spawn_state) state" where
  "spawn_entry_robots E s groupID now entry sp =
     (case findTier s (se_TierID entry) of
        None \<Rightarrow> State_Monad.return sp
      | Some tier \<Rightarrow>
          (let gameEndTime = cf_GameEndTime (s_config s) in
           if gameEndTime > 0 \<and> i64 (gameEndTime - now) \<le> ti_LockTokenTimeMs tier
           then State_Monad.return sp
           else spawn_tier E (s_config s) groupID now tier (nat (se_Count entry)) sp))"

definition robotIndexOf :: "int32 \<Rightarrow> robot_state \<Rightarrow> int32" where
  "robotIndexOf groupID r = i32 (i64 (i64 (- ro_MemberID r) - i64 (groupID * robotIDGroupStride)))"

definition nextRobotIndex :: "int32 \<Rightarrow> robot_state list \<Rightarrow> int32" where
  "nextRobotIndex groupID robots =
     fold (\<lambda>r idx. if robotIndexOf groupID r > idx then robotIndexOf groupID r else idx) robots 0"

definition spawnRobotsForGroup :: "'w env \<Rightarrow> int32 \<Rightarrow> int32 \<Rightarrow> int64 \<Rightarrow> ('w, goerr option) svc" where
  "spawnRobotsForGroup E groupID capacity now = do {
     s \<leftarrow> sget (\<lambda>s. s);
     let plan = buildRobotSpawnPlan (cf_RobotTiers (s_config s)) capacity;
     if plan = [] then State_Monad.return None
     else do {
       let instanceID = groupInstanceID E s groupID;
       err \<leftarrow> ensureGroupInstance instanceID groupID now;
       case err of
         Some e \<Rightarrow> State_Monad.return (Some (ErrWrap ''ensure group instance'' e))
       | None \<Rightarrow> do {
           used \<leftarrow> with_store (\<lambda>st. LoadUsedInfoIDs E st groupID);
           existing \<leftarrow> with_store (\<lambda>st. LoadRobots E st groupID);
           let sp0 = \<lparr>sp_index = nextRobotIndex groupID (case existing of Inl _ \<Rightarrow> [] | Inr rs \<Rightarrow> rs),
                      sp_used = (case used of Inl _ \<Rightarrow> [] | Inr ids \<Rightarrow> ids), sp_robots = [], sp_items = []\<rparr>;
           sp \<leftarrow> lift_ext (fold_state (spawn_entry_robots E s groupID now) plan sp0);
           if sp_items sp = [] then State_Monad.return None
           else do {
             werr \<leftarrow> with_rank (\<lambda>rs. BatchUpsertScore rs instanceID (sp_items sp));
             case werr of
               Some e \<Rightarrow> State_Monad.return (Some (ErrWrap ''write robot scores'' e))
             | None \<Rightarrow> do {
                 _ \<leftarrow> with_store (\<lambda>st. SaveRobots E st groupID (sp_robots sp));
                 _ \<leftarrow> with_store (\<lambda>st. SaveUsedInfoIDs E st groupID (sp_used sp));
                 _ \<leftarrow> invalidateRobotsCache groupID;
                 State_Monad.return None } } } } }"

section \<open>The tick\<close>

record tick_acc =
  ta_robots :: "robot_state list"
  ta_updates :: "score_item list"
  ta_changed :: "robot_state list"

text \<open>One turn of the loop over the robots of a group.\<close>

definition tick_one ::
  "'w service \<Rightarrow> score_entry \<Rightarrow> int64 \<Rightarrow> (int \<Rightarrow> int) \<Rightarrow> robot_state \<Rightarrow> tick_acc \<Rightarrow> tick_acc" where
  "tick_one s scores nowMs rnd robot acc =
     (case findTier s (ro_TierID robot) of
        None \<Rightarrow> acc\<lparr>ta_robots := ta_robots acc @ [robot]\<rparr>
      | Some tier \<Rightarrow>
          (let (robot', newScore) = tickRobotScore rnd robot tier (sc_firstScore scores)
                 (sc_realFirstScore scores) nowMs (cf_GameEndTime (s_config s));
               scoreChanged = (newScore \<noteq> ro_Score robot);
               stateChanged = (scoreChanged \<or> ro_PendingScore robot' \<noteq> ro_PendingScore robot
                               \<or> ro_LastGrowAt robot' \<noteq> ro_LastGrowAt robot)
           in acc\<lparr>ta_robots := ta_robots acc @ [robot'],
                  ta_changed := ta_changed acc @ (if stateChanged then [robot'] else []),
                  ta_updates := ta_updates acc @
                    (if scoreChanged
                     then [\<lparr>it_MemberId = ro_MemberID robot', it_Score = newScore, it_AtTime = nowMs,
                            it_EnterTime = 0, it_Sequence = 0,
                            it_AvatarInfo = Some (robotAvatarInfo s robot')\<rparr>]
                     else [])\<rparr>))"

definition tick_loop ::
  "'w env \<Rightarrow> 'w service \<Rightarrow> score_entry \<Rightarrow> int64 \<Rightarrow> robot_state list \<Rightarrow> ('w, tick_acc) state" where
  "tick_loop E s scores nowMs robots =
     fold_state (\<lambda>robot acc. do { rnd \<leftarrow> Rand (en_lib E); State_Monad.return (tick_one s scores nowMs rnd robot acc) })
       robots \<lparr>ta_robots = [], ta_updates = [], ta_changed = []\<rparr>"

definition tickGroupRobots :: "'w env \<Rightarrow> int32 \<Rightarrow> string \<Rightarrow> robot_state list \<Rightarrow> int64 \<Rightarrow> ('w, unit) svc" where
  "tickGroupRobots E groupID instanceID robots nowMs = do {
     scores \<leftarrow> tickGroupScores E groupID instanceID;
     case scores of
       None \<Rightarrow> skip
     | Some sc \<Rightarrow> do {
         s \<leftarrow> sget (\<lambda>s. s);
         acc \<leftarrow> lift_ext (tick_loop E s sc nowMs robots);
         _ \<leftarrow> smod (\<lambda>s. s\<lparr>s_robotsCache := AList.map_entry groupID
                (\<lambda>e. e\<lparr>rc_robots := ta_robots acc\<rparr>) (s_robotsCache s)\<rparr>);
         err \<leftarrow> (if ta_updates acc = [] then State_Monad.return None
                else with_rank (\<lambda>rs. BatchUpsertScore rs instanceID (ta_updates acc)));
         case err of
           Some e \<Rightarrow> skip
         | None \<Rightarrow>
             (if ta_changed acc = [] then skip
              else with_store (\<lambda>st. SaveRobots E st groupID (ta_changed acc))) } }"

definition tickAllRobots :: "'w env \<Rightarrow> int64 \<Rightarrow> ('w, unit) svc" where
  "tickAllRobots E nowMs = do {
     r \<leftarrow> tickGroups E;
     groups \<leftarrow> (case r of (groups, ok) \<Rightarrow>
        if \<not> ok \<or> slice groups = []
        then do { _ \<leftarrow> ensureLoaded E; sget s_groups }
        else State_Monad.return (slice groups));
     let targets = filter (\<lambda>g. gr_State g \<noteq> GroupStateSettled) groups;
     for_each targets (\<lambda>t. do {
       rr \<leftarrow> tickRobots E (gr_GroupID t);
       case rr of (robots, ok) \<Rightarrow>
         if \<not> ok \<or> robots = [] then skip
         else tickGroupRobots E (gr_GroupID t) (gr_InstanceID t) robots nowMs }) }"

end
