(* ===== verification/Service.thy ===== *)
theory Service
  imports RobotTicks
begin

text \<open>
  \<open>internal/rank/engine/service.go\<close>, the public methods: writing a score, the tick and the
  settlement, the queries, the configuration update and the cleanups. A list of groups that may
  share pointers with \<open>s.groups\<close> carries the index of the shared one.
\<close>

section \<open>Time line\<close>

definition stateAt :: "'w service \<Rightarrow> int64 \<Rightarrow> inst_state" where
  "stateAt s now =
     (if cf_OpenTime (s_config s) > 0 \<and> now < cf_OpenTime (s_config s) then InstanceStateInit
      else if cf_CloseTime (s_config s) > 0 \<and> now \<ge> cf_CloseTime (s_config s) then InstanceStateClosed
      else InstanceStateOpen)"

definition canUpdateScore :: "'w service \<Rightarrow> int64 \<Rightarrow> inst_state" where
  "canUpdateScore s now =
     (if cf_OpenTime (s_config s) > 0 \<and> now < cf_OpenTime (s_config s) then InstanceStateInit
      else if cf_CloseTime (s_config s) > 0 \<and> now \<ge> cf_CloseTime (s_config s) then InstanceStateClosed
      else if now > cf_GameEndTime (s_config s) \<and> cf_GameEndTime (s_config s) > 0 then InstanceStateSettled
      else InstanceStateOpen)"

section \<open>Settlement\<close>

fun sync_group :: "group \<Rightarrow> group list \<Rightarrow> group list" where
  "sync_group u [] = [u]"
| "sync_group u (g # gs) = (if gr_GroupID g = gr_GroupID u then u # gs else g # sync_group u gs)"

definition syncGroupStateLocked :: "group \<Rightarrow> ('w, unit) svc" where
  "syncGroupStateLocked u = smod (\<lambda>s. s\<lparr>s_groups := sync_group u (s_groups s)\<rparr>)"

text \<open>A write through a pointer that may be one of \<open>s.groups\<close>.\<close>

definition setGroupAt :: "nat option \<Rightarrow> group \<Rightarrow> ('w, unit) svc" where
  "setGroupAt alias g = (case alias of None \<Rightarrow> skip
     | Some i \<Rightarrow> smod (\<lambda>s. s\<lparr>s_groups := (s_groups s)[i := g]\<rparr>))"

definition shared_groups :: "'w service \<Rightarrow> (nat option \<times> group) list" where
  "shared_groups s = map (\<lambda>(i, g). (Some i, g)) (enumerate 0 (s_groups s))"

text \<open>\<open>group.State = Settled\<close>, saved and synced.\<close>

definition markSettled :: "'w env \<Rightarrow> nat option \<Rightarrow> group \<Rightarrow> ('w, group) svc" where
  "markSettled E alias g = do {
     let g' = g\<lparr>gr_State := GroupStateSettled\<rparr>;
     _ \<leftarrow> setGroupAt alias g';
     _ \<leftarrow> with_store (\<lambda>st. SaveGroup E st g');
     _ \<leftarrow> syncGroupStateLocked g';
     State_Monad.return g' }"

text \<open>What one turn of the settlement loop yields: an error that ends it, nothing (another node has
  the lock), or the settled group and, unless its instance is gone, its final snapshot.\<close>

datatype settle_out = SettleErr goerr | SettleSkip | SettleDone group "snapshot list option"

definition settleGroup :: "'w env \<Rightarrow> int64 \<Rightarrow> nat option \<times> group \<Rightarrow> ('w, settle_out) svc" where
  "settleGroup E settleAt ag = (case ag of (alias, g) \<Rightarrow>
     if gr_State g = GroupStateSettled then State_Monad.return (SettleDone g None)
     else do {
       locked \<leftarrow> with_store (\<lambda>st. TryLockSettle st (gr_GroupID g));
       if \<not> locked then State_Monad.return SettleSkip
       else do {
         cerr \<leftarrow> with_rank (\<lambda>rs. CloseInstance rs (gr_InstanceID g) settleAt);
         if cerr \<noteq> None \<and> cerr \<noteq> Some ErrInstanceNotFound
         then State_Monad.return (SettleErr (the cerr))
         else do {
           r \<leftarrow> with_rank (\<lambda>rs. SettleInstance rs (gr_InstanceID g) settleAt);
           case r of
             Inl err \<Rightarrow>
               (if err = ErrInstanceNotFound
                then do { g' \<leftarrow> markSettled E alias g; State_Monad.return (SettleDone g' None) }
                else State_Monad.return (SettleErr err))
           | Inr members \<Rightarrow> do {
               let snapshot = cloneSnapshots members;
               g' \<leftarrow> markSettled E alias g;
               _ \<leftarrow> smod (\<lambda>s. s\<lparr>s_settledGroup := AList.update (gr_GroupID g) snapshot (s_settledGroup s)\<rparr>);
               _ \<leftarrow> with_store (\<lambda>st. SaveSettled st (gr_GroupID g) snapshot settleAt);
               inst \<leftarrow> with_rank (\<lambda>rs. GetInstance rs (gr_InstanceID g));
               _ \<leftarrow> (case inst of Inl _ \<Rightarrow> skip
                    | Inr i \<Rightarrow> ignore (with_store (\<lambda>st. SaveRankInst st (gr_GroupID g) i)));
               State_Monad.return (SettleDone g' (Some snapshot)) } } } })"

fun settle_loop ::
  "'w env \<Rightarrow> int64 \<Rightarrow> (nat option \<times> group) list \<Rightarrow> (int32 \<times> snapshot list) list \<Rightarrow> group list
   \<Rightarrow> ('w, goerr + (int32 \<times> snapshot list) list \<times> group list) svc" where
  "settle_loop E settleAt [] results settled = State_Monad.return (Inr (results, settled))"
| "settle_loop E settleAt (ag # ags) results settled = do {
     out \<leftarrow> settleGroup E settleAt ag;
     case out of
       SettleErr err \<Rightarrow> State_Monad.return (Inl err)
     | SettleSkip \<Rightarrow> settle_loop E settleAt ags results settled
     | SettleDone g None \<Rightarrow> settle_loop E settleAt ags results (settled @ [g])
     | SettleDone g (Some snap) \<Rightarrow>
         settle_loop E settleAt ags (AList.update (gr_GroupID g) snap results) (settled @ [g]) }"

definition expireSettled :: "'w env \<Rightarrow> group list \<Rightarrow> ('w, unit) svc" where
  "expireSettled E settledGroups =
     (if settledGroups = [] then skip
      else do {
        ttl \<leftarrow> with_store (backfillTTL E);
        _ \<leftarrow> for_each settledGroups (\<lambda>g. do {
          s \<leftarrow> sget (\<lambda>s. s);
          let instanceID = groupInstanceID E s (gr_GroupID g);
          _ \<leftarrow> with_rank (\<lambda>rs. ExpireInstance rs instanceID ttl);
          invalidateInstanceState instanceID });
        with_store (\<lambda>st. ExpireLiveData E st settledGroups ttl) })"

definition Settle :: "'w env \<Rightarrow> ('w, goerr + (int32 \<times> snapshot list) list) svc" where
  "Settle E = do {
     s \<leftarrow> sget (\<lambda>s. s);
     let settleAt = effectiveSettleAt s;
     if s_settledAt s = settleAt then State_Monad.return (Inr [])
     else do {
       r \<leftarrow> with_store (LoadGroups E);
       groups \<leftarrow> (case r of
           Inr (Some (g # gs)) \<Rightarrow> State_Monad.return (map (Pair None) (g # gs))
         | _ \<Rightarrow> do { _ \<leftarrow> ensureLoaded E; sget shared_groups });
       out \<leftarrow> settle_loop E settleAt groups [] [];
       case out of
         Inl err \<Rightarrow> State_Monad.return (Inl err)
       | Inr (results, settledGroups) \<Rightarrow> do {
           _ \<leftarrow> expireSettled E settledGroups;
           t \<leftarrow> now_ns E;
           s2 \<leftarrow> sget (\<lambda>s. s);
           _ \<leftarrow> (if canUpdateScore s2 (UnixMilli t) \<noteq> InstanceStateOpen
                then smod (\<lambda>s. s\<lparr>s_settledAt := settleAt\<rparr>) else skip);
           State_Monad.return (Inr results) } } }"

section \<open>Tick\<close>

definition Tick :: "'w env \<Rightarrow> int64 \<Rightarrow> ('w, goerr option) svc" where
  "Tick E now = do {
     _ \<leftarrow> ensureLoaded E;
     s \<leftarrow> sget (\<lambda>s. s);
     let settleAt = effectiveSettleAt s;
     if settleAt \<le> 0 then State_Monad.return None
     else if s_settledAt s = settleAt then State_Monad.return None
     else do {
       _ \<leftarrow> (if hasRobots (s_config s) \<and> now < settleAt
            then do {
              locked \<leftarrow> with_store (\<lambda>st. TryLockRobotTick st now);
              if locked then tickAllRobots E now else skip }
            else skip);
       if now < settleAt then State_Monad.return None
       else do {
         r \<leftarrow> with_store (LoadGroups E);
         groups \<leftarrow> (case r of Inr (Some (g # gs)) \<Rightarrow> State_Monad.return (g # gs) | _ \<Rightarrow> sget s_groups);
         _ \<leftarrow> for_each groups (\<lambda>g. if gr_State g = GroupStateSettled then skip
              else ignore (with_rank (\<lambda>rs. CloseInstance rs (gr_InstanceID g) settleAt)));
         out \<leftarrow> Settle E;
         State_Monad.return (case out of Inl err \<Rightarrow> Some err | Inr _ \<Rightarrow> None) } } }"

section \<open>Writing a score\<close>

definition lookupMember :: "'w env \<Rightarrow> int64 \<Rightarrow> ('w, int32 option) svc" where
  "lookupMember E userID = do {
     s \<leftarrow> sget (\<lambda>s. s);
     case map_of (s_memberGroup s) userID of
       Some gid \<Rightarrow> State_Monad.return (Some gid)
     | None \<Rightarrow> do {
         r \<leftarrow> with_store (\<lambda>st. GetMember E st userID);
         case r of
           Inr (Some gid) \<Rightarrow> do {
             _ \<leftarrow> smod (\<lambda>s. s\<lparr>s_memberGroup := AList.update userID gid (s_memberGroup s)\<rparr>);
             State_Monad.return (Some gid) }
         | _ \<Rightarrow> State_Monad.return None } }"

definition update_group :: "nat \<Rightarrow> (group \<Rightarrow> group) \<Rightarrow> ('w, unit) svc" where
  "update_group i f = smod (\<lambda>s. s\<lparr>s_groups := (s_groups s)[i := f (s_groups s ! i)]\<rparr>)"

text \<open>A new member: the group, whether robots are to be created, and for how many places.\<close>

definition joinGroup :: "'w env \<Rightarrow> int64 \<Rightarrow> ('w, goerr + (int32 \<times> bool \<times> int32)) svc" where
  "joinGroup E userID = do {
     r \<leftarrow> ensureGroupLocked E;
     case r of
       Inl err \<Rightarrow> State_Monad.return (Inl err)
     | Inr i \<Rightarrow> do {
         g \<leftarrow> sget (\<lambda>s. s_groups s ! i);
         _ \<leftarrow> smod (\<lambda>s. s\<lparr>s_memberGroup := AList.update userID (gr_GroupID g) (s_memberGroup s)\<rparr>);
         g1 \<leftarrow> with_store (\<lambda>st. IncrRealCount E st g);
         _ \<leftarrow> update_group i (\<lambda>_. g1);
         _ \<leftarrow> with_store (\<lambda>st. SetMember E st userID (gr_GroupID g));
         _ \<leftarrow> memberJoined userID (gr_GroupID g);
         s \<leftarrow> sget (\<lambda>s. s);
         let needSpawnRobots = (gr_RealCount g1 = 1 \<and> hasRobots (s_config s));
         let spawnCapacity = i32 (cf_RankPeopleNum (s_config s) - gr_RealCount g1);
         g2 \<leftarrow> (if needSpawnRobots then do {
                  let g2 = g1\<lparr>gr_RobotCount := totalRobotsInPlan
                             (buildRobotSpawnPlan (cf_RobotTiers (s_config s)) spawnCapacity)\<rparr>;
                  _ \<leftarrow> update_group i (\<lambda>_. g2);
                  _ \<leftarrow> with_store (\<lambda>st. SaveGroup E st g2);
                  State_Monad.return g2 }
                else State_Monad.return g1);
         _ \<leftarrow> (if totalCount g2 \<ge> cf_RankPeopleNum (s_config s) then do {
                let g3 = g2\<lparr>gr_State := GroupStateFull\<rparr>;
                _ \<leftarrow> update_group i (\<lambda>_. g3);
                with_store (\<lambda>st. SaveGroup E st g3) }
              else skip);
         State_Monad.return (Inr (gr_GroupID g, needSpawnRobots, spawnCapacity)) } }"

text \<open>The rest of the method: the instance, the score, its persistence and the robots.\<close>

definition writeScore ::
  "'w env \<Rightarrow> int32 \<Rightarrow> bool \<Rightarrow> (bool \<times> int32) \<Rightarrow> bool \<Rightarrow> int64 \<Rightarrow> int64 \<Rightarrow> int64 \<Rightarrow> avatar_info option
   \<Rightarrow> ('w, goerr option) svc" where
  "writeScore E groupID isNewMember spawn alreadyLoaded userID totalScore now avatarInfo = do {
     s \<leftarrow> sget (\<lambda>s. s);
     let instanceID = groupInstanceID E s groupID;
     _ \<leftarrow> (if alreadyLoaded \<and> svc_available s then do {
            mbExists \<leftarrow> with_store (\<lambda>st. RdbExists st (GetRankMbKey (en_keys E) instanceID));
            if mbExists then skip else recoverGroupData E groupID instanceID }
          else skip);
     ierr \<leftarrow> ensureGroupInstance instanceID groupID now;
     case ierr of
       Some e \<Rightarrow> State_Monad.return (Some e)
     | None \<Rightarrow> do {
         berr \<leftarrow> with_rank (\<lambda>rs. BatchUpsertScore rs instanceID
           [\<lparr>it_MemberId = userID, it_Score = totalScore, it_AtTime = now, it_EnterTime = now,
             it_Sequence = 0, it_AvatarInfo = avatarInfo\<rparr>]);
         case berr of
           Some e \<Rightarrow> State_Monad.return (Some e)
         | None \<Rightarrow> do {
             seqForMongo \<leftarrow> (if isNewMember then do {
                  snap \<leftarrow> with_rank (\<lambda>rs. GetMemRank rs instanceID userID);
                  State_Monad.return (case snap of Inr (Some x) \<Rightarrow> sn_Sequence x | _ \<Rightarrow> 0) }
                else State_Monad.return 0);
             _ \<leftarrow> with_store (\<lambda>st. SaveScore st groupID userID totalScore
                    (if isNewMember then now else 0) seqForMongo now avatarInfo);
             _ \<leftarrow> (if fst spawn then ignore (spawnRobotsForGroup E groupID (snd spawn) now) else skip);
             State_Monad.return None } } }"

definition UpsertScore ::
  "'w env \<Rightarrow> int64 \<Rightarrow> int64 \<Rightarrow> int64 \<Rightarrow> avatar_info option \<Rightarrow> ('w, goerr option) svc" where
  "UpsertScore E userID totalScore now avatarInfo = do {
     s \<leftarrow> sget (\<lambda>s. s);
     case canUpdateScore s now of
       InstanceStateClosed \<Rightarrow> State_Monad.return (Some ErrInstanceClosed)
     | InstanceStateSettled \<Rightarrow> State_Monad.return (Some ErrInstanceClosed)
     | InstanceStateInit \<Rightarrow> State_Monad.return (Some ErrInstanceNotOpen)
     | InstanceStateOpen \<Rightarrow> do {
         _ \<leftarrow> ensureLoaded E;
         known \<leftarrow> lookupMember E userID;
         r \<leftarrow> (case known of
             Some gid \<Rightarrow> State_Monad.return (Inr (gid, False, False, 0))
           | None \<Rightarrow> do {
               j \<leftarrow> joinGroup E userID;
               State_Monad.return (case j of Inl e \<Rightarrow> Inl e
                 | Inr (gid, spawn, cap) \<Rightarrow> Inr (gid, True, spawn, cap)) });
         case r of
           Inl err \<Rightarrow> State_Monad.return (Some err)
         | Inr (groupID, isNewMember, needSpawn, cap) \<Rightarrow> do {
             alreadyLoaded \<leftarrow> sget s_loaded;
             writeScore E groupID isNewMember (needSpawn, cap) alreadyLoaded userID totalScore now avatarInfo } } }"

section \<open>Queries\<close>

text \<open>The group's settled snapshots in memory; no entry and a \<open>nil\<close> entry are the same.\<close>

definition settledOf :: "'w service \<Rightarrow> int32 \<Rightarrow> snapshot list" where
  "settledOf s groupID = (case map_of (s_settledGroup s) groupID of None \<Rightarrow> [] | Some xs \<Rightarrow> cloneSnapshots xs)"

definition cacheSettled :: "int32 \<Rightarrow> snapshot list \<Rightarrow> ('w, snapshot list) svc" where
  "cacheSettled groupID snaps = do {
     _ \<leftarrow> smod (\<lambda>s. if settledOf s groupID = []
                  then s\<lparr>s_settledGroup := AList.update groupID (cloneSnapshots snaps) (s_settledGroup s)\<rparr>
                  else s);
     sget (\<lambda>s. settledOf s groupID) }"

definition loadAndCacheSettled :: "'w env \<Rightarrow> int32 \<Rightarrow> string \<Rightarrow> ('w, snapshot list) svc" where
  "loadAndCacheSettled E groupID instanceID = do {
     r1 \<leftarrow> with_rank (\<lambda>rs. Snapshot rs instanceID);
     case r1 of
       Inr (x # xs) \<Rightarrow> cacheSettled groupID (x # xs)
     | _ \<Rightarrow> do {
         r2 \<leftarrow> with_store (\<lambda>st. LoadGroupSettled st groupID);
         case r2 of
           Inr (x # xs) \<Rightarrow> do {
             cached \<leftarrow> cacheSettled groupID (x # xs);
             _ \<leftarrow> with_store (\<lambda>st. RestoreSettled E st instanceID (x # xs));
             State_Monad.return cached }
         | _ \<Rightarrow> do {
             _ \<leftarrow> recoverGroupData E groupID instanceID;
             r3 \<leftarrow> with_rank (\<lambda>rs. Snapshot rs instanceID);
             case r3 of
               Inr (x # xs) \<Rightarrow> do {
                 _ \<leftarrow> with_store (\<lambda>st. RestoreSettled E st instanceID (x # xs));
                 cacheSettled groupID (x # xs) }
             | _ \<Rightarrow> State_Monad.return [] } } }"

definition resolveSettled :: "'w env \<Rightarrow> int32 \<Rightarrow> snapshot list \<Rightarrow> ('w, snapshot list) svc" where
  "resolveSettled E groupID cached =
     (if cached \<noteq> [] then State_Monad.return cached
      else do {
        s0 \<leftarrow> sget (\<lambda>s. s);
        r \<leftarrow> with_store (\<lambda>st. LoadGroupByID E st groupID);
        case r of
          Inr (Some g) \<Rightarrow>
            (if gr_State g = GroupStateSettled then loadAndCacheSettled E groupID (gr_InstanceID g)
             else State_Monad.return [])
        | _ \<Rightarrow> do {
            s \<leftarrow> sget (\<lambda>s. s);
            case find (\<lambda>mg. gr_GroupID mg = groupID) (s_groups s) of
              Some mg \<Rightarrow>
                (if gr_State mg = GroupStateSettled
                 then (if settledOf s groupID = []
                       then loadAndCacheSettled E groupID (groupInstanceID E s0 groupID)
                       else State_Monad.return (settledOf s groupID))
                 else State_Monad.return cached)
            | None \<Rightarrow> State_Monad.return cached } })"

definition ListGroupRank :: "'w env \<Rightarrow> int32 \<Rightarrow> int64 \<Rightarrow> int64 \<Rightarrow> ('w, goerr + snapshot list) svc" where
  "ListGroupRank E groupID start end0 = do {
     _ \<leftarrow> ensureLoaded E;
     s \<leftarrow> sget (\<lambda>s. s);
     settled \<leftarrow> resolveSettled E groupID (settledOf s groupID);
     if settled \<noteq> [] then State_Monad.return (Inr (sliceSnapshots settled start end0))
     else do {
       let instanceID = groupInstanceID E s groupID;
       r \<leftarrow> with_rank (\<lambda>rs. Range rs instanceID start end0);
       case r of
         Inr members \<Rightarrow> State_Monad.return (Inr members)
       | Inl err \<Rightarrow>
           (if err = ErrInstanceNotFound then do {
              _ \<leftarrow> recoverGroupData E groupID instanceID;
              with_rank (\<lambda>rs. Range rs instanceID start end0) }
            else State_Monad.return (Inl err)) } }"

definition GetMemberRank :: "'w env \<Rightarrow> int64 \<Rightarrow> ('w, goerr + snapshot option \<times> int32) svc" where
  "GetMemberRank E userID = do {
     _ \<leftarrow> ensureLoaded E;
     known \<leftarrow> lookupMember E userID;
     s \<leftarrow> sget (\<lambda>s. s);
     case known of
       None \<Rightarrow> State_Monad.return (Inr (None, 0))
     | Some groupID \<Rightarrow> do {
         settled \<leftarrow> resolveSettled E groupID (settledOf s groupID);
         if settled \<noteq> []
         then State_Monad.return (Inr (find (\<lambda>snap. sn_MemberId snap = userID) settled, groupID))
         else do {
           let instanceID = groupInstanceID E s groupID;
           r \<leftarrow> with_rank (\<lambda>rs. GetMemRank rs instanceID userID);
           r2 \<leftarrow> (case r of
               Inl err \<Rightarrow>
                 (if err = ErrInstanceNotFound then do {
                    _ \<leftarrow> recoverGroupData E groupID instanceID;
                    with_rank (\<lambda>rs. GetMemRank rs instanceID userID) }
                  else State_Monad.return (Inl err))
             | Inr x \<Rightarrow> State_Monad.return (Inr x));
           State_Monad.return (case r2 of Inl err \<Rightarrow> Inl err | Inr snap \<Rightarrow> Inr (snap, groupID)) } } }"

definition real_users :: "(int64 \<times> int32) list \<Rightarrow> int64 list" where
  "real_users m = filter (\<lambda>u. u > 0) (map fst m)"

definition GetOpenRewardUserIDs :: "'w env \<Rightarrow> ('w, int64 list) svc" where
  "GetOpenRewardUserIDs E = do {
     r \<leftarrow> with_store (GetAllMembers E);
     case r of
       Inr (m # ms) \<Rightarrow> State_Monad.return (real_users (m # ms))
     | _ \<Rightarrow> do { _ \<leftarrow> ensureLoaded E; sget (\<lambda>s. real_users (s_memberGroup s)) } }"

definition HasOpenReward :: "'w env \<Rightarrow> int64 \<Rightarrow> ('w, bool) svc" where
  "HasOpenReward E userID = do {
     _ \<leftarrow> ensureLoaded E;
     s \<leftarrow> sget (\<lambda>s. s);
     ok \<leftarrow> (case map_of (s_memberGroup s) userID of
         Some _ \<Rightarrow> State_Monad.return True
       | None \<Rightarrow> do {
           r \<leftarrow> with_store (\<lambda>st. GetMember E st userID);
           State_Monad.return (case r of Inr (Some _) \<Rightarrow> True | _ \<Rightarrow> False) });
     State_Monad.return (ok \<and> userID > 0) }"

definition GetGroup :: "'w env \<Rightarrow> int32 \<Rightarrow> ('w, group option) svc" where
  "GetGroup E groupID = do {
     r \<leftarrow> with_store (\<lambda>st. LoadGroupByID E st groupID);
     case r of
       Inr (Some g) \<Rightarrow> do {
         _ \<leftarrow> ensureLoaded E;
         _ \<leftarrow> syncGroupStateLocked g;
         State_Monad.return (Some g) }
     | _ \<Rightarrow> do {
         _ \<leftarrow> ensureLoaded E;
         sget (\<lambda>s. find (\<lambda>g. gr_GroupID g = groupID) (s_groups s)) } }"

text \<open>Load the groups, sync them to memory; used by \<open>ListGroups\<close> and \<open>IsSettled\<close>.\<close>

definition syncLatestGroups :: "'w env \<Rightarrow> ('w, unit) svc" where
  "syncLatestGroups E = do {
     r \<leftarrow> with_store (LoadGroups E);
     _ \<leftarrow> ensureLoaded E;
     case r of
       Inr (Some (g # gs)) \<Rightarrow> for_each (g # gs) syncGroupStateLocked
     | _ \<Rightarrow> skip }"

definition ListGroups :: "'w env \<Rightarrow> ('w, group list) svc" where
  "ListGroups E = do { _ \<leftarrow> syncLatestGroups E; sget s_groups }"

definition GetGroupCreateTime :: "'w env \<Rightarrow> int32 \<Rightarrow> ('w, int64) svc" where
  "GetGroupCreateTime E groupID = do {
     g \<leftarrow> GetGroup E groupID;
     case g of
       None \<Rightarrow> State_Monad.return 0
     | Some grp \<Rightarrow> do {
         r \<leftarrow> with_rank (\<lambda>rs. GetInstance rs (gr_InstanceID grp));
         State_Monad.return (case r of Inl _ \<Rightarrow> 0 | Inr inst \<Rightarrow> in_CreateTime inst) } }"

definition IsSettled :: "'w env \<Rightarrow> ('w, bool) svc" where
  "IsSettled E = do {
     t \<leftarrow> now_ns E;
     s \<leftarrow> sget (\<lambda>s. s);
     if canUpdateScore s (UnixMilli t) \<noteq> InstanceStateOpen \<and> s_settledAt s = effectiveSettleAt s
     then State_Monad.return True
     else do {
       _ \<leftarrow> syncLatestGroups E;
       groups \<leftarrow> sget s_groups;
       State_Monad.return (groups \<noteq> [] \<and> list_all (\<lambda>g. gr_State g = GroupStateSettled) groups) } }"

definition GroupCount :: "'w env \<Rightarrow> ('w, int32) svc" where
  "GroupCount E = do {
     r \<leftarrow> with_store (LoadGroups E);
     case r of
       Inr groups \<Rightarrow> State_Monad.return (i32 (int (length (slice groups))))
     | Inl _ \<Rightarrow> do { _ \<leftarrow> ensureLoaded E; sget (\<lambda>s. i32 (int (length (s_groups s)))) } }"

definition MemberCount :: "'w env \<Rightarrow> ('w, int32) svc" where
  "MemberCount E = do {
     r \<leftarrow> with_store (GetAllMembers E);
     case r of
       Inl _ \<Rightarrow> do { _ \<leftarrow> ensureLoaded E; sget (\<lambda>s. i32 (int (length (real_users (s_memberGroup s))))) }
     | Inr ms \<Rightarrow> State_Monad.return (i32 (int (length (real_users ms)))) }"

definition GetAllMembersOf :: "'w env \<Rightarrow> ('w, goerr + (int64 \<times> int32) list) svc" where
  "GetAllMembersOf E = with_store (GetAllMembers E)"

definition GetMemberGroupID :: "int64 \<Rightarrow> ('w, int32 option) svc" where
  "GetMemberGroupID userID = sget (\<lambda>s. map_of (s_memberGroup s) userID)"

definition ClaimReward :: "'w env \<Rightarrow> int64 \<Rightarrow> int64 \<Rightarrow> ('w, goerr + bool \<times> int64) svc" where
  "ClaimReward E userID now = with_store (\<lambda>st. AtomicClaim E st userID now)"

definition GetClaimStatus :: "'w env \<Rightarrow> int64 \<Rightarrow> ('w, goerr + bool \<times> int64) svc" where
  "GetClaimStatus E userID = do {
     r \<leftarrow> with_store (\<lambda>st. GetClaim E st userID);
     State_Monad.return (case r of Inl err \<Rightarrow> Inl err
       | Inr None \<Rightarrow> Inr (False, 0) | Inr (Some t) \<Rightarrow> Inr (True, t)) }"

section \<open>Configuration and cleanup\<close>

definition UpdateConfig :: "'w env \<Rightarrow> config \<Rightarrow> ('w, unit) svc" where
  "UpdateConfig E cfg = smod (\<lambda>s.
     let c0 = s_config s;
         c1 = (if cf_RankPeopleNum cfg > 0 then c0\<lparr>cf_RankPeopleNum := cf_RankPeopleNum cfg\<rparr> else c0);
         c2 = (if cf_OpenToken cfg \<ge> 0 then c1\<lparr>cf_OpenToken := cf_OpenToken cfg\<rparr> else c1);
         c3 = (if cf_OpenTime cfg > 0 then c2\<lparr>cf_OpenTime := cf_OpenTime cfg\<rparr> else c2);
         c4 = (if cf_CloseTime cfg > 0 then c3\<lparr>cf_CloseTime := cf_CloseTime cfg\<rparr> else c3);
         c5 = (if cf_GameEndTime cfg > 0 then c4\<lparr>cf_GameEndTime := cf_GameEndTime cfg\<rparr> else c4)
     in refreshActivityEndLocked E (s\<lparr>s_config := c5\<rparr>))"

text \<open>The groups a cleanup works on: those in memory, else those of the store.\<close>

definition cleanupGroups :: "'w env \<Rightarrow> ('w, group list) svc" where
  "cleanupGroups E = do {
     groups \<leftarrow> sget s_groups;
     if groups \<noteq> [] then State_Monad.return groups
     else do {
       r \<leftarrow> with_store (LoadGroups E);
       State_Monad.return (case r of Inl _ \<Rightarrow> [] | Inr l \<Rightarrow> slice l) } }"

definition Cleanup :: "'w env \<Rightarrow> ('w, unit) svc" where
  "Cleanup E = do {
     groups \<leftarrow> cleanupGroups E;
     _ \<leftarrow> with_store (\<lambda>st. CleanupAll E st groups);
     s \<leftarrow> sget (\<lambda>s. s);
     _ \<leftarrow> for_each groups (\<lambda>g.
       ignore (with_rank (\<lambda>rs. DeleteInstance rs (groupInstanceID E s (gr_GroupID g)))));
     ignore (with_rank (\<lambda>rs. DeleteRankDef rs (cf_RankCode (s_config s)))) }"

definition CleanupLiveDataOf :: "'w env \<Rightarrow> ('w, unit) svc" where
  "CleanupLiveDataOf E = do {
     groups \<leftarrow> cleanupGroups E;
     _ \<leftarrow> with_store (\<lambda>st. CleanupLiveData E st groups);
     s \<leftarrow> sget (\<lambda>s. s);
     for_each groups (\<lambda>g. do {
       let instanceID = groupInstanceID E s (gr_GroupID g);
       _ \<leftarrow> with_rank (\<lambda>rs. ExpireInstance rs instanceID (SettledCacheTTL (en_lib E)));
       invalidateInstanceState instanceID }) }"

end
