(* ===== verification/GroupProps.thy ===== *)
theory GroupProps
  imports RankGroups MemWorld
begin

text \<open>
  Merging the groups other nodes wrote into the service's own, and finding a group with room.
\<close>

section \<open>Merging\<close>

definition ids :: "group list \<Rightarrow> int32 list" where
  "ids gs = map gr_GroupID gs"

lemma ids_simps [simp]: "ids [] = []" "ids (g # gs) = gr_GroupID g # ids gs" "ids (xs @ ys) = ids xs @ ids ys"
  "length (ids gs) = length gs"
  by (simp_all add: ids_def)

lemma update_first_unique:
  assumes "distinct (map f xs)" "x \<in> set xs" "f x = k" "f y = k"
  shows "set (update_first (\<lambda>z. f z = k) (\<lambda>_. y) xs) = insert y (set xs - {x})"
  using assms
proof (induction xs)
  case (Cons a xs)
  show ?case
  proof (cases "f a = k")
    case True
    then have "a = x" using Cons.prems by (auto simp: image_iff)
    moreover have "x \<notin> set xs" using Cons.prems True \<open>a = x\<close> by auto
    ultimately show ?thesis using True by simp
  next
    case False
    then have "x \<noteq> a" using Cons.prems by auto
    then show ?thesis using False Cons by auto
  qed
qed simp

lemma ids_update_last: "gr_GroupID y = k \<Longrightarrow> ids (update_last (\<lambda>g. gr_GroupID g = k) (\<lambda>_. y) gs) = ids gs"
proof -
  assume k: "gr_GroupID y = k"
  have m: "map gr_GroupID (update_first (\<lambda>g. gr_GroupID g = k) (\<lambda>_. y) xs) = map gr_GroupID xs" for xs
    using k by (intro map_update_first) auto
  show ?thesis by (simp add: ids_def update_last_def rev_map [symmetric] m)
qed

lemma set_update_last:
  assumes "distinct (ids gs)" "g \<in> set gs" "gr_GroupID g = k" "gr_GroupID y = k"
  shows "set (update_last (\<lambda>g. gr_GroupID g = k) (\<lambda>_. y) gs) = insert y (set gs - {g})"
  using update_first_unique [of gr_GroupID "rev gs" g k y] assms
  by (simp add: update_last_def ids_def rev_map [symmetric])

lemma merge_groups_facts:
  assumes "distinct (ids gs)" "distinct (ids fresh)" "merge_groups fresh (gs, n) = (gs', n')"
  shows "distinct (ids gs')"
    and "set gs' = set fresh \<union> {g \<in> set gs. gr_GroupID g \<notin> set (ids fresh)}"
    and "n \<le> n'" and "\<forall>fg \<in> set fresh. gr_GroupID fg \<in> set (ids gs) \<or> gr_GroupID fg \<le> n'"
    and "take (length gs) (ids gs') = ids gs"
proof -
  have "distinct (ids gs') \<and> set gs' = set fresh \<union> {g \<in> set gs. gr_GroupID g \<notin> set (ids fresh)}
    \<and> n \<le> n' \<and> (\<forall>fg \<in> set fresh. gr_GroupID fg \<in> set (ids gs) \<or> gr_GroupID fg \<le> n')
    \<and> take (length gs) (ids gs') = ids gs"
    using assms
  proof (induction fresh arbitrary: gs n)
    case Nil
    then show ?case by simp
  next
    case (Cons fg fresh)
    show ?case
    proof (cases "\<exists>g \<in> set gs. gr_GroupID g = gr_GroupID fg")
      case True
      then obtain g where g: "g \<in> set gs" "gr_GroupID g = gr_GroupID fg" by blast
      define gs1 where "gs1 = update_last (\<lambda>g. gr_GroupID g = gr_GroupID fg) (\<lambda>_. fg) gs"
      have i1: "ids gs1 = ids gs" by (simp add: gs1_def ids_update_last)
      have s1: "set gs1 = insert fg (set gs - {g})"
        using set_update_last [OF Cons.prems(1) g(1)] g(2) by (simp add: gs1_def)
      have only: "h = g" if "h \<in> set gs" "gr_GroupID h = gr_GroupID fg" for h
        using Cons.prems(1) g that unfolding ids_def by (metis distinct_map inj_on_eq_iff)
      have "merge_groups fresh (gs1, n) = (gs', n')" using Cons.prems(3) True by (simp add: gs1_def)
      then have IH: "distinct (ids gs') \<and> set gs' = set fresh \<union> {g \<in> set gs1. gr_GroupID g \<notin> set (ids fresh)}
        \<and> n \<le> n' \<and> (\<forall>fg \<in> set fresh. gr_GroupID fg \<in> set (ids gs1) \<or> gr_GroupID fg \<le> n')
        \<and> take (length gs1) (ids gs') = ids gs1"
        using Cons.IH [of gs1 n] Cons.prems i1 by simp
      have "length gs1 = length gs" using i1 by (metis ids_simps(4))
      moreover have "gr_GroupID fg \<in> set (ids gs)" using g by (metis ids_def image_eqI set_map)
      moreover have "set gs - {g} = {h \<in> set gs. gr_GroupID h \<noteq> gr_GroupID fg}" using only g by blast
      moreover have "gr_GroupID fg \<notin> set (ids fresh)" using Cons.prems(2) by simp
      ultimately have "set gs' = set (fg # fresh) \<union> {h \<in> set gs. gr_GroupID h \<notin> set (ids (fg # fresh))}"
        using IH s1 by auto
      then show ?thesis using IH i1 \<open>length gs1 = length gs\<close> \<open>gr_GroupID fg \<in> set (ids gs)\<close> by simp
    next
      case False
      define n1 where "n1 = (if gr_GroupID fg > n then gr_GroupID fg else n)"
      have new: "gr_GroupID fg \<notin> set (ids gs)" using False by (auto simp: ids_def)
      have "merge_groups fresh (gs @ [fg], n1) = (gs', n')" using Cons.prems(3) False by (auto simp: n1_def)
      then have IH: "distinct (ids gs') \<and> set gs' = set fresh \<union> {g \<in> set (gs @ [fg]). gr_GroupID g \<notin> set (ids fresh)}
        \<and> n1 \<le> n' \<and> (\<forall>fg' \<in> set fresh. gr_GroupID fg' \<in> set (ids (gs @ [fg])) \<or> gr_GroupID fg' \<le> n')
        \<and> take (length (gs @ [fg])) (ids gs') = ids (gs @ [fg])"
        using Cons.IH [of "gs @ [fg]" n1] Cons.prems new by simp
      have "take (length gs) (ids gs') = take (length gs) (take (length (gs @ [fg])) (ids gs'))" by simp
      also have "\<dots> = ids gs" using IH by simp
      finally have t: "take (length gs) (ids gs') = ids gs" .
      have fgn: "gr_GroupID fg \<notin> set (ids fresh)" using Cons.prems(2) by simp
      have "{h \<in> set (gs @ [fg]). gr_GroupID h \<notin> set (ids fresh)}
          = insert fg {h \<in> set gs. gr_GroupID h \<notin> set (ids fresh)}" using fgn by auto
      moreover have "{h \<in> set gs. gr_GroupID h \<notin> set (ids fresh)}
          = {h \<in> set gs. gr_GroupID h \<notin> set (ids (fg # fresh))}" using False by auto
      ultimately have "set gs' = set (fg # fresh) \<union> {h \<in> set gs. gr_GroupID h \<notin> set (ids (fg # fresh))}"
        using IH by auto
      moreover have "n \<le> n1" "gr_GroupID fg \<le> n1" by (simp_all add: n1_def)
      moreover have "\<forall>fg' \<in> set fresh. gr_GroupID fg' \<in> set (ids gs) \<or> gr_GroupID fg' \<le> n'"
      proof
        fix h assume h: "h \<in> set fresh"
        then have "gr_GroupID h \<noteq> gr_GroupID fg" using fgn by (metis ids_def image_eqI set_map)
        then show "gr_GroupID h \<in> set (ids gs) \<or> gr_GroupID h \<le> n'" using IH h by auto
      qed
      ultimately show ?thesis using IH t by auto
    qed
  qed
  then show "distinct (ids gs')"
    "set gs' = set fresh \<union> {g \<in> set gs. gr_GroupID g \<notin> set (ids fresh)}"
    "n \<le> n'" "\<forall>fg \<in> set fresh. gr_GroupID fg \<in> set (ids gs) \<or> gr_GroupID fg \<le> n'"
    "take (length gs) (ids gs') = ids gs" by auto
qed

text \<open>Merging other nodes' groups loses and duplicates nothing. With distinct ids on both
  sides, the result has distinct ids and consists of exactly the fresh groups, as they were read,
  and the service's own groups whose id was not read; the groups the service knew keep their
  places, and the id counter is at least every id that was added.\<close>

theorem mergeGroups_correct:
  fixes s :: "'w service" and w :: 'w
  assumes "distinct (ids (s_groups s))" "distinct (ids fresh)"
  defines "s' \<equiv> fst (exec (mergeGroupsLocked fresh) (s, w))"
  shows "distinct (ids (s_groups s'))
    \<and> set (s_groups s') = set fresh \<union> {g \<in> set (s_groups s). gr_GroupID g \<notin> set (ids fresh)}
    \<and> take (length (s_groups s)) (ids (s_groups s')) = ids (s_groups s)
    \<and> s_nextGroupID s \<le> s_nextGroupID s'
    \<and> (\<forall>fg \<in> set fresh. gr_GroupID fg \<in> set (ids (s_groups s)) \<or> gr_GroupID fg \<le> s_nextGroupID s')"
proof -
  obtain gs' n' where m: "merge_groups fresh (s_groups s, s_nextGroupID s) = (gs', n')" by fastforce
  then have "s_groups s' = gs'" "s_nextGroupID s' = n'"
    by (simp_all add: s'_def mergeGroupsLocked_def)
  then show ?thesis using merge_groups_facts [OF assms(1,2) m] by simp
qed

section \<open>A group with room\<close>

lemma find_index_Some: "find_index p xs = Some i \<Longrightarrow> i < length xs \<and> p (xs ! i)"
  by (induction xs arbitrary: i) (auto split: if_splits)

lemma find_index_None: "find_index p xs = None \<longleftrightarrow> (\<forall>x \<in> set xs. \<not> p x)"
  by (induction xs) auto

lemma merge_keeps_config: "s_config (fst (exec (mergeGroupsLocked fresh) sw)) = s_config (fst sw)"
  by (simp add: mergeGroupsLocked_def split: prod.splits)

lemma addGroup_facts:
  shows "fst (exec (addGroup E newID) sw) = (fst sw)\<lparr>s_groups := s_groups (fst sw) @
      [\<lparr>gr_GroupID = newID, gr_InstanceID = groupInstanceID E (fst sw) newID, gr_RealCount = 0,
        gr_RobotCount = 0, gr_State = GroupStateOpen\<rparr>]\<rparr>"
    and "result (addGroup E newID) sw = length (s_groups (fst sw))"
  by (simp_all add: addGroup_def Let_def)

definition found_group :: "'w service \<Rightarrow> goerr + nat \<Rightarrow> bool" where
  "found_group s out \<longleftrightarrow> (\<forall>i. out = Inr i \<longrightarrow> find_index (has_room s) (s_groups s) = Some i)"

lemma find_index_append: "find_index p xs = None \<Longrightarrow> p x \<Longrightarrow> find_index p (xs @ [x]) = Some (length xs)"
  by (induction xs) (auto split: if_splits)

lemma find_or_add:
  assumes "0 < cf_RankPeopleNum (s_config (fst sw))" "find_index (has_room (fst sw)) (s_groups (fst sw)) = None"
  shows "found_group (fst (exec (addGroup E newID) sw)) (Inr (result (addGroup E newID) sw))"
proof -
  have r: "has_room ((fst sw)\<lparr>s_groups := gs\<rparr>) = has_room (fst sw)" for gs
    by (auto simp: has_room_def fun_eq_iff)
  show ?thesis
    using assms find_index_append [OF assms(2)]
    by (auto simp: found_group_def addGroup_facts r has_room_def totalCount_def)
qed

lemma ensureGroup_facts:
  fixes s :: "'w service" and w :: 'w
  assumes "0 < cf_RankPeopleNum (s_config s)"
  shows "found_group (fst (exec (ensureGroupLocked E) (s, w))) (result (ensureGroupLocked E) (s, w))"
    and "s_config (fst (exec (ensureGroupLocked E) (s, w))) = s_config s"
    and "\<not> svc_available s \<Longrightarrow> \<exists>i. result (ensureGroupLocked E) (s, w) = Inr i"
proof -
  define refresh where "refresh = (if svc_available s then do {
             fresh \<leftarrow> with_store (LoadGroups E);
             case fresh of
               Inr (Some (g # gs)) \<Rightarrow> mergeGroupsLocked (sort_key gr_GroupID (g # gs))
             | _ \<Rightarrow> skip }
           else skip)"
  define sw where "sw = exec refresh (s, w)"
  have c: "s_config (fst sw) = s_config s"
    by (auto simp: sw_def refresh_def merge_keeps_config split: sum.splits option.splits list.splits)
  define out where "out = (case find_index (has_room (fst sw)) (s_groups (fst sw)) of
       Some i \<Rightarrow> State_Monad.return (Inr i)
     | None \<Rightarrow>
         (if svc_available s then do {
            r \<leftarrow> with_store (NextGroupID E);
            case r of
              Inl err \<Rightarrow> State_Monad.return (Inl (ErrWrap ''next group id'' err))
            | Inr newID \<Rightarrow> do { i \<leftarrow> addGroup E newID; State_Monad.return (Inr i) } }
          else do {
            _ \<leftarrow> smod (\<lambda>s. s\<lparr>s_nextGroupID := i32 (s_nextGroupID s + 1)\<rparr>);
            newID \<leftarrow> sget s_nextGroupID;
            i \<leftarrow> addGroup E newID;
            State_Monad.return (Inr i) }))"
  have run: "exec (ensureGroupLocked E) (s, w) = exec out sw" "result (ensureGroupLocked E) (s, w) = result out sw"
    by (simp_all add: ensureGroupLocked_def out_def sw_def refresh_def)
  have r: "has_room (t\<lparr>s_nextGroupID := n\<rparr>) = has_room t" for t :: "'w service" and n
    by (auto simp: has_room_def fun_eq_iff)
  show "found_group (fst (exec (ensureGroupLocked E) (s, w))) (result (ensureGroupLocked E) (s, w))"
    unfolding run
    by (auto simp: out_def r c assms intro!: find_or_add simp: found_group_def [of "fst sw"]
        split: option.splits sum.splits)
  show "s_config (fst (exec (ensureGroupLocked E) (s, w))) = s_config s"
    unfolding run by (simp add: out_def addGroup_facts c split: option.splits sum.splits)
  show "\<not> svc_available s \<Longrightarrow> \<exists>i. result (ensureGroupLocked E) (s, w) = Inr i"
    unfolding run by (simp add: out_def split: option.splits)
qed

text \<open>\<open>ensureGroupLocked\<close> returns the first group with room, or an error, whatever Redis
  answers: the returned index is that of an open group with fewer members and robots than the
  configured number, and no earlier group has room (so a new group is opened only when no known
  group has). Without Redis it never fails.\<close>

theorem ensureGroup_has_room:
  fixes s :: "'w service" and w :: 'w and E :: "'w env"
  assumes "0 < cf_RankPeopleNum (s_config s)"
  defines "out \<equiv> result (ensureGroupLocked E) (s, w)" and "s' \<equiv> fst (exec (ensureGroupLocked E) (s, w))"
  shows "(\<forall>i. out = Inr i \<longrightarrow> i < length (s_groups s') \<and> has_room s' (s_groups s' ! i)
      \<and> (\<forall>j<i. \<not> has_room s' (s_groups s' ! j)))
    \<and> (\<not> svc_available s \<longrightarrow> (\<exists>i. out = Inr i))"
proof -
  have first: "\<forall>j<i. \<not> p (xs ! j)" if "find_index p xs = Some i" for p :: "group \<Rightarrow> bool" and xs i
    using that by (induction xs arbitrary: i) (auto simp: nth_Cons split: if_splits nat.splits)
  show ?thesis
    using ensureGroup_facts [OF assms(1), of E w] find_index_Some first
    unfolding out_def s'_def found_group_def by blast
qed

section \<open>Witnesses\<close>

definition mk_group :: "int32 \<Rightarrow> int32 \<Rightarrow> group" where
  "mk_group gid n = \<lparr>gr_GroupID = gid, gr_InstanceID = ''i'', gr_RealCount = n, gr_RobotCount = 0,
     gr_State = GroupStateOpen\<rparr>"

definition sample_config :: config where
  "sample_config = \<lparr>cf_BizType = ''arena'', cf_ActID = 7, cf_RankCode = ''rank'', cf_RankPeopleNum = 10,
     cf_OpenToken = 5, cf_OpenTime = 100, cf_CloseTime = 900, cf_GameEndTime = 1000, cf_CreateTime = 0,
     cf_RoundIndex = 0, cf_RobotTiers = [], cf_RobotInfos = []\<rparr>"

definition sample_service :: "'w rank_service \<Rightarrow> group list \<Rightarrow> 'w service" where
  "sample_service rs groups = \<lparr>s_config = sample_config, s_rankService = rs,
     s_store = \<lparr>st_rdb = None, st_dao = None, st_bizId = ''arena_7'', st_activityEnd = None\<rparr>,
     s_groups = groups, s_memberGroup = [], s_settledGroup = [], s_nextGroupID = 2,
     s_onMemberJoin = None, s_loaded = False, s_rankDef = None, s_tierMap = [],
     s_infoMap = [], s_instanceStates = [], s_groupsCache = None, s_groupsCacheExpiry = 0,
     s_robotsCache = [], s_scoreCache = [], s_settledAt = 0, s_activityEnd = 1000\<rparr>"

theorem mergeGroups_correct_witness:
  "set (s_groups (fst (exec (mergeGroupsLocked [mk_group 2 5, mk_group 3 1])
      (sample_service calm_rank [mk_group 1 10, mk_group 2 4], empty_mem)))) = {mk_group 2 5, mk_group 3 1, mk_group 1 10}"
proof -
  have "{g \<in> {mk_group 1 10, mk_group 2 4}. gr_GroupID g \<notin> {2, 3}} = {mk_group 1 10}"
    by (auto simp: mk_group_def)
  then show ?thesis
    using mergeGroups_correct [of "sample_service calm_rank [mk_group 1 10, mk_group 2 4]" "[mk_group 2 5, mk_group 3 1]" empty_mem]
    by (simp add: sample_service_def) (simp add: mk_group_def)
qed

theorem ensureGroup_has_room_witness:
  "\<exists>i. result (ensureGroupLocked mem_env) (sample_service calm_rank [mk_group 1 10], empty_mem) = Inr i"
  using ensureGroup_has_room [of "sample_service calm_rank [mk_group 1 10]" mem_env empty_mem]
  by (simp add: sample_service_def sample_config_def svc_available_def available_def)

end
