(* ===== verification/ServiceProps.thy ===== *)
theory ServiceProps
  imports Service GroupProps
begin

text \<open>
  Properties of the service's public methods: who may write a score, the seat count of groups and the
  assignment of members, the settlement and the configuration update.
\<close>

section \<open>Frames\<close>

text \<open>What a method leaves of the service's memory as it is.\<close>

definition frame :: "('w service \<Rightarrow> 'b) \<Rightarrow> ('w, 'a) svc \<Rightarrow> bool" where
  "frame f m \<longleftrightarrow> (\<forall>sw. f (fst (exec m sw)) = f (fst sw))"

named_theorems frame_rules "frames of the steps"

lemma frame_bind: "frame f m \<Longrightarrow> (\<And>x. frame f (k x)) \<Longrightarrow> frame f (State_Monad.bind m k)"
  unfolding frame_def exec_bind by metis

lemma frame_basic [frame_rules]: "frame f (State_Monad.return x)" "frame f skip" "frame f (sget g)"
  "frame f (with_store h)" "frame f (with_rank h')" "frame f (lift_ext m)"
  by (simp_all add: frame_def)

lemma frame_ignore [frame_rules]: "frame f m \<Longrightarrow> frame f (ignore m)"
  by (simp add: frame_def)

lemma frame_smod: "(\<And>s. f (g s) = f s) \<Longrightarrow> frame f (smod g)"
  by (simp add: frame_def)

lemma frame_for_each [frame_rules]: "(\<And>x. frame f (g x)) \<Longrightarrow> frame f (for_each xs g)"
proof (induction xs)
  case (Cons x xs)
  then have "frame f (State_Monad.bind (g x) (\<lambda>_. for_each xs g))" by (intro frame_bind) auto
  then show ?case by simp
qed (simp add: frame_basic)

lemma frameD: "frame f m \<Longrightarrow> f (fst (exec m sw)) = f (fst sw)"
  unfolding frame_def by blast

text \<open>The authoritative part of the service's memory, as opposed to its soft caches.\<close>

definition core where
  "core s = (s_config s, s_groups s, s_memberGroup s, s_nextGroupID s, s_store s, s_settledGroup s,
     s_settledAt s, s_activityEnd s, s_loaded s)"

lemma core_caches [simp]:
  "core (s\<lparr>s_instanceStates := a\<rparr>) = core s" "core (s\<lparr>s_robotsCache := b\<rparr>) = core s"
  "core (s\<lparr>s_scoreCache := c\<rparr>) = core s" "core (s\<lparr>s_groupsCache := d\<rparr>) = core s"
  "core (s\<lparr>s_groupsCacheExpiry := e\<rparr>) = core s"
  by (simp_all add: core_def)

lemma frame_instance [frame_rules]:
  "frame core (markInstanceVerified i now)" "frame core (invalidateInstanceState i)"
  "frame core (invalidateRobotsCache gid)"
  by (simp_all add: markInstanceVerified_def invalidateInstanceState_def invalidateRobotsCache_def frame_smod)

lemma frame_ensureGroupInstance [frame_rules]: "frame core (ensureGroupInstance i gid now)"
  unfolding ensureGroupInstance_def Let_def
  by (auto intro!: frame_bind frame_rules split: sum.splits option.splits)

lemma frame_restoreInstance [frame_rules]: "frame f (restoreInstanceIfMissing E gid i inst)"
  unfolding restoreInstanceIfMissing_def by (auto intro!: frame_bind frame_rules)

lemma frame_recoverGroupData [frame_rules]: "frame f (recoverGroupData E gid i)"
  unfolding recoverGroupData_def Let_def
  by (auto intro!: frame_bind frame_rules split: sum.splits option.splits)

lemma frame_spawnRobots [frame_rules]: "frame core (spawnRobotsForGroup E gid cap now)"
  unfolding spawnRobotsForGroup_def Let_def
  by (auto intro!: frame_bind frame_rules split: sum.splits option.splits)

lemma frame_writeScore [frame_rules]: "frame core (writeScore E gid new sp loaded u sc now av)"
  unfolding writeScore_def Let_def
  by (auto intro!: frame_bind frame_rules split: sum.splits option.splits)

section \<open>Who may write\<close>

text \<open>A score is only taken inside the activity. Before the open time the call fails with
  \<open>ErrInstanceNotOpen\<close>, from the close time on, and after the game's end, with
  \<open>ErrInstanceClosed\<close>; a refused call changes neither the service nor the world. An unset (zero)
  time does not limit.\<close>

theorem UpsertScore_window:
  fixes s :: "'w service"
  defines "c \<equiv> s_config s"
  shows "(if cf_OpenTime c > 0 \<and> now < cf_OpenTime c
      then run_state (UpsertScore E u sc now av) (s, w) = (Some ErrInstanceNotOpen, (s, w))
      else if cf_CloseTime c > 0 \<and> cf_CloseTime c \<le> now \<or> cf_GameEndTime c > 0 \<and> cf_GameEndTime c < now
      then run_state (UpsertScore E u sc now av) (s, w) = (Some ErrInstanceClosed, (s, w))
      else canUpdateScore s now = InstanceStateOpen)"
  by (auto simp: c_def run_state_split UpsertScore_def canUpdateScore_def)

text \<open>The states in the order an activity runs through them.\<close>

fun stage :: "inst_state \<Rightarrow> nat" where
  "stage InstanceStateInit = 0"
| "stage InstanceStateOpen = 1"
| "stage InstanceStateClosed = 2"
| "stage InstanceStateSettled = 3"

lemma stage_inject: "stage a = stage b \<longleftrightarrow> a = b"
  by (cases a; cases b) simp_all

instantiation inst_state :: linorder
begin

definition less_eq_inst_state :: "inst_state \<Rightarrow> inst_state \<Rightarrow> bool" where
  "a \<le> b \<longleftrightarrow> stage a \<le> stage b"

definition less_inst_state :: "inst_state \<Rightarrow> inst_state \<Rightarrow> bool" where
  "a < b \<longleftrightarrow> stage a < stage b"

instance
  by standard (auto simp: less_eq_inst_state_def less_inst_state_def stage_inject)

end

lemmas inst_state_order = less_eq_inst_state_def less_inst_state_def

lemma canUpdateScore_open: "canUpdateScore s t = InstanceStateOpen \<longleftrightarrow>
    \<not> (cf_OpenTime (s_config s) > 0 \<and> t < cf_OpenTime (s_config s))
    \<and> \<not> (cf_CloseTime (s_config s) > 0 \<and> cf_CloseTime (s_config s) \<le> t)
    \<and> \<not> (t > cf_GameEndTime (s_config s) \<and> cf_GameEndTime (s_config s) > 0)"
  by (simp add: canUpdateScore_def)

lemma stage_canUpdateScore: "stage (canUpdateScore s t) =
    (if cf_OpenTime (s_config s) > 0 \<and> t < cf_OpenTime (s_config s) then 0
     else if cf_CloseTime (s_config s) > 0 \<and> cf_CloseTime (s_config s) \<le> t then 2
     else if cf_GameEndTime (s_config s) < t \<and> cf_GameEndTime (s_config s) > 0 then 3 else 1)"
  by (simp add: canUpdateScore_def)

lemma stages_monotone:
  fixes op c g now later :: int
  assumes "now \<le> later" "c \<le> 0 \<or> g \<le> 0 \<or> c \<le> g + 1"
  shows "(if op > 0 \<and> now < op then 0 else if c > 0 \<and> c \<le> now then 2 else if g < now \<and> g > 0 then 3 else 1::nat)
   \<le> (if op > 0 \<and> later < op then 0 else if c > 0 \<and> c \<le> later then 2 else if g < later \<and> g > 0 then 3 else 1)"
  using assms by auto

lemma window_convex:
  fixes op c g now later mid :: int
  assumes "\<not> (op > 0 \<and> now < op)" "\<not> (c > 0 \<and> c \<le> later)" "\<not> (later > g \<and> g > 0)" "now \<le> mid" "mid \<le> later"
  shows "\<not> (op > 0 \<and> mid < op) \<and> \<not> (c > 0 \<and> c \<le> mid) \<and> \<not> (mid > g \<and> g > 0)"
  using assms by auto

lemma stateAt_monotone: "now \<le> later \<Longrightarrow> stateAt s now \<le> stateAt s later"
  by (auto simp: stateAt_def less_eq_inst_state_def)

text \<open>An activity only moves forward. As time goes on the state a query reports never falls
  back in the order unopened, open, closed; and unless the game ends before the closing time, so
  does the state that decides about scores, hence between two accepted moments every moment is
  accepted.\<close>

theorem lifecycle_monotone:
  assumes "now \<le> later"
  shows "stateAt s now \<le> stateAt s later
    \<and> (cf_CloseTime (s_config s) \<le> 0 \<or> cf_GameEndTime (s_config s) \<le> 0
         \<or> cf_CloseTime (s_config s) \<le> cf_GameEndTime (s_config s) + 1
       \<longrightarrow> canUpdateScore s now \<le> canUpdateScore s later)
    \<and> (canUpdateScore s now = InstanceStateOpen \<and> canUpdateScore s later = InstanceStateOpen \<and> now \<le> mid \<and> mid \<le> later
       \<longrightarrow> canUpdateScore s mid = InstanceStateOpen)"
proof (intro conjI impI)
  show "stateAt s now \<le> stateAt s later"
    using assms by (rule stateAt_monotone)
next
  assume "cf_CloseTime (s_config s) \<le> 0 \<or> cf_GameEndTime (s_config s) \<le> 0
    \<or> cf_CloseTime (s_config s) \<le> cf_GameEndTime (s_config s) + 1"
  from stages_monotone [OF assms this, of "cf_OpenTime (s_config s)"]
  show "canUpdateScore s now \<le> canUpdateScore s later"
    unfolding less_eq_inst_state_def stage_canUpdateScore .
next
  assume a: "canUpdateScore s now = InstanceStateOpen \<and> canUpdateScore s later = InstanceStateOpen \<and> now \<le> mid \<and> mid \<le> later"
  show "canUpdateScore s mid = InstanceStateOpen"
    unfolding canUpdateScore_open
  proof (rule window_convex)
    show "now \<le> mid" "mid \<le> later" using a by blast+
  qed (use a [unfolded canUpdateScore_open] in blast)+
qed

theorem lifecycle_monotone_witness:
  "canUpdateScore (sample_service (calm_rank :: mem rank_service) []) 50 \<le>
   canUpdateScore (sample_service (calm_rank :: mem rank_service) []) 950"
  by (rule lifecycle_monotone [THEN conjunct2, THEN conjunct1, THEN mp])
    (simp_all add: sample_service_def sample_config_def)

section \<open>Seats and members\<close>

definition members_of :: "(int64 \<times> int32) list \<Rightarrow> int32 \<Rightarrow> int" where
  "members_of m gid = int (length (filter (\<lambda>kv. snd kv = gid) m))"

definition seats_ok :: "int32 \<Rightarrow> (int64 \<times> int32) list \<Rightarrow> group \<Rightarrow> bool" where
  "seats_ok n m g \<longleftrightarrow> 0 \<le> gr_RealCount g \<and> 0 \<le> gr_RobotCount g
     \<and> gr_RealCount g = members_of m (gr_GroupID g) \<and> gr_RealCount g + gr_RobotCount g \<le> n"

definition service_ok :: "'w service \<Rightarrow> bool" where
  "service_ok s \<longleftrightarrow> distinct (ids (s_groups s)) \<and> distinct (map fst (s_memberGroup s))
     \<and> snd ` set (s_memberGroup s) \<subseteq> set (ids (s_groups s))
     \<and> (\<forall>g \<in> set (s_groups s). seats_ok (cf_RankPeopleNum (s_config s)) (s_memberGroup s) g
          \<and> gr_GroupID g \<le> s_nextGroupID s)
     \<and> 0 < cf_RankPeopleNum (s_config s) \<and> in32 (cf_RankPeopleNum (s_config s)) \<and> 0 \<le> s_nextGroupID s"

text \<open>Pure memory mode: no Redis client, so no operation of the store has an effect on the service.\<close>

definition in_memory :: "'w service \<Rightarrow> bool" where
  "in_memory s \<longleftrightarrow> st_rdb (s_store s) = None"

lemma in_memory_store: "in_memory s \<Longrightarrow> st_rdb (store_now s) = None"
  and in_memory_unavailable: "in_memory s \<Longrightarrow> \<not> svc_available s"
  by (simp_all add: in_memory_def store_now_def svc_available_def available_def)

lemma update_new: "k \<notin> fst ` set m \<Longrightarrow> AList.update k v m = m @ [(k, v)]"
  by (induction m) auto

lemma members_of_simps [simp]: "members_of [] g = 0"
  "members_of (m @ [(k, v)]) g = members_of m g + (if v = g then 1 else 0)"
  by (simp_all add: members_of_def)

lemma members_of_none: "gid \<notin> snd ` set m \<Longrightarrow> members_of m gid = 0"
  by (auto simp: members_of_def filter_empty_conv image_iff)

lemma ensureLoaded_memory: "in_memory (fst sw) \<Longrightarrow> exec (ensureLoaded E) sw = sw"
  by (simp add: ensureLoaded_def in_memory_unavailable)

lemma lookupMember_memory:
  assumes "in_memory (fst sw)"
  shows "exec (lookupMember E u) sw = sw" "result (lookupMember E u) sw = map_of (s_memberGroup (fst sw)) u"
  using assms by (auto simp: lookupMember_def GetMember_def in_memory_store split: option.splits)

text \<open>Finding a group in memory: one with room, or a new one.\<close>

lemma ensureGroup_memory:
  assumes "in_memory s"
  shows "run_state (ensureGroupLocked E) (s, w) =
    (case find_index (has_room s) (s_groups s) of
       Some i \<Rightarrow> (Inr i, (s, w))
     | None \<Rightarrow> let n = i32 (s_nextGroupID s + 1); s1 = s\<lparr>s_nextGroupID := n\<rparr> in
         (Inr (length (s_groups s)), (s1\<lparr>s_groups := s_groups s @
            [\<lparr>gr_GroupID = n, gr_InstanceID = groupInstanceID E s1 n, gr_RealCount = 0,
              gr_RobotCount = 0, gr_State = GroupStateOpen\<rparr>]\<rparr>, w)))"
  using assms
  by (auto simp: run_state_split ensureGroupLocked_def addGroup_def in_memory_unavailable Let_def
      SaveGroup_def in_memory_def store_now_def split: option.splits)

lemma ensureGroup_ok:
  assumes "in_memory s" "service_ok s" "s_nextGroupID s < 2147483647"
    and r: "run_state (ensureGroupLocked E) (s, w) = (r, (s', w'))"
  shows "\<exists>i. r = Inr i \<and> i < length (s_groups s') \<and> has_room s' (s_groups s' ! i) \<and> service_ok s'
    \<and> s_memberGroup s' = s_memberGroup s \<and> s_config s' = s_config s \<and> s_store s' = s_store s"
proof (cases "find_index (has_room s) (s_groups s)")
  case (Some i)
  then have "r = Inr i" "s' = s" using r assms(1) by (simp_all add: ensureGroup_memory)
  then show ?thesis using assms find_index_Some [OF Some] by auto
next
  case None
  let ?n = "s_nextGroupID s + 1"
  have n: "i32 ?n = ?n" using assms by (intro i32_id) (simp add: service_ok_def in32_def)
  define g where "g = \<lparr>gr_GroupID = ?n, gr_InstanceID = groupInstanceID E (s\<lparr>s_nextGroupID := ?n\<rparr>) ?n,
    gr_RealCount = 0, gr_RobotCount = 0, gr_State = GroupStateOpen\<rparr>"
  have s': "s' = s\<lparr>s_nextGroupID := ?n, s_groups := s_groups s @ [g]\<rparr>" and ri: "r = Inr (length (s_groups s))"
    using r assms(1) None by (simp_all add: ensureGroup_memory Let_def n g_def)
  have new: "?n \<notin> set (ids (s_groups s))" using assms(2) by (auto simp: service_ok_def ids_def)
  then have "members_of (s_memberGroup s) ?n = 0"
    using assms(2) by (intro members_of_none) (auto simp: service_ok_def)
  then have "service_ok s'" using assms(2) new
    by (auto simp: service_ok_def s' g_def seats_ok_def)
  moreover have "has_room s' g" using assms(2) by (simp add: has_room_def g_def totalCount_def service_ok_def s')
  ultimately show ?thesis using ri s' by simp
qed


lemma find_index_update:
  assumes "i < length gs" "gr_GroupID g' = gr_GroupID (gs ! i)"
  shows "ids (gs[i := g']) = ids gs"
  using assms by (metis ids_def list_update_id map_update)

lemma nth_id_unique:
  assumes "distinct (ids gs)" "i < length gs" "j < length gs" "gr_GroupID (gs ! i) = gr_GroupID (gs ! j)"
  shows "i = j"
  using assms by (simp add: ids_def distinct_conv_nth) metis

lemma set_update_unique:
  assumes "distinct (ids gs)" "i < length gs"
  shows "set (gs[i := g']) = insert g' {g \<in> set gs. gr_GroupID g \<noteq> gr_GroupID (gs ! i)}"
proof -
  have "set (gs[i := g']) = insert g' (set gs - {gs ! i})"
    using assms by (simp add: ids_def distinct_map set_update_distinct)
  moreover have "set gs - {gs ! i} = {g \<in> set gs. gr_GroupID g \<noteq> gr_GroupID (gs ! i)}"
    using assms by (auto simp: ids_def distinct_map inj_on_def)
  ultimately show ?thesis by simp
qed

text \<open>The effect of a join on the memory: one more real player in the group, its robots planned if it
  is the first player, and the group full when no place is left.\<close>

definition joined_group :: "config \<Rightarrow> group \<Rightarrow> group" where
  "joined_group c g =
     (let g1 = g\<lparr>gr_RealCount := i32 (gr_RealCount g + 1)\<rparr>;
          g2 = (if gr_RealCount g1 = 1 \<and> hasRobots c
                then g1\<lparr>gr_RobotCount := totalRobotsInPlan (buildRobotSpawnPlan (cf_RobotTiers c)
                         (i32 (cf_RankPeopleNum c - gr_RealCount g1)))\<rparr> else g1)
      in if totalCount g2 \<ge> cf_RankPeopleNum c then g2\<lparr>gr_State := GroupStateFull\<rparr> else g2)"

lemma joinGroup_memory:
  fixes s s1 :: "'w service" and w w1 :: 'w
  assumes m: "in_memory s" and e: "run_state (ensureGroupLocked E) (s, w) = (Inr i, (s1, w1))"
    and c: "s_config s1 = s_config s" "s_store s1 = s_store s" and i: "i < length (s_groups s1)"
  shows "\<exists>w'. exec (joinGroup E u) (s, w) = (s1\<lparr>
      s_memberGroup := AList.update u (gr_GroupID (s_groups s1 ! i)) (s_memberGroup s1),
      s_groups := (s_groups s1)[i := joined_group (s_config s) (s_groups s1 ! i)]\<rparr>, w')"
    and "\<exists>b n. result (joinGroup E u) (s, w) = Inr (gr_GroupID (s_groups s1 ! i), b, n)"
proof -
  have st: "st_rdb (store_now t) = None" if "s_store t = s_store s" for t :: "'w service"
    using that m by (simp add: store_now_def in_memory_def)
  have e': "result (ensureGroupLocked E) (s, w) = Inr i" "exec (ensureGroupLocked E) (s, w) = (s1, w1)"
    using e by (simp_all add: run_state_split)
  have off: "exec (SaveGroup E (store_now t) g) x = x" "exec (SetMember E (store_now t) u gid) x = x"
    "exec (IncrRealCount E (store_now t) g) x = x"
    "result (IncrRealCount E (store_now t) g) x = g\<lparr>gr_RealCount := i32 (gr_RealCount g + 1)\<rparr>"
    if "s_store t = s_store s" for t :: "'w service" and g gid and x :: 'w
    using st [OF that] by (simp_all add: SaveGroup_def SetMember_def IncrRealCount_def)
  have cb: "\<exists>x'. exec (memberJoined u gid) (t, x) = (t, x')" for gid and t :: "'w service" and x :: 'w
    by (auto simp: memberJoined_def split: option.splits)
  show "\<exists>w'. exec (joinGroup E u) (s, w) = (s1\<lparr>
      s_memberGroup := AList.update u (gr_GroupID (s_groups s1 ! i)) (s_memberGroup s1),
      s_groups := (s_groups s1)[i := joined_group (s_config s) (s_groups s1 ! i)]\<rparr>, w')"
  proof -
    define g1 where "g1 = (s_groups s1 ! i)\<lparr>gr_RealCount := i32 (gr_RealCount (s_groups s1 ! i) + 1)\<rparr>"
    define t where "t = s1\<lparr>s_memberGroup := AList.update u (gr_GroupID (s_groups s1 ! i)) (s_memberGroup s1),
      s_groups := (s_groups s1)[i := g1]\<rparr>"
    obtain x' where x': "exec (memberJoined u (gr_GroupID (s_groups s1 ! i))) (t, w1) = (t, x')"
      using cb by blast
    have t: "s_store t = s_store s" "s_config t = s_config s" using c by (simp_all add: t_def)
    have upd: "t\<lparr>s_groups := (s_groups t)[i := g]\<rparr> = s1\<lparr>s_memberGroup :=
        AList.update u (gr_GroupID (s_groups s1 ! i)) (s_memberGroup s1), s_groups := (s_groups s1)[i := g]\<rparr>" for g
      by (simp add: t_def)
    have same: "t = s1\<lparr>s_memberGroup := AList.update u (gr_GroupID (s_groups s1 ! i)) (s_memberGroup s1),
        s_groups := (s_groups s1)[i := g1]\<rparr>" by (simp add: t_def)
    show ?thesis
      using x' unfolding joinGroup_def joined_group_def Let_def
      by (auto simp: e' update_group_def off c t g1_def [symmetric] t_def [symmetric] upd same [symmetric] intro!: exI)
  qed
  show "\<exists>b n. result (joinGroup E u) (s, w) = Inr (gr_GroupID (s_groups s1 ! i), b, n)"
    by (simp add: joinGroup_def e' Let_def)
qed


lemma joined_group_facts:
  assumes "seats_ok n m g" "gr_RealCount g + gr_RobotCount g < n" "in32 n" "cf_RankPeopleNum c = n" "gr_State g = GroupStateOpen"
  defines "g' \<equiv> joined_group c g"
  shows "gr_RealCount g' = gr_RealCount g + 1" "0 \<le> gr_RobotCount g'" "gr_RealCount g' + gr_RobotCount g' \<le> n"
    "gr_GroupID g' = gr_GroupID g" "gr_State g' = (if gr_RealCount g' + gr_RobotCount g' = n then GroupStateFull else GroupStateOpen)"
proof -
  define r where "r = gr_RealCount g + 1"
  have r: "i32 r = r" "1 \<le> r" "r \<le> n" using assms(1-3) by (auto simp: r_def seats_ok_def in32_def intro!: i32_id)
  have cap: "i32 (n - r) = n - r" using r assms(3) by (intro i32_id) (auto simp: in32_def)
  define rob where "rob = (if r = 1 \<and> hasRobots c
    then totalRobotsInPlan (buildRobotSpawnPlan (cf_RobotTiers c) (n - r)) else gr_RobotCount g)"
  have plan: "totalRobotsInPlan (buildRobotSpawnPlan (cf_RobotTiers c) (n - r)) = min (n - r) (demand (cf_RobotTiers c))"
    using plan_total [of "n - r" "cf_RobotTiers c"] r assms(3) by (simp add: in32_def)
  have rob: "0 \<le> rob" "r + rob \<le> n"
    using plan demand_nonneg [of "cf_RobotTiers c"] r assms(1,2) by (auto simp: rob_def seats_ok_def r_def)
  have tot: "i32 (r + rob) = r + rob" using rob r assms(3) by (intro i32_id) (auto simp: in32_def)
  have g': "g' = g\<lparr>gr_RealCount := r, gr_RobotCount := rob,
      gr_State := (if r + rob \<ge> n then GroupStateFull else gr_State g)\<rparr>"
  proof (cases "r = 1 \<and> hasRobots c")
    case True
    then have "i32 (n - 1) = n - 1" "rob = totalRobotsInPlan (buildRobotSpawnPlan (cf_RobotTiers c) (n - 1))"
      "i32 (1 + rob) = 1 + rob"
      using cap tot by (simp_all add: rob_def)
    then show ?thesis
      unfolding g'_def joined_group_def Let_def r_def [symmetric] r(1) assms(4)
      using True by (simp add: totalCount_def)
  next
    case False
    then have "rob = gr_RobotCount g" by (auto simp: rob_def)
    then show ?thesis
      unfolding g'_def joined_group_def Let_def r_def [symmetric] r(1) assms(4)
      using False tot by (auto simp: totalCount_def)
  qed
  show "gr_RealCount g' = gr_RealCount g + 1" "0 \<le> gr_RobotCount g'" "gr_RealCount g' + gr_RobotCount g' \<le> n"
    "gr_GroupID g' = gr_GroupID g" "gr_State g' = (if gr_RealCount g' + gr_RobotCount g' = n then GroupStateFull else GroupStateOpen)"
    using rob assms(5) by (auto simp: g' r_def)
qed


lemma join_keeps_ok:
  assumes ok: "service_ok s" and i: "i < length (s_groups s)" "has_room s (s_groups s ! i)"
    and u: "u \<notin> fst ` set (s_memberGroup s)"
  defines "gid \<equiv> gr_GroupID (s_groups s ! i)"
  defines "s' \<equiv> s\<lparr>s_memberGroup := AList.update u gid (s_memberGroup s),
      s_groups := (s_groups s)[i := joined_group (s_config s) (s_groups s ! i)]\<rparr>"
  shows "service_ok s'"
proof -
  let ?g = "s_groups s ! i" and ?n = "cf_RankPeopleNum (s_config s)"
  have g: "?g \<in> set (s_groups s)" using i by simp
  have d: "distinct (ids (s_groups s))" and n32: "in32 ?n" using ok by (simp_all add: service_ok_def)
  have seats: "seats_ok ?n (s_memberGroup s) ?g" using ok g by (simp add: service_ok_def)
  then have tot: "totalCount ?g = gr_RealCount ?g + gr_RobotCount ?g"
    using n32 by (auto simp: totalCount_def seats_ok_def in32_def intro!: i32_id)
  have room: "gr_RealCount ?g + gr_RobotCount ?g < ?n" "gr_State ?g = GroupStateOpen"
    using i(2) tot by (simp_all add: has_room_def)
  note J = joined_group_facts [OF seats room(1) n32 refl room(2)]
  have m: "s_memberGroup s' = s_memberGroup s @ [(u, gid)]" using u by (simp add: s'_def update_new)
  have gs: "set (s_groups s') = insert (joined_group (s_config s) ?g)
      {h \<in> set (s_groups s). gr_GroupID h \<noteq> gid}"
    using set_update_unique [OF d i(1)] by (simp add: s'_def gid_def)
  have idl: "ids (s_groups s') = ids (s_groups s)"
    using find_index_update [OF i(1), of "joined_group (s_config s) ?g"] J by (simp add: s'_def)
  have "gid \<in> set (ids (s_groups s))" using g by (simp add: gid_def ids_def)
  then have "snd ` set (s_memberGroup s') \<subseteq> set (ids (s_groups s'))"
    using ok by (auto simp: m idl service_ok_def)
  moreover have "distinct (map fst (s_memberGroup s'))" using ok u by (simp add: m service_ok_def)
  moreover have "seats_ok ?n (s_memberGroup s') h \<and> gr_GroupID h \<le> s_nextGroupID s'"
    if h: "h \<in> set (s_groups s')" for h
  proof (cases "h = joined_group (s_config s) ?g")
    case True
    have "gr_GroupID ?g \<le> s_nextGroupID s" using ok g by (simp add: service_ok_def)
    moreover have "s_nextGroupID s' = s_nextGroupID s" by (simp add: s'_def)
    moreover have "members_of (s_memberGroup s') (gr_GroupID ?g) = members_of (s_memberGroup s) (gr_GroupID ?g) + 1"
      unfolding m gid_def by simp
    ultimately show ?thesis using J seats True by (auto simp: seats_ok_def)
  next
    case False
    then have "h \<in> set (s_groups s)" "gr_GroupID h \<noteq> gid" using h gs by auto
    moreover have "s_nextGroupID s' = s_nextGroupID s" by (simp add: s'_def)
    moreover have "members_of (s_memberGroup s') (gr_GroupID h) = members_of (s_memberGroup s) (gr_GroupID h)"
      using \<open>gr_GroupID h \<noteq> gid\<close> unfolding m by simp
    ultimately show ?thesis using ok by (auto simp: service_ok_def seats_ok_def)
  qed
  moreover have "s_config s' = s_config s" "s_nextGroupID s' = s_nextGroupID s" by (simp_all add: s'_def)
  ultimately show ?thesis using ok idl by (simp add: service_ok_def)
qed

lemma UpsertScore_memory:
  fixes s :: "'w service" and w :: 'w and E :: "'w env" and u sc now :: int64 and av :: "avatar_info option"
  assumes m: "in_memory s" and ok: "service_ok s" and n: "s_nextGroupID s < 2147483647"
    and open_: "canUpdateScore s now = InstanceStateOpen"
  defines "s' \<equiv> fst (exec (UpsertScore E u sc now av) (s, w))"
  shows "service_ok s' \<and> in_memory s' \<and> map_of (s_memberGroup s') u \<noteq> None
    \<and> (\<forall>v gid. map_of (s_memberGroup s) v = Some gid \<longrightarrow> map_of (s_memberGroup s') v = Some gid)"
proof (cases "map_of (s_memberGroup s) u")
  case (Some gid)
  have "core s' = core s"
    unfolding s'_def UpsertScore_def
    by (simp add: open_ ensureLoaded_memory m lookupMember_memory Some frameD [OF frame_writeScore])
  then have "s_config s' = s_config s" "s_groups s' = s_groups s" "s_memberGroup s' = s_memberGroup s"
    "s_nextGroupID s' = s_nextGroupID s" "s_store s' = s_store s" by (simp_all add: core_def)
  then show ?thesis using ok m Some by (simp add: service_ok_def in_memory_def)
next
  case None
  obtain r s1 w1 where e: "run_state (ensureGroupLocked E) (s, w) = (r, (s1, w1))" by (metis prod.exhaust)
  obtain i where i: "r = Inr i" "i < length (s_groups s1)" "has_room s1 (s_groups s1 ! i)" "service_ok s1"
    "s_memberGroup s1 = s_memberGroup s" "s_config s1 = s_config s" "s_store s1 = s_store s"
    using ensureGroup_ok [OF m ok n e] by blast
  let ?g = "s_groups s1 ! i"
  define s2 where "s2 = s1\<lparr>s_memberGroup := AList.update u (gr_GroupID ?g) (s_memberGroup s1),
      s_groups := (s_groups s1)[i := joined_group (s_config s1) ?g]\<rparr>"
  obtain w2 where j: "exec (joinGroup E u) (s, w) = (s2, w2)"
    using joinGroup_memory(1) [OF m e [unfolded i(1)] i(6,7,2)] i(6) unfolding s2_def by metis
  obtain b k where jr: "result (joinGroup E u) (s, w) = Inr (gr_GroupID ?g, b, k)"
    using joinGroup_memory(2) [OF m e [unfolded i(1)] i(6,7,2)] by metis
  have u: "u \<notin> fst ` set (s_memberGroup s1)" using None i(5) by (simp add: map_of_eq_None_iff)
  have ok2: "service_ok s2" using join_keeps_ok [OF i(4,2,3) u] by (simp add: s2_def)
  have m2: "s_memberGroup s2 = s_memberGroup s @ [(u, gr_GroupID ?g)]"
    using u by (simp add: s2_def update_new i(5))
  have "core s' = core s2"
    unfolding s'_def UpsertScore_def
    by (simp add: open_ ensureLoaded_memory m lookupMember_memory None j jr frameD [OF frame_writeScore])
  then have f: "s_config s' = s_config s2" "s_groups s' = s_groups s2" "s_memberGroup s' = s_memberGroup s2"
    "s_nextGroupID s' = s_nextGroupID s2" "s_store s' = s_store s2" by (simp_all add: core_def)
  then have "service_ok s'" using ok2 by (simp add: service_ok_def)
  moreover have "in_memory s'" using m i(7) f by (simp add: in_memory_def s2_def)
  moreover have "map_of (s_memberGroup s') v = Some gid" if "map_of (s_memberGroup s) v = Some gid" for v gid
    using that by (simp add: f m2 map_add_def)
  moreover have "map_of (s_memberGroup s') u \<noteq> None" using None by (simp add: f m2 map_add_def)
  ultimately show ?thesis by blast
qed

text \<open>Claim C1: without Redis the service seats its players correctly, whatever the ranking library
  answers. Accepting a score keeps the invariant: group ids are distinct; each group's count of
  real players is the number of members assigned to it; players and planned robots together never
  exceed the configured size; every member is assigned to an existing group. The player of an
  accepted score has a group afterwards, and nobody who had one is ever moved.\<close>

theorem UpsertScore_seats:
  fixes s :: "'w service" and w :: 'w and E :: "'w env" and u sc now :: int64 and av :: "avatar_info option"
  assumes "in_memory s" "service_ok s" "s_nextGroupID s < 2147483647"
  defines "s' \<equiv> fst (exec (UpsertScore E u sc now av) (s, w))"
  shows "service_ok s' \<and> in_memory s'
    \<and> (canUpdateScore s now = InstanceStateOpen \<longrightarrow> map_of (s_memberGroup s') u \<noteq> None)
    \<and> (\<forall>v gid. map_of (s_memberGroup s) v = Some gid \<longrightarrow> map_of (s_memberGroup s') v = Some gid)"
proof (cases "canUpdateScore s now = InstanceStateOpen")
  case True
  then show ?thesis using UpsertScore_memory [OF assms(1-3)] by (simp add: s'_def)
next
  case False
  then have "s' = s"
    by (simp add: s'_def UpsertScore_def split: inst_state.splits)
  then show ?thesis using assms False by simp
qed

theorem UpsertScore_seats_witness:
  "map_of (s_memberGroup (fst (exec (UpsertScore mem_env 42 1000 500 None) (sample_service calm_rank [], empty_mem)))) 42 \<noteq> None"
proof -
  have "in_memory (sample_service (calm_rank :: mem rank_service) [])" "service_ok (sample_service (calm_rank :: mem rank_service) [])"
    "s_nextGroupID (sample_service (calm_rank :: mem rank_service) []) < 2147483647"
    "canUpdateScore (sample_service (calm_rank :: mem rank_service) []) 500 = InstanceStateOpen"
    by (simp_all add: sample_service_def sample_config_def in_memory_def service_ok_def canUpdateScore_def
        ids_def in32_def)
  then show ?thesis
    using UpsertScore_seats [of "sample_service (calm_rank :: mem rank_service) []" mem_env 42 1000 500 None empty_mem] by blast
qed

end
