(* ===== verification/RobotProps.thy ===== *)
theory RobotProps
  imports RobotTicks MemWorld GroupProps
begin

text \<open>
  Properties of the robots of a group: those created for it (\<open>spawnRobotsForGroup\<close>) and one pass of
  growth over them (\<open>tickGroupRobots\<close>). The answers of \<open>math/rand\<close> are only assumed to be inside the
  bound asked for.
\<close>

section \<open>Indices\<close>

lemma robotIndexOf_robotMemberID:
  assumes "0 \<le> g" "in32 g" "0 \<le> i" "i < 10000" "ro_MemberID r = robotMemberID g i"
  shows "robotIndexOf g r = i"
proof -
  have m: "ro_MemberID r = - (g * 10000 + i)"
    using assms robotMemberID_eq [of g i] by (simp add: in32_def)
  have "i64 (i + g * 10000) = i + g * 10000" "i64 (g * 10000) = g * 10000" "i64 i = i" "i32 i = i"
    using assms by (auto simp: in32_def in64_def intro!: i64_id i32_id)
  then show ?thesis by (simp add: robotIndexOf_def m robotIDGroupStride_def add.commute)
qed

definition robots_of_group :: "int32 \<Rightarrow> robot_state list \<Rightarrow> bool" where
  "robots_of_group g rs \<longleftrightarrow> (\<forall>r \<in> set rs. \<exists>i. 0 \<le> i \<and> i < 10000 \<and> ro_MemberID r = robotMemberID g i)"

lemma nextRobotIndex_fold:
  assumes "0 \<le> g" "in32 g" "robots_of_group g rs" "0 \<le> a" "a < 10000"
  shows "let n = fold (\<lambda>r idx. if robotIndexOf g r > idx then robotIndexOf g r else idx) rs a in
    a \<le> n \<and> n < 10000 \<and> (\<forall>r \<in> set rs. robotIndexOf g r \<le> n)"
  using assms(3-5)
proof (induction rs arbitrary: a)
  case (Cons r rs)
  obtain i where i: "0 \<le> i" "i < 10000" "ro_MemberID r = robotMemberID g i"
    using Cons.prems(1) by (auto simp: robots_of_group_def)
  have ri: "robotIndexOf g r = i" using robotIndexOf_robotMemberID [OF assms(1,2) i] .
  define b where "b = (if i > a then i else a)"
  have b: "a \<le> b" "i \<le> b" "0 \<le> b" "b < 10000" using i Cons.prems by (auto simp: b_def)
  have "robots_of_group g rs" using Cons.prems(1) by (simp add: robots_of_group_def)
  note IH = Cons.IH [OF this b(3,4), unfolded Let_def]
  have "fold (\<lambda>r idx. if robotIndexOf g r > idx then robotIndexOf g r else idx) (r # rs) a =
      fold (\<lambda>r idx. if robotIndexOf g r > idx then robotIndexOf g r else idx) rs b"
    by (simp add: ri b_def)
  then show ?case using IH b(1,2) ri unfolding Let_def by fastforce
qed simp

lemma nextRobotIndex_above:
  assumes "0 \<le> g" "in32 g" "robots_of_group g rs"
  shows "0 \<le> nextRobotIndex g rs" "nextRobotIndex g rs < 10000"
    "r \<in> set rs \<Longrightarrow> \<exists>i. 0 \<le> i \<and> i \<le> nextRobotIndex g rs \<and> ro_MemberID r = robotMemberID g i"
proof -
  note N = nextRobotIndex_fold [OF assms, of 0, folded nextRobotIndex_def, unfolded Let_def]
  show "0 \<le> nextRobotIndex g rs" "nextRobotIndex g rs < 10000" using N by auto
  assume r: "r \<in> set rs"
  then obtain i where i: "0 \<le> i" "i < 10000" "ro_MemberID r = robotMemberID g i"
    using assms(3) by (auto simp: robots_of_group_def)
  moreover have "i \<le> nextRobotIndex g rs"
    using N r robotIndexOf_robotMemberID [OF assms(1,2) i] by force
  ultimately show "\<exists>i. 0 \<le> i \<and> i \<le> nextRobotIndex g rs \<and> ro_MemberID r = robotMemberID g i" by blast
qed

section \<open>Creation\<close>

text \<open>The answers of \<open>math/rand\<close>.\<close>

definition rand_law :: "'w rank_lib \<Rightarrow> bool" where
  "rand_law lib \<longleftrightarrow> (\<forall>w. rand_ok (result (Rand lib) w))"

text \<open>What holds of the robots created so far: \<open>i0\<close> the last index and \<open>used0\<close> the display data in
  use before, \<open>k\<close> the robots asked for so far.\<close>

definition new_robot :: "(int32 \<times> robot_tier) list \<Rightarrow> config \<Rightarrow> int64 \<Rightarrow> robot_state \<Rightarrow> bool" where
  "new_robot tiers c now r \<longleftrightarrow> (\<exists>t. map_of tiers (ro_TierID r) = Some t \<and> ro_Score r \<le> ti_MaxToken t)
     \<and> ro_InfoID r \<in> ri_InfoID ` set (cf_RobotInfos c) \<and> ro_LastGrowAt r = now \<and> ro_PendingScore r = 0"

definition spawn_inv ::
  "(int32 \<times> robot_tier) list \<Rightarrow> config \<Rightarrow> int32 \<Rightarrow> int64 \<Rightarrow> int32 \<Rightarrow> int64 list \<Rightarrow> int \<Rightarrow> spawn_state \<Rightarrow> bool" where
  "spawn_inv tiers c g now i0 used0 k sp \<longleftrightarrow>
     i0 \<le> sp_index sp \<and> sp_index sp \<le> i0 + k
     \<and> (\<exists>js. map ro_MemberID (sp_robots sp) = map (robotMemberID g) js \<and> distinct js
          \<and> set js \<subseteq> {i0 <.. sp_index sp})
     \<and> int (length (sp_robots sp)) \<le> k
     \<and> sp_used sp = rev (map ro_InfoID (sp_robots sp)) @ used0
     \<and> distinct (map ro_InfoID (sp_robots sp)) \<and> ro_InfoID ` set (sp_robots sp) \<inter> set used0 = {}
     \<and> list_all (new_robot tiers c now) (sp_robots sp)
     \<and> map (\<lambda>it. (it_MemberId it, it_Score it)) (sp_items sp) = map (\<lambda>r. (ro_MemberID r, ro_Score r)) (sp_robots sp)"

lemma spawn_inv_skip:
  assumes "spawn_inv tiers c g now i0 used0 k sp" "k \<le> k'"
  shows "spawn_inv tiers c g now i0 used0 k' sp"
  using assms by (auto simp: spawn_inv_def)

lemma spawn_inv_step:
  assumes inv: "spawn_inv tiers c g now i0 used0 k sp" and tier: "map_of tiers (ti_TierID t) = Some t"
    and info: "info \<in> set (cf_RobotInfos c)" "ri_InfoID info \<notin> set (sp_used sp)"
    and out: "(robot, item) = spawnRobot g t now sc info (sp_index sp + 1)"
  shows "spawn_inv tiers c g now i0 used0 (k + 1)
    (sp\<lparr>sp_index := sp_index sp + 1, sp_used := ri_InfoID info # sp_used sp,
        sp_robots := sp_robots sp @ [robot], sp_items := sp_items sp @ [item]\<rparr>)"
proof -
  have r: "ro_MemberID robot = robotMemberID g (sp_index sp + 1)" "ro_InfoID robot = ri_InfoID info"
    "new_robot tiers c now robot" "it_MemberId item = ro_MemberID robot" "it_Score item = ro_Score robot"
    using out tier info(1) by (simp_all add: spawnRobot_def Let_def new_robot_def)
  obtain js where js: "map ro_MemberID (sp_robots sp) = map (robotMemberID g) js" "distinct js"
    "set js \<subseteq> {i0 <.. sp_index sp}"
    using inv by (auto simp: spawn_inv_def)
  have i: "i0 \<le> sp_index sp" using inv by (simp add: spawn_inv_def)
  have "map ro_MemberID (sp_robots sp @ [robot]) = map (robotMemberID g) (js @ [sp_index sp + 1])"
    "distinct (js @ [sp_index sp + 1])" "set (js @ [sp_index sp + 1]) \<subseteq> {i0 <.. sp_index sp + 1}"
    using js r i by auto
  then have "\<exists>js. map ro_MemberID (sp_robots sp @ [robot]) = map (robotMemberID g) js \<and> distinct js
      \<and> set js \<subseteq> {i0 <.. sp_index sp + 1}" by blast
  then show ?thesis using inv r info(2) unfolding spawn_inv_def by (simp add: image_iff)
qed

lemma spawn_tier_inv:
  assumes law: "rand_law (en_lib E)" and tier: "map_of tiers (ti_TierID t) = Some t"
    and i0: "0 \<le> i0" and inv: "spawn_inv tiers c g now i0 used0 k sp" and lim: "i0 + k + int n < 2147483647"
  shows "spawn_inv tiers c g now i0 used0 (k + int n) (result (spawn_tier E c g now t n sp) w)"
  using inv lim
proof (induction n arbitrary: k sp w)
  case (Suc n)
  have b: "i0 \<le> sp_index sp" "sp_index sp \<le> i0 + k" using Suc.prems(1) by (simp_all add: spawn_inv_def)
  then have idx: "i32 (sp_index sp + 1) = sp_index sp + 1"
    using i0 Suc.prems(2) by (intro i32_id) (simp add: in32_def)
  let ?rnd = "result (Rand (en_lib E)) w" and ?w1 = "exec (Rand (en_lib E)) w"
  have rnd: "rand_ok ?rnd" using law by (simp add: rand_law_def)
  show ?case
  proof (cases "pickRobotInfo ?rnd (cf_RobotInfos c) (set (sp_used sp))")
    case None
    have "spawn_inv tiers c g now i0 used0 (k + 1) (sp\<lparr>sp_index := sp_index sp + 1\<rparr>)"
      using Suc.prems(1) by (fastforce simp: spawn_inv_def)
    then have "spawn_inv tiers c g now i0 used0 (k + int (Suc n)) (sp\<lparr>sp_index := sp_index sp + 1\<rparr>)"
      by (rule spawn_inv_skip) simp
    then show ?thesis using None by (simp add: idx Let_def)
  next
    case (Some info)
    let ?sc = "initRobotScore (result (Rand (en_lib E)) ?w1) (ti_DefaultTokenMin t) (ti_DefaultTokenMax t)"
    obtain robot item where out: "(robot, item) = spawnRobot g t now ?sc info (sp_index sp + 1)"
      by (metis prod.exhaust)
    note info = pickRobotInfo_Some [OF rnd Some]
    have step: "spawn_inv tiers c g now i0 used0 (k + 1)
      (sp\<lparr>sp_index := sp_index sp + 1, sp_used := ri_InfoID info # sp_used sp,
          sp_robots := sp_robots sp @ [robot], sp_items := sp_items sp @ [item]\<rparr>)"
      by (rule spawn_inv_step [OF Suc.prems(1) tier _ _ out]) (use info in auto)
    have "i0 + (k + 1) + int n < 2147483647" using Suc.prems(2) by simp
    from Suc.IH [OF step this] show ?thesis
      using Some by (simp add: idx Let_def out [symmetric] add.assoc)
  qed
qed simp

definition tier_map_ok :: "(int32 \<times> robot_tier) list \<Rightarrow> bool" where
  "tier_map_ok m \<longleftrightarrow> (\<forall>k t. map_of m k = Some t \<longrightarrow> ti_TierID t = k)"

lemma spawn_entry_inv:
  assumes law: "rand_law (en_lib E)" and tiers: "tier_map_ok (s_tierMap s)" and i0: "0 \<le> i0"
    and inv: "spawn_inv (s_tierMap s) (s_config s) g now i0 used0 k sp"
    and e: "0 \<le> se_Count e" and lim: "i0 + k + se_Count e < 2147483647"
  shows "spawn_inv (s_tierMap s) (s_config s) g now i0 used0 (k + se_Count e)
    (result (spawn_entry_robots E s g now e sp) w)"
proof (cases "findTier s (se_TierID e)")
  case None
  then show ?thesis using spawn_inv_skip [OF inv, of "k + se_Count e"] e by (simp add: spawn_entry_robots_def)
next
  case (Some t)
  then have t: "map_of (s_tierMap s) (ti_TierID t) = Some t"
    using tiers by (auto simp: tier_map_ok_def findTier_def)
  have "spawn_inv (s_tierMap s) (s_config s) g now i0 used0 (k + int (nat (se_Count e)))
      (result (spawn_tier E (s_config s) g now t (nat (se_Count e)) sp) w)"
    by (rule spawn_tier_inv [OF law t i0 inv]) (use lim e in simp)
  then show ?thesis
    using Some spawn_inv_skip [OF inv, of "k + se_Count e"] e by (simp add: spawn_entry_robots_def Let_def)
qed

lemma spawn_fold_inv:
  assumes law: "rand_law (en_lib E)" and tiers: "tier_map_ok (s_tierMap s)" and i0: "0 \<le> i0"
    and "spawn_inv (s_tierMap s) (s_config s) g now i0 used0 k sp"
    and "\<And>e. e \<in> set es \<Longrightarrow> 0 \<le> se_Count e" and "i0 + k + plan_sum es < 2147483647"
  shows "spawn_inv (s_tierMap s) (s_config s) g now i0 used0 (k + plan_sum es)
    (result (fold_state (spawn_entry_robots E s g now) es sp) w)"
  using assms(4-6)
proof (induction es arbitrary: k sp w)
  case (Cons e es)
  have nn: "0 \<le> plan_sum es" using Cons.prems(2) by (simp add: plan_sum_def sum_list_nonneg_member)
  have e: "0 \<le> se_Count e" "i0 + k + se_Count e < 2147483647" using Cons.prems nn by auto
  have "spawn_inv (s_tierMap s) (s_config s) g now i0 used0 (k + se_Count e + plan_sum es)
      (result (fold_state (spawn_entry_robots E s g now) es (result (spawn_entry_robots E s g now e sp) w))
        (exec (spawn_entry_robots E s g now e sp) w))"
    by (rule Cons.IH [OF spawn_entry_inv [OF law tiers i0 Cons.prems(1) e]]) (use Cons.prems in auto)
  then show ?case by (simp add: add.assoc)
qed simp

text \<open>The lookup map of the constructor is keyed by the tier's id.\<close>

lemma fold_update_lookup: "map_of (fold (\<lambda>(k, v) m. AList.update k v m) xs m) k =
    (case map_of (rev xs) k of None \<Rightarrow> map_of m k | Some v \<Rightarrow> Some v)"
  by (induction xs arbitrary: m) (auto simp: update_conv' map_add_def split: option.splits)

lemma to_map_keys:
  assumes "\<And>kv. kv \<in> set xs \<Longrightarrow> P (fst kv) (snd kv)" "map_of (to_map xs) k = Some v"
  shows "P k v"
proof -
  have "map_of (rev xs) k = Some v"
    using assms(2) by (simp add: to_map_def fold_update_lookup split: option.splits)
  then show ?thesis using assms(1) by (fastforce dest: map_of_SomeD)
qed

lemma buildRobotLookupMaps_tiers:
  "cf_RobotTiers (s_config s) \<noteq> [] \<or> tier_map_ok (s_tierMap s) \<Longrightarrow> tier_map_ok (s_tierMap (buildRobotLookupMaps s))"
  unfolding tier_map_ok_def buildRobotLookupMaps_def
  by (auto split: if_splits dest: to_map_keys [where P = "\<lambda>k t. ti_TierID t = k", rotated])

text \<open>Claim C21: creating the robots of a group never repeats an identity. With the next index
  recovered from the robots stored for the group, the new robots have ids that are negative,
  pairwise distinct and different from every stored robot's; their display data are distinct,
  taken from the configuration and not in use before; none starts above its tier's \<open>MaxToken\<close>; there
  are at most as many as the capacity; and the scores written to the ranking are exactly theirs.\<close>

theorem spawned_robots_fresh:
  fixes s :: "'w service" and w :: 'w and E :: "'w env" and g capacity :: int32 and now :: int64
    and existing :: "robot_state list" and used :: "int64 list"
  assumes "rand_law (en_lib E)" "tier_map_ok (s_tierMap s)" "0 \<le> g" "in32 g" "robots_of_group g existing"
    and "0 \<le> capacity" "capacity + nextRobotIndex g existing < 10000"
  defines "sp \<equiv> result (fold_state (spawn_entry_robots E s g now)
    (buildRobotSpawnPlan (cf_RobotTiers (s_config s)) capacity)
    \<lparr>sp_index = nextRobotIndex g existing, sp_used = used, sp_robots = [], sp_items = []\<rparr>) w"
  shows "distinct (map ro_MemberID (sp_robots sp))
    \<and> ro_MemberID ` set (sp_robots sp) \<inter> ro_MemberID ` set existing = {}
    \<and> (\<forall>r \<in> set (sp_robots sp). IsRobotMemberID (ro_MemberID r))
    \<and> robots_of_group g (sp_robots sp)
    \<and> distinct (map ro_InfoID (sp_robots sp)) \<and> ro_InfoID ` set (sp_robots sp) \<inter> set used = {}
    \<and> list_all (new_robot (s_tierMap s) (s_config s) now) (sp_robots sp)
    \<and> int (length (sp_robots sp)) \<le> capacity
    \<and> map (\<lambda>it. (it_MemberId it, it_Score it)) (sp_items sp) = map (\<lambda>r. (ro_MemberID r, ro_Score r)) (sp_robots sp)"
proof -
  let ?i0 = "nextRobotIndex g existing" and ?plan = "buildRobotSpawnPlan (cf_RobotTiers (s_config s)) capacity"
  note N = nextRobotIndex_above [OF assms(3-5)]
  have cap: "in32 capacity" using assms(6,7) N(1) by (simp add: in32_def)
  have counts: "0 \<le> se_Count e" if "e \<in> set ?plan" for e
    using spawn_loop_counts that by (fastforce simp: buildRobotSpawnPlan_def split: if_splits)
  have sum: "plan_sum ?plan \<le> capacity" "0 \<le> plan_sum ?plan"
    using spawn_loop_sum [OF assms(6) cap] counts demand_nonneg [of "cf_RobotTiers (s_config s)"] assms(6)
    by (auto simp: buildRobotSpawnPlan_def plan_sum_def sum_list_nonneg_member split: if_splits)
  have "spawn_inv (s_tierMap s) (s_config s) g now ?i0 used (0 + plan_sum ?plan) sp"
    unfolding sp_def
    by (rule spawn_fold_inv [OF assms(1,2) N(1)]) (use counts sum assms(7) in \<open>auto simp: spawn_inv_def\<close>)
  then have inv: "spawn_inv (s_tierMap s) (s_config s) g now ?i0 used capacity sp"
    by (rule spawn_inv_skip) (use sum in simp)
  then obtain js where js: "map ro_MemberID (sp_robots sp) = map (robotMemberID g) js" "distinct js"
    "set js \<subseteq> {?i0 <.. ?i0 + capacity}" by (fastforce simp: spawn_inv_def)
  have bound: "0 \<le> j \<and> j < 10000 \<and> 0 < j" if "j \<in> set js" for j using js(3) that N(1) assms(7) by auto
  have eq: "robotMemberID g i = - (g * 10000 + i)" if "0 \<le> i" "i < 10000" for i
    using robotMemberID_eq [of g i] assms(3,4) that by (simp add: in32_def)
  have inj: "inj_on (robotMemberID g) (set js)" using eq bound by (auto simp: inj_on_def)
  have old: "\<exists>i. 0 \<le> i \<and> i \<le> ?i0 \<and> ro_MemberID r = - (g * 10000 + i)" if "r \<in> set existing" for r
    using N(3) [OF that] N(2) eq by force
  have ids_new: "\<exists>j \<in> set js. ro_MemberID r = robotMemberID g j" if "r \<in> set (sp_robots sp)" for r
    using that js(1) by (metis (no_types, opaque_lifting) image_eqI image_iff set_map)
  have sep: "ro_MemberID r \<noteq> ro_MemberID r'" if "r \<in> set (sp_robots sp)" "r' \<in> set existing" for r r'
    using ids_new [OF that(1)] old [OF that(2)] js(3) eq bound by force
  have "distinct (map ro_MemberID (sp_robots sp))" by (simp add: js inj distinct_map)
  moreover have "ro_MemberID ` set (sp_robots sp) \<inter> ro_MemberID ` set existing = {}" using sep by blast
  moreover have "IsRobotMemberID (ro_MemberID r)" if "r \<in> set (sp_robots sp)" for r
    using ids_new [OF that] eq bound assms(3) by (fastforce simp: IsRobotMemberID_def)
  moreover have "robots_of_group g (sp_robots sp)" using ids_new bound by (fastforce simp: robots_of_group_def)
  ultimately show ?thesis using inv by (simp add: spawn_inv_def)
qed

section \<open>One pass of growth\<close>

text \<open>A step reports every change: when score, pending amount and growth time are the old ones, so is
  the whole robot.\<close>

lemma tick_reports_changes:
  assumes ok: "tier_ok tier" "robot_ok tier r"
    and t: "tickRobotScore rnd r tier fs rfs now ge = (r', sc)"
    and same: "sc = ro_Score r" "ro_PendingScore r' = ro_PendingScore r" "ro_LastGrowAt r' = ro_LastGrowAt r"
  shows "r' = r"
  using ok(2)
proof (cases rule: tick_cases [where rnd = rnd and fs = fs and rfs = rfs and now = now and ge = ge])
  case idle
  then show ?thesis using t by simp
next
  case reset
  then show ?thesis using t same by auto
next
  case release
  then have "r' = releasePending r tier now" using t by simp
  then show ?thesis using releasePending_eq [OF ok release(1), of now] same by (auto split: if_splits)
next
  case (grow x)
  then show ?thesis
    using t same applyGrowth_facts(2) [OF ok grow(1,2) capGrowth_le, of now] by auto
qed

definition in_tier :: "'w service \<Rightarrow> robot_state \<Rightarrow> bool" where
  "in_tier s r \<longleftrightarrow> (\<forall>t. findTier s (ro_TierID r) = Some t \<longrightarrow> tier_ok t \<and> robot_ok t r)"

text \<open>What the pass has done after the robots \<open>rs\<close>.\<close>

definition tick_inv :: "'w service \<Rightarrow> robot_state list \<Rightarrow> tick_acc \<Rightarrow> bool" where
  "tick_inv s rs acc \<longleftrightarrow>
     list_all2 (\<lambda>r r'. ro_MemberID r' = ro_MemberID r \<and> ro_TierID r' = ro_TierID r
       \<and> ro_InfoID r' = ro_InfoID r \<and> ro_Score r \<le> ro_Score r' \<and> in_tier s r') rs (ta_robots acc)
     \<and> map (\<lambda>it. (it_MemberId it, it_Score it)) (ta_updates acc) =
        map (\<lambda>(r, r'). (ro_MemberID r, ro_Score r')) (filter (\<lambda>(r, r'). ro_Score r' \<noteq> ro_Score r) (zip rs (ta_robots acc)))
     \<and> ta_changed acc = map snd (filter (\<lambda>(r, r'). r' \<noteq> r) (zip rs (ta_robots acc)))"

lemma tick_one_inv:
  assumes inv: "tick_inv s rs acc" and r: "in_tier s r"
  shows "tick_inv s (rs @ [r]) (tick_one s scores now rnd r acc)"
proof -
  have len: "length rs = length (ta_robots acc)" using inv by (auto simp: tick_inv_def list_all2_lengthD)
  show ?thesis
  proof (cases "findTier s (ro_TierID r)")
    case None
    then have "in_tier s r" by (simp add: in_tier_def)
    then show ?thesis using inv len None by (auto simp: tick_one_def tick_inv_def intro: list_all2_appendI)
  next
    case (Some t)
    obtain r' sc where t: "tickRobotScore rnd r t (sc_firstScore scores) (sc_realFirstScore scores) now
        (cf_GameEndTime (s_config s)) = (r', sc)" by (metis prod.exhaust)
    have ok: "tier_ok t" "robot_ok t r" using r Some by (auto simp: in_tier_def)
    note K = tick_keeps_ok [OF ok t] and C = tick_reports_changes [OF ok t]
    have "in_tier s r'" using K Some ok by (simp add: in_tier_def)
    moreover have "(sc \<noteq> ro_Score r \<or> ro_PendingScore r' \<noteq> ro_PendingScore r \<or> ro_LastGrowAt r' \<noteq> ro_LastGrowAt r)
        = (r' \<noteq> r)" using C K by auto
    ultimately show ?thesis using inv len Some t K
      by (auto simp: tick_one_def tick_inv_def Let_def intro: list_all2_appendI)
  qed
qed

lemma tick_loop_inv:
  assumes "list_all (in_tier s) rs" "tick_inv s done acc"
  shows "tick_inv s (done @ rs) (result (fold_state (\<lambda>robot acc. State_Monad.bind (Rand (en_lib E))
    (\<lambda>rnd. State_Monad.return (tick_one s scores now rnd robot acc))) rs acc) w)"
  using assms
proof (induction rs arbitrary: "done" acc w)
  case (Cons r rs)
  have rs: "list_all (in_tier s) rs" and r: "in_tier s r" using Cons.prems(1) by auto
  let ?rnd = "result (Rand (en_lib E)) w" and ?w = "exec (Rand (en_lib E)) w"
  show ?case
    using Cons.IH [OF rs tick_one_inv [OF Cons.prems(2) r, of scores now ?rnd], of ?w] by simp
qed simp

text \<open>Claim C20: a pass of growth over a group's robots loses and invents nothing. Every robot comes
  out once, in order, with its identity, a score that has not fallen, and within its tier. The
  scores sent to the ranking are exactly those of the robots whose score changed, and the robots
  persisted are exactly those that changed at all: no change stays in memory only. This holds
  whatever \<open>math/rand\<close> answers.\<close>

theorem tick_loop_complete:
  assumes "list_all (in_tier s) rs"
  shows "tick_inv s rs (result (tick_loop E s scores now rs) w)"
  unfolding tick_loop_def
  using tick_loop_inv [OF assms, of "[]" "\<lparr>ta_robots = [], ta_updates = [], ta_changed = []\<rparr>" E scores now w]
  by (simp add: tick_inv_def)

section \<open>Witnesses\<close>

definition robot_service :: "mem service" where
  "robot_service = (sample_service calm_rank [])\<lparr>s_config := sample_config\<lparr>cf_RobotTiers := [sample_tier],
       cf_RobotInfos := [\<lparr>ri_InfoID = 7, ri_Name = ''Ann'', ri_Avatar = 1, ri_Frame = 1\<rparr>,
         \<lparr>ri_InfoID = 8, ri_Name = ''Bo'', ri_Avatar = 2, ri_Frame = 1\<rparr>]\<rparr>,
     s_tierMap := [(1, sample_tier)]\<rparr>"

lemma mem_rand_law: "rand_law (en_lib mem_env)"
  by (auto simp: rand_law_def rand_ok_def mem_env_def mem_lib_def)

theorem spawned_robots_fresh_witness:
  "- 10000 \<notin> ro_MemberID ` set (sp_robots (result (fold_state (spawn_entry_robots mem_env robot_service 1 500)
     (buildRobotSpawnPlan [sample_tier] 9)
     \<lparr>sp_index = nextRobotIndex 1 [sample_robot], sp_used = [7], sp_robots = [], sp_items = []\<rparr>) empty_mem))"
proof -
  have "robots_of_group 1 [sample_robot]"
    by (auto simp: robots_of_group_def sample_robot_def robotMemberID_def robotIDGroupStride_def
        in64_def intro!: exI [of _ 0])
  moreover have "tier_map_ok (s_tierMap robot_service)"
    by (simp add: robot_service_def tier_map_ok_def sample_tier_def)
  moreover have "nextRobotIndex 1 [sample_robot] = 0" by code_simp
  ultimately show ?thesis
    using spawned_robots_fresh [of mem_env "robot_service" 1 "[sample_robot]" 9 500 "[7]" empty_mem]
    by (simp add: mem_rand_law robot_service_def sample_robot_def in32_def)
qed

theorem tick_loop_complete_witness:
  "tick_inv robot_service [sample_robot] (result (tick_loop mem_env robot_service
     \<lparr>sc_firstScore = 200, sc_realFirstScore = 0, sc_expiry = 0\<rparr> 500 [sample_robot]) empty_mem)"
  by (rule tick_loop_complete)
    (simp add: in_tier_def findTier_def robot_service_def sample_simps)

end
