(* ===== verification/SettleProps.thy ===== *)
theory SettleProps
  imports ServiceProps MemWorld
begin

text \<open>
  Properties of the settlement (\<open>Settle\<close> of \<open>service.go\<close>): what one call does to the groups of a node,
  for every answer of the ranking library, and what a lock left by a failed attempt does to the next.
\<close>

section \<open>One group\<close>

text \<open>Groups that differ at most by being settled.\<close>

definition settled_from :: "group list \<Rightarrow> group list \<Rightarrow> bool" where
  "settled_from gs gs' \<longleftrightarrow> list_all2 (\<lambda>g g'. g' = g \<or> g' = g\<lparr>gr_State := GroupStateSettled\<rparr>) gs gs'"

lemma settled_from_refl [simp]: "settled_from gs gs"
  by (simp add: settled_from_def list_all2_refl)

lemma settled_from_trans: "settled_from a b \<Longrightarrow> settled_from b c \<Longrightarrow> settled_from a c"
  unfolding settled_from_def by (erule (1) list_all2_trans [rotated]) auto

lemma settled_from_length: "settled_from a b \<Longrightarrow> length b = length a"
  by (simp add: settled_from_def list_all2_lengthD)

lemma settled_from_ids: "settled_from a b \<Longrightarrow> ids b = ids a"
  unfolding settled_from_def ids_def by (induction rule: list_all2_induct) auto

lemma settled_from_nth: "settled_from a b \<Longrightarrow> i < length a \<Longrightarrow>
    b ! i = a ! i \<or> b ! i = (a ! i)\<lparr>gr_State := GroupStateSettled\<rparr>"
  unfolding settled_from_def by (drule (1) list_all2_nthD) auto

lemma settled_from_update: "i < length a \<Longrightarrow> settled_from a (a[i := (a ! i)\<lparr>gr_State := GroupStateSettled\<rparr>])"
  by (auto simp: settled_from_def list_all2_conv_all_nth nth_list_update)

lemma sync_group_at:
  assumes "distinct (ids gs)" "i < length gs" "gr_GroupID g = gr_GroupID (gs ! i)"
  shows "sync_group g gs = gs[i := g]"
  using assms
proof (induction gs arbitrary: i)
  case (Cons h gs)
  then show ?case
    by (cases i) (auto simp: ids_def dest: nth_mem [THEN imageI, of _ _ gr_GroupID])
qed simp

text \<open>The part of the memory that the settlement of a group leaves alone.\<close>

definition rest where
  "rest s = (s_config s, s_memberGroup s, s_nextGroupID s, s_store s, s_rankService s, s_settledAt s,
     s_activityEnd s, s_loaded s)"

lemma rest_simps [simp]:
  "rest (s\<lparr>s_groups := a\<rparr>) = rest s" "rest (s\<lparr>s_settledGroup := b\<rparr>) = rest s"
  "rest (s\<lparr>s_instanceStates := c\<rparr>) = rest s"
  by (simp_all add: rest_def)

lemma memory_store:
  assumes "in_memory s"
  shows "exec (TryLockSettle (store_now s) gid) w = w" "result (TryLockSettle (store_now s) gid) w = True"
    "exec (SaveGroup E (store_now s) g) w = w" "result (LoadGroups E (store_now s)) w = Inr None"
    "exec (LoadGroups E (store_now s)) w = w"
  using in_memory_store [OF assms] by (simp_all add: TryLockSettle_def SaveGroup_def LoadGroups_def)

lemma markSettled_memory:
  assumes "in_memory s" "distinct (ids (s_groups s))" "i < length (s_groups s)" "s_groups s ! i = g"
  shows "exec (markSettled E (Some i) g) (s, w) =
      (s\<lparr>s_groups := (s_groups s)[i := g\<lparr>gr_State := GroupStateSettled\<rparr>]\<rparr>, w)"
    and "result (markSettled E (Some i) g) (s, w) = g\<lparr>gr_State := GroupStateSettled\<rparr>"
proof -
  let ?g = "g\<lparr>gr_State := GroupStateSettled\<rparr>"
  define t where "t = s\<lparr>s_groups := (s_groups s)[i := ?g]\<rparr>"
  have t: "in_memory t" using assms(1) by (simp add: t_def in_memory_def)
  have "ids ((s_groups s)[i := ?g]) = ids (s_groups s)"
    using assms by (intro find_index_update) auto
  then have sync: "sync_group ?g (s_groups t) = s_groups t"
    using sync_group_at [of "s_groups t" i ?g] assms by (simp add: t_def)
  have "exec (markSettled E (Some i) g) (s, w) = (t\<lparr>s_groups := sync_group ?g (s_groups t)\<rparr>, w)"
    by (simp add: markSettled_def setGroupAt_def Let_def syncGroupStateLocked_def t_def [symmetric]
        memory_store [OF t])
  then show "exec (markSettled E (Some i) g) (s, w) = (s\<lparr>s_groups := (s_groups s)[i := ?g]\<rparr>, w)"
    by (simp add: sync) (simp add: t_def)
  show "result (markSettled E (Some i) g) (s, w) = ?g" by (simp add: markSettled_def Let_def)
qed

definition group_settles :: "'w rank_service \<Rightarrow> int64 \<Rightarrow> group \<Rightarrow> snapshot list option \<Rightarrow> bool" where
  "group_settles rs at g out \<longleftrightarrow> (case out of
     None \<Rightarrow> gr_State g = GroupStateSettled
       \<or> (\<exists>w. result (SettleInstance rs (gr_InstanceID g) at) w = Inl ErrInstanceNotFound)
   | Some snaps \<Rightarrow> gr_State g \<noteq> GroupStateSettled \<and> (\<exists>w. result (SettleInstance rs (gr_InstanceID g) at) w = Inr snaps))"

lemma settleGroup_memory:
  assumes m: "in_memory s" "distinct (ids (s_groups s))" "i < length (s_groups s)" "s_groups s ! i = g"
  shows "case result (settleGroup E at (Some i, g)) (s, w) of
      SettleErr err \<Rightarrow> fst (exec (settleGroup E at (Some i, g)) (s, w)) = s
    | SettleSkip \<Rightarrow> False
    | SettleDone g' out \<Rightarrow> g' = g\<lparr>gr_State := GroupStateSettled\<rparr> \<and> group_settles (s_rankService s) at g out
        \<and> fst (exec (settleGroup E at (Some i, g)) (s, w)) = s\<lparr>s_groups := (s_groups s)[i := g'],
            s_settledGroup := (case out of None \<Rightarrow> s_settledGroup s
              | Some snaps \<Rightarrow> AList.update (gr_GroupID g) snaps (s_settledGroup s))\<rparr>"
proof (cases "gr_State g = GroupStateSettled")
  case True
  then have "g\<lparr>gr_State := GroupStateSettled\<rparr> = g" by simp
  then show ?thesis using True m by (auto simp: settleGroup_def group_settles_def list_update_id)
next
  case False
  let ?rs = "s_rankService s"
  let ?c = "CloseInstance ?rs (gr_InstanceID g) at" and ?t = "SettleInstance ?rs (gr_InstanceID g) at"
  note M = markSettled_memory [OF m]
  show ?thesis
  proof (cases "result ?c w = None \<or> result ?c w = Some ErrInstanceNotFound")
    case c: True
    have nf: "group_settles ?rs at g None" if "result ?t (exec ?c w) = Inl ErrInstanceNotFound"
      using that by (auto simp: group_settles_def)
    have ok: "group_settles ?rs at g (Some snaps)" if "result ?t (exec ?c w) = Inr snaps" for snaps
      using that False by (auto simp: group_settles_def)
    show ?thesis
      using c False nf ok
      by (auto simp: settleGroup_def memory_store [OF m(1)] M Let_def split: sum.splits)
  next
    case c: False
    then show ?thesis using False by (auto simp: settleGroup_def memory_store [OF m(1)] Let_def)
  qed
qed

section \<open>The loop\<close>

text \<open>\<open>s0\<close> is the memory before the loop; \<open>done\<close> the groups that are through.\<close>

definition settle_inv ::
  "'w service \<Rightarrow> int64 \<Rightarrow> nat set \<Rightarrow> 'w service \<Rightarrow> (int32 \<times> snapshot list) list \<Rightarrow> bool" where
  "settle_inv s0 at done s results \<longleftrightarrow> rest s = rest s0 \<and> settled_from (s_groups s0) (s_groups s)
     \<and> (\<forall>i \<in> done. i < length (s_groups s) \<longrightarrow> gr_State (s_groups s ! i) = GroupStateSettled)
     \<and> (\<forall>i < length (s_groups s). i \<notin> done \<longrightarrow> s_groups s ! i = s_groups s0 ! i)
     \<and> (\<forall>i \<in> done. i < length (s_groups s) \<longrightarrow>
          group_settles (s_rankService s0) at (s_groups s0 ! i) (map_of results (gr_GroupID (s_groups s0 ! i))))
     \<and> (\<forall>gid snaps. map_of results gid = Some snaps \<longrightarrow> map_of (s_settledGroup s) gid = Some snaps
          \<and> (\<exists>i \<in> done. i < length (s_groups s0) \<and> gr_GroupID (s_groups s0 ! i) = gid))"

definition add_result :: "int32 \<Rightarrow> snapshot list option \<Rightarrow> (int32 \<times> snapshot list) list \<Rightarrow> (int32 \<times> snapshot list) list" where
  "add_result gid out results = (case out of None \<Rightarrow> results | Some snaps \<Rightarrow> AList.update gid snaps results)"

lemma add_result_lookup: "map_of (add_result gid out results) k =
    (if k = gid \<and> out \<noteq> None then out else map_of results k)"
  by (auto simp: add_result_def update_conv' split: option.splits)

lemma settle_inv_step:
  assumes inv: "settle_inv s0 at done s results" and i: "i < length (s_groups s0)" "i \<notin> done"
    and d: "distinct (ids (s_groups s0))" and g: "g = s_groups s0 ! i"
    and out: "group_settles (s_rankService s0) at g out"
    and s': "s' = s\<lparr>s_groups := (s_groups s)[i := g\<lparr>gr_State := GroupStateSettled\<rparr>],
        s_settledGroup := add_result (gr_GroupID g) out (s_settledGroup s)\<rparr>"
  shows "settle_inv s0 at (insert i done) s' (add_result (gr_GroupID g) out results)"
proof -
  have sf: "settled_from (s_groups s0) (s_groups s)" using inv by (simp add: settle_inv_def)
  note len = settled_from_length [OF sf]
  have gi: "s_groups s ! i = g" using inv i len by (simp add: settle_inv_def g)
  have uniq: "gr_GroupID (s_groups s0 ! j) = gr_GroupID g \<longleftrightarrow> j = i" if "j < length (s_groups s0)" for j
    using nth_id_unique [OF d that i(1)] by (auto simp: g)
  have none: "map_of results (gr_GroupID g) = None"
    using inv uniq i(2) unfolding settle_inv_def by (metis not_None_eq)
  have "rest s' = rest s0" using inv by (simp add: s' settle_inv_def)
  moreover have "settled_from (s_groups s0) (s_groups s')"
    using settled_from_trans [OF sf settled_from_update [of i "s_groups s"]] i len by (simp add: s' gi)
  moreover have "\<forall>j \<in> insert i done. j < length (s_groups s') \<longrightarrow> gr_State (s_groups s' ! j) = GroupStateSettled"
    using inv i len by (auto simp: s' settle_inv_def nth_list_update)
  moreover have "\<forall>j < length (s_groups s'). j \<notin> insert i done \<longrightarrow> s_groups s' ! j = s_groups s0 ! j"
    using inv by (auto simp: s' settle_inv_def)
  moreover have "group_settles (s_rankService s0) at (s_groups s0 ! j)
      (map_of (add_result (gr_GroupID g) out results) (gr_GroupID (s_groups s0 ! j)))"
    if "j \<in> insert i done" "j < length (s_groups s')" for j
  proof (cases "j = i")
    case True
    then show ?thesis using out none by (auto simp: add_result_lookup g [symmetric])
  next
    case False
    then have "gr_GroupID (s_groups s0 ! j) \<noteq> gr_GroupID g" using uniq that(2) len by (auto simp: s')
    then show ?thesis using inv that False by (auto simp: add_result_lookup settle_inv_def s')
  qed
  moreover have "map_of (s_settledGroup s') gid = Some snaps
      \<and> (\<exists>j \<in> insert i done. j < length (s_groups s0) \<and> gr_GroupID (s_groups s0 ! j) = gid)"
    if "map_of (add_result (gr_GroupID g) out results) gid = Some snaps" for gid snaps
    using inv that i(1) by (auto simp: add_result_lookup settle_inv_def s' g [symmetric] split: if_splits)
  ultimately show ?thesis by (simp add: settle_inv_def)
qed

lemma settle_loop_memory:
  fixes s0 s :: "'w service" and w :: 'w and E :: "'w env" and at :: int64 and js :: "nat list"
  assumes "in_memory s0" "distinct (ids (s_groups s0))"
    and "settle_inv s0 at done s results" "distinct js" "set js \<inter> done = {}" "set js \<subseteq> {..< length (s_groups s0)}"
  defines "m \<equiv> settle_loop E at (map (\<lambda>i. (Some i, s_groups s0 ! i)) js)"
  shows "case result (m results settled) (s, w) of
      Inl err \<Rightarrow> (\<exists>dn rs. settle_inv s0 at dn (fst (exec (m results settled) (s, w))) rs)
    | Inr (results', settled') \<Rightarrow> settle_inv s0 at (done \<union> set js) (fst (exec (m results settled) (s, w))) results'"
  using assms(3-6) unfolding m_def
proof (induction js arbitrary: "done" s w results settled)
  case (Cons i js)
  let ?g = "s_groups s0 ! i"
  have rs: "rest s = rest s0" and sf: "settled_from (s_groups s0) (s_groups s)"
    using Cons.prems(1) by (simp_all add: settle_inv_def)
  have i: "i < length (s_groups s0)" "i \<notin> done" using Cons.prems by auto
  have m: "in_memory s" using assms(1) rs by (simp add: rest_def in_memory_def)
  have d: "distinct (ids (s_groups s))" using assms(2) settled_from_ids [OF sf] by simp
  have gi: "i < length (s_groups s)" "s_groups s ! i = ?g"
    using Cons.prems(1) i settled_from_length [OF sf] by (auto simp: settle_inv_def)
  have sr: "s_rankService s = s_rankService s0" using rs by (simp add: rest_def)
  obtain s1 w1 where e: "exec (settleGroup E at (Some i, ?g)) (s, w) = (s1, w1)" by (metis prod.exhaust)
  note G = settleGroup_memory [OF m d gi, of E at w, unfolded e sr]
  show ?case
  proof (cases "result (settleGroup E at (Some i, ?g)) (s, w)")
    case (SettleErr err)
    then have "s1 = s" using G by simp
    then show ?thesis using SettleErr e Cons.prems(1) by auto
  next
    case SettleSkip
    then show ?thesis using G by simp
  next
    case (SettleDone g' out)
    then have g': "g' = ?g\<lparr>gr_State := GroupStateSettled\<rparr>" "group_settles (s_rankService s0) at ?g out"
      and s1: "s1 = s\<lparr>s_groups := (s_groups s)[i := g'],
        s_settledGroup := add_result (gr_GroupID ?g) out (s_settledGroup s)\<rparr>"
      using G by (auto simp: add_result_def)
    let ?rs = "add_result (gr_GroupID ?g) out results"
    have inv: "settle_inv s0 at (insert i done) s1 ?rs"
      by (rule settle_inv_step [OF Cons.prems(1) i assms(2) refl g'(2)]) (simp add: s1 g'(1))
    have js: "distinct js" "set js \<inter> insert i done = {}" "set js \<subseteq> {..< length (s_groups s0)}"
      using Cons.prems by auto
    note IH = Cons.IH [OF inv js, of "settled @ [g']" w1]
    have R: "run_state (settle_loop E at (map (\<lambda>i. (Some i, s_groups s0 ! i)) (i # js)) results settled) (s, w) =
        run_state (settle_loop E at (map (\<lambda>i. (Some i, s_groups s0 ! i)) js) ?rs (settled @ [g'])) (s1, w1)"
      using SettleDone e g'(1) by (cases out) (simp_all add: run_state_split add_result_def)
    have U: "done \<union> set (i # js) = insert i done \<union> set js" by auto
    note R = R [unfolded run_state_split prod.inject]
    show ?thesis using IH by (simp only: R [THEN conjunct1] R [THEN conjunct2] U)
  qed
qed simp

lemma frame_expireSettled [frame_rules]: "frame core (expireSettled E gs)" "frame rest (expireSettled E gs)"
proof -
  have inv: "frame rest (invalidateInstanceState i)" for i :: string
    by (simp add: invalidateInstanceState_def frame_smod)
  show "frame core (expireSettled E gs)" "frame rest (expireSettled E gs)"
    unfolding expireSettled_def Let_def by (auto intro!: frame_bind frame_rules inv)
qed

lemma shared_groups_eq: "shared_groups s = map (\<lambda>i. (Some i, s_groups s ! i)) [0..<length (s_groups s)]"
  by (rule nth_equalityI) (auto simp: shared_groups_def nth_enumerate_eq)

lemma now_ns_memory [simp]: "exec (now_ns E) (s, w) = (s, exec (Now (en_lib E)) w)"
  by (simp add: now_ns_def)

lemma settledAt_same [simp]: "s\<lparr>s_settledAt := s_settledAt s\<rparr> = s"
  by simp


section \<open>A lock left by a failed attempt\<close>

lemma settle_loop_locked:
  assumes "st_rdb (s_store s) \<noteq> None"
    and "\<And>g w'. g \<in> set gs \<Longrightarrow> \<not> result (TryLockSettle (store_now s) (gr_GroupID g)) w'"
    and "\<And>g. g \<in> set gs \<Longrightarrow> gr_State g \<noteq> GroupStateSettled"
  shows "result (settle_loop E at (map (Pair None) gs) results settled) (s, w) = Inr (results, settled)
    \<and> fst (exec (settle_loop E at (map (Pair None) gs) results settled) (s, w)) = s"
  using assms(2,3)
proof (induction gs arbitrary: w)
  case (Cons g gs)
  have "result (settleGroup E at (None, g)) (s, w) = SettleSkip"
    "fst (exec (settleGroup E at (None, g)) (s, w)) = s" for w
    using Cons.prems by (simp_all add: settleGroup_def)
  moreover obtain w' where "exec (settleGroup E at (None, g)) (s, w) = (s, w')"
    using calculation(2) [of w] by (metis prod.collapse)
  ultimately show ?case using Cons.IH [of w'] Cons.prems by simp
qed simp


section \<open>Witnesses\<close>

lemma find_GroupStates [simp]: "gr_State (mk_group i n) = GroupStateOpen" "gr_GroupID (mk_group i n) = i"
  by (simp_all add: mk_group_def)

lemma calm_rank_settles:
  assumes "in_memory s" "s_rankService s = calm_rank" "gr_State g \<noteq> GroupStateSettled"
  shows "\<exists>g'. result (settleGroup E at (a, g)) (s, w) = SettleDone g' (Some [one_snapshot])"
  using assms by (simp add: settleGroup_def memory_store calm_rank_def Let_def)


text \<open>A node whose locks are all held by another, two seconds after the epoch.\<close>

definition locked_redis :: "mem redis" where
  "locked_redis = mem_redis\<lparr>SetNX := (\<lambda>_ _ _. State_Monad.return (Inr False)),
     HGetAll := (\<lambda>_. State_Monad.return (Inr [(''1'', JTxt (marshal_group (mk_group 1 3)))]))\<rparr>"

definition late_env :: "mem env" where
  "late_env = \<lparr>en_keys = mem_keys, en_lib = mem_lib\<lparr>Now := State_Monad.return 2000000000\<rparr>\<rparr>"

definition locked_service :: "mem service" where
  "locked_service = (sample_service calm_rank [])\<lparr>s_store := (mem_store ''arena_7'')\<lparr>st_rdb := Some locked_redis\<rparr>\<rparr>"


end
