(* ===== verification/MemberIndex.thy ===== *)
theory MemberIndex
  imports MemWorld
begin

text \<open>
  \<open>internal/rank/member_index.go\<close>: which groups of which activities a player takes part in, kept in a
  Redis set per player or, without Redis, in a map. Contents: the text form of an entry, the four
  operations over the index and the world, the interface \<open>member_index\<close> their caller relies on and
  the proof that the index provides it in both modes.
\<close>

section \<open>Entries\<close>

record member_entry =
  me_BizType :: string
  me_ActID :: int32
  me_GroupID :: int32

definition encodeMemberEntry :: "member_entry \<Rightarrow> string" where
  "encodeMemberEntry e = me_BizType e @ '':'' @ FormatInt (me_ActID e) @ '':'' @ FormatInt (me_GroupID e)"

definition decodeMemberEntry :: "string \<Rightarrow> member_entry option" where
  "decodeMemberEntry s =
     (let parts = SplitN s CHR '':'' 3 in
      if length parts \<noteq> 3 then None
      else let (actID, ok1) = ParseInt (parts ! 1) 32 in
        if \<not> ok1 then None
        else let (groupID, ok2) = ParseInt (parts ! 2) 32 in
          if \<not> ok2 then None
          else Some \<lparr>me_BizType = parts ! 0, me_ActID = actID, me_GroupID = groupID\<rparr>)"

definition entry_ok :: "member_entry \<Rightarrow> bool" where
  "entry_ok e \<longleftrightarrow> CHR '':'' \<notin> set (me_BizType e) \<and> in32 (me_ActID e) \<and> in32 (me_GroupID e)"

lemma decode_encode:
  assumes "entry_ok e"
  shows "decodeMemberEntry (encodeMemberEntry e) = Some e"
proof -
  have "SplitN (encodeMemberEntry e) CHR '':'' 3 = [me_BizType e, FormatInt (me_ActID e), FormatInt (me_GroupID e)]"
    using assms colon_free
    by (simp add: encodeMemberEntry_def entry_ok_def numeral_3_eq_3 split_once_append)
  then show ?thesis using assms by (simp add: decodeMemberEntry_def entry_ok_def)
qed

lemma decode_sound:
  assumes "decodeMemberEntry s = Some e"
  shows "entry_ok e"
proof -
  have "\<exists>p q r. SplitN s CHR '':'' 3 = [p, q, r] \<and> CHR '':'' \<notin> set p"
    using assms by (auto simp: decodeMemberEntry_def Let_def numeral_3_eq_3 split: if_splits option.splits
        dest: split_once_Some)
  then obtain p q r where "SplitN s CHR '':'' 3 = [p, q, r]" "CHR '':'' \<notin> set p" by blast
  moreover have "in32 v" if "ParseInt t 32 = (v, ok)" for t v ok
    using in32_ParseInt32 [of t] that by simp
  ultimately show ?thesis
    using assms by (auto simp: decodeMemberEntry_def entry_ok_def Let_def numeral_2_eq_2 split: prod.splits if_splits)
qed

section \<open>The index\<close>

record 'w member_index =
  mi_rdb :: "'w redis option"
  mi_ttl :: int64
  mi_entries :: "(int64 \<times> member_entry list) list"

definition NewMemberIndex :: "'w redis option \<Rightarrow> int64 \<Rightarrow> 'w member_index" where
  "NewMemberIndex rdb ttl = \<lparr>mi_rdb = rdb, mi_ttl = ttl, mi_entries = []\<rparr>"

type_synonym ('w, 'a) ix = "('w member_index \<times> 'w, 'a) state"

definition iget :: "('w, 'w member_index) ix" where
  "iget = State (\<lambda>(ix, w). (ix, (ix, w)))"

definition imod :: "('w member_index \<Rightarrow> 'w member_index) \<Rightarrow> ('w, unit) ix" where
  "imod f = State (\<lambda>(ix, w). ((), (f ix, w)))"

lemma iget_simps [simp]: "exec iget sw = sw" "result iget sw = fst sw"
  and imod_simps [simp]: "exec (imod f) sw = (f (fst sw), snd sw)" "result (imod f) sw = ()"
  by (simp_all add: iget_def imod_def split: prod.splits)

definition entries_of :: "'w member_index \<Rightarrow> int64 \<Rightarrow> member_entry list" where
  "entries_of ix userID = (case map_of (mi_entries ix) userID of None \<Rightarrow> [] | Some es \<Rightarrow> es)"

text \<open>\<open>K\<close> is \<open>GetRankMemberIndexKey\<close>. The set holds only what \<open>Track\<close> wrote, so plain text.\<close>

definition decode_value :: "rval \<Rightarrow> member_entry option" where
  "decode_value v = (case v of Txt s \<Rightarrow> decodeMemberEntry s | JTxt _ \<Rightarrow> None)"

definition Track :: "(int64 \<Rightarrow> string) \<Rightarrow> int64 \<Rightarrow> member_entry \<Rightarrow> ('w, unit) ix" where
  "Track K userID entry = do {
     ix \<leftarrow> iget;
     case mi_rdb ix of
       Some R \<Rightarrow> do {
         _ \<leftarrow> lift_ext (SAdd R (K userID) [Txt (encodeMemberEntry entry)]);
         if mi_ttl ix > 0 then ignore (lift_ext (Expire R (K userID) (mi_ttl ix))) else skip }
     | None \<Rightarrow>
         (if entry \<in> set (entries_of ix userID) then skip
          else imod (\<lambda>ix. ix\<lparr>mi_entries := AList.update userID (entries_of ix userID @ [entry]) (mi_entries ix)\<rparr>)) }"

definition Lookup :: "(int64 \<Rightarrow> string) \<Rightarrow> int64 \<Rightarrow> ('w, member_entry list) ix" where
  "Lookup K userID = do {
     ix \<leftarrow> iget;
     case mi_rdb ix of
       Some R \<Rightarrow> do {
         raw \<leftarrow> lift_ext (SMembers R (K userID));
         State_Monad.return (case raw of Inl _ \<Rightarrow> [] | Inr vs \<Rightarrow> List.map_filter decode_value vs) }
     | None \<Rightarrow> State_Monad.return (entries_of ix userID) }"

definition LookupByBizType :: "(int64 \<Rightarrow> string) \<Rightarrow> int64 \<Rightarrow> string \<Rightarrow> ('w, member_entry list) ix" where
  "LookupByBizType K userID bizType = do {
     all \<leftarrow> Lookup K userID;
     State_Monad.return (filter (\<lambda>e. me_BizType e = bizType) all) }"

definition removeUserEntriesChunk :: nat where
  "removeUserEntriesChunk = 512"

definition removal :: "(int64 \<Rightarrow> string) \<Rightarrow> string \<Rightarrow> int32 \<Rightarrow> int64 \<times> int32 \<Rightarrow> pipe_cmd" where
  "removal K bizType actID m =
     PSRem (K (fst m)) [Txt (encodeMemberEntry \<lparr>me_BizType = bizType, me_ActID = actID, me_GroupID = snd m\<rparr>)]"

definition flush_pipe :: "'w redis \<Rightarrow> pipe_cmd list \<Rightarrow> ('w, unit) state" where
  "flush_pipe R pending = (if pending = [] then skip else ignore (PipeExec R pending))"

text \<open>The loop over the map of members, here in the order the runtime chose.\<close>

fun removal_loop :: "'w redis \<Rightarrow> (int64 \<Rightarrow> string) \<Rightarrow> string \<Rightarrow> int32 \<Rightarrow> pipe_cmd list \<Rightarrow> (int64 \<times> int32) list \<Rightarrow> ('w, unit) state" where
  "removal_loop R K bizType actID pending [] = flush_pipe R pending"
| "removal_loop R K bizType actID pending (m # ms) =
     (let pending' = pending @ [removal K bizType actID m] in
      if length pending' \<ge> removeUserEntriesChunk
      then do { _ \<leftarrow> flush_pipe R pending'; removal_loop R K bizType actID [] ms }
      else removal_loop R K bizType actID pending' ms)"

definition RemoveUserEntries :: "(int64 \<Rightarrow> string) \<Rightarrow> string \<Rightarrow> int32 \<Rightarrow> (int64 \<times> int32) list \<Rightarrow> ('w, unit) ix" where
  "RemoveUserEntries K bizType actID members = do {
     ix \<leftarrow> iget;
     case mi_rdb ix of
       None \<Rightarrow> skip
     | Some R \<Rightarrow> if members = [] then skip else lift_ext (removal_loop R K bizType actID [] members) }"

section \<open>The interface\<close>

definition track_all :: "(int64 \<Rightarrow> member_entry \<Rightarrow> 's \<Rightarrow> 's) \<Rightarrow> (int64 \<times> member_entry) list \<Rightarrow> 's \<Rightarrow> 's" where
  "track_all track xs s = fold (\<lambda>(u, e). track u e) xs s"

text \<open>What the manager relies on: entries tracked for a player are found for that player and no other.\<close>

locale entry_index =
  fixes track :: "int64 \<Rightarrow> member_entry \<Rightarrow> 's \<Rightarrow> 's" and lookup :: "int64 \<Rightarrow> 's \<Rightarrow> member_entry list"
    and inv :: "'s \<Rightarrow> bool"
  assumes inv_track: "inv s \<Longrightarrow> inv (track u e s)"
    and lookup_track: "inv s \<Longrightarrow> entry_ok e \<Longrightarrow>
      set (lookup v (track u e s)) = (if v = u then insert e (set (lookup v s)) else set (lookup v s))"
begin

lemma inv_track_all: "inv s \<Longrightarrow> inv (track_all track xs s)"
  unfolding track_all_def by (induction xs arbitrary: s) (auto simp: inv_track)

lemma lookup_track_all:
  "inv s \<Longrightarrow> (\<And>u e. (u, e) \<in> set xs \<Longrightarrow> entry_ok e) \<Longrightarrow>
   set (lookup v (track_all track xs s)) = set (lookup v s) \<union> {e. (v, e) \<in> set xs}"
  unfolding track_all_def
proof (induction xs arbitrary: s)
  case (Cons x xs)
  obtain u e where x: "x = (u, e)" by (cases x)
  have "set (lookup v (fold (\<lambda>(u, e). track u e) xs (track u e s))) =
      set (lookup v (track u e s)) \<union> {e. (v, e) \<in> set xs}"
    using Cons.prems by (intro Cons.IH) (auto simp: inv_track)
  moreover have "entry_ok e" using Cons.prems(2) [of u e] by (simp add: x)
  ultimately show ?case using lookup_track [OF Cons.prems(1)] by (auto simp: x)
qed simp

text \<open>Tracking again changes nothing that can be seen, and the order of tracking does not matter.\<close>

lemma track_idem: "inv s \<Longrightarrow> entry_ok e \<Longrightarrow> set (lookup v (track u e (track u e s))) = set (lookup v (track u e s))"
  by (auto simp: lookup_track inv_track)

lemma track_order: "inv s \<Longrightarrow> (\<And>u e. (u, e) \<in> set xs \<Longrightarrow> entry_ok e) \<Longrightarrow> set ys = set xs \<Longrightarrow>
    set (lookup v (track_all track ys s)) = set (lookup v (track_all track xs s))"
  using lookup_track_all [of s xs v] lookup_track_all [of s ys v] by simp

end

section \<open>Both modes provide it\<close>

text \<open>What is relied on of the Redis sets, through a view \<open>V\<close> of the world: \<open>SADD\<close> adds, \<open>SMEMBERS\<close>
  returns the set and a pipeline of \<open>SREM\<close>s removes; setting an expiry in the future changes no set.\<close>

definition srem :: "pipe_cmd \<Rightarrow> (string \<Rightarrow> rval set) \<Rightarrow> string \<Rightarrow> rval set" where
  "srem c sets = (case c of PSRem k vs \<Rightarrow> sets(k := sets k - set vs) | _ \<Rightarrow> sets)"

definition after_srem :: "pipe_cmd list \<Rightarrow> (string \<Rightarrow> rval set) \<Rightarrow> string \<Rightarrow> rval set" where
  "after_srem cs sets = fold srem cs sets"

definition set_laws :: "'w redis \<Rightarrow> ('w \<Rightarrow> string \<Rightarrow> rval set) \<Rightarrow> bool" where
  "set_laws R V \<longleftrightarrow> (\<forall>k vs w. V (exec (SAdd R k vs) w) = (V w)(k := V w k \<union> set vs))
     \<and> (\<forall>k t w. 0 < t \<longrightarrow> V (exec (Expire R k t) w) = V w)
     \<and> (\<forall>k w. V (exec (SMembers R k) w) = V w \<and> (\<exists>vs. result (SMembers R k) w = Inr vs \<and> set vs = V w k))
     \<and> (\<forall>cs w. (\<forall>c \<in> set cs. \<exists>k vs. c = PSRem k vs) \<longrightarrow> V (exec (PipeExec R cs) w) = after_srem cs (V w))"

definition mem_sets :: "mem \<Rightarrow> string \<Rightarrow> rval set" where
  "mem_sets w k = set (lookup_list (mw_sets w) k)"

definition index_inv :: "(int64 \<Rightarrow> string) \<Rightarrow> ('w \<Rightarrow> string \<Rightarrow> rval set) \<Rightarrow> 'w member_index \<times> 'w \<Rightarrow> bool" where
  "index_inv K V sw \<longleftrightarrow> inj K \<and> (case mi_rdb (fst sw) of None \<Rightarrow> True | Some R \<Rightarrow> set_laws R V)"

lemma decode_value_Txt [simp]: "entry_ok e \<Longrightarrow> decode_value (Txt (encodeMemberEntry e)) = Some e"
  by (simp add: decode_value_def decode_encode)

lemma set_map_filter: "set (List.map_filter f xs) = {y. \<exists>x \<in> set xs. f x = Some y}"
  by (induction xs) (auto simp: List.map_filter_simps split: option.splits)

lemma set_lawsD:
  assumes "set_laws R V"
  shows "V (exec (SAdd R k vs) w) = (V w)(k := V w k \<union> set vs)"
    "0 < t \<Longrightarrow> V (exec (Expire R k t) w) = V w"
    "V (exec (SMembers R k) w) = V w" "\<exists>vs. result (SMembers R k) w = Inr vs \<and> set vs = V w k"
    "(\<And>c. c \<in> set cs \<Longrightarrow> \<exists>k vs. c = PSRem k vs) \<Longrightarrow> V (exec (PipeExec R cs) w) = after_srem cs (V w)"
  using assms unfolding set_laws_def by blast+

lemma Lookup_redis:
  assumes "set_laws R V" "mi_rdb ix = Some R"
  shows "set (result (Lookup K u) (ix, w)) = {e. \<exists>v \<in> V w (K u). decode_value v = Some e}"
proof -
  obtain vs where "result (SMembers R (K u)) w = Inr vs" "set vs = V w (K u)"
    using set_lawsD(4) [OF assms(1)] by blast
  then show ?thesis using assms(2) by (simp add: Lookup_def set_map_filter)
qed

lemma Track_redis:
  assumes "set_laws R V" "mi_rdb ix = Some R"
  shows "\<exists>w'. exec (Track K u e) (ix, w) = (ix, w')
    \<and> V w' = (V w)(K u := insert (Txt (encodeMemberEntry e)) (V w (K u)))"
  using assms(2) set_lawsD(1,2) [OF assms(1)] by (simp add: Track_def)

lemma entry_ok_decoded: "decode_value v = Some e \<Longrightarrow> entry_ok e"
  by (auto simp: decode_value_def dest: decode_sound split: rval.splits)

interpretation index: entry_index "\<lambda>u e. exec (Track K u e)" "\<lambda>u. result (Lookup K u)" "index_inv K V"
proof
  fix sw :: "'a member_index \<times> 'a" and u e
  assume inv: "index_inv K V sw"
  obtain ix w where sw: "sw = (ix, w)" by (cases sw)
  have K: "inj K" using inv by (simp add: index_inv_def)
  note iv = inv [unfolded index_inv_def sw, simplified]
  show "index_inv K V (exec (Track K u e) sw)"
    using iv by (cases "mi_rdb ix") (auto simp: sw Track_def index_inv_def)
  assume ok: "entry_ok e"
  show "set (result (Lookup K v) (exec (Track K u e) sw)) =
      (if v = u then insert e (set (result (Lookup K v) sw)) else set (result (Lookup K v) sw))" for v
  proof (cases "mi_rdb ix")
    case None
    then show ?thesis by (auto simp: sw Track_def Lookup_def entries_of_def update_conv' split: option.splits)
  next
    case (Some R)
    then have laws: "set_laws R V" using iv by simp
    obtain w' where w': "exec (Track K u e) (ix, w) = (ix, w')"
      "V w' = (V w)(K u := insert (Txt (encodeMemberEntry e)) (V w (K u)))"
      using Track_redis [OF laws Some] by blast
    have "K v = K u \<longleftrightarrow> v = u" using K by (auto dest: injD)
    then show ?thesis using ok
      by (auto simp: sw w' Lookup_redis [OF laws Some])
  qed
qed

text \<open>The text form of an index entry loses nothing. An entry whose business type has no colon
  and whose numbers are 32-bit comes back from its text, so distinct entries never share a text;
  and whatever text is accepted yields such an entry.\<close>

theorem decodeMemberEntry_roundtrip:
  "(entry_ok e \<longrightarrow> decodeMemberEntry (encodeMemberEntry e) = Some e)
   \<and> (decodeMemberEntry s = Some e \<longrightarrow> entry_ok e)"
  using decode_encode decode_sound by blast

theorem decodeMemberEntry_roundtrip_witness:
  "decodeMemberEntry (encodeMemberEntry \<lparr>me_BizType = ''arena'', me_ActID = 7, me_GroupID = - 3\<rparr>) =
     Some \<lparr>me_BizType = ''arena'', me_ActID = 7, me_GroupID = - 3\<rparr>"
  by (rule decodeMemberEntry_roundtrip [THEN conjunct1, THEN mp]) (simp add: entry_ok_def in32_def)

text \<open>The member index is complete and private in both of its modes. After any sequence of
  joins, looking a player up by business type finds exactly the entries it had before and those
  tracked for it, of that type, and nothing of another player.\<close>

theorem index_complete:
  assumes "index_inv K V sw" "\<And>u e. (u, e) \<in> set xs \<Longrightarrow> entry_ok e"
  shows "set (result (LookupByBizType K v bizType) (track_all (\<lambda>u e. exec (Track K u e)) xs sw)) =
    {e \<in> set (result (Lookup K v) sw) \<union> {e. (v, e) \<in> set xs}. me_BizType e = bizType}"
  using index.lookup_track_all [OF assms, where v = v] by (auto simp: LookupByBizType_def)

text \<open>Removing the entries of a finished activity.\<close>

definition tracked_only :: "(int64 \<Rightarrow> string) \<Rightarrow> (string \<Rightarrow> rval set) \<Rightarrow> bool" where
  "tracked_only K sets \<longleftrightarrow> (\<forall>u. \<forall>v \<in> sets (K u). \<exists>e. entry_ok e \<and> v = Txt (encodeMemberEntry e))"

lemma after_srem_append: "after_srem (cs @ ds) sets = after_srem ds (after_srem cs sets)"
  by (simp add: after_srem_def)

lemma removal_is_srem: "c \<in> set (map (removal K b a) ms) \<Longrightarrow> \<exists>k vs. c = PSRem k vs"
  by (auto simp: removal_def)

lemma flush_removals:
  assumes "set_laws R V"
  shows "V (exec (flush_pipe R (map (removal K b a) ms)) w) = after_srem (map (removal K b a) ms) (V w)"
  using set_lawsD(5) [OF assms, of "map (removal K b a) ms" w] removal_is_srem
  by (auto simp: flush_pipe_def after_srem_def)

text \<open>However the removals are cut into pipelines, all of them are made.\<close>

lemma removal_loop_all:
  assumes "set_laws R V"
  shows "V (exec (removal_loop R K b a (map (removal K b a) ps) ms) w) = after_srem (map (removal K b a) (ps @ ms)) (V w)"
proof (induction ms arbitrary: ps w)
  case Nil
  then show ?case using flush_removals [OF assms] by simp
next
  case (Cons m ms)
  have p: "map (removal K b a) ps @ [removal K b a m] = map (removal K b a) (ps @ [m])" by simp
  show ?case
    using Cons.IH [of "ps @ [m]" w] Cons.IH [of "[]"] flush_removals [OF assms, of K b a "ps @ [m]" w]
    unfolding removal_loop.simps p Let_def by (simp add: after_srem_def)
qed

definition entry_text :: "string \<Rightarrow> int32 \<Rightarrow> int32 \<Rightarrow> rval" where
  "entry_text b a g = Txt (encodeMemberEntry \<lparr>me_BizType = b, me_ActID = a, me_GroupID = g\<rparr>)"

lemma after_removals:
  assumes "inj K"
  shows "after_srem (map (removal K b a) ms) sets (K u) = sets (K u) - entry_text b a ` {g. (u, g) \<in> set ms}"
proof (induction ms arbitrary: sets)
  case (Cons m ms)
  obtain v g where m: "m = (v, g)" by (cases m)
  have k: "K u = K v \<longleftrightarrow> u = v" using assms by (auto dest: injD)
  have "srem (removal K b a m) sets = sets(K v := sets (K v) - {entry_text b a g})"
    by (simp add: srem_def removal_def m entry_text_def)
  then have "after_srem (map (removal K b a) (m # ms)) sets =
      after_srem (map (removal K b a) ms) (sets(K v := sets (K v) - {entry_text b a g}))"
    by (simp add: after_srem_def)
  then have "after_srem (map (removal K b a) (m # ms)) sets (K u) =
      (sets(K v := sets (K v) - {entry_text b a g})) (K u) - entry_text b a ` {g. (u, g) \<in> set ms}"
    by (simp only: Cons.IH)
  then show ?case by (auto simp: k m)
qed (simp add: after_srem_def)

text \<open>Removing a finished activity's members takes exactly their entries for that activity out
  of the index, however the removals are cut into pipelines of 512: afterwards a lookup finds what
  it found before without them, and no other entry is lost.\<close>

theorem RemoveUserEntries_exact:
  assumes "mi_rdb ix = Some R" "set_laws R V" "inj K" "tracked_only K (V w)"
    and "\<And>u g. (u, g) \<in> set members \<Longrightarrow> entry_ok \<lparr>me_BizType = b, me_ActID = a, me_GroupID = g\<rparr>"
  shows "set (result (Lookup K u) (exec (RemoveUserEntries K b a members) (ix, w))) =
    set (result (Lookup K u) (ix, w)) - {\<lparr>me_BizType = b, me_ActID = a, me_GroupID = g\<rparr> | g. (u, g) \<in> set members}"
proof -
  let ?e = "\<lambda>g. \<lparr>me_BizType = b, me_ActID = a, me_GroupID = g\<rparr>" and ?gs = "{g. (u, g) \<in> set members}"
  define w' where "w' = (if members = [] then w else exec (removal_loop R K b a [] members) w)"
  have x: "exec (RemoveUserEntries K b a members) (ix, w) = (ix, w')"
    using assms(1) by (simp add: RemoveUserEntries_def w'_def)
  have V: "V w' (K u) = V w (K u) - entry_text b a ` ?gs"
    using removal_loop_all [OF assms(2), of K b a "[]" members w] after_removals [OF assms(3)]
    by (simp add: w'_def)
  have enc: "\<exists>e. v = Txt (encodeMemberEntry e) \<and> decode_value v = Some e" if "v \<in> V w (K u)" for v
    using assms(4) that by (force simp: tracked_only_def)
  have dec: "decode_value (entry_text b a g) = Some (?e g)" if "g \<in> ?gs" for g
    using assms(5) that by (simp add: entry_text_def)
  have "v = entry_text b a g" if "v \<in> V w (K u)" "decode_value v = Some (?e g)" for v g
    using enc [OF that(1)] that(2) by (auto simp: entry_text_def)
  then have cut: "v \<in> entry_text b a ` ?gs \<longleftrightarrow> (\<exists>g \<in> ?gs. decode_value v = Some (?e g))" if "v \<in> V w (K u)" for v
    using dec that by blast
  have after: "set (result (Lookup K u) (ix, w')) = {e. \<exists>v \<in> V w (K u) - entry_text b a ` ?gs. decode_value v = Some e}"
    using Lookup_redis [OF assms(2,1), of K u w'] by (simp add: V)
  have "(\<exists>v \<in> V w (K u) - entry_text b a ` ?gs. decode_value v = Some e) \<longleftrightarrow>
      (\<exists>v \<in> V w (K u). decode_value v = Some e) \<and> e \<notin> {?e g | g. (u, g) \<in> set members}" for e
  proof
    assume "\<exists>v \<in> V w (K u) - entry_text b a ` ?gs. decode_value v = Some e"
    then show "(\<exists>v \<in> V w (K u). decode_value v = Some e) \<and> e \<notin> {?e g | g. (u, g) \<in> set members}"
      using cut by blast
  next
    assume e: "(\<exists>v \<in> V w (K u). decode_value v = Some e) \<and> e \<notin> {?e g | g. (u, g) \<in> set members}"
    then obtain v where v: "v \<in> V w (K u)" "decode_value v = Some e" by blast
    have "v \<notin> entry_text b a ` ?gs" using cut [OF v(1)] v(2) e by force
    then show "\<exists>v \<in> V w (K u) - entry_text b a ` ?gs. decode_value v = Some e" using v by blast
  qed
  then show ?thesis
    unfolding x after using Lookup_redis [OF assms(2,1), of K u w] by blast
qed

section \<open>Witnesses\<close>

definition mem_index_key :: "int64 \<Rightarrow> string" where
  "mem_index_key u = ''member_index:'' @ FormatInt u"

lemma inj_mem_index_key: "inj mem_index_key"
  by (rule injI) (simp add: mem_index_key_def inj_FormatInt)

lemma mem_set_laws: "set_laws mem_redis mem_sets"
proof -
  have srem: "mem_sets (mem_cmd (PSRem k vs) w) = srem (PSRem k vs) (mem_sets w)" for k vs w
    by (auto simp: mem_sets_def srem_def lookup_list_update fun_eq_iff)
  have pipe: "mem_sets (fold mem_cmd cs w) = after_srem cs (mem_sets w)" if "\<forall>c \<in> set cs. \<exists>k vs. c = PSRem k vs" for cs w
    using that
  proof (induction cs arbitrary: w)
    case (Cons c cs)
    then obtain k vs where "c = PSRem k vs" by auto
    then show ?case using Cons by (simp add: after_srem_def srem del: mem_cmd.simps)
  qed (simp add: after_srem_def)
  show ?thesis
    unfolding set_laws_def mem_redis_def
    by (auto simp: pipe mem_sets_def mem_sadd_def mem_touch_def mem_expire_def lookup_list_update fun_eq_iff)
qed

definition arena_entry :: "int32 \<Rightarrow> member_entry" where
  "arena_entry g = \<lparr>me_BizType = ''arena'', me_ActID = 7, me_GroupID = g\<rparr>"

lemma arena_entry_ok: "in32 g \<Longrightarrow> entry_ok (arena_entry g)"
  by (simp add: arena_entry_def entry_ok_def in32_def)

definition redis_index :: "mem member_index" where
  "redis_index = NewMemberIndex (Some mem_redis) 3600000000000"

lemma empty_lookup: "set (result (Lookup K u) (redis_index, empty_mem)) = {}"
  by (simp add: Lookup_def redis_index_def NewMemberIndex_def mem_redis_def lookup_list_def empty_mem_def
      List.map_filter_simps)

theorem index_complete_witness:
  "set (result (LookupByBizType mem_index_key 5 ''arena'') (track_all (\<lambda>u e. exec (Track mem_index_key u e))
     [(5, arena_entry 3), (6, arena_entry 4)] (redis_index, empty_mem))) = {arena_entry 3}"
proof -
  have "index_inv mem_index_key mem_sets (redis_index, empty_mem)"
    by (simp add: index_inv_def inj_mem_index_key redis_index_def NewMemberIndex_def mem_set_laws)
  moreover have "entry_ok e" if "(u, e) \<in> set [(5, arena_entry 3), (6, arena_entry 4)]" for u e
    using that by (auto simp: arena_entry_ok in32_def)
  ultimately show ?thesis
    using index_complete [of mem_index_key mem_sets "(redis_index, empty_mem)"
        "[(5, arena_entry 3), (6, arena_entry 4)]" 5 "''arena''"]
    by (auto simp: empty_lookup) (auto simp: arena_entry_def)
qed

definition tracked_mem :: mem where
  "tracked_mem = empty_mem\<lparr>mw_sets := [(mem_index_key 5, [Txt (encodeMemberEntry (arena_entry 3)),
     Txt (encodeMemberEntry (arena_entry 4))])]\<rparr>"

theorem RemoveUserEntries_exact_witness:
  "set (result (Lookup mem_index_key 5)
     (exec (RemoveUserEntries mem_index_key ''arena'' 7 [(5, 3)]) (redis_index, tracked_mem))) = {arena_entry 4}"
proof -
  have V: "mem_sets tracked_mem k = (if k = mem_index_key 5
      then {Txt (encodeMemberEntry (arena_entry 3)), Txt (encodeMemberEntry (arena_entry 4))} else {})" for k
    by (auto simp: mem_sets_def tracked_mem_def lookup_list_def)
  have ok: "entry_ok (arena_entry 3)" "entry_ok (arena_entry 4)" by (simp_all add: arena_entry_ok in32_def)
  have R: "mi_rdb redis_index = Some mem_redis" by (simp add: redis_index_def NewMemberIndex_def)
  have "tracked_only mem_index_key (mem_sets tracked_mem)" using ok by (auto simp: tracked_only_def V)
  moreover have "set (result (Lookup mem_index_key 5) (redis_index, tracked_mem)) = {arena_entry 3, arena_entry 4}"
    using ok by (auto simp: Lookup_redis [OF mem_set_laws R] V)
  ultimately show ?thesis
    using RemoveUserEntries_exact [OF R mem_set_laws inj_mem_index_key, of tracked_mem "[(5, 3)]" "''arena''" 7 5] ok
    by (auto simp: arena_entry_def)
qed

end
