(* ===== verification/Dao.thy ===== *)
theory Dao
  imports Ext
begin

text \<open>
  \<open>internal/rank/engine/dao.go\<close>: the documents in which MongoDB keeps a leaderboard, and the methods
  that write and read them. Writes go through an asynchronous queue (\<open>PushMongoTask\<close>), reads, the
  conditional insert of a claim and the deletion of a whole activity are synchronous.

  The driver and the queue are third-party code: the record \<open>mongo\<close> of operations over the world. A
  document is the list of its fields. A field whose value is a struct is kept as the struct, the way
  the driver's encoding of it is read back; its own fields are not taken apart.
\<close>

section \<open>Documents, updates and the driver\<close>

datatype bval = BInt int | BStr string | BConfig config | BPeriodic periodic_saved | BGroup group
  | BRobot robot_state | BSnaps "snapshot list" | BInst rank_instance | BAvatar avatar_info

type_synonym bdoc = "(string \<times> bval) list"

record mongo_update =
  up_set :: bdoc
  up_setOnInsert :: bdoc

datatype mongo_task = UpsertTask collection string bdoc mongo_update | DeleteTask collection string bdoc

record index_model =
  ix_Keys :: "(string \<times> int) list"
  ix_Name :: string

text \<open>\<open>Find\<close> is the query; the inner sum is what \<open>cursor.All\<close> gets from the server before decoding.
  \<open>UpsertOne\<close> answers \<open>UpsertedCount\<close>. \<open>ZeroInstance\<close> is the zero value of the library's instance
  struct.\<close>

record 'w mongo =
  FindOne :: "string \<Rightarrow> collection \<Rightarrow> bdoc \<Rightarrow> ('w, goerr + bdoc) state"
  Find :: "string \<Rightarrow> collection \<Rightarrow> bdoc \<Rightarrow> ('w, goerr + (goerr + bdoc list)) state"
  UpsertOne :: "string \<Rightarrow> collection \<Rightarrow> bdoc \<Rightarrow> mongo_update \<Rightarrow> ('w, goerr + int) state"
  DeleteMany :: "string \<Rightarrow> collection \<Rightarrow> bdoc \<Rightarrow> ('w, goerr + int) state"
  PushMongoTask :: "mongo_task \<Rightarrow> ('w, goerr option) state"
  DropOne :: "string \<Rightarrow> collection \<Rightarrow> string \<Rightarrow> ('w, goerr option) state"
  CreateMany :: "string \<Rightarrow> collection \<Rightarrow> index_model list \<Rightarrow> ('w, goerr option) state"
  ZeroInstance :: rank_instance

definition BuildUpsertTask :: "collection \<Rightarrow> string \<Rightarrow> bdoc \<Rightarrow> bdoc \<Rightarrow> mongo_task" where
  "BuildUpsertTask coll docID onSet onInsert =
     UpsertTask coll docID [(''_id'', BStr docID)] \<lparr>up_set = onSet, up_setOnInsert = onInsert\<rparr>"

definition BuildDeleteTask :: "collection \<Rightarrow> string \<Rightarrow> mongo_task" where
  "BuildDeleteTask coll docID = DeleteTask coll docID [(''_id'', BStr docID)]"

section \<open>Decoding\<close>

text \<open>A missing field leaves the zero value; a value of another type, or an integer that does not fit
  the field, is an error of the driver.\<close>

definition bfield :: "(bval \<Rightarrow> 'a option) \<Rightarrow> 'a \<Rightarrow> string \<Rightarrow> bdoc \<Rightarrow> 'a option" where
  "bfield prj zero k d = (case map_of d k of None \<Rightarrow> Some zero | Some v \<Rightarrow> prj v)"

definition as_int :: "(int \<Rightarrow> bool) \<Rightarrow> bval \<Rightarrow> int option" where
  "as_int fits v = (case v of BInt n \<Rightarrow> if fits n then Some n else None | _ \<Rightarrow> None)"

definition as_str :: "bval \<Rightarrow> string option" where
  "as_str v = (case v of BStr s \<Rightarrow> Some s | _ \<Rightarrow> None)"

definition as_config :: "bval \<Rightarrow> config option" where
  "as_config v = (case v of BConfig c \<Rightarrow> Some c | _ \<Rightarrow> None)"

definition as_periodic :: "bval \<Rightarrow> periodic_saved option option" where
  "as_periodic v = (case v of BPeriodic p \<Rightarrow> Some (Some p) | _ \<Rightarrow> None)"

definition as_group :: "bval \<Rightarrow> group option" where
  "as_group v = (case v of BGroup g \<Rightarrow> Some g | _ \<Rightarrow> None)"

definition as_robot :: "bval \<Rightarrow> robot_state option" where
  "as_robot v = (case v of BRobot r \<Rightarrow> Some r | _ \<Rightarrow> None)"

definition as_snaps :: "bval \<Rightarrow> snapshot list option" where
  "as_snaps v = (case v of BSnaps s \<Rightarrow> Some s | _ \<Rightarrow> None)"

definition as_inst :: "bval \<Rightarrow> rank_instance option" where
  "as_inst v = (case v of BInst i \<Rightarrow> Some i | _ \<Rightarrow> None)"

definition as_avatar :: "bval \<Rightarrow> avatar_info option option" where
  "as_avatar v = (case v of BAvatar a \<Rightarrow> Some (Some a) | _ \<Rightarrow> None)"

abbreviation fint32 :: "string \<Rightarrow> bdoc \<Rightarrow> int32 option" where "fint32 \<equiv> bfield (as_int in32) 0"
abbreviation fint64 :: "string \<Rightarrow> bdoc \<Rightarrow> int64 option" where "fint64 \<equiv> bfield (as_int in64) 0"
abbreviation fstr :: "string \<Rightarrow> bdoc \<Rightarrow> string option" where "fstr \<equiv> bfield as_str []"

definition zero_config :: config where
  "zero_config = \<lparr>cf_BizType = [], cf_ActID = 0, cf_RankCode = [], cf_RankPeopleNum = 0, cf_OpenToken = 0,
     cf_OpenTime = 0, cf_CloseTime = 0, cf_GameEndTime = 0, cf_CreateTime = 0, cf_RoundIndex = 0,
     cf_RobotTiers = [], cf_RobotInfos = []\<rparr>"

definition zero_group :: group where
  "zero_group = \<lparr>gr_GroupID = 0, gr_InstanceID = [], gr_RealCount = 0, gr_RobotCount = 0,
     gr_State = GroupStateText []\<rparr>"

definition zero_robot :: robot_state where
  "zero_robot = \<lparr>ro_MemberID = 0, ro_TierID = 0, ro_InfoID = 0, ro_Score = 0, ro_LastGrowAt = 0,
     ro_PendingScore = 0, ro_PendingStartAt = 0, ro_PendingPerSlice = 0\<rparr>"

definition decode_config_doc :: "bdoc \<Rightarrow> rank_config_doc option" where
  "decode_config_doc d =
     Option.bind (fstr ''_id'' d) (\<lambda>k.
     Option.bind (bfield as_config zero_config ''config'' d) (\<lambda>c.
     Option.bind (bfield as_periodic None ''periodic'' d) (\<lambda>p.
       Some \<lparr>do_BizKey = k, do_Config = c, do_Periodic = p\<rparr>)))"

record group_doc =
  gd_ID :: string
  gd_BizId :: string
  gd_GroupID :: int32
  gd_Group :: group

definition decode_group_doc :: "bdoc \<Rightarrow> group_doc option" where
  "decode_group_doc d =
     Option.bind (fstr ''_id'' d) (\<lambda>i.
     Option.bind (fstr ''bizId'' d) (\<lambda>b.
     Option.bind (fint32 ''groupId'' d) (\<lambda>g.
     Option.bind (bfield as_group zero_group ''group'' d) (\<lambda>gr.
       Some \<lparr>gd_ID = i, gd_BizId = b, gd_GroupID = g, gd_Group = gr\<rparr>))))"

record member_doc =
  md_ID :: string
  md_BizId :: string
  md_UserID :: int64
  md_GroupID :: int32

definition decode_member_doc :: "bdoc \<Rightarrow> member_doc option" where
  "decode_member_doc d =
     Option.bind (fstr ''_id'' d) (\<lambda>i.
     Option.bind (fstr ''bizId'' d) (\<lambda>b.
     Option.bind (fint64 ''userId'' d) (\<lambda>u.
     Option.bind (fint32 ''groupId'' d) (\<lambda>g.
       Some \<lparr>md_ID = i, md_BizId = b, md_UserID = u, md_GroupID = g\<rparr>))))"

record robot_doc =
  rb_ID :: string
  rb_BizId :: string
  rb_GroupID :: int32
  rb_MemberID :: int64
  rb_State :: robot_state

definition decode_robot_doc :: "bdoc \<Rightarrow> robot_doc option" where
  "decode_robot_doc d =
     Option.bind (fstr ''_id'' d) (\<lambda>i.
     Option.bind (fstr ''bizId'' d) (\<lambda>b.
     Option.bind (fint32 ''groupId'' d) (\<lambda>g.
     Option.bind (fint64 ''memberId'' d) (\<lambda>m.
     Option.bind (bfield as_robot zero_robot ''state'' d) (\<lambda>st.
       Some \<lparr>rb_ID = i, rb_BizId = b, rb_GroupID = g, rb_MemberID = m, rb_State = st\<rparr>)))))"

record claim_doc =
  cd_ID :: string
  cd_BizId :: string
  cd_UserID :: int64
  cd_ClaimTime :: int64

definition decode_claim_doc :: "bdoc \<Rightarrow> claim_doc option" where
  "decode_claim_doc d =
     Option.bind (fstr ''_id'' d) (\<lambda>i.
     Option.bind (fstr ''bizId'' d) (\<lambda>b.
     Option.bind (fint64 ''userId'' d) (\<lambda>u.
     Option.bind (fint64 ''claimTime'' d) (\<lambda>t.
       Some \<lparr>cd_ID = i, cd_BizId = b, cd_UserID = u, cd_ClaimTime = t\<rparr>))))"

text \<open>\<open>ScoreDoc\<close>: the record \<open>score_doc\<close> of the interface holds the fields its readers use.\<close>

definition decode_score_doc :: "bdoc \<Rightarrow> score_doc option" where
  "decode_score_doc d =
     Option.bind (fstr ''_id'' d) (\<lambda>_.
     Option.bind (fstr ''bizId'' d) (\<lambda>_.
     Option.bind (fint32 ''groupId'' d) (\<lambda>g.
     Option.bind (fint64 ''userId'' d) (\<lambda>u.
     Option.bind (fint64 ''score'' d) (\<lambda>s.
     Option.bind (fint64 ''enterTime'' d) (\<lambda>e.
     Option.bind (fint64 ''updateTime'' d) (\<lambda>t.
     Option.bind (fint64 ''sequence'' d) (\<lambda>q.
     Option.bind (bfield as_avatar None ''avatarInfo'' d) (\<lambda>a.
       Some \<lparr>sd_GroupID = g, sd_UserID = u, sd_Score = s, sd_EnterTime = e, sd_UpdateTime = t,
             sd_Sequence = q, sd_AvatarInfo = a\<rparr>)))))))))"

record settled_doc =
  sl_ID :: string
  sl_BizId :: string
  sl_GroupID :: int32
  sl_Snapshots :: "snapshot list"
  sl_SettleTime :: int64

definition decode_settled_doc :: "bdoc \<Rightarrow> settled_doc option" where
  "decode_settled_doc d =
     Option.bind (fstr ''_id'' d) (\<lambda>i.
     Option.bind (fstr ''bizId'' d) (\<lambda>b.
     Option.bind (fint32 ''groupId'' d) (\<lambda>g.
     Option.bind (bfield as_snaps [] ''snapshots'' d) (\<lambda>s.
     Option.bind (fint64 ''settleTime'' d) (\<lambda>t.
       Some \<lparr>sl_ID = i, sl_BizId = b, sl_GroupID = g, sl_Snapshots = s, sl_SettleTime = t\<rparr>)))))"

record rank_inst_doc =
  rn_ID :: string
  rn_BizId :: string
  rn_GroupID :: int32
  rn_InstanceID :: string
  rn_Instance :: rank_instance

definition decode_inst_doc :: "rank_instance \<Rightarrow> bdoc \<Rightarrow> rank_inst_doc option" where
  "decode_inst_doc zero d =
     Option.bind (fstr ''_id'' d) (\<lambda>i.
     Option.bind (fstr ''bizId'' d) (\<lambda>b.
     Option.bind (fint32 ''groupId'' d) (\<lambda>g.
     Option.bind (fstr ''instanceId'' d) (\<lambda>n.
     Option.bind (bfield as_inst zero ''instance'' d) (\<lambda>x.
       Some \<lparr>rn_ID = i, rn_BizId = b, rn_GroupID = g, rn_InstanceID = n, rn_Instance = x\<rparr>)))))"

section \<open>The DAO\<close>

text \<open>A \<open>*DAO\<close> is nil or holds the name of the database.\<close>

type_synonym dao = "string option"

definition NewDAO :: "string \<Rightarrow> dao" where
  "NewDAO dbName = (if dbName = [] then None else Some dbName)"

definition dao_available :: "dao \<Rightarrow> bool" where
  "dao_available d \<longleftrightarrow> d \<noteq> None \<and> the d \<noteq> []"

abbreviation dbName :: "dao \<Rightarrow> string" where "dbName \<equiv> the"

text \<open>A task that cannot be queued is logged and forgotten: every write method returns nil.\<close>

definition push :: "'w mongo \<Rightarrow> mongo_task \<Rightarrow> ('w, goerr option) state" where
  "push M task = do {
     _ \<leftarrow> PushMongoTask M task;
     State_Monad.return None
   }"

text \<open>\<open>cursor.All\<close>: one document that does not decode fails the whole read.\<close>

definition decode_all :: "(bdoc \<Rightarrow> 'a option) \<Rightarrow> goerr + (goerr + bdoc list) \<Rightarrow> goerr + 'a list" where
  "decode_all dec r = (case r of
     Inl e \<Rightarrow> Inl e
   | Inr (Inl e) \<Rightarrow> Inl e
   | Inr (Inr ds) \<Rightarrow> (case those (map dec ds) of None \<Rightarrow> Inl (ErrText ''decode'') | Some xs \<Rightarrow> Inr xs))"

text \<open>\<open>FindOne\<close> into a struct: \<open>ErrNoDocuments\<close> is not an error for the caller.\<close>

definition decode_one :: "(bdoc \<Rightarrow> 'a option) \<Rightarrow> goerr + bdoc \<Rightarrow> goerr + 'a option" where
  "decode_one dec r = (case r of
     Inl e \<Rightarrow> if e = ErrNoDocuments then Inr None else Inl e
   | Inr d \<Rightarrow> (case dec d of None \<Rightarrow> Inl (ErrText ''decode'') | Some x \<Rightarrow> Inr (Some x)))"

section \<open>Configurations\<close>

definition persisted :: "config \<Rightarrow> config" where
  "persisted cfg = cfg\<lparr>cf_RobotTiers := [], cf_RobotInfos := []\<rparr>"

definition SaveRankConfig :: "dao \<Rightarrow> 'w mongo \<Rightarrow> string \<Rightarrow> config \<Rightarrow> ('w, goerr option) state" where
  "SaveRankConfig d M bizKey cfg =
     (if \<not> dao_available d then State_Monad.return None
      else push M (BuildUpsertTask CT_RANK_CONFIG bizKey [(''config'', BConfig (persisted cfg))] []))"

definition SavePeriodicState :: "dao \<Rightarrow> 'w mongo \<Rightarrow> string \<Rightarrow> periodic_saved \<Rightarrow> ('w, goerr option) state" where
  "SavePeriodicState d M bizKey st =
     (if \<not> dao_available d then State_Monad.return None
      else push M (BuildUpsertTask CT_RANK_CONFIG bizKey [(''periodic'', BPeriodic st)] []))"

definition SaveRankConfigWithPeriodic ::
  "dao \<Rightarrow> 'w mongo \<Rightarrow> string \<Rightarrow> config \<Rightarrow> periodic_saved \<Rightarrow> ('w, goerr option) state" where
  "SaveRankConfigWithPeriodic d M bizKey cfg st =
     (if \<not> dao_available d then State_Monad.return None
      else push M (BuildUpsertTask CT_RANK_CONFIG bizKey
             [(''config'', BConfig (persisted cfg)), (''periodic'', BPeriodic st)] []))"

definition LoadAllRankConfigs :: "dao \<Rightarrow> 'w mongo \<Rightarrow> ('w, goerr + rank_config_doc list) state" where
  "LoadAllRankConfigs d M =
     (if \<not> dao_available d then State_Monad.return (Inr [])
      else do {
        cursor \<leftarrow> Find M (dbName d) CT_RANK_CONFIG [];
        State_Monad.return (decode_all decode_config_doc cursor)
      })"

definition LoadRankConfig :: "dao \<Rightarrow> 'w mongo \<Rightarrow> string \<Rightarrow> ('w, goerr + rank_config_doc option) state" where
  "LoadRankConfig d M bizKey =
     (if \<not> dao_available d then State_Monad.return (Inr None)
      else do {
        r \<leftarrow> FindOne M (dbName d) CT_RANK_CONFIG [(''_id'', BStr bizKey)];
        State_Monad.return (decode_one decode_config_doc r)
      })"

definition DeleteRankConfig :: "dao \<Rightarrow> 'w mongo \<Rightarrow> string \<Rightarrow> ('w, goerr option) state" where
  "DeleteRankConfig d M bizKey =
     (if \<not> dao_available d then State_Monad.return None
      else push M (BuildDeleteTask CT_RANK_CONFIG bizKey))"

section \<open>Groups, members, robots\<close>

definition groupDocID_dao :: "string \<Rightarrow> int32 \<Rightarrow> string" where
  "groupDocID_dao bizId groupID = bizId @ '':'' @ FormatInt groupID"

definition SaveGroup_dao :: "dao \<Rightarrow> 'w mongo \<Rightarrow> string \<Rightarrow> group \<Rightarrow> ('w, goerr option) state" where
  "SaveGroup_dao d M bizId g =
     (if \<not> dao_available d then State_Monad.return None
      else push M (BuildUpsertTask CT_RANK_GROUP (groupDocID_dao bizId (gr_GroupID g))
             [(''bizId'', BStr bizId), (''groupId'', BInt (gr_GroupID g)), (''group'', BGroup g)] []))"

definition LoadGroups_dao :: "dao \<Rightarrow> 'w mongo \<Rightarrow> string \<Rightarrow> ('w, goerr + group list) state" where
  "LoadGroups_dao d M bizId =
     (if \<not> dao_available d then State_Monad.return (Inr [])
      else do {
        cursor \<leftarrow> Find M (dbName d) CT_RANK_GROUP [(''bizId'', BStr bizId)];
        State_Monad.return (map_sum id (map gd_Group) (decode_all decode_group_doc cursor))
      })"

definition memberDocID :: "string \<Rightarrow> int64 \<Rightarrow> string" where
  "memberDocID bizId userID = bizId @ '':'' @ FormatInt userID"

definition SaveMember_dao :: "dao \<Rightarrow> 'w mongo \<Rightarrow> string \<Rightarrow> int64 \<Rightarrow> int32 \<Rightarrow> ('w, goerr option) state" where
  "SaveMember_dao d M bizId userID groupID =
     (if \<not> dao_available d then State_Monad.return None
      else push M (BuildUpsertTask CT_RANK_MEMBER (memberDocID bizId userID)
             [(''bizId'', BStr bizId), (''userId'', BInt userID), (''groupId'', BInt groupID)] []))"

definition GetMember_dao :: "dao \<Rightarrow> 'w mongo \<Rightarrow> string \<Rightarrow> int64 \<Rightarrow> ('w, goerr + int32 option) state" where
  "GetMember_dao d M bizId userID =
     (if \<not> dao_available d then State_Monad.return (Inr None)
      else do {
        r \<leftarrow> FindOne M (dbName d) CT_RANK_MEMBER [(''_id'', BStr (memberDocID bizId userID))];
        State_Monad.return (map_sum id (map_option md_GroupID) (decode_one decode_member_doc r))
      })"

text \<open>\<open>result[doc.UserID] = doc.GroupID\<close> over the documents, as an association list.\<close>

definition LoadAllMembers_dao :: "dao \<Rightarrow> 'w mongo \<Rightarrow> string \<Rightarrow> ('w, goerr + (int64 \<times> int32) list) state" where
  "LoadAllMembers_dao d M bizId =
     (if \<not> dao_available d then State_Monad.return (Inr [])
      else do {
        cursor \<leftarrow> Find M (dbName d) CT_RANK_MEMBER [(''bizId'', BStr bizId)];
        State_Monad.return (map_sum id
          (\<lambda>docs. fold (\<lambda>doc. AList.update (md_UserID doc) (md_GroupID doc)) docs [])
          (decode_all decode_member_doc cursor))
      })"

definition robotDocID :: "string \<Rightarrow> int32 \<Rightarrow> int64 \<Rightarrow> string" where
  "robotDocID bizId groupID memberID = bizId @ '':'' @ FormatInt groupID @ '':'' @ FormatInt memberID"

definition SaveRobots_dao :: "dao \<Rightarrow> 'w mongo \<Rightarrow> string \<Rightarrow> int32 \<Rightarrow> robot_state list \<Rightarrow> ('w, goerr option) state" where
  "SaveRobots_dao d M bizId groupID robots =
     (if \<not> dao_available d \<or> length robots = 0 then State_Monad.return None
      else do {
        _ \<leftarrow> for_each robots (\<lambda>r. ignore (push M
               (BuildUpsertTask CT_RANK_ROBOT (robotDocID bizId groupID (ro_MemberID r))
                 [(''bizId'', BStr bizId), (''groupId'', BInt groupID),
                  (''memberId'', BInt (ro_MemberID r)), (''state'', BRobot r)] [])));
        State_Monad.return None
      })"

definition LoadRobots_dao :: "dao \<Rightarrow> 'w mongo \<Rightarrow> string \<Rightarrow> int32 \<Rightarrow> ('w, goerr + robot_state list) state" where
  "LoadRobots_dao d M bizId groupID =
     (if \<not> dao_available d then State_Monad.return (Inr [])
      else do {
        cursor \<leftarrow> Find M (dbName d) CT_RANK_ROBOT [(''bizId'', BStr bizId), (''groupId'', BInt groupID)];
        State_Monad.return (map_sum id (map rb_State) (decode_all decode_robot_doc cursor))
      })"

section \<open>Indexes\<close>

text \<open>The results of dropping and creating indexes are ignored or logged. \<open>order\<close> is the order in
  which Go iterates over the map of indexes.\<close>

definition index_table :: "(collection \<times> index_model list) list" where
  "index_table = [
     (CT_RANK_GROUP, [\<lparr>ix_Keys = [(''bizId'', 1)], ix_Name = ''idx_bizId''\<rparr>]),
     (CT_RANK_MEMBER, [\<lparr>ix_Keys = [(''bizId'', 1)], ix_Name = ''idx_bizId''\<rparr>,
                       \<lparr>ix_Keys = [(''userId'', 1)], ix_Name = ''idx_userId''\<rparr>]),
     (CT_RANK_ROBOT, [\<lparr>ix_Keys = [(''bizId'', 1), (''groupId'', 1)], ix_Name = ''idx_bizId_groupId''\<rparr>]),
     (CT_RANK_CLAIM, [\<lparr>ix_Keys = [(''bizId'', 1)], ix_Name = ''idx_bizId''\<rparr>,
                      \<lparr>ix_Keys = [(''userId'', 1)], ix_Name = ''idx_userId''\<rparr>]),
     (CT_RANK_SCORE, [\<lparr>ix_Keys = [(''bizId'', 1), (''groupId'', 1)], ix_Name = ''idx_bizId_groupId''\<rparr>]),
     (CT_RANK_SETTLED, [\<lparr>ix_Keys = [(''bizId'', 1)], ix_Name = ''idx_bizId''\<rparr>]),
     (CT_RANK_INST, [\<lparr>ix_Keys = [(''bizId'', 1)], ix_Name = ''idx_bizId''\<rparr>])]"

definition EnsureIndexes ::
  "((collection \<times> index_model list) list \<Rightarrow> (collection \<times> index_model list) list)
   \<Rightarrow> dao \<Rightarrow> 'w mongo \<Rightarrow> ('w, unit) state" where
  "EnsureIndexes order d M =
     (if \<not> dao_available d then skip
      else do {
        _ \<leftarrow> for_each [CT_RANK_GROUP, CT_RANK_INST] (\<lambda>coll. ignore (DropOne M (dbName d) coll ''idx_userId_unique''));
        for_each (order index_table) (\<lambda>(coll, idxs). ignore (CreateMany M (dbName d) coll idxs))
      })"

section \<open>Claims\<close>

definition claimDocID :: "string \<Rightarrow> int64 \<Rightarrow> string" where
  "claimDocID bizId userID = bizId @ '':'' @ FormatInt userID"

definition GetClaim_dao :: "dao \<Rightarrow> 'w mongo \<Rightarrow> string \<Rightarrow> int64 \<Rightarrow> ('w, goerr + int64 option) state" where
  "GetClaim_dao d M bizId userID =
     (if \<not> dao_available d then State_Monad.return (Inr None)
      else do {
        r \<leftarrow> FindOne M (dbName d) CT_RANK_CLAIM [(''_id'', BStr (claimDocID bizId userID))];
        State_Monad.return (map_sum id (map_option cd_ClaimTime) (decode_one decode_claim_doc r))
      })"

text \<open>The answer \<open>(isFirst, existingTime)\<close>, or the error.\<close>

definition SaveClaimIfNotExists ::
  "dao \<Rightarrow> 'w mongo \<Rightarrow> string \<Rightarrow> int64 \<Rightarrow> int64 \<Rightarrow> ('w, goerr + bool \<times> int64) state" where
  "SaveClaimIfNotExists d M bizId userID claimTime =
     (if \<not> dao_available d then State_Monad.return (Inr (True, claimTime))
      else do {
        r \<leftarrow> UpsertOne M (dbName d) CT_RANK_CLAIM
               [(''_id'', BStr (claimDocID bizId userID))]
               \<lparr>up_set = [],
                up_setOnInsert = [(''_id'', BStr (claimDocID bizId userID)), (''bizId'', BStr bizId),
                                  (''userId'', BInt userID), (''claimTime'', BInt claimTime)]\<rparr>;
        case r of
          Inl e \<Rightarrow> State_Monad.return (Inl e)
        | Inr upserted \<Rightarrow>
            if upserted > 0 then State_Monad.return (Inr (True, claimTime))
            else do {
              ct \<leftarrow> GetClaim_dao d M bizId userID;
              State_Monad.return (case ct of
                  Inl e \<Rightarrow> Inl e
                | Inr None \<Rightarrow> Inr (True, claimTime)
                | Inr (Some t) \<Rightarrow> Inr (False, t))
            }
      })"

definition SaveClaim_dao :: "dao \<Rightarrow> 'w mongo \<Rightarrow> string \<Rightarrow> int64 \<Rightarrow> int64 \<Rightarrow> ('w, goerr option) state" where
  "SaveClaim_dao d M bizId userID claimTime =
     (if \<not> dao_available d then State_Monad.return None
      else push M (BuildUpsertTask CT_RANK_CLAIM (claimDocID bizId userID)
             [(''bizId'', BStr bizId), (''userId'', BInt userID), (''claimTime'', BInt claimTime)] []))"

section \<open>Scores\<close>

definition scoreDocID :: "string \<Rightarrow> int32 \<Rightarrow> int64 \<Rightarrow> string" where
  "scoreDocID bizId groupID userID = bizId @ '':'' @ FormatInt groupID @ '':'' @ FormatInt userID"

definition score_fields :: "string \<Rightarrow> int32 \<Rightarrow> int64 \<Rightarrow> int64 \<Rightarrow> int64 \<Rightarrow> avatar_info option \<Rightarrow> bdoc" where
  "score_fields bizId groupID userID score updateTime avatarInfo =
     [(''score'', BInt score), (''updateTime'', BInt updateTime), (''groupId'', BInt groupID),
      (''bizId'', BStr bizId), (''userId'', BInt userID)]
     @ (case avatarInfo of None \<Rightarrow> [] | Some a \<Rightarrow> [(''avatarInfo'', BAvatar a)])"

definition score_on_insert :: "int64 \<Rightarrow> int64 \<Rightarrow> bdoc" where
  "score_on_insert enterTime sequence =
     (''enterTime'', BInt enterTime) # (if sequence > 0 then [(''sequence'', BInt sequence)] else [])"

definition SaveScore_dao ::
  "dao \<Rightarrow> 'w mongo \<Rightarrow> string \<Rightarrow> int32 \<Rightarrow> int64 \<Rightarrow> int64 \<Rightarrow> int64 \<Rightarrow> int64 \<Rightarrow> int64 \<Rightarrow> avatar_info option
   \<Rightarrow> ('w, goerr option) state" where
  "SaveScore_dao d M bizId groupID userID score enterTime sequence updateTime avatarInfo =
     (if \<not> dao_available d then State_Monad.return None
      else push M (BuildUpsertTask CT_RANK_SCORE (scoreDocID bizId groupID userID)
             (score_fields bizId groupID userID score updateTime avatarInfo)
             (score_on_insert enterTime sequence)))"

definition LoadGroupScores_dao :: "dao \<Rightarrow> 'w mongo \<Rightarrow> string \<Rightarrow> int32 \<Rightarrow> ('w, goerr + score_doc list) state" where
  "LoadGroupScores_dao d M bizId groupID =
     (if \<not> dao_available d then State_Monad.return (Inr [])
      else do {
        cursor \<leftarrow> Find M (dbName d) CT_RANK_SCORE [(''bizId'', BStr bizId), (''groupId'', BInt groupID)];
        State_Monad.return (decode_all decode_score_doc cursor)
      })"

section \<open>Settled snapshots and instances\<close>

definition settledDocID :: "string \<Rightarrow> int32 \<Rightarrow> string" where
  "settledDocID bizId groupID = bizId @ '':'' @ FormatInt groupID"

definition SaveSettled_dao ::
  "dao \<Rightarrow> 'w mongo \<Rightarrow> string \<Rightarrow> int32 \<Rightarrow> snapshot list \<Rightarrow> int64 \<Rightarrow> ('w, goerr option) state" where
  "SaveSettled_dao d M bizId groupID snaps settleTime =
     (if \<not> dao_available d then State_Monad.return None
      else push M (BuildUpsertTask CT_RANK_SETTLED (settledDocID bizId groupID)
             [(''bizId'', BStr bizId), (''groupId'', BInt groupID), (''snapshots'', BSnaps snaps),
              (''settleTime'', BInt settleTime)] []))"

definition LoadGroupSettled_dao :: "dao \<Rightarrow> 'w mongo \<Rightarrow> string \<Rightarrow> int32 \<Rightarrow> ('w, goerr + snapshot list) state" where
  "LoadGroupSettled_dao d M bizId groupID =
     (if \<not> dao_available d then State_Monad.return (Inr [])
      else do {
        r \<leftarrow> FindOne M (dbName d) CT_RANK_SETTLED [(''_id'', BStr (settledDocID bizId groupID))];
        State_Monad.return (map_sum id (\<lambda>x. case x of None \<Rightarrow> [] | Some doc \<Rightarrow> sl_Snapshots doc)
          (decode_one decode_settled_doc r))
      })"

definition LoadAllSettledByBizId ::
  "dao \<Rightarrow> 'w mongo \<Rightarrow> string \<Rightarrow> ('w, goerr + (int32 \<times> snapshot list) list) state" where
  "LoadAllSettledByBizId d M bizId =
     (if \<not> dao_available d then State_Monad.return (Inr [])
      else do {
        cursor \<leftarrow> Find M (dbName d) CT_RANK_SETTLED [(''bizId'', BStr bizId)];
        State_Monad.return (map_sum id
          (\<lambda>docs. fold (\<lambda>doc. AList.update (sl_GroupID doc) (sl_Snapshots doc)) docs [])
          (decode_all decode_settled_doc cursor))
      })"

definition rankInstDocID :: "string \<Rightarrow> int32 \<Rightarrow> string" where
  "rankInstDocID bizId groupID = bizId @ '':'' @ FormatInt groupID"

definition SaveRankInst_dao :: "dao \<Rightarrow> 'w mongo \<Rightarrow> string \<Rightarrow> int32 \<Rightarrow> rank_instance \<Rightarrow> ('w, goerr option) state" where
  "SaveRankInst_dao d M bizId groupID inst =
     (if \<not> dao_available d then State_Monad.return None
      else push M (BuildUpsertTask CT_RANK_INST (rankInstDocID bizId groupID)
             [(''bizId'', BStr bizId), (''groupId'', BInt groupID),
              (''instanceId'', BStr (in_InstanceId inst)), (''instance'', BInst inst)] []))"

definition LoadGroupInst_dao :: "dao \<Rightarrow> 'w mongo \<Rightarrow> string \<Rightarrow> int32 \<Rightarrow> ('w, goerr + rank_instance option) state" where
  "LoadGroupInst_dao d M bizId groupID =
     (if \<not> dao_available d then State_Monad.return (Inr None)
      else do {
        r \<leftarrow> FindOne M (dbName d) CT_RANK_INST [(''_id'', BStr (rankInstDocID bizId groupID))];
        State_Monad.return (map_sum id (map_option rn_Instance) (decode_one (decode_inst_doc (ZeroInstance M)) r))
      })"

section \<open>Deletion\<close>

definition owned_colls :: "collection list" where
  "owned_colls = [CT_RANK_GROUP, CT_RANK_MEMBER, CT_RANK_ROBOT, CT_RANK_CLAIM, CT_RANK_SCORE,
     CT_RANK_SETTLED, CT_RANK_INST]"

definition DeleteAllByBizId_dao :: "dao \<Rightarrow> 'w mongo \<Rightarrow> string \<Rightarrow> ('w, goerr option) state" where
  "DeleteAllByBizId_dao d M bizId =
     (if \<not> dao_available d then State_Monad.return None
      else do {
        _ \<leftarrow> for_each owned_colls (\<lambda>coll. ignore (DeleteMany M (dbName d) coll [(''bizId'', BStr bizId)]));
        State_Monad.return None
      })"

definition QueueDeleteDocIDs_dao :: "dao \<Rightarrow> 'w mongo \<Rightarrow> collection \<Rightarrow> string list \<Rightarrow> ('w, unit) state" where
  "QueueDeleteDocIDs_dao d M coll docIDs =
     (if \<not> dao_available d \<or> length docIDs = 0 then skip
      else for_each docIDs (\<lambda>i. ignore (push M (BuildDeleteTask coll i))))"

section \<open>The DAO as the store's MongoDB\<close>

text \<open>\<open>NewStore\<close> takes the DAO for the interface \<open>storeMongo\<close>: its method table.\<close>

definition dao_store :: "dao \<Rightarrow> 'w mongo \<Rightarrow> 'w store_mongo" where
  "dao_store d M = \<lparr>
     m_available = dao_available d,
     m_SaveGroup = SaveGroup_dao d M,
     m_LoadGroups = LoadGroups_dao d M,
     m_SaveMember = SaveMember_dao d M,
     m_GetMember = GetMember_dao d M,
     m_LoadAllMembers = LoadAllMembers_dao d M,
     m_SaveRobots = SaveRobots_dao d M,
     m_LoadRobots = LoadRobots_dao d M,
     m_SaveClaimIfNotExists = SaveClaimIfNotExists d M,
     m_SaveClaim = SaveClaim_dao d M,
     m_GetClaim = GetClaim_dao d M,
     m_SaveScore = SaveScore_dao d M,
     m_LoadGroupScores = LoadGroupScores_dao d M,
     m_SaveSettled = SaveSettled_dao d M,
     m_LoadGroupSettled = LoadGroupSettled_dao d M,
     m_SaveRankInst = SaveRankInst_dao d M,
     m_LoadGroupInst = LoadGroupInst_dao d M,
     m_DeleteAllByBizId = DeleteAllByBizId_dao d M,
     m_QueueDeleteDocIDs = QueueDeleteDocIDs_dao d M\<rparr>"

lemmas dao_defs = SaveGroup_dao_def LoadGroups_dao_def SaveMember_dao_def GetMember_dao_def
  LoadAllMembers_dao_def SaveRobots_dao_def LoadRobots_dao_def SaveClaim_dao_def GetClaim_dao_def
  SaveScore_dao_def LoadGroupScores_dao_def SaveSettled_dao_def LoadGroupSettled_dao_def
  SaveRankInst_dao_def LoadGroupInst_dao_def push_def

end
