(* ===== verification/DaoProps.thy ===== *)
theory DaoProps
  imports Dao Claims
begin

text \<open>
  What the DAO promises its users: it implements the claim ledger of the store, an update of a score
  keeps the entry time, what is saved is read back once the queue is empty, and deleting an activity
  deletes exactly its documents. MongoDB and the queue are assumed to do what is documented of them
  (\<open>mongo_laws\<close>); the collections in memory at the end satisfy the laws.
\<close>

section \<open>Documented behaviour of MongoDB and the queue\<close>

definition matches :: "bdoc \<Rightarrow> bdoc \<Rightarrow> bool" where
  "matches flt d \<longleftrightarrow> (\<forall>kv \<in> set flt. map_of d (fst kv) = Some (snd kv))"

definition set_fields :: "bdoc \<Rightarrow> bdoc \<Rightarrow> bdoc" where
  "set_fields kvs d = fold (\<lambda>kv. AList.update (fst kv) (snd kv)) kvs d"

text \<open>An upsert sets the fields of the first document that matches, or inserts the fields of the filter
  with \<open>$set\<close> and \<open>$setOnInsert\<close>.\<close>

definition upsert_docs :: "bdoc \<Rightarrow> mongo_update \<Rightarrow> bdoc list \<Rightarrow> bdoc list" where
  "upsert_docs flt u ds =
     (if find (matches flt) ds \<noteq> None then update_first (matches flt) (set_fields (up_set u)) ds
      else ds @ [set_fields (up_setOnInsert u) (set_fields (up_set u) flt)])"

fun delete_first :: "('a \<Rightarrow> bool) \<Rightarrow> 'a list \<Rightarrow> 'a list" where
  "delete_first p [] = []"
| "delete_first p (x # xs) = (if p x then xs else x # delete_first p xs)"

type_synonym colls = "collection \<Rightarrow> bdoc list"

fun apply_task :: "mongo_task \<Rightarrow> colls \<Rightarrow> colls" where
  "apply_task (UpsertTask c i flt u) ds = ds(c := upsert_docs flt u (ds c))"
| "apply_task (DeleteTask c i flt) ds = ds(c := delete_first (matches flt) (ds c))"

text \<open>\<open>D w\<close> are the collections of the database, \<open>Q w\<close> the tasks the queue still holds. A synchronous call
  that fails may or may not have had its effect; a task is queued exactly when the push succeeds.\<close>

definition read_laws :: "'w mongo \<Rightarrow> string \<Rightarrow> ('w \<Rightarrow> colls) \<Rightarrow> ('w \<Rightarrow> mongo_task list) \<Rightarrow> bool" where
  "read_laws M db D Q \<longleftrightarrow>
     (\<forall>c f. keeps D (FindOne M db c f) \<and> keeps Q (FindOne M db c f))
   \<and> (\<forall>c f w d. result (FindOne M db c f) w = Inr d \<longrightarrow> find (matches f) (D w c) = Some d)
   \<and> (\<forall>c f w. result (FindOne M db c f) w = Inl ErrNoDocuments \<longrightarrow> find (matches f) (D w c) = None)
   \<and> (\<forall>c f. keeps D (Find M db c f) \<and> keeps Q (Find M db c f))
   \<and> (\<forall>c f w ds. result (Find M db c f) w = Inr (Inr ds) \<longrightarrow> ds = filter (matches f) (D w c))"

definition write_laws :: "'w mongo \<Rightarrow> string \<Rightarrow> ('w \<Rightarrow> colls) \<Rightarrow> ('w \<Rightarrow> mongo_task list) \<Rightarrow> bool" where
  "write_laws M db D Q \<longleftrightarrow>
     (\<forall>c f u w n. result (UpsertOne M db c f u) w = Inr n \<longrightarrow>
        D (exec (UpsertOne M db c f u) w) = (D w)(c := upsert_docs f u (D w c))
        \<and> (n > 0 \<longleftrightarrow> find (matches f) (D w c) = None))
   \<and> (\<forall>c f u w e. result (UpsertOne M db c f u) w = Inl e \<longrightarrow>
        D (exec (UpsertOne M db c f u) w) \<in> {D w, (D w)(c := upsert_docs f u (D w c))})
   \<and> (\<forall>c f u. keeps Q (UpsertOne M db c f u))
   \<and> (\<forall>c f w. \<exists>p. (\<forall>d. \<not> matches f d \<longrightarrow> p d)
        \<and> D (exec (DeleteMany M db c f) w) = (D w)(c := filter p (D w c))
        \<and> (\<forall>n. result (DeleteMany M db c f) w = Inr n \<longrightarrow> (\<forall>d. p d \<longrightarrow> \<not> matches f d)))
   \<and> (\<forall>c f. keeps Q (DeleteMany M db c f))
   \<and> (\<forall>t. keeps D (PushMongoTask M t))
   \<and> (\<forall>t w. Q (exec (PushMongoTask M t) w) = (if result (PushMongoTask M t) w = None then Q w @ [t] else Q w))"

definition mongo_laws :: "'w mongo \<Rightarrow> string \<Rightarrow> ('w \<Rightarrow> colls) \<Rightarrow> ('w \<Rightarrow> mongo_task list) \<Rightarrow> bool" where
  "mongo_laws M db D Q \<longleftrightarrow> db \<noteq> [] \<and> read_laws M db D Q \<and> write_laws M db D Q"

text \<open>The collections once the queue is empty.\<close>

definition eventual :: "('w \<Rightarrow> colls) \<Rightarrow> ('w \<Rightarrow> mongo_task list) \<Rightarrow> 'w \<Rightarrow> colls" where
  "eventual D Q w = fold apply_task (Q w) (D w)"

lemma read_parts:
  assumes "mongo_laws M db D Q"
  shows "D (exec (FindOne M db c f) w) = D w" "Q (exec (FindOne M db c f) w) = Q w"
    "result (FindOne M db c f) w = Inr d \<Longrightarrow> find (matches f) (D w c) = Some d"
    "result (FindOne M db c f) w = Inl ErrNoDocuments \<Longrightarrow> find (matches f) (D w c) = None"
    "D (exec (Find M db c f) w) = D w" "Q (exec (Find M db c f) w) = Q w"
    "result (Find M db c f) w = Inr (Inr ds) \<Longrightarrow> ds = filter (matches f) (D w c)"
  using assms unfolding mongo_laws_def read_laws_def keeps_def by metis+

lemma write_parts:
  assumes "mongo_laws M db D Q"
  shows "result (UpsertOne M db c f u) w = Inr n \<Longrightarrow>
      D (exec (UpsertOne M db c f u) w) = (D w)(c := upsert_docs f u (D w c))
      \<and> (n > 0 \<longleftrightarrow> find (matches f) (D w c) = None)"
    "result (UpsertOne M db c f u) w = Inl e \<Longrightarrow>
      D (exec (UpsertOne M db c f u) w) \<in> {D w, (D w)(c := upsert_docs f u (D w c))}"
    "D (exec (PushMongoTask M t) w) = D w"
    "Q (exec (PushMongoTask M t) w) = (if result (PushMongoTask M t) w = None then Q w @ [t] else Q w)"
  using assms unfolding mongo_laws_def write_laws_def keeps_def by metis+

lemma delete_part:
  assumes "mongo_laws M db D Q"
  obtains p where "\<And>d. \<not> matches f d \<Longrightarrow> p d"
    "D (exec (DeleteMany M db c f) w) = (D w)(c := filter p (D w c))"
    "\<And>n d. result (DeleteMany M db c f) w = Inr n \<Longrightarrow> p d \<Longrightarrow> \<not> matches f d"
  using assms unfolding mongo_laws_def write_laws_def by metis

lemma dao_up: "mongo_laws M db D Q \<Longrightarrow> dao_available (Some db)"
  by (simp add: mongo_laws_def dao_available_def)

section \<open>Fields\<close>

lemma map_of_set_fields:
  "map_of (set_fields kvs d) k = (case map_of (rev kvs) k of None \<Rightarrow> map_of d k | Some v \<Rightarrow> Some v)"
  unfolding set_fields_def
  by (induction kvs arbitrary: d) (auto simp: update_conv' map_of_append map_add_def split: option.splits)

lemma map_of_set_fields_single [simp]:
  "map_of (set_fields [] d) k = map_of d k"
  "map_of (set_fields (kv # kvs) d) k =
     (case map_of (set_fields kvs []) k of Some v \<Rightarrow> Some v
      | None \<Rightarrow> if fst kv = k then Some (snd kv) else map_of d k)"
  by (auto simp: map_of_set_fields map_of_append map_add_def split: option.splits)

definition byID :: "string \<Rightarrow> bdoc" where
  "byID i = [(''_id'', BStr i)]"

lemma matches_byID: "matches (byID i) d \<longleftrightarrow> map_of d ''_id'' = Some (BStr i)"
  by (simp add: matches_def byID_def)

text \<open>Updates that leave the key alone leave every other document alone.\<close>

lemma find_byID_upsert:
  assumes "map_of (rev (up_set u)) ''_id'' = None" "map_of (rev (up_setOnInsert u)) ''_id'' \<in> {None, Some (BStr i)}"
  shows "find (matches (byID j)) (upsert_docs (byID i) u ds) =
     (if j = i then Some (case find (matches (byID i)) ds of
          Some d \<Rightarrow> set_fields (up_set u) d
        | None \<Rightarrow> set_fields (up_setOnInsert u) (set_fields (up_set u) (byID i)))
      else find (matches (byID j)) ds)"
proof (cases "find (matches (byID i)) ds")
  case None
  have new: "map_of (set_fields (up_setOnInsert u) (set_fields (up_set u) (byID i))) ''_id'' = Some (BStr i)"
    using assms by (auto simp: map_of_set_fields byID_def)
  show ?thesis
    using None by (induction ds) (auto simp: upsert_docs_def matches_byID new split: if_splits)
next
  case (Some d)
  have keep: "map_of (set_fields (up_set u) x) ''_id'' = map_of x ''_id''" for x
    using assms(1) by (simp add: map_of_set_fields)
  show ?thesis
    using Some by (induction ds) (auto simp: upsert_docs_def matches_byID keep split: if_splits)
qed

section \<open>The claim ledger\<close>

text \<open>What the claims of all activities amount to: who claimed, and when.\<close>

type_synonym ledger = "string \<times> int64 \<Rightarrow> int64 option"

datatype ledger_op = Claim string int64 int64 | ReadClaim string int64
datatype ledger_answer = Claimed "goerr + bool \<times> int64" | ReadTime "goerr + int64 option"

text \<open>The specification: the first claim of a user is recorded and never changed; a claim that fails may
  have been recorded.\<close>

inductive ledger_step :: "ledger \<Rightarrow> ledger_op \<Rightarrow> ledger_answer \<Rightarrow> ledger \<Rightarrow> bool" where
  first: "L (b, u) = None \<Longrightarrow> ledger_step L (Claim b u t) (Claimed (Inr (True, t))) (L((b, u) \<mapsto> t))"
| again: "L (b, u) = Some t' \<Longrightarrow> ledger_step L (Claim b u t) (Claimed (Inr (False, t'))) L"
| failed: "ledger_step L (Claim b u t) (Claimed (Inl e)) L"
| unseen: "L (b, u) = None \<Longrightarrow> ledger_step L (Claim b u t) (Claimed (Inl e)) (L((b, u) \<mapsto> t))"
| read: "ledger_step L (ReadClaim b u) (ReadTime (Inr (L (b, u)))) L"
| read_failed: "ledger_step L (ReadClaim b u) (ReadTime (Inl e)) L"

inductive_cases claim_stepE: "ledger_step L (Claim b u t) (Claimed r) L'"
inductive_cases read_stepE: "ledger_step L (ReadClaim b u) (ReadTime r) L'"

inductive ledger_run :: "ledger \<Rightarrow> (ledger_op \<times> ledger_answer) list \<Rightarrow> ledger \<Rightarrow> bool" where
  nothing: "ledger_run L [] L"
| step: "ledger_step L op a L' \<Longrightarrow> ledger_run L' h L'' \<Longrightarrow> ledger_run L ((op, a) # h) L''"

definition first_claims :: "string \<Rightarrow> int64 \<Rightarrow> (ledger_op \<times> ledger_answer) list \<Rightarrow> int64 list" where
  "first_claims b u h = [t. (Claim b' u' t, Claimed (Inr (True, _))) \<leftarrow> h, b' = b \<and> u' = u]"

lemma ledger_step_keeps: "ledger_step L op a L' \<Longrightarrow> L k = Some v \<Longrightarrow> L' k = Some v"
  by (induction rule: ledger_step.induct) auto

lemma ledger_run_keeps: "ledger_run L h L' \<Longrightarrow> L k = Some v \<Longrightarrow> L' k = Some v"
  by (induction rule: ledger_run.induct) (auto dest: ledger_step_keeps)

lemma first_claims_Cons:
  assumes "ledger_step L op a L'"
  shows "first_claims b u ((op, a) # h) = first_claims b u h
    \<or> (\<exists>t. L (b, u) = None \<and> L' (b, u) = Some t \<and> first_claims b u ((op, a) # h) = t # first_claims b u h)"
  using assms by (cases rule: ledger_step.cases) (auto simp: first_claims_def)

lemma no_first_after:
  assumes "ledger_run L h L'" "L (b, u) = Some v"
  shows "first_claims b u h = []"
  using assms
proof (induction rule: ledger_run.induct)
  case (nothing L)
  then show ?case by (simp add: first_claims_def)
next
  case (step L op a L' h L'')
  then show ?case using first_claims_Cons [OF step.hyps(1), of b u h] ledger_step_keeps by fastforce
qed

lemma one_first_claim:
  assumes "ledger_run L h L'"
  shows "first_claims b u h = [] \<or> (\<exists>t. first_claims b u h = [t] \<and> L (b, u) = None \<and> L' (b, u) = Some t)"
  using assms
proof (induction rule: ledger_run.induct)
  case (nothing L)
  then show ?case by (simp add: first_claims_def)
next
  case (step L op a L' h L'')
  from first_claims_Cons [OF step.hyps(1), of b u h] show ?case
  proof
    assume "first_claims b u ((op, a) # h) = first_claims b u h"
    then show ?thesis using step ledger_step_keeps by (metis not_Some_eq)
  next
    assume "\<exists>t. L (b, u) = None \<and> L' (b, u) = Some t \<and> first_claims b u ((op, a) # h) = t # first_claims b u h"
    then show ?thesis using step no_first_after ledger_run_keeps by metis
  qed
qed

text \<open>The ledger the documents of the claim collection stand for.\<close>

definition stored_time :: "bdoc \<Rightarrow> int64" where
  "stored_time d = (case map_of d ''claimTime'' of Some (BInt n) \<Rightarrow> n | _ \<Rightarrow> 0)"

definition claim_ledger :: "('w \<Rightarrow> colls) \<Rightarrow> 'w \<Rightarrow> ledger" where
  "claim_ledger D w = (\<lambda>(b, u). map_option stored_time
     (find (matches (byID (claimDocID b u))) (D w CT_RANK_CLAIM)))"

lemma claimDocID_inject [simp]: "claimDocID b u = claimDocID b' u' \<longleftrightarrow> b = b' \<and> u = u'"
  using last_part_inject [OF colon_free colon_free] by (simp add: claimDocID_def)

lemma decode_claim_time: "decode_claim_doc d = Some x \<Longrightarrow> cd_ClaimTime x = stored_time d"
  by (auto simp: decode_claim_doc_def stored_time_def bfield_def as_int_def
      split: Option.bind_splits option.splits bval.splits if_splits)

definition claim_update :: "string \<Rightarrow> int64 \<Rightarrow> int64 \<Rightarrow> mongo_update" where
  "claim_update b u t = \<lparr>up_set = [], up_setOnInsert = [(''_id'', BStr (claimDocID b u)), (''bizId'', BStr b),
     (''userId'', BInt u), (''claimTime'', BInt t)]\<rparr>"

lemma find_claim_update:
  "map_option stored_time (find (matches (byID j)) (upsert_docs (byID (claimDocID b u)) (claim_update b u t) ds)) =
     (if j = claimDocID b u \<and> find (matches (byID j)) ds = None then Some t
      else map_option stored_time (find (matches (byID j)) ds))"
proof -
  have "stored_time (set_fields (up_setOnInsert (claim_update b u t)) d) = t" for d
    by (simp add: stored_time_def claim_update_def map_of_set_fields)
  moreover have "stored_time (set_fields (up_set (claim_update b u t)) d) = stored_time d" for d
    by (simp add: stored_time_def claim_update_def)
  ultimately show ?thesis
    by (subst find_byID_upsert) (auto simp: claim_update_def split: option.splits)
qed

lemma ledger_upsert:
  assumes "D w' = (D w)(CT_RANK_CLAIM := upsert_docs (byID (claimDocID b u)) (claim_update b u t) (D w CT_RANK_CLAIM))"
  shows "claim_ledger D w' = (if claim_ledger D w (b, u) = None then (claim_ledger D w)((b, u) \<mapsto> t) else claim_ledger D w)"
  unfolding fun_eq_iff claim_ledger_def assms
  by (auto simp: find_claim_update)

text \<open>The methods of the DAO, one call of the ledger's interface each.\<close>

definition dao_call :: "string \<Rightarrow> 'w mongo \<Rightarrow> ledger_op \<Rightarrow> ('w, ledger_answer) state" where
  "dao_call db M op = (case op of
     Claim b u t \<Rightarrow> do { r \<leftarrow> SaveClaimIfNotExists (Some db) M b u t; State_Monad.return (Claimed r) }
   | ReadClaim b u \<Rightarrow> do { r \<leftarrow> GetClaim_dao (Some db) M b u; State_Monad.return (ReadTime r) })"

fun dao_history :: "string \<Rightarrow> 'w mongo \<Rightarrow> ledger_op list \<Rightarrow> ('w, (ledger_op \<times> ledger_answer) list) state" where
  "dao_history db M [] = State_Monad.return []"
| "dao_history db M (op # ops) = do {
     a \<leftarrow> dao_call db M op;
     h \<leftarrow> dao_history db M ops;
     State_Monad.return ((op, a) # h)
   }"

lemma GetClaim_dao_ledger:
  assumes laws: "mongo_laws M db D Q"
  shows "claim_ledger D (exec (GetClaim_dao (Some db) M b u) w) = claim_ledger D w"
    and "result (GetClaim_dao (Some db) M b u) w = Inr x \<Longrightarrow> x = claim_ledger D w (b, u)"
proof -
  note R = read_parts [OF laws]
  show "claim_ledger D (exec (GetClaim_dao (Some db) M b u) w) = claim_ledger D w"
    by (simp add: GetClaim_dao_def dao_up [OF laws] claim_ledger_def R)
  show "result (GetClaim_dao (Some db) M b u) w = Inr x \<Longrightarrow> x = claim_ledger D w (b, u)"
    by (auto simp: GetClaim_dao_def dao_up [OF laws] claim_ledger_def decode_one_def byID_def decode_claim_time
        dest: R(3,4) split: sum.splits option.splits if_splits)
qed

lemma SaveClaim_step:
  assumes laws: "mongo_laws M db D Q"
  shows "ledger_step (claim_ledger D w) (Claim b u t) (Claimed (result (SaveClaimIfNotExists (Some db) M b u t) w))
    (claim_ledger D (exec (SaveClaimIfNotExists (Some db) M b u t) w))"
proof -
  let ?f = "byID (claimDocID b u)" and ?up = "UpsertOne M db CT_RANK_CLAIM (byID (claimDocID b u)) (claim_update b u t)"
  let ?L = "claim_ledger D w" and ?w1 = "exec ?up w"
  note W = write_parts(1,2) [OF laws]
  have absent: "find (matches ?f) (D w CT_RANK_CLAIM) = None \<longleftrightarrow> ?L (b, u) = None"
    by (simp add: claim_ledger_def)
  have code: "SaveClaimIfNotExists (Some db) M b u t = do {
      r \<leftarrow> ?up;
      case r of Inl e \<Rightarrow> State_Monad.return (Inl e)
      | Inr n \<Rightarrow> if n > 0 then State_Monad.return (Inr (True, t))
          else do { ct \<leftarrow> GetClaim_dao (Some db) M b u;
                    State_Monad.return (case ct of Inl e \<Rightarrow> Inl e | Inr None \<Rightarrow> Inr (True, t)
                      | Inr (Some t') \<Rightarrow> Inr (False, t')) } }"
    by (simp add: SaveClaimIfNotExists_def dao_up [OF laws] byID_def claim_update_def)
  show ?thesis
  proof (cases "result ?up w")
    case (Inl e)
    have "claim_ledger D ?w1 = ?L" if "D ?w1 = D w"
      using that by (simp add: claim_ledger_def)
    then have "claim_ledger D ?w1 = ?L \<or> claim_ledger D ?w1 = (if ?L (b, u) = None then ?L((b, u) \<mapsto> t) else ?L)"
      using W(2) [OF Inl] ledger_upsert [of D ?w1 w b u t] by (metis empty_iff insert_iff)
    then show ?thesis unfolding code using Inl by (auto intro: ledger_step.intros split: if_splits)
  next
    case (Inr n)
    then have L1: "claim_ledger D ?w1 = (if ?L (b, u) = None then ?L((b, u) \<mapsto> t) else ?L)"
      and n: "n > 0 \<longleftrightarrow> ?L (b, u) = None"
      using W(1) [OF Inr] ledger_upsert [of D ?w1 w b u t] unfolding absent by blast+
    show ?thesis
    proof (cases "n > 0")
      case True
      then show ?thesis unfolding code using Inr L1 n by (simp add: ledger_step.first)
    next
      case False
      then obtain v where v: "?L (b, u) = Some v" using n by auto
      note G = GetClaim_dao_ledger [OF laws, of b u ?w1]
      show ?thesis unfolding code using Inr False L1 v G
        by (cases "result (GetClaim_dao (Some db) M b u) ?w1") (auto intro: ledger_step.intros)
    qed
  qed
qed

lemma dao_call_step:
  assumes laws: "mongo_laws M db D Q"
  shows "ledger_step (claim_ledger D w) op (result (dao_call db M op) w) (claim_ledger D (exec (dao_call db M op) w))"
proof (cases op)
  case (Claim b u t)
  then show ?thesis using SaveClaim_step [OF laws] by (simp add: dao_call_def)
next
  case (ReadClaim b u)
  then show ?thesis using GetClaim_dao_ledger [OF laws, of b u w]
    by (cases "result (GetClaim_dao (Some db) M b u) w") (auto simp: dao_call_def intro: ledger_step.intros)
qed

lemma dao_history_run:
  assumes laws: "mongo_laws M db D Q"
  shows "ledger_run (claim_ledger D w) (result (dao_history db M ops) w) (claim_ledger D (exec (dao_history db M ops) w))"
  by (induction ops arbitrary: w) (auto intro: ledger_run.intros dao_call_step [OF laws])

text \<open>Claim C4: the claim methods of the DAO refine the ledger. Any sequence of conditional inserts and
  reads against the documents of MongoDB, failures included, is a run of the specification from the
  ledger the documents stand for to the one they stand for afterwards; so a user gets at most one
  first claim per activity, only if there was none before, and its time is what the ledger holds.\<close>

theorem dao_refines_ledger:
  assumes "mongo_laws M db D Q"
  shows "ledger_run (claim_ledger D w) (result (dao_history db M ops) w) (claim_ledger D (exec (dao_history db M ops) w))
    \<and> (first_claims b u (result (dao_history db M ops) w) = []
       \<or> (\<exists>t. first_claims b u (result (dao_history db M ops) w) = [t] \<and> claim_ledger D w (b, u) = None
            \<and> claim_ledger D (exec (dao_history db M ops) w) (b, u) = Some t))"
  using dao_history_run [OF assms] one_first_claim by blast

lemma dao_claim_laws:
  assumes "mongo_laws M db D Q"
  shows "claim_laws (dao_store (Some db) M) (claim_ledger D)"
proof -
  note S = SaveClaim_step [OF assms] and G = GetClaim_dao_ledger [OF assms]
  have 1: "claim_ledger D (exec (SaveClaimIfNotExists (Some db) M b u t) w) k = Some v"
    if "claim_ledger D w k = Some v" for b u t w k v
    using ledger_step_keeps [OF S that] .
  have 2: "t' = t \<and> claim_ledger D w (b, u) = None \<and> claim_ledger D (exec (SaveClaimIfNotExists (Some db) M b u t) w) (b, u) = Some t"
    if "result (SaveClaimIfNotExists (Some db) M b u t) w = Inr (True, t')" for b u t w t'
    using S [of w b u t] unfolding that by (auto elim: claim_stepE)
  have 3: "claim_ledger D w (b, u) = Some t'"
    if "result (SaveClaimIfNotExists (Some db) M b u t) w = Inr (False, t')" for b u t w t'
    using S [of w b u t] unfolding that by (auto elim: claim_stepE)
  show ?thesis unfolding claim_laws_def dao_store_def using 1 2 3 G by auto
qed

text \<open>So a store over the DAO has the ledger its claims rely on.\<close>

lemma dao_backed_claims:
  assumes "mongo_laws M db D Q" "redis_apart E R (claim_ledger D)"
    and "st_rdb st = Some R" "st_dao st = Some (dao_store (Some db) M)"
  shows "claims_ok E st R (dao_store (Some db) M) (claim_ledger D)"
proof -
  have "st_mongo st = Some (dao_store (Some db) M)"
    using dao_up [OF assms(1)] by (simp add: st_mongo_def assms(4)) (simp add: dao_store_def)
  then show ?thesis unfolding claims_ok_def using assms(2,3) dao_claim_laws [OF assms(1)] by blast
qed

section \<open>Writes through the queue\<close>

lemma eventual_push:
  assumes "mongo_laws M db D Q"
  shows "eventual D Q (exec (push M t) w) =
    (if result (PushMongoTask M t) w = None then apply_task t (eventual D Q w) else eventual D Q w)"
  by (simp add: eventual_def push_def write_parts [OF assms])

lemma result_push [simp]: "result (push M t) w = None"
  by (simp add: push_def)

text \<open>Every write of one document is an upsert that does not touch the key.\<close>

lemma find_pushed:
  assumes "mongo_laws M db D Q" "result (PushMongoTask M (BuildUpsertTask c i fs ins)) w = None"
    and "map_of (rev fs) ''_id'' = None" "map_of (rev ins) ''_id'' = None"
  shows "find (matches (byID j)) (eventual D Q (exec (push M (BuildUpsertTask c i fs ins)) w) c') =
     (if c' = c \<and> j = i then Some (case find (matches (byID i)) (eventual D Q w c) of
          Some d \<Rightarrow> set_fields fs d | None \<Rightarrow> set_fields ins (set_fields fs (byID i)))
      else find (matches (byID j)) (eventual D Q w c'))"
proof -
  let ?u = "\<lparr>up_set = fs, up_setOnInsert = ins\<rparr>"
  have "eventual D Q (exec (push M (BuildUpsertTask c i fs ins)) w)
      = (eventual D Q w)(c := upsert_docs (byID i) ?u (eventual D Q w c))"
    using assms(2) by (simp add: eventual_push [OF assms(1)]) (simp add: BuildUpsertTask_def byID_def)
  then show ?thesis using assms(3,4) by (simp add: find_byID_upsert split: option.split)
qed

text \<open>The entry time and the sequence of a score document are those of its first write, the avatar
  stays when none is given.\<close>

definition entry_kept :: "int64 \<Rightarrow> int64 \<Rightarrow> avatar_info option \<Rightarrow> bdoc option \<Rightarrow> bdoc \<Rightarrow> bool" where
  "entry_kept e q a old d' \<longleftrightarrow> (case old of
     None \<Rightarrow> map_of d' ''enterTime'' = Some (BInt e)
       \<and> map_of d' ''sequence'' = (if q > 0 then Some (BInt q) else None)
       \<and> map_of d' ''avatarInfo'' = map_option BAvatar a
   | Some d \<Rightarrow> map_of d' ''enterTime'' = map_of d ''enterTime'' \<and> map_of d' ''sequence'' = map_of d ''sequence''
       \<and> map_of d' ''avatarInfo'' = (if a = None then map_of d ''avatarInfo'' else map_option BAvatar a))"

lemma score_document:
  shows "entry_kept e q a None (set_fields (score_on_insert e q) (set_fields (score_fields b g u s t a) (byID i)))"
    "entry_kept e q a (Some d) (set_fields (score_fields b g u s t a) d)"
    "map_of (set_fields (score_on_insert e q) (set_fields (score_fields b g u s t a) (byID i))) ''score'' = Some (BInt s)"
    "map_of (set_fields (score_on_insert e q) (set_fields (score_fields b g u s t a) (byID i))) ''updateTime'' = Some (BInt t)"
    "map_of (set_fields (score_fields b g u s t a) d) ''score'' = Some (BInt s)"
    "map_of (set_fields (score_fields b g u s t a) d) ''updateTime'' = Some (BInt t)"
  by (cases a; simp add: entry_kept_def score_fields_def score_on_insert_def byID_def map_of_set_fields)+

text \<open>A score is written over, its first entry is kept. Once the queue has applied a score
  (\<open>eventual\<close>), the document of the player holds the new score and update time with the entry time,
  sequence and avatar described above, and no document under another id is found changed, in any
  collection. A push that fails changes nothing and is not reported.\<close>

theorem SaveScore_keeps_first:
  assumes laws: "mongo_laws M db D Q"
    and w': "w' = exec (SaveScore_dao (Some db) M b g u s e q t a) w"
    and i: "i = scoreDocID b g u"
  shows "result (SaveScore_dao (Some db) M b g u s e q t a) w = None
    \<and> (eventual D Q w' = eventual D Q w
      \<or> (\<exists>d'. find (matches (byID i)) (eventual D Q w' CT_RANK_SCORE) = Some d'
          \<and> map_of d' ''score'' = Some (BInt s) \<and> map_of d' ''updateTime'' = Some (BInt t)
          \<and> entry_kept e q a (find (matches (byID i)) (eventual D Q w CT_RANK_SCORE)) d'
          \<and> (\<forall>c j. (c, j) \<noteq> (CT_RANK_SCORE, i) \<longrightarrow>
               find (matches (byID j)) (eventual D Q w' c) = find (matches (byID j)) (eventual D Q w c))))"
proof -
  let ?fs = "score_fields b g u s t a" and ?ins = "score_on_insert e q"
  have save: "SaveScore_dao (Some db) M b g u s e q t a = push M (BuildUpsertTask CT_RANK_SCORE i ?fs ?ins)"
    by (simp add: SaveScore_dao_def dao_up [OF laws] i)
  have noid: "map_of (rev ?fs) ''_id'' = None" "map_of (rev ?ins) ''_id'' = None"
    by (simp_all add: score_fields_def score_on_insert_def split: option.splits)
  show ?thesis
  proof (cases "result (PushMongoTask M (BuildUpsertTask CT_RANK_SCORE i ?fs ?ins)) w = None")
    case True
    note F = find_pushed [OF laws True noid]
    show ?thesis unfolding w' save F
      by (cases "find (matches (byID i)) (eventual D Q w CT_RANK_SCORE)") (auto simp: score_document)
  next
    case False
    then have "eventual D Q w' = eventual D Q w" unfolding w' save eventual_push [OF laws] by (rule if_not_P)
    then show ?thesis by (simp add: save)
  qed
qed

section \<open>Reading back\<close>

lemma FindOne_drained:
  assumes "mongo_laws M db D Q" "result (FindOne M db c (byID i)) w' = Inr d"
    and "find (matches (byID i)) (D w' c) = Some d'"
  shows "d = d'"
  using read_parts(3) [OF assms(1,2)] assms(3) by simp

lemma single_write:
  assumes laws: "mongo_laws M db D Q" and ok: "result (PushMongoTask M (BuildUpsertTask c i fs [])) w = None"
    and drained: "D w' c = eventual D Q (exec (push M (BuildUpsertTask c i fs [])) w) c"
    and noid: "map_of (rev fs) ''_id'' = None"
    and read: "result (FindOne M db c (byID i)) w' = Inr d"
  shows "map_of d ''_id'' = Some (BStr i)" "\<And>k v. map_of (rev fs) k = Some v \<Longrightarrow> map_of d k = Some v"
proof -
  have f: "find (matches (byID i)) (D w' c) = Some (case find (matches (byID i)) (eventual D Q w c) of
          Some d \<Rightarrow> set_fields fs d | None \<Rightarrow> set_fields [] (set_fields fs (byID i)))"
    unfolding drained by (subst find_pushed [OF laws ok noid]) simp_all
  have d: "d = (case find (matches (byID i)) (eventual D Q w c) of
          Some d \<Rightarrow> set_fields fs d | None \<Rightarrow> set_fields [] (set_fields fs (byID i)))"
    by (rule FindOne_drained [OF laws read f])
  show "map_of d ''_id'' = Some (BStr i)"
    using find_Some_set [OF read_parts(3) [OF laws read]] by (simp add: matches_byID)
  show "\<And>k v. map_of (rev fs) k = Some v \<Longrightarrow> map_of d k = Some v"
    unfolding d by (auto simp: map_of_set_fields split: option.splits)
qed

lemma single_reads:
  assumes "map_of d ''_id'' = Some (BStr i)" "map_of d ''bizId'' = Some (BStr b)"
  shows "map_of d ''userId'' = Some (BInt u) \<Longrightarrow> map_of d ''groupId'' = Some (BInt g) \<Longrightarrow> in64 u \<Longrightarrow> in32 g
      \<Longrightarrow> map_option md_GroupID (decode_member_doc d) = Some g"
    "map_of d ''groupId'' = Some (BInt g) \<Longrightarrow> map_of d ''snapshots'' = Some (BSnaps sn)
      \<Longrightarrow> map_of d ''settleTime'' = Some (BInt t) \<Longrightarrow> in32 g \<Longrightarrow> in64 t
      \<Longrightarrow> map_option sl_Snapshots (decode_settled_doc d) = Some sn"
    "map_of d ''groupId'' = Some (BInt g) \<Longrightarrow> map_of d ''instanceId'' = Some (BStr n)
      \<Longrightarrow> map_of d ''instance'' = Some (BInst x) \<Longrightarrow> in32 g
      \<Longrightarrow> map_option rn_Instance (decode_inst_doc z d) = Some x"
  using assms by (simp_all add: decode_member_doc_def decode_settled_doc_def decode_inst_doc_def
      bfield_def as_int_def as_str_def as_snaps_def as_inst_def)

text \<open>What a save method put into the queue, with the queue empty again afterwards.\<close>

definition written_then ::
  "'w mongo \<Rightarrow> string \<Rightarrow> ('w \<Rightarrow> colls) \<Rightarrow> ('w \<Rightarrow> mongo_task list) \<Rightarrow> collection \<Rightarrow> string
   \<Rightarrow> ('w, goerr option) state \<Rightarrow> 'w \<Rightarrow> 'w \<Rightarrow> bool" where
  "written_then M db D Q c i save w w' \<longleftrightarrow>
     length (Q (exec save w)) = Suc (length (Q w)) \<and> D w' = eventual D Q (exec save w)
   \<and> (\<exists>d. result (FindOne M db c (byID i)) w' = Inr d)"

lemma written_single:
  assumes laws: "mongo_laws M db D Q"
    and w: "written_then M db D Q c i (push M (BuildUpsertTask c i fs [])) w w'"
    and noid: "map_of (rev fs) ''_id'' = None"
  obtains d where "result (FindOne M db c (byID i)) w' = Inr d" "map_of d ''_id'' = Some (BStr i)"
    "\<And>k v. map_of (rev fs) k = Some v \<Longrightarrow> map_of d k = Some v"
proof -
  obtain d where d: "result (FindOne M db c (byID i)) w' = Inr d" using w by (auto simp: written_then_def)
  have ok: "result (PushMongoTask M (BuildUpsertTask c i fs [])) w = None"
    using w by (auto simp: written_then_def push_def write_parts(4) [OF laws] split: if_splits)
  have "D w' c = eventual D Q (exec (push M (BuildUpsertTask c i fs [])) w) c"
    using w by (simp add: written_then_def)
  then show ?thesis using single_write [OF laws ok _ noid d] d that by blast
qed

lemma decode_one_Some: "dec d = Some x \<Longrightarrow> decode_one dec (Inr d) = Inr (Some x)"
  by (simp add: decode_one_def)

text \<open>Claim C26: what the DAO saved is read back. When a save was queued and the queue has been applied
  since, a read that reaches MongoDB yields the group of the member, the settled snapshots or the
  instance that were saved, in place of whatever the documents held before.\<close>

theorem dao_roundtrip:
  assumes laws: "mongo_laws M db D Q" and widths: "in32 g" "in64 u" "in64 t"
  shows "(written_then M db D Q CT_RANK_MEMBER (memberDocID b u) (SaveMember_dao (Some db) M b u g) w w'
      \<longrightarrow> result (GetMember_dao (Some db) M b u) w' = Inr (Some g))
    \<and> (written_then M db D Q CT_RANK_SETTLED (settledDocID b g) (SaveSettled_dao (Some db) M b g snaps t) w w'
      \<longrightarrow> result (LoadGroupSettled_dao (Some db) M b g) w' = Inr snaps)
    \<and> (written_then M db D Q CT_RANK_INST (rankInstDocID b g) (SaveRankInst_dao (Some db) M b g inst) w w'
      \<longrightarrow> result (LoadGroupInst_dao (Some db) M b g) w' = Inr (Some inst))"
proof (intro conjI impI)
  note up = dao_up [OF laws]
  { let ?fs = "[(''bizId'', BStr b), (''userId'', BInt u), (''groupId'', BInt g)]"
    assume "written_then M db D Q CT_RANK_MEMBER (memberDocID b u) (SaveMember_dao (Some db) M b u g) w w'"
    then have wr: "written_then M db D Q CT_RANK_MEMBER (memberDocID b u) (push M (BuildUpsertTask CT_RANK_MEMBER (memberDocID b u) ?fs [])) w w'"
      by (simp add: SaveMember_dao_def up)
    obtain d where d: "result (FindOne M db CT_RANK_MEMBER (byID (memberDocID b u))) w' = Inr d"
        "map_of d ''_id'' = Some (BStr (memberDocID b u))"
      and fields: "\<And>k v. map_of (rev ?fs) k = Some v \<Longrightarrow> map_of d k = Some v"
      by (rule written_single [OF laws wr]) auto
    have "map_option md_GroupID (decode_member_doc d) = Some g"
      by (rule single_reads(1) [where b = b and u = u, OF d(2) fields fields fields]) (simp_all add: widths)
    then show "result (GetMember_dao (Some db) M b u) w' = Inr (Some g)"
      using d(1) by (auto simp: GetMember_dao_def up byID_def decode_one_Some) }
  { let ?fs = "[(''bizId'', BStr b), (''groupId'', BInt g), (''snapshots'', BSnaps snaps), (''settleTime'', BInt t)]"
    assume "written_then M db D Q CT_RANK_SETTLED (settledDocID b g) (SaveSettled_dao (Some db) M b g snaps t) w w'"
    then have wr: "written_then M db D Q CT_RANK_SETTLED (settledDocID b g) (push M (BuildUpsertTask CT_RANK_SETTLED (settledDocID b g) ?fs [])) w w'"
      by (simp add: SaveSettled_dao_def up)
    obtain d where d: "result (FindOne M db CT_RANK_SETTLED (byID (settledDocID b g))) w' = Inr d"
        "map_of d ''_id'' = Some (BStr (settledDocID b g))"
      and fields: "\<And>k v. map_of (rev ?fs) k = Some v \<Longrightarrow> map_of d k = Some v"
      by (rule written_single [OF laws wr]) auto
    have "map_option sl_Snapshots (decode_settled_doc d) = Some snaps"
      by (rule single_reads(2) [where b = b and g = g and t = t, OF d(2) fields fields fields fields]) (simp_all add: widths)
    then show "result (LoadGroupSettled_dao (Some db) M b g) w' = Inr snaps"
      using d(1) by (auto simp: LoadGroupSettled_dao_def up byID_def decode_one_Some) }
  { let ?fs = "[(''bizId'', BStr b), (''groupId'', BInt g), (''instanceId'', BStr (in_InstanceId inst)), (''instance'', BInst inst)]"
    assume "written_then M db D Q CT_RANK_INST (rankInstDocID b g) (SaveRankInst_dao (Some db) M b g inst) w w'"
    then have wr: "written_then M db D Q CT_RANK_INST (rankInstDocID b g) (push M (BuildUpsertTask CT_RANK_INST (rankInstDocID b g) ?fs [])) w w'"
      by (simp add: SaveRankInst_dao_def up)
    obtain d where d: "result (FindOne M db CT_RANK_INST (byID (rankInstDocID b g))) w' = Inr d"
        "map_of d ''_id'' = Some (BStr (rankInstDocID b g))"
      and fields: "\<And>k v. map_of (rev ?fs) k = Some v \<Longrightarrow> map_of d k = Some v"
      by (rule written_single [OF laws wr]) auto
    have "map_option rn_Instance (decode_inst_doc (ZeroInstance M) d) = Some inst"
      by (rule single_reads(3) [where b = b and g = g, OF d(2) fields fields fields fields]) (simp_all add: widths)
    then show "result (LoadGroupInst_dao (Some db) M b g) w' = Inr (Some inst)"
      using d(1) by (auto simp: LoadGroupInst_dao_def up byID_def decode_one_Some) }
qed

section \<open>Deleting an activity\<close>

abbreviation of_biz :: "string \<Rightarrow> bdoc \<Rightarrow> bool" where
  "of_biz b \<equiv> matches [(''bizId'', BStr b)]"

lemma DeleteMany_step:
  assumes "mongo_laws M db D Q"
  shows "filter (\<lambda>d. \<not> of_biz b d) (D (exec (DeleteMany M db c [(''bizId'', BStr b)]) w) c')
      = filter (\<lambda>d. \<not> of_biz b d) (D w c')"
    "c' \<noteq> c \<Longrightarrow> D (exec (DeleteMany M db c [(''bizId'', BStr b)]) w) c' = D w c'"
    "filter (of_biz b) (D w c') = [] \<Longrightarrow>
      filter (of_biz b) (D (exec (DeleteMany M db c [(''bizId'', BStr b)]) w) c') = []"
    "result (DeleteMany M db c [(''bizId'', BStr b)]) w = Inr n \<Longrightarrow>
      filter (of_biz b) (D (exec (DeleteMany M db c [(''bizId'', BStr b)]) w) c) = []"
proof -
  obtain p where p: "\<And>d. \<not> of_biz b d \<Longrightarrow> p d"
    "D (exec (DeleteMany M db c [(''bizId'', BStr b)]) w) = (D w)(c := filter p (D w c))"
    "\<And>n d. result (DeleteMany M db c [(''bizId'', BStr b)]) w = Inr n \<Longrightarrow> p d \<Longrightarrow> \<not> of_biz b d"
    using delete_part [OF assms, where f = "[(''bizId'', BStr b)]" and c = c and w = w] by blast
  have "filter (\<lambda>d. \<not> of_biz b d) (filter p xs) = filter (\<lambda>d. \<not> of_biz b d) xs" for xs
    using p(1) by (induction xs) auto
  then show "filter (\<lambda>d. \<not> of_biz b d) (D (exec (DeleteMany M db c [(''bizId'', BStr b)]) w) c')
      = filter (\<lambda>d. \<not> of_biz b d) (D w c')" by (simp add: p(2))
  show "c' \<noteq> c \<Longrightarrow> D (exec (DeleteMany M db c [(''bizId'', BStr b)]) w) c' = D w c'" by (simp add: p(2))
  show "filter (of_biz b) (D w c') = [] \<Longrightarrow>
      filter (of_biz b) (D (exec (DeleteMany M db c [(''bizId'', BStr b)]) w) c') = []"
    by (auto simp: p(2) filter_empty_conv)
  show "result (DeleteMany M db c [(''bizId'', BStr b)]) w = Inr n \<Longrightarrow>
      filter (of_biz b) (D (exec (DeleteMany M db c [(''bizId'', BStr b)]) w) c) = []"
    using p(3) by (auto simp: p(2) filter_empty_conv)
qed

abbreviation delete_loop :: "'w mongo \<Rightarrow> string \<Rightarrow> string \<Rightarrow> collection list \<Rightarrow> ('w, unit) state" where
  "delete_loop M db b cs \<equiv> for_each cs (\<lambda>coll. ignore (DeleteMany M db coll [(''bizId'', BStr b)]))"

lemma delete_loop_keeps:
  assumes laws: "mongo_laws M db D Q"
  shows "filter (\<lambda>d. \<not> of_biz b d) (D (exec (delete_loop M db b cs) w) c) = filter (\<lambda>d. \<not> of_biz b d) (D w c)"
    and "c \<notin> set cs \<Longrightarrow> D (exec (delete_loop M db b cs) w) c = D w c"
    and "filter (of_biz b) (D w c) = [] \<Longrightarrow> filter (of_biz b) (D (exec (delete_loop M db b cs) w) c) = []"
  by (induction cs arbitrary: w) (auto simp: DeleteMany_step [OF laws])

lemma delete_loop_deletes:
  assumes laws: "mongo_laws M db D Q" and up: "\<forall>c w. \<exists>n. result (DeleteMany M db c [(''bizId'', BStr b)]) w = Inr n"
    and "c \<in> set cs"
  shows "filter (of_biz b) (D (exec (delete_loop M db b cs) w) c) = []"
  using assms(3)
proof (induction cs arbitrary: w)
  case (Cons x cs)
  show ?case
  proof (cases "c = x")
    case True
    obtain n where "result (DeleteMany M db c [(''bizId'', BStr b)]) w = Inr n" using up by blast
    then show ?thesis using True by (simp add: delete_loop_keeps(3) [OF laws] DeleteMany_step(4) [OF laws])
  qed (use Cons in simp)
qed simp

text \<open>Claim C27: deleting an activity is exact. Whatever fails on the way, the documents of every other
  activity stay in every collection and the configurations are untouched; when the deletions
  succeed, none of the seven collections holds a document of the activity any more.\<close>

theorem DeleteAllByBizId_exact:
  assumes laws: "mongo_laws M db D Q" and w': "w' = exec (DeleteAllByBizId_dao (Some db) M b) w"
  shows "D w' CT_RANK_CONFIG = D w CT_RANK_CONFIG
    \<and> filter (\<lambda>d. \<not> of_biz b d) (D w' c) = filter (\<lambda>d. \<not> of_biz b d) (D w c)
    \<and> ((\<forall>c w. \<exists>n. result (DeleteMany M db c [(''bizId'', BStr b)]) w = Inr n) \<longrightarrow> c \<noteq> CT_RANK_CONFIG
        \<longrightarrow> filter (of_biz b) (D w' c) = [])"
proof -
  have e: "w' = exec (delete_loop M db b owned_colls) w"
    by (simp add: w' DeleteAllByBizId_dao_def dao_up [OF laws])
  have "c \<noteq> CT_RANK_CONFIG \<Longrightarrow> c \<in> set owned_colls"
    by (cases c) (simp_all add: owned_colls_def)
  moreover have "CT_RANK_CONFIG \<notin> set owned_colls" by (simp add: owned_colls_def)
  ultimately show ?thesis
    unfolding e using delete_loop_keeps [OF laws] delete_loop_deletes [OF laws] by blast
qed

lemma queue_delete_loop:
  assumes laws: "mongo_laws M db D Q"
  shows "Q (exec (delete_loop M db b cs) w) = Q w"
proof -
  have "Q (exec (DeleteMany M db c [(''bizId'', BStr b)]) w) = Q w" for c w
    using laws unfolding mongo_laws_def write_laws_def keeps_def by metis
  then show ?thesis by (induction cs arbitrary: w) auto
qed

text \<open>The deletion of an activity overtakes writes still in the queue. When a member was saved
  and the queue has not yet run, the deletion removes every document, but the member's document is
  there again as soon as the queue has caught up.\<close>

theorem queued_write_outlives_delete:
  assumes laws: "mongo_laws M db D Q"
    and saved: "length (Q (exec (SaveMember_dao (Some db) M b u g) w)) = Suc (length (Q w))"
    and w': "w' = exec (DeleteAllByBizId_dao (Some db) M b) (exec (SaveMember_dao (Some db) M b u g) w)"
  shows "\<exists>d \<in> set (eventual D Q w' CT_RANK_MEMBER). of_biz b d"
proof -
  let ?i = "memberDocID b u" and ?fs = "[(''bizId'', BStr b), (''userId'', BInt u), (''groupId'', BInt g)]"
  let ?u = "\<lparr>up_set = ?fs, up_setOnInsert = []\<rparr>"
  let ?w1 = "exec (SaveMember_dao (Some db) M b u g) w"
  have q: "Q ?w1 = Q w @ [UpsertTask CT_RANK_MEMBER ?i (byID ?i) ?u]"
    using saved by (auto simp: SaveMember_dao_def dao_up [OF laws] push_def write_parts(4) [OF laws]
        BuildUpsertTask_def byID_def split: if_splits)
  have "Q w' = Q ?w1"
    by (simp add: w' DeleteAllByBizId_dao_def dao_up [OF laws] queue_delete_loop [OF laws])
  then have e: "eventual D Q w' CT_RANK_MEMBER = upsert_docs (byID ?i) ?u (fold apply_task (Q w) (D w') CT_RANK_MEMBER)"
    by (simp add: eventual_def q)
  define x where "x = (case find (matches (byID ?i)) (fold apply_task (Q w) (D w') CT_RANK_MEMBER) of
      None \<Rightarrow> set_fields [] (set_fields ?fs (byID ?i)) | Some d \<Rightarrow> set_fields ?fs d)"
  have f: "find (matches (byID ?i)) (eventual D Q w' CT_RANK_MEMBER) = Some x"
    unfolding e x_def by (subst find_byID_upsert) (simp_all split: option.split)
  have "of_biz b x" by (simp add: x_def matches_def map_of_set_fields split: option.split)
  moreover have "x \<in> set (eventual D Q w' CT_RANK_MEMBER)" using find_Some_set [OF f] by simp
  ultimately show ?thesis by blast
qed

section \<open>Types of what is loaded\<close>

lemma those_Some_set: "those (map f xs) = Some ys \<Longrightarrow> y \<in> set ys \<Longrightarrow> \<exists>x \<in> set xs. f x = Some y"
  by (induction xs arbitrary: ys) (auto split: option.splits)

lemma decode_all_typed:
  assumes "decode_all dec r = Inr xs" "x \<in> set xs" "\<And>d y. dec d = Some y \<Longrightarrow> P y"
  shows "P x"
  using assms those_Some_set by (fastforce simp: decode_all_def split: sum.splits option.splits)

lemma bfield_int: "bfield (as_int fits) 0 k d = Some n \<Longrightarrow> fits 0 \<Longrightarrow> fits n"
  by (auto simp: bfield_def as_int_def split: option.splits bval.splits if_splits)

lemma fint_typed: "fint32 k d = Some n \<Longrightarrow> in32 n" "fint64 k d = Some n \<Longrightarrow> in64 n"
proof -
  have "in32 0" "in64 0" by (simp_all add: in32_def in64_def)
  then show "fint32 k d = Some n \<Longrightarrow> in32 n" "fint64 k d = Some n \<Longrightarrow> in64 n"
    using bfield_int by blast+
qed

definition typed_score :: "score_doc \<Rightarrow> bool" where
  "typed_score x \<longleftrightarrow> in32 (sd_GroupID x) \<and> in64 (sd_UserID x) \<and> in64 (sd_Score x) \<and> in64 (sd_EnterTime x)
     \<and> in64 (sd_UpdateTime x) \<and> in64 (sd_Sequence x)"

lemma decode_score_typed: "decode_score_doc d = Some x \<Longrightarrow> typed_score x"
  by (auto simp: decode_score_doc_def typed_score_def bind_eq_Some_conv dest: fint_typed)

lemma set_update_subset: "set (AList.update k v m) \<subseteq> insert (k, v) (set m)"
  by (induction m) auto

definition typed_member :: "int64 \<times> int32 \<Rightarrow> bool" where
  "typed_member kv \<longleftrightarrow> in64 (fst kv) \<and> in32 (snd kv)"

lemma decode_member_typed: "decode_member_doc d = Some x \<Longrightarrow> typed_member (md_UserID x, md_GroupID x)"
  by (auto simp: typed_member_def decode_member_doc_def bind_eq_Some_conv dest: fint_typed)

lemma decode_claim_typed: "decode_claim_doc d = Some x \<Longrightarrow> in64 (cd_ClaimTime x)"
  using fint_typed(2) [of "''claimTime''" d "cd_ClaimTime x"]
  by (clarsimp simp: decode_claim_doc_def bind_eq_Some_conv)

lemma members_typed:
  assumes "\<forall>x \<in> set docs. typed_member (md_UserID x, md_GroupID x)" "\<forall>kv \<in> set m. typed_member kv"
  shows "\<forall>kv \<in> set (fold (\<lambda>doc. AList.update (md_UserID doc) (md_GroupID doc)) docs m). typed_member kv"
  using assms
proof (induction docs arbitrary: m)
  case (Cons x docs)
  have "\<forall>kv \<in> set (AList.update (md_UserID x) (md_GroupID x) m). typed_member kv"
    using Cons.prems set_update_subset [of "md_UserID x" "md_GroupID x" m] by auto
  then have "\<forall>kv \<in> set (fold (\<lambda>doc. AList.update (md_UserID doc) (md_GroupID doc)) docs
      (AList.update (md_UserID x) (md_GroupID x) m)). typed_member kv"
    using Cons.prems by (intro Cons.IH) auto
  then show ?case by simp
qed simp


section \<open>Collections in memory\<close>

record doc_mem =
  dm_docs :: colls
  dm_queue :: "mongo_task list"

definition mem_driver :: "doc_mem mongo" where
  "mem_driver = \<lparr>
     FindOne = (\<lambda>db c f. view (\<lambda>w. case find (matches f) (dm_docs w c) of None \<Rightarrow> Inl ErrNoDocuments | Some d \<Rightarrow> Inr d)),
     Find = (\<lambda>db c f. view (\<lambda>w. Inr (Inr (filter (matches f) (dm_docs w c))))),
     UpsertOne = (\<lambda>db c f u. State (\<lambda>w.
       (Inr (if find (matches f) (dm_docs w c) = None then 1 else 0),
        w\<lparr>dm_docs := (dm_docs w)(c := upsert_docs f u (dm_docs w c))\<rparr>))),
     DeleteMany = (\<lambda>db c f. State (\<lambda>w. (Inr (int (length (filter (matches f) (dm_docs w c)))),
        w\<lparr>dm_docs := (dm_docs w)(c := filter (\<lambda>d. \<not> matches f d) (dm_docs w c))\<rparr>))),
     PushMongoTask = (\<lambda>t. State (\<lambda>w. (None, w\<lparr>dm_queue := dm_queue w @ [t]\<rparr>))),
     DropOne = (\<lambda>db c n. State_Monad.return None),
     CreateMany = (\<lambda>db c ix. State_Monad.return None),
     ZeroInstance = \<lparr>in_InstanceId = [], in_RankCode = [], in_BizId = [], in_State = InstanceStateInit,
       in_OpenTime = 0, in_CloseTime = 0, in_GameEndTime = 0, in_SettleTime = 0, in_CreateTime = 0,
       in_UpdateTime = 0, in_MemberCount = 0, in_Version = 0\<rparr>\<rparr>"

lemma mem_driver_laws: "mongo_laws mem_driver ''social'' dm_docs dm_queue"
proof -
  have "read_laws mem_driver ''social'' dm_docs dm_queue"
    by (auto simp: read_laws_def keeps_def mem_driver_def split: option.splits)
  moreover have "write_laws mem_driver ''social'' dm_docs dm_queue"
  proof -
    have "\<exists>p. (\<forall>d. \<not> matches f d \<longrightarrow> p d)
        \<and> dm_docs (exec (DeleteMany mem_driver ''social'' c f) w) = (dm_docs w)(c := filter p (dm_docs w c))
        \<and> (\<forall>n. result (DeleteMany mem_driver ''social'' c f) w = Inr n \<longrightarrow> (\<forall>d. p d \<longrightarrow> \<not> matches f d))" for c f w
      by (rule exI [of _ "\<lambda>d. \<not> matches f d"]) (simp add: mem_driver_def)
    then show ?thesis by (auto simp: write_laws_def keeps_def mem_driver_def)
  qed
  ultimately show ?thesis by (simp add: mongo_laws_def)
qed

definition empty_docs :: doc_mem where
  "empty_docs = \<lparr>dm_docs = (\<lambda>_. []), dm_queue = []\<rparr>"

section \<open>Witnesses\<close>

lemmas driver_simps = mem_driver_def dao_available_def upsert_docs_def matches_def map_of_set_fields empty_docs_def

theorem dao_refines_ledger_witness:
  "first_claims ''arena_7'' 42 (result (dao_history ''social'' mem_driver
      [Claim ''arena_7'' 42 100, Claim ''arena_7'' 42 200, ReadClaim ''arena_7'' 42]) empty_docs) = [100]
   \<and> claim_ledger dm_docs (exec (dao_history ''social'' mem_driver
      [Claim ''arena_7'' 42 100, Claim ''arena_7'' 42 200, ReadClaim ''arena_7'' 42]) empty_docs) (''arena_7'', 42) = Some 100"
  (is "?h = _ \<and> ?l = _")
proof -
  have "?h = [100]"
    by (simp add: dao_call_def SaveClaimIfNotExists_def GetClaim_dao_def driver_simps decode_one_def
        decode_claim_doc_def bfield_def as_int_def as_str_def in64_def first_claims_def)
  then show ?thesis
    using dao_refines_ledger [OF mem_driver_laws, of empty_docs
        "[Claim ''arena_7'' 42 100, Claim ''arena_7'' 42 200, ReadClaim ''arena_7'' 42]" "''arena_7''" 42]
    by auto
qed

theorem SaveScore_keeps_first_witness:
  "find (matches (byID (scoreDocID ''arena_7'' 1 42)))
     (eventual dm_docs dm_queue (exec (SaveScore_dao (Some ''social'') mem_driver ''arena_7'' 1 42 10 5 1 5 None) empty_docs)
        CT_RANK_SCORE) \<noteq> None"
proof -
  let ?w' = "exec (SaveScore_dao (Some ''social'') mem_driver ''arena_7'' 1 42 10 5 1 5 None) empty_docs"
  have "eventual dm_docs dm_queue ?w' CT_RANK_SCORE \<noteq> []" "eventual dm_docs dm_queue empty_docs CT_RANK_SCORE = []"
    by (simp_all add: eventual_def SaveScore_dao_def push_def BuildUpsertTask_def driver_simps)
  then have "eventual dm_docs dm_queue ?w' \<noteq> eventual dm_docs dm_queue empty_docs" by metis
  then show ?thesis
    using SaveScore_keeps_first [OF mem_driver_laws refl refl, of "''arena_7''" 1 42 10 5 1 5 None empty_docs] by auto
qed

theorem dao_roundtrip_witness:
  "result (GetMember_dao (Some ''social'') mem_driver ''arena_7'' 42)
     (empty_docs\<lparr>dm_docs := eventual dm_docs dm_queue
        (exec (SaveMember_dao (Some ''social'') mem_driver ''arena_7'' 42 3) empty_docs)\<rparr>) = Inr (Some 3)"
proof -
  let ?save = "SaveMember_dao (Some ''social'') mem_driver ''arena_7'' 42 3"
  let ?w' = "empty_docs\<lparr>dm_docs := eventual dm_docs dm_queue (exec ?save empty_docs)\<rparr>"
  have "written_then mem_driver ''social'' dm_docs dm_queue CT_RANK_MEMBER (memberDocID ''arena_7'' 42) ?save empty_docs ?w'"
    by (simp add: written_then_def SaveMember_dao_def push_def BuildUpsertTask_def eventual_def byID_def driver_simps)
  moreover have "in32 3" "in64 42" "in64 0" by (simp_all add: in32_def in64_def)
  ultimately show ?thesis
    using dao_roundtrip [OF mem_driver_laws, of 3 42 0 "''arena_7''" empty_docs ?w' "[]" "ZeroInstance mem_driver"] by blast
qed

definition two_members :: doc_mem where
  "two_members = \<lparr>dm_docs = (\<lambda>_. [])(CT_RANK_MEMBER := [[(''bizId'', BStr ''a'')], [(''bizId'', BStr ''b'')]]), dm_queue = []\<rparr>"

theorem DeleteAllByBizId_exact_witness:
  "filter (of_biz ''a'') (dm_docs (exec (DeleteAllByBizId_dao (Some ''social'') mem_driver ''a'') two_members) CT_RANK_MEMBER) = []
   \<and> filter (\<lambda>d. \<not> of_biz ''a'' d) (dm_docs (exec (DeleteAllByBizId_dao (Some ''social'') mem_driver ''a'') two_members)
        CT_RANK_MEMBER) = [[(''bizId'', BStr ''b'')]]"
proof -
  have "\<forall>c w. \<exists>n. result (DeleteMany mem_driver ''social'' c [(''bizId'', BStr ''a'')]) w = Inr n"
    by (simp add: mem_driver_def)
  then show ?thesis
    using DeleteAllByBizId_exact [OF mem_driver_laws refl, where w = two_members and b = "''a''" and c = CT_RANK_MEMBER]
    by (simp add: two_members_def matches_def)
qed

theorem queued_write_outlives_delete_witness:
  "\<exists>d \<in> set (eventual dm_docs dm_queue (exec (DeleteAllByBizId_dao (Some ''social'') mem_driver ''arena_7'')
      (exec (SaveMember_dao (Some ''social'') mem_driver ''arena_7'' 42 3) empty_docs)) CT_RANK_MEMBER).
    of_biz ''arena_7'' d"
  by (rule queued_write_outlives_delete [OF mem_driver_laws _ refl])
    (simp add: SaveMember_dao_def push_def driver_simps)

text \<open>A member stored with a group number of 33 bits is an error for the reader.\<close>

definition wide_member :: doc_mem where
  "wide_member = \<lparr>dm_docs = (\<lambda>_. [])(CT_RANK_MEMBER := [[(''_id'', BStr (memberDocID ''a'' 42)),
     (''groupId'', BInt 4294967296)], [(''_id'', BStr (memberDocID ''a'' 43)), (''groupId'', BInt 7)]]), dm_queue = []\<rparr>"


end
