(* ===== verification/ConfigLoader.thy ===== *)
theory ConfigLoader
  imports Ext
begin

text \<open>
  \<open>internal/rank/config_loader.go\<close>: the parameters of an activity that come from configuration
  files: group size and threshold (\<open>RankBase\<close>), robot tiers (\<open>RobotRank\<close>) and display entries
  (\<open>RobotName\<close>). The configuration manager (\<open>common/configmgr\<close>) is a parameter: it answers a file
  name with an error or with rows of any kind, of which the loader takes those of the type it wants.
  A file may change between two reads.
\<close>

section \<open>\<open>strings.TrimSpace\<close>\<close>

text \<open>The UTF-8 encodings of Unicode's white space; a Go string is bytes.\<close>

definition space_codes :: "string list" where
  "space_codes = map (map char_of)
     ([[9::nat], [10], [11], [12], [13], [32], [194, 133], [194, 160], [225, 154, 128], [226, 128, 168],
       [226, 128, 169], [226, 128, 175], [226, 129, 159], [227, 128, 128]]
      @ map (\<lambda>k. [226, 128, k]) [128..<139])"

lemma space_codes_nonempty: "c \<in> set space_codes \<Longrightarrow> c \<noteq> []"
  by (auto simp: space_codes_def)

function trim_codes :: "string list \<Rightarrow> string \<Rightarrow> string" where
  "trim_codes codes s =
     (case find (\<lambda>c. c \<noteq> [] \<and> HasPrefix s c) codes of
        None \<Rightarrow> s
      | Some c \<Rightarrow> trim_codes codes (drop (length c) s))"
  by pat_completeness auto

termination
proof (relation "measure (\<lambda>(codes, s). length s)")
  fix codes :: "string list" and s c :: string
  assume "find (\<lambda>c. c \<noteq> [] \<and> HasPrefix s c) codes = Some c"
  then have "c \<noteq> []" "HasPrefix s c" using find_Some_set by fastforce+
  then have "0 < length c" "0 < length s" by (auto simp: HasPrefix_def)
  then show "((codes, drop (length c) s), codes, s) \<in> measure (\<lambda>(codes, s). length s)" by simp
qed simp

declare trim_codes.simps [simp del]

definition TrimSpace :: "string \<Rightarrow> string" where
  "TrimSpace s = rev (trim_codes (map rev space_codes) (rev (trim_codes space_codes s)))"

section \<open>Rows of the files\<close>

record robot_rank_row =
  rr_Id :: int32
  rr_BizType :: string
  rr_Num :: int32
  rr_DefaultTokenRange :: string
  rr_GrowTokenRange :: string
  rr_GrowTokenCd :: int64
  rr_MaxToken :: int64
  rr_MaxDifferenceToken :: int64
  rr_LockTokenTime :: int64
  rr_OvertakeTime :: int64
  rr_OvertakeInterval :: int64

record robot_name_row =
  rw_Id :: int64
  rw_Name :: string
  rw_Avatar :: int32
  rw_Frame :: int32

record rank_base_row =
  bs_BizType :: string
  bs_Name :: string
  bs_RankPeopleNum :: int32
  bs_BalloonRankOpenToken :: int64
  bs_RankType :: int32
  bs_CycleMinutes :: int32

datatype config_row = RobotRankConfig robot_rank_row | RobotNameConfig robot_name_row
  | RankBaseConfig rank_base_row | OtherRow

type_synonym 'w config_files = "string \<Rightarrow> ('w, goerr + config_row list) state"

section \<open>The loader\<close>

definition parseRange :: "string \<Rightarrow> int64 \<times> int64" where
  "parseRange s =
     (if s = [] then (0, 0)
      else let parts = Split s CHR '','' in
        if length parts < 2 then
          (if length parts = 0 then (0, 0)
           else let (v, ok) = ParseInt (TrimSpace (parts ! 0)) 64 in if \<not> ok then (0, 0) else (v, v))
        else
          let (a, ok1) = ParseInt (TrimSpace (parts ! 0)) 64;
              (b, ok2) = ParseInt (TrimSpace (parts ! 1)) 64
          in if \<not> ok1 \<or> \<not> ok2 then (0, 0) else (a, b))"

definition tier_of_row :: "robot_rank_row \<Rightarrow> robot_tier" where
  "tier_of_row row =
     (let (defaultMin, defaultMax) = parseRange (rr_DefaultTokenRange row);
          (growMin, growMax) = parseRange (rr_GrowTokenRange row)
      in \<lparr>ti_TierID = rr_Id row, ti_Num = rr_Num row, ti_DefaultTokenMin = defaultMin,
          ti_DefaultTokenMax = defaultMax, ti_GrowTokenCdMs = i64 (rr_GrowTokenCd row * 1000),
          ti_GrowTokenMinBps = growMin, ti_GrowTokenMaxBps = growMax, ti_MaxToken = rr_MaxToken row,
          ti_MaxDifferenceToken = rr_MaxDifferenceToken row,
          ti_LockTokenTimeMs = i64 (rr_LockTokenTime row * 1000),
          ti_OvertakeTimeMs = i64 (rr_OvertakeTime row * 1000),
          ti_OvertakeIntervalMs = i64 (rr_OvertakeInterval row * 1000)\<rparr>)"

fun robot_tiers_of :: "string \<Rightarrow> config_row list \<Rightarrow> robot_tier list" where
  "robot_tiers_of bizType [] = []"
| "robot_tiers_of bizType (RobotRankConfig row # rows) =
     (if rr_BizType row \<noteq> bizType then robot_tiers_of bizType rows
      else tier_of_row row # robot_tiers_of bizType rows)"
| "robot_tiers_of bizType (_ # rows) = robot_tiers_of bizType rows"

definition LoadRobotTiers :: "'w config_files \<Rightarrow> string \<Rightarrow> ('w, robot_tier list) state" where
  "LoadRobotTiers files bizType = do {
     cf \<leftarrow> files ''RobotRank'';
     State_Monad.return (case cf of Inl e \<Rightarrow> [] | Inr rows \<Rightarrow> robot_tiers_of bizType rows)
   }"

fun robot_infos_of :: "config_row list \<Rightarrow> robot_info list" where
  "robot_infos_of [] = []"
| "robot_infos_of (RobotNameConfig row # rows) =
     \<lparr>ri_InfoID = rw_Id row, ri_Name = rw_Name row, ri_Avatar = rw_Avatar row, ri_Frame = rw_Frame row\<rparr>
     # robot_infos_of rows"
| "robot_infos_of (_ # rows) = robot_infos_of rows"

definition LoadRobotInfos :: "'w config_files \<Rightarrow> ('w, robot_info list) state" where
  "LoadRobotInfos files = do {
     cf \<leftarrow> files ''RobotName'';
     State_Monad.return (case cf of Inl e \<Rightarrow> [] | Inr rows \<Rightarrow> robot_infos_of rows)
   }"

definition LoadRobotConfig :: "'w config_files \<Rightarrow> string \<Rightarrow> ('w, robot_tier list \<times> robot_info list) state" where
  "LoadRobotConfig files bizType = do {
     tiers \<leftarrow> LoadRobotTiers files bizType;
     if length tiers = 0 then State_Monad.return ([], [])
     else do {
       infos \<leftarrow> LoadRobotInfos files;
       State_Monad.return (if length infos = 0 then ([], []) else (tiers, infos))
     }
   }"

fun rank_base_of :: "string \<Rightarrow> config_row list \<Rightarrow> rank_base_row option" where
  "rank_base_of bizType [] = None"
| "rank_base_of bizType (RankBaseConfig row # rows) =
     (if bs_BizType row = bizType then Some row else rank_base_of bizType rows)"
| "rank_base_of bizType (_ # rows) = rank_base_of bizType rows"

definition loadRankBase :: "'w config_files \<Rightarrow> string \<Rightarrow> ('w, goerr + rank_base_row) state" where
  "loadRankBase files bizType = do {
     cf \<leftarrow> files ''RankBase'';
     State_Monad.return (case cf of
         Inl e \<Rightarrow> Inl (ErrWrap ''load RankBase config'' e)
       | Inr rows \<Rightarrow> (case rank_base_of bizType rows of
            None \<Rightarrow> Inl (ErrText (''RankBase config not found for bizType='' @ bizType))
          | Some row \<Rightarrow> Inr row))
   }"

text \<open>\<open>FillConfigFromFiles\<close> writes through its pointer, which no caller leaves nil: the outcome is the
  error, with the configuration as it was, or the filled configuration.\<close>

definition FillConfigFromFiles :: "'w config_files \<Rightarrow> string \<Rightarrow> config \<Rightarrow> ('w, goerr + config) state" where
  "FillConfigFromFiles files bizType cfg = do {
     base \<leftarrow> loadRankBase files bizType;
     case base of
       Inl e \<Rightarrow> State_Monad.return (Inl e)
     | Inr b \<Rightarrow> do {
         (tiers, infos) \<leftarrow> LoadRobotConfig files bizType;
         State_Monad.return (Inr (cfg\<lparr>cf_RankPeopleNum := bs_RankPeopleNum b,
           cf_OpenToken := bs_BalloonRankOpenToken b, cf_RobotTiers := tiers, cf_RobotInfos := infos\<rparr>))
       }
   }"

definition GetRankBaseName :: "'w config_files \<Rightarrow> string \<Rightarrow> ('w, string) state" where
  "GetRankBaseName files bizType = do {
     base \<leftarrow> loadRankBase files bizType;
     State_Monad.return (case base of Inl e \<Rightarrow> [] | Inr b \<Rightarrow> bs_Name b)
   }"

definition ValidateBizType :: "'w config_files \<Rightarrow> string \<Rightarrow> ('w, goerr option) state" where
  "ValidateBizType files bizType = do {
     base \<leftarrow> loadRankBase files bizType;
     State_Monad.return (case base of Inl e \<Rightarrow> Some (ErrWrap (''unsupported biz type: '' @ bizType) e) | Inr b \<Rightarrow> None)
   }"

definition LoadRankTypeAndCycle :: "'w config_files \<Rightarrow> string \<Rightarrow> ('w, goerr + int32 \<times> int32) state" where
  "LoadRankTypeAndCycle files bizType = do {
     base \<leftarrow> loadRankBase files bizType;
     State_Monad.return (case base of Inl e \<Rightarrow> Inl e | Inr b \<Rightarrow> Inr (bs_RankType b, bs_CycleMinutes b))
   }"

section \<open>Ranges\<close>

lemma no_space_digit:
  assumes "c \<in> set space_codes" "s \<noteq> []" "\<forall>x \<in> set s. is_digit x \<or> x = CHR ''-''"
  shows "\<not> HasPrefix s c" "\<not> HasPrefix (rev s) (rev c)"
proof -
  have ends: "\<not> is_digit (hd c) \<and> hd c \<noteq> CHR ''-'' \<and> \<not> is_digit (last c) \<and> last c \<noteq> CHR ''-''"
    using assms(1) by (auto simp: space_codes_def is_digit_def) (simp_all add: char_of_def)
  have c: "c \<noteq> []" using space_codes_nonempty assms(1) .
  show "\<not> HasPrefix s c"
  proof
    assume "HasPrefix s c"
    then have "hd c \<in> set s" using c by (cases c) (auto simp: HasPrefix_iff)
    then show False using assms(3) ends by blast
  qed
  show "\<not> HasPrefix (rev s) (rev c)"
  proof
    assume "HasPrefix (rev s) (rev c)"
    then obtain r where "rev s = rev c @ r" by (auto simp: HasPrefix_iff)
    then have "s = rev r @ c" by (metis rev_append rev_rev_ident)
    then have "last c \<in> set s" using c by simp
    then show False using assms(3) ends by blast
  qed
qed

text \<open>Blanks around a number go.\<close>

definition is_blank :: "char \<Rightarrow> bool" where
  "is_blank c \<longleftrightarrow> (of_char c :: nat) \<in> {9, 10, 11, 12, 13, 32}"

lemma blank_code: "is_blank x \<Longrightarrow> [x] \<in> set space_codes"
proof -
  assume "is_blank x"
  then have "(of_char x :: nat) \<in> {9, 10, 11, 12, 13, 32}" by (simp add: is_blank_def)
  then have "char_of (of_char x :: nat) \<in> char_of ` {9, 10, 11, 12, 13, 32 :: nat}" by (rule imageI)
  then show ?thesis by (auto simp: space_codes_def)
qed

lemma only_blank_code:
  assumes "c \<in> set space_codes" "is_blank (hd c) \<or> is_blank (last c)"
  shows "length c = 1"
  using assms by (auto simp: space_codes_def is_blank_def)

lemma trim_blanks:
  assumes codes: "\<And>x. is_blank x \<Longrightarrow> [x] \<in> set codes" "\<And>c. c \<in> set codes \<Longrightarrow> c \<noteq> [] \<and> (is_blank (hd c) \<longrightarrow> length c = 1)"
    and "\<forall>x \<in> set p. is_blank x" "\<And>c. c \<in> set codes \<Longrightarrow> \<not> HasPrefix s c"
  shows "trim_codes codes (p @ s) = s"
  using assms(3)
proof (induction p)
  case Nil
  then show ?case
    by (subst trim_codes.simps) (use assms(4) in \<open>auto dest!: find_Some_set split: option.split\<close>)
next
  case (Cons x p)
  obtain c where c: "find (\<lambda>c. c \<noteq> [] \<and> HasPrefix (x # p @ s) c) codes = Some c"
    using codes(1) [of x] Cons.prems by (cases "find (\<lambda>c. c \<noteq> [] \<and> HasPrefix (x # p @ s) c) codes")
      (auto simp: find_None_iff HasPrefix_def)
  then have "c \<in> set codes" "c \<noteq> []" "HasPrefix (x # p @ s) c" using find_Some_set [OF c] by auto
  then have "length c = 1" using codes(2) [of c] Cons.prems by (auto simp: HasPrefix_iff neq_Nil_conv)
  then show ?case using c Cons by (subst trim_codes.simps) simp
qed

lemma TrimSpace_blanks:
  assumes "\<forall>x \<in> set p. is_blank x" "\<forall>x \<in> set q. is_blank x"
  shows "TrimSpace (p @ FormatInt n @ q) = FormatInt n"
proof -
  have chars: "\<forall>x \<in> set (FormatInt n). is_digit x \<or> x = CHR ''-''" using FormatInt_chars by blast
  note no = no_space_digit [OF _ FormatInt_nonempty chars]
  have pre: "\<not> HasPrefix (FormatInt n @ q) c" if c: "c \<in> set space_codes" for c
  proof
    assume "HasPrefix (FormatInt n @ q) c"
    then have "hd c \<in> set (FormatInt n)" using space_codes_nonempty [OF c] FormatInt_nonempty [of n]
      by (cases c; cases "FormatInt n") (auto simp: HasPrefix_iff)
    then have "is_digit (hd c) \<or> hd c = CHR ''-''" using chars by blast
    then show False using c by (auto simp: space_codes_def is_digit_def) (simp_all add: char_of_def)
  qed
  have l: "trim_codes space_codes (p @ (FormatInt n @ q)) = FormatInt n @ q"
    by (rule trim_blanks) (use blank_code only_blank_code space_codes_nonempty pre assms in auto)
  have "trim_codes (map rev space_codes) (rev q @ rev (FormatInt n)) = rev (FormatInt n)"
  proof (rule trim_blanks)
    show "[x] \<in> set (map rev space_codes)" if "is_blank x" for x
      using imageI [OF blank_code [OF that], of rev] by simp
    show "c \<noteq> [] \<and> (is_blank (hd c) \<longrightarrow> length c = 1)" if "c \<in> set (map rev space_codes)" for c
      using that only_blank_code space_codes_nonempty by (auto simp: hd_rev)
    show "\<not> HasPrefix (rev (FormatInt n)) c" if "c \<in> set (map rev space_codes)" for c
      using that no(2) by auto
  qed (use assms in auto)
  then show ?thesis using l by (simp add: TrimSpace_def)
qed

section \<open>Properties\<close>

lemma blank_no_comma: "\<forall>x \<in> set p. is_blank x \<Longrightarrow> CHR '','' \<notin> set p"
  by (auto simp: is_blank_def)

lemma comma_free: "CHR '','' \<notin> set (FormatInt n)"
  by (rule FormatInt_no_char) (simp_all add: is_digit_def)

text \<open>A range written as two numbers, or one, with blanks around them is read back: the pair,
  or the number twice. And whatever the text is, reading ends with a pair of 64-bit integers.\<close>

theorem parseRange_roundtrip:
  assumes "in64 a" "in64 b" and blanks: "\<forall>x \<in> set (p @ q @ r @ t). is_blank x"
  shows "parseRange ((p @ FormatInt a @ q) @ '','' @ (r @ FormatInt b @ t)) = (a, b)
    \<and> parseRange (p @ FormatInt a @ q) = (a, a)
    \<and> in64 (fst (parseRange s)) \<and> in64 (snd (parseRange s))"
proof (intro conjI)
  have ps: "\<forall>x \<in> set p. is_blank x" "\<forall>x \<in> set q. is_blank x" "\<forall>x \<in> set r. is_blank x" "\<forall>x \<in> set t. is_blank x"
    using blanks by auto
  have nc: "CHR '','' \<notin> set (p @ FormatInt a @ q)" "CHR '','' \<notin> set (r @ FormatInt b @ t)"
    using ps blank_no_comma comma_free by auto
  have two: "Split ((p @ FormatInt a @ q) @ '','' @ (r @ FormatInt b @ t)) CHR '','' = [p @ FormatInt a @ q, r @ FormatInt b @ t]"
    using Split_append [OF nc(1), of "r @ FormatInt b @ t"] Split_no_sep [OF nc(2)] by simp
  show "parseRange ((p @ FormatInt a @ q) @ '','' @ (r @ FormatInt b @ t)) = (a, b)"
    unfolding parseRange_def two using assms by (simp add: TrimSpace_blanks ps)
  show "parseRange (p @ FormatInt a @ q) = (a, a)"
    unfolding parseRange_def Split_no_sep [OF nc(1)] using assms by (simp add: TrimSpace_blanks ps)
  have z: "in64 0" by (simp add: in64_def)
  have r: "ParseInt x 64 = (v, ok) \<Longrightarrow> in64 v" for x v ok using in64_ParseInt64 [of x] by simp
  show "in64 (fst (parseRange s))" "in64 (snd (parseRange s))"
    using z by (auto simp: parseRange_def Let_def dest: r split: prod.splits)
qed

theorem parseRange_roundtrip_witness: "parseRange '' 10 , 200'' = (10, 200)"
proof -
  have "FormatInt 10 = ''10''" "FormatInt 200 = ''200''" by code_simp+
  moreover have "in64 10" "in64 200" by (simp_all add: in64_def)
  ultimately show ?thesis using parseRange_roundtrip [of 10 200 "'' ''" "'' ''" "'' ''" "[]"] by (simp add: is_blank_def)
qed

text \<open>The three files read from one state of the configuration.\<close>

definition stable_files :: "(string \<Rightarrow> goerr + config_row list) \<Rightarrow> 'w config_files" where
  "stable_files f name = State_Monad.return (f name)"

lemma stable_run: "result (stable_files f n) w = f n" "exec (stable_files f n) w = w"
  by (simp_all add: stable_files_def)

lemma robot_tiers_rows:
  "t \<in> set (robot_tiers_of bizType rows) \<longleftrightarrow>
     (\<exists>row. RobotRankConfig row \<in> set rows \<and> rr_BizType row = bizType \<and> t = tier_of_row row)"
  by (induction bizType rows rule: robot_tiers_of.induct) auto

lemma rank_base_row: "rank_base_of bizType rows = Some b \<Longrightarrow> RankBaseConfig b \<in> set rows \<and> bs_BizType b = bizType"
  by (induction bizType rows rule: rank_base_of.induct) (auto split: if_splits)

text \<open>Filling a configuration takes the group size and the threshold from the row of the business
  type and changes nothing but these and the robots; the robots come in full or not at all: the
  configuration has robots exactly when the tiers are not empty, every tier is a row of the
  business type, and without tiers there are no display entries either. If there is no row for the
  business type the result is an error, the same one \<open>ValidateBizType\<close> reports.\<close>

theorem FillConfigFromFiles_correct:
  fixes f :: "string \<Rightarrow> goerr + config_row list" and w :: 'w
  assumes r: "r = result (FillConfigFromFiles (stable_files f) bizType cfg) w"
  shows "(\<forall>c. r = Inr c \<longrightarrow>
      (\<exists>rows b. f ''RankBase'' = Inr rows \<and> RankBaseConfig b \<in> set rows \<and> bs_BizType b = bizType
         \<and> c = cfg\<lparr>cf_RankPeopleNum := bs_RankPeopleNum b, cf_OpenToken := bs_BalloonRankOpenToken b,
                    cf_RobotTiers := cf_RobotTiers c, cf_RobotInfos := cf_RobotInfos c\<rparr>)
      \<and> (hasRobots c \<longleftrightarrow> cf_RobotTiers c \<noteq> []) \<and> (cf_RobotTiers c = [] \<longleftrightarrow> cf_RobotInfos c = [])
      \<and> (\<forall>t \<in> set (cf_RobotTiers c). \<exists>rows row. f ''RobotRank'' = Inr rows \<and> RobotRankConfig row \<in> set rows
           \<and> rr_BizType row = bizType \<and> t = tier_of_row row))
    \<and> (\<forall>e. r = Inl e \<longrightarrow>
        result (ValidateBizType (stable_files f) bizType) w = Some (ErrWrap (''unsupported biz type: '' @ bizType) e))"
proof (cases "result (loadRankBase (stable_files f) bizType) w")
  case (Inl e)
  then show ?thesis by (simp add: r FillConfigFromFiles_def ValidateBizType_def)
next
  case (Inr b)
  then obtain rows where rows: "f ''RankBase'' = Inr rows" "rank_base_of bizType rows = Some b"
    by (auto simp: loadRankBase_def stable_run split: sum.splits option.splits)
  obtain tiers infos where ti: "result (LoadRobotConfig (stable_files f) bizType) w = (tiers, infos)"
    by fastforce
  have e: "exec (loadRankBase (stable_files f) bizType) w = w"
    by (simp add: loadRankBase_def stable_run)
  have both: "(tiers = [] \<longleftrightarrow> infos = [])
      \<and> (\<forall>t \<in> set tiers. \<exists>rows row. f ''RobotRank'' = Inr rows \<and> RobotRankConfig row \<in> set rows
           \<and> rr_BizType row = bizType \<and> t = tier_of_row row)"
    using ti by (auto simp: LoadRobotConfig_def LoadRobotTiers_def LoadRobotInfos_def stable_run robot_tiers_rows
        split: if_splits sum.splits)
  show ?thesis
    using Inr ti rows rank_base_row [OF rows(2)] both
    by (auto simp: r FillConfigFromFiles_def e hasRobots_def)
qed

definition sample_files :: "string \<Rightarrow> goerr + config_row list" where
  "sample_files name =
     (if name = ''RankBase'' then Inr [OtherRow, RankBaseConfig \<lparr>bs_BizType = ''arena'', bs_Name = ''Arena'',
        bs_RankPeopleNum = 50, bs_BalloonRankOpenToken = 10, bs_RankType = 2, bs_CycleMinutes = 60\<rparr>]
      else if name = ''RobotRank'' then Inr [RobotRankConfig \<lparr>rr_Id = 1, rr_BizType = ''arena'', rr_Num = 5,
        rr_DefaultTokenRange = ''1,2'', rr_GrowTokenRange = ''3'', rr_GrowTokenCd = 60, rr_MaxToken = 900,
        rr_MaxDifferenceToken = 100, rr_LockTokenTime = 0, rr_OvertakeTime = 0, rr_OvertakeInterval = 0\<rparr>]
      else Inl (ErrText ''no such file''))"

definition calm_config :: config where
  "calm_config = \<lparr>cf_BizType = ''arena'', cf_ActID = 7, cf_RankCode = ''arena_score_7'', cf_RankPeopleNum = 0,
     cf_OpenToken = 0, cf_OpenTime = 1000, cf_CloseTime = 36001000, cf_GameEndTime = 36001000, cf_CreateTime = 0,
     cf_RoundIndex = 0, cf_RobotTiers = [], cf_RobotInfos = []\<rparr>"

theorem FillConfigFromFiles_correct_witness:
  "\<exists>c. result (FillConfigFromFiles (stable_files sample_files) ''arena'' calm_config) () = Inr c
     \<and> cf_RankPeopleNum c = 50 \<and> \<not> hasRobots c"
proof -
  let ?r = "result (FillConfigFromFiles (stable_files sample_files) ''arena'' calm_config) ()"
  obtain c where c: "?r = Inr c" "cf_RankPeopleNum c = 50" "cf_RobotInfos c = []"
    by (simp add: FillConfigFromFiles_def loadRankBase_def LoadRobotConfig_def LoadRobotTiers_def LoadRobotInfos_def
        stable_run sample_files_def)
  then show ?thesis
    using FillConfigFromFiles_correct [where f = sample_files and bizType = "''arena''" and cfg = calm_config
        and w = "()" and r = ?r] by auto
qed

end
