(* ===== verification/ConfigDoc.thy ===== *)
theory ConfigDoc
  imports Ext
begin

text \<open>
  The JSON form of \<open>engine.RankConfigDoc\<close> (\<open>internal/rank/engine/dao.go\<close>, \<open>types.go\<close>,
  \<open>robot.go\<close>), the message in which a node announces a new activity. The structs have no JSON tags,
  so the keys are the names of the Go fields; a nil slice and a nil pointer are \<open>null\<close>.
\<close>

section \<open>Encoding\<close>

definition marshal_tier :: "robot_tier \<Rightarrow> json" where
  "marshal_tier t = JObj [(''TierID'', JNum (ti_TierID t)), (''Num'', JNum (ti_Num t)),
     (''DefaultTokenMin'', JNum (ti_DefaultTokenMin t)), (''DefaultTokenMax'', JNum (ti_DefaultTokenMax t)),
     (''GrowTokenCdMs'', JNum (ti_GrowTokenCdMs t)), (''GrowTokenMinBps'', JNum (ti_GrowTokenMinBps t)),
     (''GrowTokenMaxBps'', JNum (ti_GrowTokenMaxBps t)), (''MaxToken'', JNum (ti_MaxToken t)),
     (''MaxDifferenceToken'', JNum (ti_MaxDifferenceToken t)), (''LockTokenTimeMs'', JNum (ti_LockTokenTimeMs t)),
     (''OvertakeTimeMs'', JNum (ti_OvertakeTimeMs t)), (''OvertakeIntervalMs'', JNum (ti_OvertakeIntervalMs t))]"

definition marshal_info :: "robot_info \<Rightarrow> json" where
  "marshal_info i = JObj [(''InfoID'', JNum (ri_InfoID i)), (''Name'', JStr (ri_Name i)),
     (''Avatar'', JNum (ri_Avatar i)), (''Frame'', JNum (ri_Frame i))]"

text \<open>The slices of a configuration are nil when they are empty: that is how the loader leaves them.\<close>

definition marshal_slice :: "('a \<Rightarrow> json) \<Rightarrow> 'a list \<Rightarrow> json" where
  "marshal_slice f xs = (if xs = [] then JNull else JArr (map f xs))"

definition marshal_config :: "config \<Rightarrow> json" where
  "marshal_config c = JObj [(''BizType'', JStr (cf_BizType c)), (''ActID'', JNum (cf_ActID c)),
     (''RankCode'', JStr (cf_RankCode c)), (''RankPeopleNum'', JNum (cf_RankPeopleNum c)),
     (''OpenToken'', JNum (cf_OpenToken c)), (''OpenTime'', JNum (cf_OpenTime c)),
     (''CloseTime'', JNum (cf_CloseTime c)), (''GameEndTime'', JNum (cf_GameEndTime c)),
     (''CreateTime'', JNum (cf_CreateTime c)), (''RoundIndex'', JNum (cf_RoundIndex c)),
     (''RobotTiers'', marshal_slice marshal_tier (cf_RobotTiers c)),
     (''RobotInfos'', marshal_slice marshal_info (cf_RobotInfos c))]"

definition marshal_saved :: "periodic_saved \<Rightarrow> json" where
  "marshal_saved p = JObj [(''CycleMinutes'', JNum (sv_CycleMinutes p)),
     (''BaseCycleMinutes'', JNum (sv_BaseCycleMinutes p)), (''TotalOpenTime'', JNum (sv_TotalOpenTime p)),
     (''TotalCloseTime'', JNum (sv_TotalCloseTime p)), (''CurrentRound'', JNum (sv_CurrentRound p)),
     (''RoundOpenTime'', JNum (sv_RoundOpenTime p)), (''RoundCloseTime'', JNum (sv_RoundCloseTime p))]"

definition marshal_doc :: "rank_config_doc \<Rightarrow> json" where
  "marshal_doc d = JObj [(''BizKey'', JStr (do_BizKey d)), (''Config'', marshal_config (do_Config d)),
     (''Periodic'', case do_Periodic d of None \<Rightarrow> JNull | Some p \<Rightarrow> marshal_saved p)]"

section \<open>Decoding\<close>

definition dec_fields :: "((string \<times> json) list \<Rightarrow> 'a option) \<Rightarrow> json \<Rightarrow> 'a option" where
  "dec_fields f j = (case j of JObj fs \<Rightarrow> f fs | JNull \<Rightarrow> f [] | _ \<Rightarrow> None)"

fun dec_all :: "(json \<Rightarrow> 'a option) \<Rightarrow> json list \<Rightarrow> 'a list option" where
  "dec_all f [] = Some []"
| "dec_all f (j # js) = Option.bind (f j) (\<lambda>x. map_option ((#) x) (dec_all f js))"

definition dec_slice :: "(json \<Rightarrow> 'a option) \<Rightarrow> json \<Rightarrow> 'a list option" where
  "dec_slice f j = (case j of JNull \<Rightarrow> Some [] | JArr js \<Rightarrow> dec_all f js | _ \<Rightarrow> None)"

definition unmarshal_tier :: "json \<Rightarrow> robot_tier option" where
  "unmarshal_tier = dec_fields (\<lambda>fs.
     Option.bind (dec_int in32 (json_field ''TierID'' fs)) (\<lambda>tier.
     Option.bind (dec_int in32 (json_field ''Num'' fs)) (\<lambda>num.
     Option.bind (dec_int in64 (json_field ''DefaultTokenMin'' fs)) (\<lambda>dmin.
     Option.bind (dec_int in64 (json_field ''DefaultTokenMax'' fs)) (\<lambda>dmax.
     Option.bind (dec_int in64 (json_field ''GrowTokenCdMs'' fs)) (\<lambda>cd.
     Option.bind (dec_int in64 (json_field ''GrowTokenMinBps'' fs)) (\<lambda>gmin.
     Option.bind (dec_int in64 (json_field ''GrowTokenMaxBps'' fs)) (\<lambda>gmax.
     Option.bind (dec_int in64 (json_field ''MaxToken'' fs)) (\<lambda>mx.
     Option.bind (dec_int in64 (json_field ''MaxDifferenceToken'' fs)) (\<lambda>diff.
     Option.bind (dec_int in64 (json_field ''LockTokenTimeMs'' fs)) (\<lambda>lock.
     Option.bind (dec_int in64 (json_field ''OvertakeTimeMs'' fs)) (\<lambda>ot.
     Option.bind (dec_int in64 (json_field ''OvertakeIntervalMs'' fs)) (\<lambda>oi.
       Some \<lparr>ti_TierID = tier, ti_Num = num, ti_DefaultTokenMin = dmin, ti_DefaultTokenMax = dmax,
             ti_GrowTokenCdMs = cd, ti_GrowTokenMinBps = gmin, ti_GrowTokenMaxBps = gmax, ti_MaxToken = mx,
             ti_MaxDifferenceToken = diff, ti_LockTokenTimeMs = lock, ti_OvertakeTimeMs = ot,
             ti_OvertakeIntervalMs = oi\<rparr>)))))))))))))"

definition unmarshal_info :: "json \<Rightarrow> robot_info option" where
  "unmarshal_info = dec_fields (\<lambda>fs.
     Option.bind (dec_int in64 (json_field ''InfoID'' fs)) (\<lambda>iid.
     Option.bind (dec_str (json_field ''Name'' fs)) (\<lambda>nm.
     Option.bind (dec_int in32 (json_field ''Avatar'' fs)) (\<lambda>av.
     Option.bind (dec_int in32 (json_field ''Frame'' fs)) (\<lambda>fr.
       Some \<lparr>ri_InfoID = iid, ri_Name = nm, ri_Avatar = av, ri_Frame = fr\<rparr>)))))"

definition unmarshal_config :: "json \<Rightarrow> config option" where
  "unmarshal_config = dec_fields (\<lambda>fs.
     Option.bind (dec_str (json_field ''BizType'' fs)) (\<lambda>biz.
     Option.bind (dec_int in32 (json_field ''ActID'' fs)) (\<lambda>act.
     Option.bind (dec_str (json_field ''RankCode'' fs)) (\<lambda>code.
     Option.bind (dec_int in32 (json_field ''RankPeopleNum'' fs)) (\<lambda>num.
     Option.bind (dec_int in64 (json_field ''OpenToken'' fs)) (\<lambda>tok.
     Option.bind (dec_int in64 (json_field ''OpenTime'' fs)) (\<lambda>opn.
     Option.bind (dec_int in64 (json_field ''CloseTime'' fs)) (\<lambda>cls.
     Option.bind (dec_int in64 (json_field ''GameEndTime'' fs)) (\<lambda>ge.
     Option.bind (dec_int in64 (json_field ''CreateTime'' fs)) (\<lambda>ct.
     Option.bind (dec_int in32 (json_field ''RoundIndex'' fs)) (\<lambda>rnd.
     Option.bind (dec_slice unmarshal_tier (json_field ''RobotTiers'' fs)) (\<lambda>tiers.
     Option.bind (dec_slice unmarshal_info (json_field ''RobotInfos'' fs)) (\<lambda>infos.
       Some \<lparr>cf_BizType = biz, cf_ActID = act, cf_RankCode = code, cf_RankPeopleNum = num,
             cf_OpenToken = tok, cf_OpenTime = opn, cf_CloseTime = cls, cf_GameEndTime = ge,
             cf_CreateTime = ct, cf_RoundIndex = rnd, cf_RobotTiers = tiers, cf_RobotInfos = infos\<rparr>)))))))))))))"

definition unmarshal_saved :: "(string \<times> json) list \<Rightarrow> periodic_saved option" where
  "unmarshal_saved fs =
     Option.bind (dec_int in32 (json_field ''CycleMinutes'' fs)) (\<lambda>cyc.
     Option.bind (dec_int in32 (json_field ''BaseCycleMinutes'' fs)) (\<lambda>base.
     Option.bind (dec_int in64 (json_field ''TotalOpenTime'' fs)) (\<lambda>topen.
     Option.bind (dec_int in64 (json_field ''TotalCloseTime'' fs)) (\<lambda>tclose.
     Option.bind (dec_int in32 (json_field ''CurrentRound'' fs)) (\<lambda>cur.
     Option.bind (dec_int in64 (json_field ''RoundOpenTime'' fs)) (\<lambda>ropen.
     Option.bind (dec_int in64 (json_field ''RoundCloseTime'' fs)) (\<lambda>rclose.
       Some \<lparr>sv_CycleMinutes = cyc, sv_BaseCycleMinutes = base, sv_TotalOpenTime = topen,
             sv_TotalCloseTime = tclose, sv_CurrentRound = cur, sv_RoundOpenTime = ropen,
             sv_RoundCloseTime = rclose\<rparr>)))))))"

text \<open>\<open>json.Unmarshal\<close> into a pointer: \<open>null\<close> leaves it nil.\<close>

definition dec_saved :: "json \<Rightarrow> periodic_saved option option" where
  "dec_saved j = (case j of JNull \<Rightarrow> Some None | JObj fs \<Rightarrow> map_option Some (unmarshal_saved fs) | _ \<Rightarrow> None)"

definition unmarshal_doc :: "rval \<Rightarrow> rank_config_doc option" where
  "unmarshal_doc v = (case v of
     Txt s \<Rightarrow> None
   | JTxt j \<Rightarrow> dec_fields (\<lambda>fs.
       Option.bind (dec_str (json_field ''BizKey'' fs)) (\<lambda>key.
       Option.bind (unmarshal_config (json_field ''Config'' fs)) (\<lambda>cfg.
       Option.bind (dec_saved (json_field ''Periodic'' fs)) (\<lambda>ps.
         Some \<lparr>do_BizKey = key, do_Config = cfg, do_Periodic = ps\<rparr>)))) j)"

section \<open>Round trip\<close>

definition fits_tier :: "robot_tier \<Rightarrow> bool" where
  "fits_tier t \<longleftrightarrow> in32 (ti_TierID t) \<and> in32 (ti_Num t) \<and> in64 (ti_DefaultTokenMin t) \<and> in64 (ti_DefaultTokenMax t)
     \<and> in64 (ti_GrowTokenCdMs t) \<and> in64 (ti_GrowTokenMinBps t) \<and> in64 (ti_GrowTokenMaxBps t)
     \<and> in64 (ti_MaxToken t) \<and> in64 (ti_MaxDifferenceToken t) \<and> in64 (ti_LockTokenTimeMs t)
     \<and> in64 (ti_OvertakeTimeMs t) \<and> in64 (ti_OvertakeIntervalMs t)"

definition fits_info :: "robot_info \<Rightarrow> bool" where
  "fits_info i \<longleftrightarrow> in64 (ri_InfoID i) \<and> in32 (ri_Avatar i) \<and> in32 (ri_Frame i)"

definition fits_config :: "config \<Rightarrow> bool" where
  "fits_config c \<longleftrightarrow> in32 (cf_ActID c) \<and> in32 (cf_RankPeopleNum c) \<and> in64 (cf_OpenToken c) \<and> in64 (cf_OpenTime c)
     \<and> in64 (cf_CloseTime c) \<and> in64 (cf_GameEndTime c) \<and> in64 (cf_CreateTime c) \<and> in32 (cf_RoundIndex c)
     \<and> list_all fits_tier (cf_RobotTiers c) \<and> list_all fits_info (cf_RobotInfos c)"

definition fits_saved :: "periodic_saved \<Rightarrow> bool" where
  "fits_saved p \<longleftrightarrow> in32 (sv_CycleMinutes p) \<and> in32 (sv_BaseCycleMinutes p) \<and> in64 (sv_TotalOpenTime p)
     \<and> in64 (sv_TotalCloseTime p) \<and> in32 (sv_CurrentRound p) \<and> in64 (sv_RoundOpenTime p) \<and> in64 (sv_RoundCloseTime p)"

definition fits_doc :: "rank_config_doc \<Rightarrow> bool" where
  "fits_doc d \<longleftrightarrow> fits_config (do_Config d) \<and> (\<forall>p. do_Periodic d = Some p \<longrightarrow> fits_saved p)"

lemmas dec_defs = dec_fields_def dec_int_def dec_str_def lower_char_def Let_def

lemma tier_roundtrip [simp]: "fits_tier t \<Longrightarrow> unmarshal_tier (marshal_tier t) = Some t"
  by (simp add: unmarshal_tier_def marshal_tier_def fits_tier_def dec_defs)

lemma info_roundtrip [simp]: "fits_info i \<Longrightarrow> unmarshal_info (marshal_info i) = Some i"
  by (simp add: unmarshal_info_def marshal_info_def fits_info_def dec_defs)

lemma slice_roundtrip [simp]:
  assumes "\<And>x. x \<in> set xs \<Longrightarrow> g (f x) = Some x"
  shows "dec_slice g (marshal_slice f xs) = Some xs"
proof -
  have "dec_all g (map f xs) = Some xs" using assms by (induction xs) auto
  then show ?thesis by (simp add: dec_slice_def marshal_slice_def)
qed

lemma marshal_slice_null [simp]: "marshal_slice f xs = JNull \<longleftrightarrow> xs = []"
  by (simp add: marshal_slice_def)

lemma config_roundtrip [simp]:
  assumes "fits_config c"
  shows "unmarshal_config (marshal_config c) = Some c"
proof -
  have sl: "dec_slice unmarshal_tier (marshal_slice marshal_tier (cf_RobotTiers c)) = Some (cf_RobotTiers c)"
    "dec_slice unmarshal_info (marshal_slice marshal_info (cf_RobotInfos c)) = Some (cf_RobotInfos c)"
    using assms by (auto simp: fits_config_def list_all_iff intro!: slice_roundtrip)
  have null: "(case x of JNull \<Rightarrow> JNull | w \<Rightarrow> w) = x" for x by (cases x) auto
  show ?thesis
    using assms sl
    by (cases c) (simp add: unmarshal_config_def marshal_config_def fits_config_def dec_defs null)
qed

lemma saved_roundtrip: "fits_saved p \<Longrightarrow> dec_saved (marshal_saved p) = Some (Some p)"
  by (simp add: dec_saved_def unmarshal_saved_def marshal_saved_def fits_saved_def dec_defs)

lemma marshal_shapes:
  "\<exists>fs. marshal_config c = JObj fs" "\<exists>fs. marshal_saved p = JObj fs"
  by (simp_all add: marshal_config_def marshal_saved_def)


definition sample_doc :: rank_config_doc where
  "sample_doc = \<lparr>do_BizKey = ''arena:7'', do_Config = \<lparr>cf_BizType = ''arena'', cf_ActID = 7,
       cf_RankCode = ''arena_score_7'', cf_RankPeopleNum = 50, cf_OpenToken = 10, cf_OpenTime = 1000,
       cf_CloseTime = 36001000, cf_GameEndTime = 36001000, cf_CreateTime = 0, cf_RoundIndex = 0,
       cf_RobotTiers = [], cf_RobotInfos = [\<lparr>ri_InfoID = 1, ri_Name = ''Ann'', ri_Avatar = 2, ri_Frame = 3\<rparr>]\<rparr>,
     do_Periodic = Some \<lparr>sv_CycleMinutes = 60, sv_BaseCycleMinutes = 60, sv_TotalOpenTime = 1000,
       sv_TotalCloseTime = 36001000, sv_CurrentRound = 2, sv_RoundOpenTime = 3601000, sv_RoundCloseTime = 7201000\<rparr>\<rparr>"


end
