(* ===== verification/Node.thy ===== *)
theory Node
  imports Service RoundState Dao ConfigLoader
begin

text \<open>
  The memory of one server node, shared by the manager (\<open>internal/rank/manager.go\<close>) and the periodic
  handler (\<open>internal/rank/periodic/handler.go\<close>), what they are given at start-up, and the interface
  \<open>ServiceRegistrar\<close> between them.

  Services are pointers in the code: the manager's maps, a handler that advances a round, a timer and
  a warm-up task may hold the same one. Here every service a node has created is an element of
  \<open>nd_heap\<close>, and a pointer is its index. A method runs over the pair of the node and the world.
\<close>

section \<open>The rest of the outside world\<close>

text \<open>Redis commands only the manager and the handler use, \<open>RegisterRank\<close> of the ranking library, the
  goroutine pool (an error means that it took no task), and names of \<open>common/redis\<close>.\<close>

record 'w platform =
  RSet :: "string \<Rightarrow> rval \<Rightarrow> ('w, goerr option) state"
  Publish :: "string \<Rightarrow> rval \<Rightarrow> ('w, goerr option) state"
  ScanAll :: "string \<Rightarrow> int \<Rightarrow> ('w, goerr + string list) state"
  RegisterRank :: "rank_def \<Rightarrow> ('w, goerr option) state"
  Submit :: "('w, goerr option) state"
  RankCreateChannel :: string
  RankDeleteChannel :: string
  RankMetaKeyPrefix :: string
  RankMemberIndexKey :: "int64 \<Rightarrow> string"

text \<open>The manager refuses to start without a Redis client, so there always is one.\<close>

record 'w deps =
  dp_env :: "'w env"
  dp_rdb :: "'w redis"
  dp_dao :: dao
  dp_mongo :: "'w mongo"
  dp_rank :: "'w rank_service"
  dp_plat :: "'w platform"
  dp_files :: "'w config_files"

text \<open>\<open>NewStore(rdb, dao, bizId, nil)\<close>.\<close>

definition store_of :: "'w deps \<Rightarrow> string \<Rightarrow> 'w store" where
  "store_of D bizId = \<lparr>st_rdb = Some (dp_rdb D), st_dao = Some (dao_store (dp_dao D) (dp_mongo D)),
     st_bizId = bizId, st_activityEnd = None\<rparr>"

section \<open>The node\<close>

record cleanup_timer =
  tm_id :: nat
  tm_delay :: int64
  tm_svc :: nat

record 'w node =
  nd_heap :: "'w service list"
  nd_services :: "(string \<times> nat) list"
  nd_engines :: "(string \<times> nat) list"
  nd_states :: "(string \<times> periodic_state) list"
  nd_timers :: "cleanup_timer list"
  nd_nextTimer :: nat
  nd_warmups :: "nat list"
  nd_bootstrapped :: bool

definition empty_node :: "'w node" where
  "empty_node = \<lparr>nd_heap = [], nd_services = [], nd_engines = [], nd_states = [], nd_timers = [],
     nd_nextTimer = 0, nd_warmups = [], nd_bootstrapped = False\<rparr>"

type_synonym ('w, 'a) nd = "('w node \<times> 'w, 'a) state"

definition nget :: "('w node \<Rightarrow> 'a) \<Rightarrow> ('w, 'a) nd" where
  "nget f = State (\<lambda>(n, w). (f n, (n, w)))"

definition nmod :: "('w node \<Rightarrow> 'w node) \<Rightarrow> ('w, unit) nd" where
  "nmod f = State (\<lambda>(n, w). ((), (f n, w)))"

lemma exec_nget [simp]: "exec (nget f) nw = nw" and result_nget [simp]: "result (nget f) nw = f (fst nw)"
  by (simp_all add: nget_def split: prod.splits)

lemma exec_nmod [simp]: "exec (nmod f) nw = (f (fst nw), snd nw)" and result_nmod [simp]: "result (nmod f) nw = ()"
  by (simp_all add: nmod_def split: prod.splits)

text \<open>Calling a method of the service at an address.\<close>

definition on_svc :: "nat \<Rightarrow> ('w, 'a) svc \<Rightarrow> ('w, 'a) nd" where
  "on_svc a m = State (\<lambda>(n, w). let sw = (nd_heap n ! a, w) in
     (result m sw, (n\<lparr>nd_heap := (nd_heap n)[a := fst (exec m sw)]\<rparr>, snd (exec m sw))))"

lemma result_on_svc [simp]: "result (on_svc a m) nw = result m (nd_heap (fst nw) ! a, snd nw)"
  by (simp add: on_svc_def Let_def split: prod.splits)

lemma exec_on_svc: "exec (on_svc a m) nw =
    ((fst nw)\<lparr>nd_heap := (nd_heap (fst nw))[a := fst (exec m (nd_heap (fst nw) ! a, snd nw))]\<rparr>,
     snd (exec m (nd_heap (fst nw) ! a, snd nw)))"
  by (simp add: on_svc_def Let_def split: prod.splits)

lemma on_svc_frame [simp]:
  "nd_services (fst (exec (on_svc a m) nw)) = nd_services (fst nw)"
  "nd_engines (fst (exec (on_svc a m) nw)) = nd_engines (fst nw)"
  "nd_states (fst (exec (on_svc a m) nw)) = nd_states (fst nw)"
  "nd_timers (fst (exec (on_svc a m) nw)) = nd_timers (fst nw)"
  "nd_nextTimer (fst (exec (on_svc a m) nw)) = nd_nextTimer (fst nw)"
  "nd_warmups (fst (exec (on_svc a m) nw)) = nd_warmups (fst nw)"
  "nd_bootstrapped (fst (exec (on_svc a m) nw)) = nd_bootstrapped (fst nw)"
  "length (nd_heap (fst (exec (on_svc a m) nw))) = length (nd_heap (fst nw))"
  by (simp_all add: exec_on_svc)

text \<open>Allocating a service.\<close>

definition alloc :: "'w service \<Rightarrow> ('w, nat) nd" where
  "alloc s = State (\<lambda>(n, w). (length (nd_heap n), (n\<lparr>nd_heap := nd_heap n @ [s]\<rparr>, w)))"

lemma exec_alloc [simp]: "exec (alloc s) nw = ((fst nw)\<lparr>nd_heap := nd_heap (fst nw) @ [s]\<rparr>, snd nw)"
  and result_alloc [simp]: "result (alloc s) nw = length (nd_heap (fst nw))"
  by (simp_all add: alloc_def split: prod.splits)

section \<open>\<open>ServiceRegistrar\<close>\<close>

record 'w registrar =
  RegisterRoundService :: "string \<Rightarrow> string \<Rightarrow> config \<Rightarrow> ('w, goerr + nat) nd"
  ReplaceRoundService :: "string \<Rightarrow> string \<Rightarrow> config \<Rightarrow> ('w, goerr + nat) nd"
  GetEngineServiceByKey :: "string \<Rightarrow> ('w, nat option) nd"

end
