(* ===== verification/PeriodicHandler.thy ===== *)
theory PeriodicHandler
  imports Node
begin

text \<open>
  \<open>internal/rank/periodic/handler.go\<close>: registering a periodic activity, advancing its rounds, the
  queries on past rounds, and what the handler keeps in Redis. The registrar is the interface the
  manager implements; the handler only sees the record.

  A \<open>PeriodicState\<close> is reached through its key in \<open>h.states\<close>: the loop over the states takes the keys
  and reads each state when its turn comes. Tasks given to the pool and timers wait in the node until
  \<open>runWarmUp\<close> and \<open>fireTimer\<close> take them.
\<close>

record 'w handler =
  hd_deps :: "'w deps"
  hd_registry :: "'w registrar"
  hd_cycleProvider :: "(string \<Rightarrow> ('w, int32 \<times> bool) state) option"

definition NewHandler :: "'w deps \<Rightarrow> 'w registrar \<Rightarrow> 'w handler" where
  "NewHandler D reg = \<lparr>hd_deps = D, hd_registry = reg, hd_cycleProvider = None\<rparr>"

definition SetCycleProvider :: "(string \<Rightarrow> ('w, int32 \<times> bool) state) \<Rightarrow> 'w handler \<Rightarrow> 'w handler" where
  "SetCycleProvider fn H = H\<lparr>hd_cycleProvider := Some fn\<rparr>"

abbreviation hd_env :: "'w handler \<Rightarrow> 'w env" where "hd_env H \<equiv> dp_env (hd_deps H)"
abbreviation hd_rdb :: "'w handler \<Rightarrow> 'w redis" where "hd_rdb H \<equiv> dp_rdb (hd_deps H)"
abbreviation hd_dao :: "'w handler \<Rightarrow> dao" where "hd_dao H \<equiv> dp_dao (hd_deps H)"
abbreviation hd_mongo :: "'w handler \<Rightarrow> 'w mongo" where "hd_mongo H \<equiv> dp_mongo (hd_deps H)"
abbreviation hd_plat :: "'w handler \<Rightarrow> 'w platform" where "hd_plat H \<equiv> dp_plat (hd_deps H)"

definition now_milli :: "'w env \<Rightarrow> ('w, int64) nd" where
  "now_milli E = do { t \<leftarrow> lift_ext (Now (en_lib E)); State_Monad.return (UnixMilli t) }"

section \<open>States and timers\<close>

definition GetState :: "string \<Rightarrow> ('w, periodic_state option) nd" where
  "GetState logicalKey = nget (\<lambda>n. map_of (nd_states n) logicalKey)"

definition SetState :: "string \<Rightarrow> periodic_state \<Rightarrow> ('w, unit) nd" where
  "SetState logicalKey s = nmod (\<lambda>n. n\<lparr>nd_states := AList.update logicalKey s (nd_states n)\<rparr>)"

text \<open>A write through the pointer: nothing happens to the map when the key is gone.\<close>

definition modState :: "string \<Rightarrow> (periodic_state \<Rightarrow> periodic_state) \<Rightarrow> ('w, unit) nd" where
  "modState k f = nmod (\<lambda>n. n\<lparr>nd_states := AList.map_entry k f (nd_states n)\<rparr>)"

definition curRoundRedisKey :: "string \<Rightarrow> string" where
  "curRoundRedisKey logicalKey = ''rank:periodic_cur_round:{'' @ logicalKey @ ''}''"

definition periodicMetaRedisKey :: "string \<Rightarrow> string" where
  "periodicMetaRedisKey logicalKey = ''rank:periodic_meta:{'' @ logicalKey @ ''}''"

definition RemoveState :: "'w handler \<Rightarrow> string \<Rightarrow> ('w, unit) nd" where
  "RemoveState H logicalKey = do {
     _ \<leftarrow> nmod (\<lambda>n. n\<lparr>nd_states := AList.delete logicalKey (nd_states n)\<rparr>);
     _ \<leftarrow> lift_ext (ignore (Del (hd_rdb H) (curRoundRedisKey logicalKey)));
     lift_ext (ignore (Del (hd_rdb H) (periodicMetaRedisKey logicalKey)))
   }"

definition Clear :: "('w, unit) nd" where
  "Clear = nmod (\<lambda>n. n\<lparr>nd_states := [], nd_timers := []\<rparr>)"

definition afterFunc :: "int64 \<Rightarrow> nat \<Rightarrow> ('w, unit) nd" where
  "afterFunc delay a = nmod (\<lambda>n. n\<lparr>
     nd_timers := nd_timers n @ [\<lparr>tm_id = nd_nextTimer n, tm_delay = delay, tm_svc = a\<rparr>],
     nd_nextTimer := Suc (nd_nextTimer n)\<rparr>)"

fun remove_timer :: "nat \<Rightarrow> cleanup_timer list \<Rightarrow> cleanup_timer list" where
  "remove_timer i [] = []"
| "remove_timer i (t # ts) = (if tm_id t = i then ts else t # remove_timer i ts)"

definition untrackTimer :: "nat \<Rightarrow> ('w, unit) nd" where
  "untrackTimer i = nmod (\<lambda>n. n\<lparr>nd_timers := remove_timer i (nd_timers n)\<rparr>)"

text \<open>The function a timer runs when it expires.\<close>

definition fireTimer :: "'w handler \<Rightarrow> cleanup_timer \<Rightarrow> ('w, unit) nd" where
  "fireTimer H t = do {
     _ \<leftarrow> untrackTimer (tm_id t);
     on_svc (tm_svc t) (CleanupLiveDataOf (hd_env H))
   }"

section \<open>What the handler keeps in Redis\<close>

definition cycleDurationMs :: "int32 \<Rightarrow> int64" where
  "cycleDurationMs minutes = i64 (i64 (minutes * 60) * 1000)"

definition setCurRoundInRedis :: "'w handler \<Rightarrow> string \<Rightarrow> int32 \<Rightarrow> ('w, unit) nd" where
  "setCurRoundInRedis H logicalKey round =
     lift_ext (ignore (RSet (hd_plat H) (curRoundRedisKey logicalKey) (Txt (FormatInt round))))"

definition parse_round :: "goerr + rval \<Rightarrow> int32" where
  "parse_round r = (case r of
     Inl e \<Rightarrow> 0
   | Inr val \<Rightarrow> if val = Txt [] then 0
               else let (n, ok) = rv_ParseInt val 32 in if \<not> ok then 0 else i32 n)"

definition readCurRoundFromRedis :: "'w handler \<Rightarrow> string \<Rightarrow> ('w, int32) nd" where
  "readCurRoundFromRedis H logicalKey = do {
     r \<leftarrow> lift_ext (RGet (hd_rdb H) (curRoundRedisKey logicalKey));
     State_Monad.return (parse_round r)
   }"

record periodic_meta =
  pm_TotalOpenTime :: int64
  pm_TotalCloseTime :: int64
  pm_CycleMinutes :: int32
  pm_BaseCycleMinutes :: int32
  pm_RoundOpenTime :: int64
  pm_RoundCloseTime :: int64

definition meta_text :: "periodic_state \<Rightarrow> string" where
  "meta_text st = FormatInt (ps_TotalOpenTime st) @ '','' @ FormatInt (ps_TotalCloseTime st) @ '',''
     @ FormatInt (ps_CycleMinutes st) @ '','' @ FormatInt (ps_BaseCycleMinutes st) @ '',''
     @ FormatInt (ps_RoundOpenTime st) @ '','' @ FormatInt (ps_RoundCloseTime st)"

definition setPeriodicMetaInRedis :: "'w handler \<Rightarrow> string \<Rightarrow> periodic_state \<Rightarrow> ('w, unit) nd" where
  "setPeriodicMetaInRedis H logicalKey st =
     lift_ext (ignore (RSet (hd_plat H) (periodicMetaRedisKey logicalKey) (Txt (meta_text st))))"

text \<open>A field that does not parse keeps the zero value in the later formats. The text of a JSON
  document never has three leading numbers.\<close>

definition parsed_or_zero :: "string list \<Rightarrow> nat \<Rightarrow> nat \<Rightarrow> nat \<Rightarrow> int" where
  "parsed_or_zero parts least i bits =
     (if least \<le> length parts
      then (let (n, ok) = ParseInt (parts ! i) bits in if ok then n else 0) else 0)"

definition parse_meta :: "rval \<Rightarrow> periodic_meta option" where
  "parse_meta val = (case val of
     JTxt j \<Rightarrow> None
   | Txt s \<Rightarrow>
       let parts = Split s CHR '','' in
       if s = [] then None
       else if length parts \<noteq> 3 \<and> length parts \<noteq> 4 \<and> length parts \<noteq> 6 then None
       else
         let (totalOpen, ok1) = ParseInt (parts ! 0) 64;
             (totalClose, ok2) = ParseInt (parts ! 1) 64;
             (cycleMin, ok3) = ParseInt (parts ! 2) 32
         in if \<not> ok1 \<or> \<not> ok2 \<or> \<not> ok3 then None
            else
              let base = parsed_or_zero parts 4 3 32
              in Some \<lparr>pm_TotalOpenTime = totalOpen, pm_TotalCloseTime = totalClose,
                       pm_CycleMinutes = cycleMin,
                       pm_BaseCycleMinutes = (if base = 0 then cycleMin else base),
                       pm_RoundOpenTime = parsed_or_zero parts 6 4 64,
                       pm_RoundCloseTime = parsed_or_zero parts 6 5 64\<rparr>)"

definition GetPeriodicMetaFromRedis :: "'w handler \<Rightarrow> string \<Rightarrow> ('w, periodic_meta option) nd" where
  "GetPeriodicMetaFromRedis H logicalKey = do {
     r \<leftarrow> lift_ext (RGet (hd_rdb H) (periodicMetaRedisKey logicalKey));
     State_Monad.return (case r of Inl e \<Rightarrow> None | Inr val \<Rightarrow> parse_meta val)
   }"

section \<open>Registration\<close>

definition registerLock :: "string \<Rightarrow> string" where
  "registerLock logicalKey = ''rank:periodic_register:{'' @ logicalKey @ ''}''"

definition advanceLock :: "string \<Rightarrow> int32 \<Rightarrow> string" where
  "advanceLock logicalKey currentRound =
     ''rank:periodic_advance:{'' @ logicalKey @ ''}:r'' @ FormatInt currentRound"

text \<open>A lock that cannot be asked for counts as taken by another node.\<close>

definition tryLock :: "'w handler \<Rightarrow> string \<Rightarrow> int64 \<Rightarrow> ('w, bool) nd" where
  "tryLock H key ttl = do {
     r \<leftarrow> lift_ext (SetNX (hd_rdb H) key (Txt ''1'') ttl);
     State_Monad.return (case r of Inl e \<Rightarrow> False | Inr locked \<Rightarrow> locked)
   }"

definition round_config :: "config \<Rightarrow> int64 \<Rightarrow> int64 \<Rightarrow> int32 \<Rightarrow> config" where
  "round_config cfg opn cls round = cfg\<lparr>cf_OpenTime := opn, cf_CloseTime := cls, cf_GameEndTime := cls,
     cf_RoundIndex := round\<rparr>"

definition RegisterPeriodic ::
  "'w handler \<Rightarrow> string \<Rightarrow> string \<Rightarrow> config \<Rightarrow> int32 \<Rightarrow> ('w, goerr option) nd" where
  "RegisterPeriodic H bizType logicalKey cfg cycleMinutes =
     (if cycleMinutes \<le> 0 then State_Monad.return (Some (ErrText ''register periodic: cycleMinutes must be > 0''))
      else do {
        known \<leftarrow> GetState logicalKey;
        if known \<noteq> None then State_Monad.return None
        else do {
          locked \<leftarrow> tryLock H (registerLock logicalKey) (30 * second_ns);
          if \<not> locked then State_Monad.return None
          else do {
            now \<leftarrow> now_milli (hd_env H);
            case NewPeriodicState now bizType (cf_ActID cfg) cycleMinutes (cf_OpenTime cfg) (cf_CloseTime cfg) of
              Inl err \<Rightarrow> State_Monad.return (Some (ErrWrap ''register periodic'' err))
            | Inr st \<Rightarrow> do {
                r \<leftarrow> RegisterRoundService (hd_registry H) bizType logicalKey
                       (round_config cfg (ps_RoundOpenTime st) (ps_RoundCloseTime st) (ps_currentRound st));
                case r of
                  Inl err \<Rightarrow> State_Monad.return (Some (ErrWrap ''register periodic round'' err))
                | Inr _ \<Rightarrow> do {
                    known2 \<leftarrow> GetState logicalKey;
                    if known2 \<noteq> None then State_Monad.return None
                    else do {
                      _ \<leftarrow> SetState logicalKey st;
                      _ \<leftarrow> setCurRoundInRedis H logicalKey (ps_currentRound st);
                      _ \<leftarrow> setPeriodicMetaInRedis H logicalKey st;
                      _ \<leftarrow> (if hd_dao H \<noteq> None
                           then lift_ext (ignore (SaveRankConfigWithPeriodic (hd_dao H) (hd_mongo H) logicalKey
                                  (cfg\<lparr>cf_RoundIndex := 0\<rparr>) (ToSavedState st)))
                           else skip);
                      State_Monad.return None
                    }
                  }
              }
          }
        }
      })"

section \<open>Advancing rounds\<close>

definition score_code :: "string \<Rightarrow> int32 \<Rightarrow> string" where
  "score_code bizType actID = bizType @ ''_score_'' @ FormatInt actID"

definition setSettledTTLForRound :: "'w handler \<Rightarrow> nat \<Rightarrow> periodic_state \<Rightarrow> int32 \<Rightarrow> ('w, unit) nd" where
  "setSettledTTLForRound H a st round = do {
     groups \<leftarrow> on_svc a (ListGroups (hd_env H));
     for_each groups (\<lambda>g.
       lift_ext (ignore (Expire (hd_rdb H)
         (GetRankSettledKey (en_keys (hd_env H))
           (NewInstanceID (en_lib (hd_env H)) (score_code (ps_BizType st) (ps_ActID st)) (roundBizId st round)
              (''group_'' @ FormatInt (gr_GroupID g))))
         (SettledCacheTTL (en_lib (hd_env H))))))
   }"

text \<open>The settlement of the current round: whether it is settled afterwards.\<close>

definition settleRound :: "'w handler \<Rightarrow> nat \<Rightarrow> ('w, bool) nd" where
  "settleRound H a = do {
     settled \<leftarrow> on_svc a (IsSettled (hd_env H));
     if settled then State_Monad.return True
     else do {
       r \<leftarrow> on_svc a (Settle (hd_env H));
       State_Monad.return (case r of Inl e \<Rightarrow> False | Inr _ \<Rightarrow> True)
     }
   }"

definition scheduleCleanup :: "'w handler \<Rightarrow> nat \<Rightarrow> periodic_state \<Rightarrow> int32 \<Rightarrow> ('w, unit) nd" where
  "scheduleCleanup H a st round = do {
     _ \<leftarrow> setSettledTTLForRound H a st round;
     afterFunc (i64 (cycleDurationMs (ps_CycleMinutes st) * 1000000)) a
   }"

text \<open>A changed cycle length is taken over at the advance: the state as it is from here on, and the
  round to advance to.\<close>

definition updateCycle :: "'w handler \<Rightarrow> string \<Rightarrow> periodic_state \<Rightarrow> int32 \<Rightarrow> ('w, periodic_state \<times> int32) nd" where
  "updateCycle H k st nextRound =
     (case hd_cycleProvider H of
        None \<Rightarrow> State_Monad.return (st, nextRound)
      | Some provider \<Rightarrow> do {
          (newCycle, ok) \<leftarrow> lift_ext (provider (ps_BizType st));
          if ok \<and> newCycle > 0 \<and> newCycle \<noteq> ps_CycleMinutes st
          then do {
            let st' = st\<lparr>ps_CycleMinutes := newCycle\<rparr>;
            _ \<leftarrow> modState k (\<lambda>s. s\<lparr>ps_CycleMinutes := newCycle\<rparr>);
            _ \<leftarrow> (if hd_dao H \<noteq> None
                 then lift_ext (ignore (SavePeriodicState (hd_dao H) (hd_mongo H) (StateLogicalKey st) (ToSavedState st')))
                 else skip);
            _ \<leftarrow> setPeriodicMetaInRedis H (StateLogicalKey st) st';
            State_Monad.return (st', i32 (ps_currentRound st + 1))
          }
          else State_Monad.return (st, nextRound)
        })"

definition submitWarmUp :: "'w handler \<Rightarrow> string \<Rightarrow> ('w, unit) nd" where
  "submitWarmUp H logicalKey = do {
     newSvc \<leftarrow> GetEngineServiceByKey (hd_registry H) logicalKey;
     case newSvc of
       None \<Rightarrow> skip
     | Some a \<Rightarrow> do {
         err \<leftarrow> lift_ext (Submit (hd_plat H));
         if err = None then nmod (\<lambda>n. n\<lparr>nd_warmups := nd_warmups n @ [a]\<rparr>) else skip
       }
   }"

text \<open>After the registrar has the service of the next round.\<close>

definition enterRound :: "'w handler \<Rightarrow> string \<Rightarrow> periodic_state \<Rightarrow> int32 \<Rightarrow> ('w, unit) nd" where
  "enterRound H k st nextRound = do {
     let logicalKey = StateLogicalKey st;
     let st' = snd (advanceToRound st nextRound);
     _ \<leftarrow> modState k (\<lambda>_. st');
     _ \<leftarrow> setCurRoundInRedis H logicalKey nextRound;
     _ \<leftarrow> submitWarmUp H logicalKey;
     if hd_dao H \<noteq> None
     then lift_ext (ignore (SavePeriodicState (hd_dao H) (hd_mongo H) logicalKey (ToSavedState st')))
     else skip
   }"

definition next_config :: "config \<Rightarrow> int64 \<Rightarrow> int64 \<Rightarrow> int32 \<Rightarrow> config" where
  "next_config cfg nextOpen nextClose nextRound =
     (round_config cfg nextOpen nextClose nextRound)\<lparr>cf_CreateTime := 0\<rparr>"

definition openNextRound :: "'w handler \<Rightarrow> string \<Rightarrow> periodic_state \<Rightarrow> nat \<Rightarrow> int64 \<Rightarrow> ('w, unit) nd" where
  "openNextRound H k st a now = do {
     (st1, nextRound) \<leftarrow> updateCycle H k st (nextAdvanceRound st now);
     let (nextOpen, nextClose) = computeRoundWindow st1 nextRound;
     if nextOpen \<ge> ps_TotalCloseTime st1 then skip
     else do {
       existCfg \<leftarrow> on_svc a (sget s_config);
       r \<leftarrow> ReplaceRoundService (hd_registry H) (ps_BizType st1) (StateLogicalKey st)
              (next_config existCfg nextOpen nextClose nextRound);
       case r of
         Inl err \<Rightarrow> skip
       | Inr _ \<Rightarrow> enterRound H k st1 nextRound
     }
   }"

definition advanceRound :: "'w handler \<Rightarrow> string \<Rightarrow> periodic_state \<Rightarrow> int64 \<Rightarrow> ('w, unit) nd" where
  "advanceRound H k st now = do {
     let logicalKey = StateLogicalKey st;
     let currentRound = ps_currentRound st;
     locked \<leftarrow> tryLock H (advanceLock logicalKey currentRound) minute_ns;
     if \<not> locked then skip
     else do {
       svc \<leftarrow> GetEngineServiceByKey (hd_registry H) logicalKey;
       case svc of
         None \<Rightarrow> skip
       | Some a \<Rightarrow> do {
           settleOK \<leftarrow> settleRound H a;
           _ \<leftarrow> (if settleOK then scheduleCleanup H a st currentRound else skip);
           if isActivityFinished st now then skip
           else openNextRound H k st a now
         }
     }
   }"

text \<open>The states as they are when their turn comes; the order is that of the map.\<close>

definition TickAll :: "'w handler \<Rightarrow> int64 \<Rightarrow> ('w, unit) nd" where
  "TickAll H now = do {
     keys \<leftarrow> nget (\<lambda>n. map fst (nd_states n));
     for_each keys (\<lambda>k. do {
       st \<leftarrow> GetState k;
       case st of
         None \<Rightarrow> skip
       | Some s \<Rightarrow> if \<not> isRoundExpired s now then skip else advanceRound H k s now
     })
   }"

text \<open>The pool runs the oldest warm-up task.\<close>

definition runWarmUp :: "'w handler \<Rightarrow> ('w, unit) nd" where
  "runWarmUp H = do {
     tasks \<leftarrow> nget nd_warmups;
     case tasks of
       [] \<Rightarrow> skip
     | a # rest \<Rightarrow> do {
         _ \<leftarrow> nmod (\<lambda>n. n\<lparr>nd_warmups := rest\<rparr>);
         on_svc a (WarmUp (hd_env H))
       }
   }"

section \<open>Past rounds\<close>

definition roundBizIdOf :: "string \<Rightarrow> int32 \<Rightarrow> int32 \<Rightarrow> string" where
  "roundBizIdOf bizType actID round = bizType @ ''_'' @ FormatInt actID @ ''_r'' @ FormatInt round"

definition saved_round :: "goerr + rank_config_doc option \<Rightarrow> int32" where
  "saved_round r = (case r of
     Inr (Some doc) \<Rightarrow> (case do_Periodic doc of None \<Rightarrow> 0 | Some sv \<Rightarrow> sv_CurrentRound sv)
   | _ \<Rightarrow> 0)"

definition resolveHistoricalRound :: "'w handler \<Rightarrow> string \<Rightarrow> int32 \<Rightarrow> ('w, goerr + int32) nd" where
  "resolveHistoricalRound H logicalKey round =
     (if round > 0 then State_Monad.return (Inr round)
      else do {
        r \<leftarrow> readCurRoundFromRedis H logicalKey;
        if r > 0 then State_Monad.return (Inr r)
        else do {
          saved \<leftarrow> (if hd_dao H \<noteq> None
                    then do { doc \<leftarrow> lift_ext (LoadRankConfig (hd_dao H) (hd_mongo H) logicalKey);
                              State_Monad.return (saved_round doc) }
                    else State_Monad.return 0);
          if saved > 0 then State_Monad.return (Inr saved)
          else do {
            st \<leftarrow> GetState logicalKey;
            case st of
              None \<Rightarrow> State_Monad.return (Inl (ErrText (''cannot resolve current round for '' @ logicalKey)))
            | Some s \<Rightarrow>
                if ps_currentRound s > 0 then State_Monad.return (Inr (ps_currentRound s))
                else State_Monad.return (Inl (ErrText (''cannot resolve current round for '' @ logicalKey)))
          }
        }
      })"

definition warmGroup :: "'w handler \<Rightarrow> string \<Rightarrow> string \<Rightarrow> int32 \<times> snapshot list \<Rightarrow> ('w, unit) state" where
  "warmGroup H bizId rankCode entry = (case entry of (groupID, snaps) \<Rightarrow> do {
     _ \<leftarrow> (if length snaps > 0
          then (case MarshalSnaps (en_lib (hd_env H)) snaps of
                  None \<Rightarrow> skip
                | Some data \<Rightarrow> ignore (SetEX (hd_rdb H)
                    (GetRankSettledKey (en_keys (hd_env H))
                      (NewInstanceID (en_lib (hd_env H)) rankCode bizId (''group_'' @ FormatInt groupID)))
                    data (SettledCacheTTL (en_lib (hd_env H)))))
          else skip);
     for_each snaps (\<lambda>s.
       if sn_MemberId s > 0
       then ignore (HSet (hd_rdb H) (GetRankMembersKey (en_keys (hd_env H)) bizId)
              (FormatInt (sn_MemberId s)) (Txt (FormatInt groupID)))
       else skip)
   })"

definition warmRoundCacheFromSettled ::
  "'w handler \<Rightarrow> string \<Rightarrow> string \<Rightarrow> (int32 \<times> snapshot list) list \<Rightarrow> ('w, unit) nd" where
  "warmRoundCacheFromSettled H bizId rankCode settledByGroup =
     (if length settledByGroup = 0 then skip
      else lift_ext (do {
        _ \<leftarrow> for_each settledByGroup (warmGroup H bizId rankCode);
        ignore (Expire (hd_rdb H) (GetRankMembersKey (en_keys (hd_env H)) bizId) (SettledCacheTTL (en_lib (hd_env H))))
      }))"

definition group_with_user :: "int64 \<Rightarrow> (int32 \<times> snapshot list) list \<Rightarrow> int32 option" where
  "group_with_user userID settledByGroup =
     map_option fst (find (\<lambda>(g, snaps). \<exists>s \<in> set snaps. sn_MemberId s = userID) settledByGroup)"

definition findUserGroupFromSettled :: "'w handler \<Rightarrow> string \<Rightarrow> string \<Rightarrow> int64 \<Rightarrow> ('w, goerr + int32 option) nd" where
  "findUserGroupFromSettled H bizId rankCode userID =
     (if hd_dao H = None then State_Monad.return (Inr None)
      else do {
        r \<leftarrow> lift_ext (LoadAllSettledByBizId (hd_dao H) (hd_mongo H) bizId);
        case r of
          Inl err \<Rightarrow> State_Monad.return (Inl (ErrWrap ''load settled by bizId'' err))
        | Inr settledByGroup \<Rightarrow> do {
            _ \<leftarrow> warmRoundCacheFromSettled H bizId rankCode settledByGroup;
            State_Monad.return (Inr (group_with_user userID settledByGroup))
          }
      })"

text \<open>\<open>snapshots[start : end+1]\<close> after the clamping of both ends.\<close>

definition page :: "'a list \<Rightarrow> int64 \<Rightarrow> int64 \<Rightarrow> 'a list" where
  "page xs start0 end0 =
     (let start = (if start0 < 0 then 0 else start0);
          cnt = int (length xs);
          end = (if end0 < 0 \<or> end0 \<ge> cnt then cnt - 1 else end0)
      in if start > end then [] else take (nat (end + 1 - start)) (drop (nat start) xs))"

definition historicalGroup :: "'w handler \<Rightarrow> 'w store \<Rightarrow> string \<Rightarrow> int64 \<Rightarrow> ('w, goerr + int32 option) nd" where
  "historicalGroup H st rankCode userID = do {
     m \<leftarrow> lift_ext (GetMember (hd_env H) st userID);
     case m of
       Inr (Some g) \<Rightarrow> State_Monad.return (Inr (Some g))
     | _ \<Rightarrow> do {
         f \<leftarrow> findUserGroupFromSettled H (st_bizId st) rankCode userID;
         State_Monad.return (case f of Inl err \<Rightarrow> Inl (ErrWrap ''get member'' err) | Inr g \<Rightarrow> Inr g)
       }
   }"

definition GetHistoricalRoundList ::
  "'w handler \<Rightarrow> string \<Rightarrow> int32 \<Rightarrow> int32 \<Rightarrow> int64 \<Rightarrow> int64 \<Rightarrow> int64
   \<Rightarrow> ('w, goerr + snapshot list \<times> snapshot option) nd" where
  "GetHistoricalRoundList H bizType actID round0 userID start end =
     (if hd_dao H = None then State_Monad.return (Inl (ErrText ''dao not available''))
      else do {
        resolved \<leftarrow> resolveHistoricalRound H (LogicalKey bizType actID) round0;
        case resolved of
          Inl err \<Rightarrow> State_Monad.return (Inl err)
        | Inr round \<Rightarrow> do {
            let bizId = roundBizIdOf bizType actID round;
            let rankCode = score_code bizType actID;
            let st = store_of (hd_deps H) bizId;
            g \<leftarrow> historicalGroup H st rankCode userID;
            case g of
              Inl err \<Rightarrow> State_Monad.return (Inl err)
            | Inr None \<Rightarrow> State_Monad.return (Inr ([], None))
            | Inr (Some groupID) \<Rightarrow> do {
                _ \<leftarrow> lift_ext (ignore (Expire (hd_rdb H) (GetRankMembersKey (en_keys (hd_env H)) bizId)
                                       (SettledCacheTTL (en_lib (hd_env H)))));
                loaded \<leftarrow> lift_ext (LoadGroupSettledCached (hd_env H) st
                            (NewInstanceID (en_lib (hd_env H)) rankCode bizId (''group_'' @ FormatInt groupID)) groupID);
                State_Monad.return (case loaded of
                    Inl err \<Rightarrow> Inl (ErrWrap ''load settled'' err)
                  | Inr snapshots0 \<Rightarrow>
                      let snapshots = sort_key sn_Rank snapshots0
                      in Inr (page snapshots start end, find (\<lambda>s. sn_MemberId s = userID) snapshots))
              }
          }
      })"

fun real_users_of :: "snapshot list \<Rightarrow> int64 list \<Rightarrow> int64 list" where
  "real_users_of [] acc = acc"
| "real_users_of (s # snaps) acc =
     (if sn_MemberId s > 0
      then (if sn_MemberId s \<in> set acc then real_users_of snaps acc
            else real_users_of snaps (acc @ [sn_MemberId s]))
      else real_users_of snaps acc)"

definition realUsersFromSettled :: "'w handler \<Rightarrow> string \<Rightarrow> string \<Rightarrow> ('w, goerr + int64 list) nd" where
  "realUsersFromSettled H bizId rankCode =
     (if hd_dao H = None then State_Monad.return (Inr [])
      else do {
        r \<leftarrow> lift_ext (LoadAllSettledByBizId (hd_dao H) (hd_mongo H) bizId);
        case r of
          Inl err \<Rightarrow> State_Monad.return (Inl err)
        | Inr settledByGroup \<Rightarrow> do {
            _ \<leftarrow> warmRoundCacheFromSettled H bizId rankCode settledByGroup;
            State_Monad.return (Inr (fold (\<lambda>(g, snaps). real_users_of snaps) settledByGroup []))
          }
      })"

definition GetHistoricalRewardUsers :: "'w handler \<Rightarrow> string \<Rightarrow> int32 \<Rightarrow> int32 \<Rightarrow> ('w, goerr + int64 list) nd" where
  "GetHistoricalRewardUsers H bizType actID round0 =
     (if hd_dao H = None then State_Monad.return (Inl (ErrText ''dao not available''))
      else do {
        resolved \<leftarrow> resolveHistoricalRound H (LogicalKey bizType actID) round0;
        case resolved of
          Inl err \<Rightarrow> State_Monad.return (Inl err)
        | Inr round \<Rightarrow> do {
            let bizId = roundBizIdOf bizType actID round;
            let rankCode = score_code bizType actID;
            r \<leftarrow> lift_ext (GetAllMembers (hd_env H) (store_of (hd_deps H) bizId));
            case r of
              Inl err \<Rightarrow> State_Monad.return (Inl err)
            | Inr members \<Rightarrow> do {
                _ \<leftarrow> (if length members > 0
                     then lift_ext (ignore (Expire (hd_rdb H) (GetRankMembersKey (en_keys (hd_env H)) bizId)
                                            (SettledCacheTTL (en_lib (hd_env H)))))
                     else skip);
                let users = filter (\<lambda>u. u > 0) (map fst members);
                if length users = 0
                then do {
                  real \<leftarrow> realUsersFromSettled H bizId rankCode;
                  State_Monad.return (case real of
                      Inl err \<Rightarrow> Inl err
                    | Inr realUsers \<Rightarrow> if length realUsers > 0 then Inr realUsers else Inr users)
                }
                else State_Monad.return (Inr users)
              }
          }
      })"

definition GetHistoricalClaimStatus ::
  "'w handler \<Rightarrow> string \<Rightarrow> int32 \<Rightarrow> int32 \<Rightarrow> int64 \<Rightarrow> ('w, goerr + bool \<times> int64) nd" where
  "GetHistoricalClaimStatus H bizType actID round0 userID =
     (if hd_dao H = None then State_Monad.return (Inl (ErrText ''dao not available''))
      else do {
        resolved \<leftarrow> resolveHistoricalRound H (LogicalKey bizType actID) round0;
        case resolved of
          Inl err \<Rightarrow> State_Monad.return (Inl err)
        | Inr round \<Rightarrow> do {
            r \<leftarrow> lift_ext (GetClaim_dao (hd_dao H) (hd_mongo H) (roundBizIdOf bizType actID round) userID);
            State_Monad.return (case r of
                Inl err \<Rightarrow> Inl err
              | Inr None \<Rightarrow> Inr (False, 0)
              | Inr (Some ct) \<Rightarrow> Inr (True, ct))
          }
      })"

definition ClaimHistoricalReward ::
  "'w handler \<Rightarrow> string \<Rightarrow> int32 \<Rightarrow> int32 \<Rightarrow> int64 \<Rightarrow> ('w, goerr + bool \<times> int64) nd" where
  "ClaimHistoricalReward H bizType actID round0 userID =
     (if hd_dao H = None then State_Monad.return (Inl (ErrText ''dao not available''))
      else do {
        resolved \<leftarrow> resolveHistoricalRound H (LogicalKey bizType actID) round0;
        case resolved of
          Inl err \<Rightarrow> State_Monad.return (Inl err)
        | Inr round \<Rightarrow> do {
            now \<leftarrow> now_milli (hd_env H);
            r \<leftarrow> lift_ext (SaveClaimIfNotExists (hd_dao H) (hd_mongo H) (roundBizIdOf bizType actID round) userID now);
            State_Monad.return (case r of
                Inl err \<Rightarrow> Inl err
              | Inr (isFirst, ct) \<Rightarrow> Inr (\<not> isFirst, ct))
          }
      })"

section \<open>Round summaries\<close>

record round_info =
  rf_Round :: int32
  rf_OpenTime :: int64
  rf_CloseTime :: int64
  rf_Settled :: bool
  rf_Current :: bool

definition round_summary :: "periodic_state \<Rightarrow> int64 \<Rightarrow> int32 \<Rightarrow> round_info" where
  "round_summary st nowMs r =
     (let (opn, cls) = computeRoundWindow st r; currentRound = ps_currentRound st
      in \<lparr>rf_Round = r, rf_OpenTime = opn, rf_CloseTime = cls,
          rf_Settled = (r < currentRound \<or> (r = currentRound \<and> cls \<le> nowMs)),
          rf_Current = (r = currentRound)\<rparr>)"

text \<open>\<open>for r := int32(1); r <= currentRound; r++\<close>: the counter wraps at its width, so a loop up to the
  largest \<open>int32\<close> ends only by its \<open>break\<close>. A loop that does not end is \<open>None\<close>.\<close>

partial_function (option) round_loop :: "periodic_state \<Rightarrow> int64 \<Rightarrow> int32 \<Rightarrow> round_info list option" where
  "round_loop st nowMs r =
     (if r > ps_currentRound st then Some []
      else if fst (computeRoundWindow st r) \<ge> ps_TotalCloseTime st then Some []
      else Option.bind (round_loop st nowMs (i32 (r + 1))) (\<lambda>rounds.
             Some (round_summary st nowMs r # rounds)))"

definition GetRoundInfos :: "'w handler \<Rightarrow> periodic_state \<Rightarrow> ('w, (int32 \<times> round_info list) option) nd" where
  "GetRoundInfos H st = do {
     nowMs \<leftarrow> now_milli (hd_env H);
     State_Monad.return (map_option (\<lambda>rounds. (ps_currentRound st, rounds)) (round_loop st nowMs 1))
   }"

definition GetCurrentRoundInfo :: "'w handler \<Rightarrow> periodic_state \<Rightarrow> ('w, round_info) nd" where
  "GetCurrentRoundInfo H st = do {
     r \<leftarrow> readCurRoundFromRedis H (StateLogicalKey st);
     let curRound = (if ps_currentRound st > r then ps_currentRound st else r);
     let (opn, cls) = computeRoundWindow st curRound;
     nowMs \<leftarrow> now_milli (hd_env H);
     State_Monad.return \<lparr>rf_Round = curRound, rf_OpenTime = opn, rf_CloseTime = cls, rf_Settled = (cls \<le> nowMs),
       rf_Current = True\<rparr>
   }"

definition CleanupHistoricalRounds :: "'w handler \<Rightarrow> periodic_state \<Rightarrow> ('w, unit) nd" where
  "CleanupHistoricalRounds H st =
     for_each [1..ps_currentRound st - 1] (\<lambda>r.
       lift_ext (CleanupLiveData (hd_env H) (store_of (hd_deps H) (roundBizId st r)) []))"

end
