(* ===== verification/NodeWorld.thy ===== *)
theory NodeWorld
  imports Node MemWorld
begin

text \<open>
  A concrete node for witnesses: the world in memory of \<open>MemWorld\<close>, a MongoDB without documents, a pool
  that takes every task, and the sample configuration files. No property is about it.
\<close>

definition mem_platform :: "mem platform" where
  "mem_platform = \<lparr>RSet = (\<lambda>k v. eff (\<lambda>w. w\<lparr>mw_str := AList.update k v (mw_str w)\<rparr>) None),
     Publish = (\<lambda>c v. State_Monad.return None), ScanAll = (\<lambda>p n. State_Monad.return (Inr [])),
     RegisterRank = (\<lambda>d. State_Monad.return None), Submit = State_Monad.return None,
     RankCreateChannel = ''create'', RankDeleteChannel = ''delete'', RankMetaKeyPrefix = ''meta'',
     RankMemberIndexKey = (\<lambda>u. prefixed ''index'' (FormatInt u))\<rparr>"

definition quiet_driver :: "'w mongo" where
  "quiet_driver = \<lparr>FindOne = (\<lambda>_ _ _. State_Monad.return (Inl ErrNoDocuments)),
     Find = (\<lambda>_ _ _. State_Monad.return (Inr (Inr []))), UpsertOne = (\<lambda>_ _ _ _. State_Monad.return (Inr 1)),
     DeleteMany = (\<lambda>_ _ _. State_Monad.return (Inr 0)), PushMongoTask = (\<lambda>_. State_Monad.return None),
     DropOne = (\<lambda>_ _ _. State_Monad.return None), CreateMany = (\<lambda>_ _ _. State_Monad.return None),
     ZeroInstance = \<lparr>in_InstanceId = [], in_RankCode = [], in_BizId = [], in_State = InstanceStateInit,
       in_OpenTime = 0, in_CloseTime = 0, in_GameEndTime = 0, in_SettleTime = 0, in_CreateTime = 0,
       in_UpdateTime = 0, in_MemberCount = 0, in_Version = 0\<rparr>\<rparr>"

definition mem_deps :: "mem deps" where
  "mem_deps = \<lparr>dp_env = mem_env, dp_rdb = mem_redis, dp_dao = Some ''rank'', dp_mongo = quiet_driver,
     dp_rank = calm_rank, dp_plat = mem_platform, dp_files = stable_files sample_files\<rparr>"

lemmas mem_node_simps = mem_deps_def mem_platform_def quiet_driver_def mem_simps

end
