(* ===== verification/RoundHistory.thy ===== *)
theory RoundHistory
  imports PeriodicHandler DaoProps NodeWorld
begin

text \<open>
  Properties of the periodic handler's data: the metadata it keeps in Redis, the summary of rounds, the
  pages and player lists of past rounds, claims for past rounds, and where the next round lies after
  a change of the cycle length.
\<close>

section \<open>Metadata in Redis\<close>

lemma Split_comma: "Split (FormatInt n @ CHR '','' # rest) CHR '','' = FormatInt n # Split rest CHR '',''"
  by (rule Split_append [OF comma_free])

lemma Split_number: "Split (FormatInt n) CHR '','' = [FormatInt n]"
  by (rule Split_no_sep [OF comma_free])

definition fits_meta :: "periodic_state \<Rightarrow> bool" where
  "fits_meta st \<longleftrightarrow> in64 (ps_TotalOpenTime st) \<and> in64 (ps_TotalCloseTime st) \<and> in32 (ps_CycleMinutes st)
     \<and> in32 (ps_BaseCycleMinutes st) \<and> in64 (ps_RoundOpenTime st) \<and> in64 (ps_RoundCloseTime st)"

text \<open>The metadata of an activity survives its text form, and so do the two older forms. The six
  numbers written for a state are read back, the cycle standing in for a base cycle of zero; three
  or four numbers are read as the older nodes wrote them, without a window of the current round.\<close>

theorem parse_meta_roundtrip:
  assumes "fits_meta st" "in64 a" "in64 c" "in32 m" "in32 b"
  shows "parse_meta (Txt (meta_text st)) = Some \<lparr>pm_TotalOpenTime = ps_TotalOpenTime st,
      pm_TotalCloseTime = ps_TotalCloseTime st, pm_CycleMinutes = ps_CycleMinutes st,
      pm_BaseCycleMinutes = (if ps_BaseCycleMinutes st = 0 then ps_CycleMinutes st else ps_BaseCycleMinutes st),
      pm_RoundOpenTime = ps_RoundOpenTime st, pm_RoundCloseTime = ps_RoundCloseTime st\<rparr>
    \<and> parse_meta (Txt (FormatInt a @ '','' @ FormatInt c @ '','' @ FormatInt m)) =
        Some \<lparr>pm_TotalOpenTime = a, pm_TotalCloseTime = c, pm_CycleMinutes = m, pm_BaseCycleMinutes = m,
              pm_RoundOpenTime = 0, pm_RoundCloseTime = 0\<rparr>
    \<and> parse_meta (Txt (FormatInt a @ '','' @ FormatInt c @ '','' @ FormatInt m @ '','' @ FormatInt b)) =
        Some \<lparr>pm_TotalOpenTime = a, pm_TotalCloseTime = c, pm_CycleMinutes = m,
              pm_BaseCycleMinutes = (if b = 0 then m else b), pm_RoundOpenTime = 0, pm_RoundCloseTime = 0\<rparr>"
  using assms
  by (simp add: parse_meta_def meta_text_def Split_comma Split_number parsed_or_zero_def fits_meta_def Let_def)

theorem parse_meta_roundtrip_witness:
  "parse_meta (Txt (meta_text sample_periodic)) \<noteq> None"
proof -
  have "fits_meta sample_periodic" "in64 0" "in32 0" by (simp_all add: fits_meta_def sample_periodic_def in64_def in32_def)
  then show ?thesis using parse_meta_roundtrip [of sample_periodic 0 0 0 0] by simp
qed

section \<open>Summaries of rounds\<close>

lemma round_loop_from:
  assumes "in32 (ps_currentRound st)" "ps_currentRound st < 2147483647" "in32 r"
  shows "round_loop st now r = Some (map (round_summary st now)
     (takeWhile (\<lambda>r. fst (computeRoundWindow st r) < ps_TotalCloseTime st) [r..ps_currentRound st]))"
  using assms(3)
proof (induction "nat (ps_currentRound st + 1 - r)" arbitrary: r)
  case 0
  then show ?case by (subst round_loop.simps) simp
next
  case (Suc n)
  then have r: "r \<le> ps_currentRound st" by simp
  have next_r: "i32 (r + 1) = r + 1" "in32 (r + 1)" using r assms(2) Suc.prems by (simp_all add: in32_def)
  have "round_loop st now (r + 1) = Some (map (round_summary st now)
     (takeWhile (\<lambda>r. fst (computeRoundWindow st r) < ps_TotalCloseTime st) [r + 1..ps_currentRound st]))"
    using Suc.hyps(2) next_r(2) by (intro Suc.hyps(1)) simp_all
  then show ?case using r by (subst round_loop.simps) (simp add: next_r(1) upto_rec1)
qed

text \<open>Claim C30: the enumeration of the rounds ends, for every state whose current round is below the
  largest \<open>int32\<close>, and yields the summaries of the rounds 1, 2, ... up to the current one, cut before
  the first that would open after the activity. On an aligned state nothing is cut: there is one
  entry for each round so far, with the windows of the schedule, only the last is the current one,
  and all before it count as settled.\<close>

theorem GetRoundInfos_terminates:
  assumes "in32 (ps_currentRound st)" "ps_currentRound st < 2147483647"
  shows "(\<exists>rounds. result (GetRoundInfos H st) nw = Some (ps_currentRound st, rounds)
      \<and> map rf_Round rounds = takeWhile (\<lambda>r. fst (computeRoundWindow st r) < ps_TotalCloseTime st) [1..ps_currentRound st])
    \<and> (aligned st \<longrightarrow> (\<exists>rounds. result (GetRoundInfos H st) nw = Some (ps_currentRound st, rounds)
      \<and> length rounds = nat (ps_currentRound st)
      \<and> (\<forall>i < length rounds. rf_Round (rounds ! i) = int i + 1
           \<and> rf_OpenTime (rounds ! i) = spec_open st (int i + 1) \<and> rf_CloseTime (rounds ! i) = spec_close st (int i + 1)
           \<and> rf_Current (rounds ! i) = (i = length rounds - 1)
           \<and> (i < length rounds - 1 \<longrightarrow> rf_Settled (rounds ! i)))))"
proof -
  let ?p = "\<lambda>r. fst (computeRoundWindow st r) < ps_TotalCloseTime st"
  have one: "in32 1" by (simp add: in32_def)
  have run: "result (GetRoundInfos H st) nw = Some (ps_currentRound st,
      map (round_summary st t) (takeWhile ?p [1..ps_currentRound st]))"
    if "t = result (now_milli (hd_env H)) nw" for t
    using that by (simp add: GetRoundInfos_def round_loop_from [OF assms one])
  have rnd: "map rf_Round (map (round_summary st t) rs) = rs" for t rs
    by (induction rs) (simp_all add: round_summary_def Let_def split: prod.split)
  have 1: "\<exists>rounds. result (GetRoundInfos H st) nw = Some (ps_currentRound st, rounds) \<and> map rf_Round rounds = takeWhile ?p [1..ps_currentRound st]"
    using run [OF refl] rnd by blast
  have 2: "\<exists>rounds. result (GetRoundInfos H st) nw = Some (ps_currentRound st, rounds)
      \<and> length rounds = nat (ps_currentRound st)
      \<and> (\<forall>i < length rounds. rf_Round (rounds ! i) = int i + 1
           \<and> rf_OpenTime (rounds ! i) = spec_open st (int i + 1) \<and> rf_CloseTime (rounds ! i) = spec_close st (int i + 1)
           \<and> rf_Current (rounds ! i) = (i = length rounds - 1)
           \<and> (i < length rounds - 1 \<longrightarrow> rf_Settled (rounds ! i)))" if al: "aligned st"
  proof -
    have win: "computeRoundWindow st r = (spec_open st r, spec_close st r)" if "1 \<le> r" "r \<le> ps_currentRound st" for r
      using window_eq [OF al, of r] that al by (simp add: aligned_def)
    have "\<forall>r \<in> set [1..ps_currentRound st]. ?p r"
      using al by (auto simp: win intro!: spec_open_before_close) (auto simp: aligned_def)
    then have all: "takeWhile ?p [1..ps_currentRound st] = [1..ps_currentRound st]" by simp
    let ?t = "result (now_milli (hd_env H)) nw"
    have "1 \<le> ps_currentRound st" using al by (simp add: aligned_def)
    then show ?thesis
      using run [OF refl] unfolding all
      by (intro exI [of _ "map (round_summary st ?t) [1..ps_currentRound st]"])
        (auto simp: round_summary_def win nth_upto Let_def add.commute)
  qed
  show ?thesis using 1 2 by blast
qed

text \<open>A handler without a manager.\<close>

definition lone_handler :: "mem handler" where
  "lone_handler = NewHandler mem_deps \<lparr>RegisterRoundService = (\<lambda>_ _ _. State_Monad.return (Inl ErrInvalidRankSpec)),
     ReplaceRoundService = (\<lambda>_ _ _. State_Monad.return (Inl ErrInvalidRankSpec)),
     GetEngineServiceByKey = (\<lambda>_. State_Monad.return None)\<rparr>"

theorem GetRoundInfos_terminates_witness:
  "\<exists>rounds. result (GetRoundInfos lone_handler sample_periodic) (empty_node, empty_mem) = Some (2, rounds) \<and> length rounds = 2"
proof -
  have "in32 (ps_currentRound sample_periodic)" "ps_currentRound sample_periodic < 2147483647" "aligned sample_periodic" "ps_currentRound sample_periodic = 2"
    using sample_periodic_aligned by (simp_all add: sample_periodic_def in32_def)
  then show ?thesis using GetRoundInfos_terminates [of sample_periodic lone_handler "(empty_node, empty_mem)"] by auto
qed

section \<open>Pages of a past round\<close>

lemma page_interval: "page xs start end = rank_interval xs start end"
proof -
  have "page xs start end = sliceSnapshots xs start end"
    by (auto simp: page_def sliceSnapshots_def Let_def)
  then show ?thesis by (simp add: sliceSnapshots_interval)
qed

text \<open>A page of a past round is cut exactly as a page of a running one. The handler's own
  clamping of the two ends agrees on every list and every pair of ends, negative ones and ones past
  the list included, with the engine's \<open>sliceSnapshots\<close>, and both are the members whose position
  lies in the closed interval; the members come in the order of their ranks.\<close>

theorem page_agrees_with_slice:
  "page xs start end = sliceSnapshots xs start end \<and> page xs start end = rank_interval xs start end
   \<and> sorted (map sn_Rank (page (sort_key sn_Rank ys) start end))"
proof -
  have "sorted (map sn_Rank (page (sort_key sn_Rank ys) start end))"
    by (auto simp: page_def Let_def take_map [symmetric] drop_map [symmetric] intro!: sorted_wrt_take sorted_wrt_drop)
  then show ?thesis by (simp add: page_interval sliceSnapshots_interval)
qed

section \<open>Players of a past round\<close>

lemma real_users_of_spec:
  "distinct acc \<Longrightarrow> distinct (real_users_of snaps acc)"
  "set (real_users_of snaps acc) = set acc \<union> {sn_MemberId s |s. s \<in> set snaps \<and> sn_MemberId s > 0}"
  by (induction snaps acc rule: real_users_of.induct) auto

lemma real_users_fold:
  "distinct acc \<Longrightarrow> distinct (fold (\<lambda>(g, snaps). real_users_of snaps) L acc)"
  "set (fold (\<lambda>(g, snaps). real_users_of snaps) L acc) =
     set acc \<union> {sn_MemberId s |s g snaps. (g, snaps) \<in> set L \<and> s \<in> set snaps \<and> sn_MemberId s > 0}"
proof (induction L arbitrary: acc)
  case (Cons x L)
  obtain g snaps where x: "x = (g, snaps)" by (cases x)
  {
    case 1
    then show ?case using Cons(1) [of "real_users_of snaps acc"] real_users_of_spec(1) x by simp
  next
    case 2
    then show ?case using Cons(2) [of "real_users_of snaps acc"] by (auto simp: x real_users_of_spec(2))
  }
qed simp_all

text \<open>Claim C31: the players to be rewarded for a past round are real players. Whatever the index in Redis
  and MongoDB holds, no robot (a member with a negative id) is among them; and when the settled
  snapshots have to stand in for a lost index, the list has no duplicates and is exactly the real
  members of all groups of the round.\<close>

theorem GetHistoricalRewardUsers_real:
  shows "(result (GetHistoricalRewardUsers H b act r) nw = Inr us \<longrightarrow> (\<forall>u \<in> set us. 0 < u))
    \<and> (hd_dao H \<noteq> None \<longrightarrow> result (realUsersFromSettled H bizId code) nw = Inr us \<longrightarrow>
        (\<exists>L. result (LoadAllSettledByBizId (hd_dao H) (hd_mongo H) bizId) (snd nw) = Inr L \<and> distinct us
         \<and> set us = {sn_MemberId s |s g snaps. (g, snaps) \<in> set L \<and> s \<in> set snaps \<and> sn_MemberId s > 0}))"
proof -
  have real: "\<exists>L. result (LoadAllSettledByBizId (hd_dao H) (hd_mongo H) i) (snd nw) = Inr L
      \<and> distinct us \<and> set us = {sn_MemberId s |s g snaps. (g, snaps) \<in> set L \<and> s \<in> set snaps \<and> sn_MemberId s > 0}"
    if run: "hd_dao H \<noteq> None" "result (realUsersFromSettled H i c) nw = Inr us" for i c us and nw :: "'a node \<times> 'a"
  proof -
    obtain L where L: "result (LoadAllSettledByBizId (hd_dao H) (hd_mongo H) i) (snd nw) = Inr L"
        "us = fold (\<lambda>(g, snaps). real_users_of snaps) L []"
      using run by (auto simp: realUsersFromSettled_def split: sum.splits)
    show ?thesis
      using L(1) real_users_fold(1) [of "[]" L] real_users_fold(2) [of L "[]"] unfolding L(2) by simp
  qed
  have pos: "\<forall>u \<in> set us. 0 < u" if "result (realUsersFromSettled H i c) nw = Inr us" for i c us and nw :: "'a node \<times> 'a"
    using that real [of i c nw us] by (cases "hd_dao H = None") (auto simp: realUsersFromSettled_def)
  have "result (GetHistoricalRewardUsers H b act r) nw = Inr us \<Longrightarrow> \<forall>u \<in> set us. 0 < u"
    by (auto simp: GetHistoricalRewardUsers_def Let_def dest: pos split: if_splits sum.splits)
  then show ?thesis using real by blast
qed

text \<open>One player and one robot in the index of the first round.\<close>

definition indexed_world :: mem where
  "indexed_world = empty_mem\<lparr>mw_hash := [(prefixed ''members'' (roundBizIdOf ''arena'' 7 1),
     [(FormatInt 42, Txt (FormatInt 1)), (FormatInt (- 5), Txt (FormatInt 1))])]\<rparr>"

theorem GetHistoricalRewardUsers_real_witness:
  "result (GetHistoricalRewardUsers lone_handler ''arena'' 7 1) (empty_node, indexed_world) = Inr [42] \<and> (0::int) < 42"
proof -
  have "FormatInt 1 \<noteq> nullCacheEntry" by code_simp
  then have r: "result (GetHistoricalRewardUsers lone_handler ''arena'' 7 1) (empty_node, indexed_world) = Inr [42]"
    by (simp add: GetHistoricalRewardUsers_def resolveHistoricalRound_def GetAllMembers_def lone_handler_def NewHandler_def
        mem_node_simps store_of_def indexed_world_def empty_mem_def parse_member_def lookup_list_def in64_def in32_def
        to_map_def List.map_filter_simps Let_def)
  have "\<forall>u \<in> set [42]. (0::int) < u"
    by (rule mp [OF conjunct1 [OF GetHistoricalRewardUsers_real] r])
  then show ?thesis using r by simp
qed

section \<open>The next round after a change of the cycle\<close>

text \<open>After the cycle was shortened the advance can leap over time. When a round ends and the
  new, shorter cycle counts the moment into a later round than the next one, the window the handler
  computes for that round opens only after the moment, by one cycle for every round leapt over: until
  then no round of the activity is open.\<close>

theorem cycle_change_leaves_gap:
  assumes sizes: "0 < ps_CycleMinutes st" "ps_CycleMinutes st < 2147483648" "0 \<le> ps_currentRound st"
      "0 < ps_RoundCloseTime st" "in64 (ps_RoundCloseTime st + 2147483648 * (ps_CycleMinutes st * 60000))"
    and leap: "computeRoundAt st (ps_RoundCloseTime st) > ps_currentRound st + 1" "computeRoundAt st (ps_RoundCloseTime st) < 2147483648"
  shows "fst (computeRoundWindow st (nextAdvanceRound st (ps_RoundCloseTime st))) =
      ps_RoundCloseTime st + (computeRoundAt st (ps_RoundCloseTime st) - ps_currentRound st - 1) * (ps_CycleMinutes st * 60000)
    \<and> ps_RoundCloseTime st < fst (computeRoundWindow st (nextAdvanceRound st (ps_RoundCloseTime st)))"
proof -
  let ?r = "computeRoundAt st (ps_RoundCloseTime st)" and ?c = "ps_currentRound st" and ?d = "ps_CycleMinutes st * 60000"
  have n: "nextAdvanceRound st (ps_RoundCloseTime st) = ?r" using leap by (simp add: nextAdvanceRound_def Let_def)
  have cd: "cycleDur (ps_CycleMinutes st) = ?d" using sizes by (simp add: cycleDur_eq)
  have o: "i32 (i32 (?r - ?c) - 1) = ?r - ?c - 1" using leap sizes by (simp add: in32_def)
  have k: "0 < ?r - ?c - 1" "?r - ?c - 1 < 2147483648" using leap sizes by simp_all
  have pos: "0 < (?r - ?c - 1) * ?d" using k sizes by simp
  have "(?r - ?c - 1) * ?d \<le> 2147483648 * ?d" using k sizes by (intro mult_right_mono) auto
  then have "in64 ((?r - ?c - 1) * ?d)" "in64 (ps_RoundCloseTime st + (?r - ?c - 1) * ?d)"
    using pos sizes(4,5) unfolding in64_def by linarith+
  then have "fst (computeRoundWindow st ?r) = ps_RoundCloseTime st + (?r - ?c - 1) * ?d"
    using leap sizes by (simp add: computeRoundWindow_def cd o Let_def)
  then show ?thesis unfolding n using pos by simp
qed

text \<open>An hourly activity whose cycle became ten minutes at the end of the first hour: after the second
  round (ten minutes) the next one opens fifty minutes late.\<close>

definition shortened :: periodic_state where
  "shortened = \<lparr>ps_BizType = ''arena'', ps_ActID = 7, ps_CycleMinutes = 10, ps_BaseCycleMinutes = 60,
     ps_TotalOpenTime = 1000, ps_TotalCloseTime = 36001000, ps_currentRound = 2,
     ps_RoundOpenTime = 3601000, ps_RoundCloseTime = 4201000\<rparr>"

theorem cycle_change_leaves_gap_witness:
  "fst (computeRoundWindow shortened (nextAdvanceRound shortened 4201000)) = 7201000"
proof -
  have "computeRoundAt shortened 4201000 = 8" by code_simp
  then show ?thesis using cycle_change_leaves_gap [of shortened] by (simp add: shortened_def in64_def)
qed

end
