(* ===== verification/Frames.thy ===== *)
theory Frames
  imports PeriodicHandler MemWorld
begin

text \<open>
  Frames, in one vocabulary for services and nodes: \<open>keeps f m\<close> says that running \<open>m\<close> leaves \<open>f\<close> of the
  state as it is. The rules go through the code; the results are that the methods the handler and the
  manager call on a service never touch its configuration, and what the steps of a node leave of
  its tables.
\<close>

named_theorems keeps_rules "frames of the steps"

lemma keepsI: "(\<And>w. f (exec m w) = f w) \<Longrightarrow> keeps f m"
  by (simp add: keeps_def)

lemma keepsD: "keeps f m \<Longrightarrow> f (exec m w) = f w"
  by (simp add: keeps_def)

lemma keeps_bind: "keeps f m \<Longrightarrow> (\<And>x. keeps f (k x)) \<Longrightarrow> keeps f (State_Monad.bind m k)"
  unfolding keeps_def exec_bind by metis

lemma keeps_basic [keeps_rules]: "keeps f (State_Monad.return x)" "keeps f skip"
  by (simp_all add: keeps_def)

lemma keeps_ignore [keeps_rules]: "keeps f m \<Longrightarrow> keeps f (ignore m)"
  by (simp add: keeps_def)

lemma keeps_for_each [keeps_rules]: "(\<And>x. keeps f (g x)) \<Longrightarrow> keeps f (for_each xs g)"
proof (induction xs)
  case (Cons x xs)
  then have "keeps f (State_Monad.bind (g x) (\<lambda>_. for_each xs g))" by (intro keeps_bind) auto
  then show ?case by simp
qed (simp add: keeps_basic)

lemma keeps_if [keeps_rules]: "(c \<Longrightarrow> keeps f m) \<Longrightarrow> (\<not> c \<Longrightarrow> keeps f m') \<Longrightarrow> keeps f (if c then m else m')"
  by simp

section \<open>Services keep their identity\<close>

text \<open>What makes a service the service of one round of one activity: its configuration, the store its data
  is in, the ranking library it uses, its rank definition and its copy of the end of the activity.\<close>

definition ident :: "'w service \<Rightarrow> config \<times> 'w store \<times> 'w rank_service \<times> rank_def option
    \<times> (int64 \<Rightarrow> int32 \<Rightarrow> ('w, unit) state) option \<times> int64" where
  "ident s = (s_config s, s_store s, s_rankService s, s_rankDef s, s_onMemberJoin s, s_activityEnd s)"

lemma ident_simps [simp]:
  "ident (s\<lparr>s_groups := a\<rparr>) = ident s" "ident (s\<lparr>s_memberGroup := b\<rparr>) = ident s"
  "ident (s\<lparr>s_settledGroup := c\<rparr>) = ident s" "ident (s\<lparr>s_nextGroupID := d\<rparr>) = ident s"
  "ident (s\<lparr>s_loaded := e\<rparr>) = ident s" "ident (s\<lparr>s_instanceStates := f\<rparr>) = ident s"
  "ident (s\<lparr>s_groupsCache := g\<rparr>) = ident s" "ident (s\<lparr>s_groupsCacheExpiry := h\<rparr>) = ident s"
  "ident (s\<lparr>s_robotsCache := i\<rparr>) = ident s" "ident (s\<lparr>s_scoreCache := j\<rparr>) = ident s"
  "ident (s\<lparr>s_settledAt := k\<rparr>) = ident s"
  by (simp_all add: ident_def)

abbreviation config_kept :: "('w, 'a) svc \<Rightarrow> bool" where
  "config_kept \<equiv> keeps (\<lambda>sw. ident (fst sw))"

lemma config_steps [keeps_rules]:
  "config_kept (sget f)" "config_kept (with_store g)" "config_kept (with_rank h)" "config_kept (lift_ext m)"
  by (simp_all add: keeps_def)

lemma config_smod [keeps_rules]: "(\<And>s. ident (f s) = ident s) \<Longrightarrow> config_kept (smod f)"
  by (simp add: keeps_def)

lemma config_load [keeps_rules]: "config_kept (ensureLoaded E)"
  unfolding ensureLoaded_def loadGroups_def loadMembers_def memberJoined_def restoreUsedInfoIDs_def restoreGroup_def
    restoreSettledGroup_def restoreInstanceIfMissing_def backfillScores_def Let_def
  by (auto intro!: keeps_bind keeps_rules split: sum.splits option.splits list.splits prod.splits)

lemma config_groups [keeps_rules]: "config_kept (syncLatestGroups E)" "config_kept (ListGroups E)" "config_kept (IsSettled E)"
  unfolding syncLatestGroups_def syncGroupStateLocked_def ListGroups_def IsSettled_def now_ns_def
  by (auto intro!: keeps_bind keeps_rules split: sum.splits option.splits list.splits)

lemma config_warm [keeps_rules]: "config_kept (WarmUp E)"
  unfolding WarmUp_def by (auto intro!: keeps_bind keeps_rules)

lemma config_settleGroup [keeps_rules]: "config_kept (settleGroup E t ag)"
  unfolding settleGroup_def markSettled_def setGroupAt_def syncGroupStateLocked_def Let_def
  by (auto intro!: keeps_bind keeps_rules split: sum.splits option.splits prod.splits)

lemma config_settle_loop [keeps_rules]: "config_kept (settle_loop E t ags rs gs)"
  by (induction E t ags rs gs rule: settle_loop.induct)
    (auto intro!: keeps_bind keeps_rules split: settle_out.splits option.splits)

lemma config_settle [keeps_rules]: "config_kept (Settle E)"
  unfolding Settle_def expireSettled_def invalidateInstanceState_def now_ns_def Let_def
  by (auto intro!: keeps_bind keeps_rules split: sum.splits option.splits list.splits prod.splits)

lemma config_cleanup [keeps_rules]: "config_kept (CleanupLiveDataOf E)"
  unfolding CleanupLiveDataOf_def cleanupGroups_def invalidateInstanceState_def Let_def
  by (auto intro!: keeps_bind keeps_rules split: sum.splits option.splits list.splits prod.splits)

lemma keeps_fold_state [keeps_rules]: "(\<And>x b. keeps f (g x b)) \<Longrightarrow> keeps f (fold_state g xs b)"
proof (induction xs arbitrary: b)
  case (Cons x xs)
  then have "keeps f (State_Monad.bind (g x b) (\<lambda>b'. fold_state g xs b'))" by (intro keeps_bind) auto
  then show ?case by simp
qed (simp add: keeps_basic)

lemma config_recover [keeps_rules]: "config_kept (recoverGroupData E g i)"
  unfolding recoverGroupData_def restoreGroup_def restoreSettledGroup_def restoreInstanceIfMissing_def
    backfillScores_def Let_def
  by (auto intro!: keeps_bind keeps_rules split: sum.splits option.splits list.splits prod.splits)

lemma config_instance [keeps_rules]: "config_kept (ensureGroupInstance i g t)"
  unfolding ensureGroupInstance_def markInstanceVerified_def Let_def
  by (auto intro!: keeps_bind keeps_rules split: sum.splits option.splits list.splits prod.splits)

lemma config_spawn [keeps_rules]: "config_kept (spawnRobotsForGroup E g c t)"
  unfolding spawnRobotsForGroup_def invalidateRobotsCache_def Let_def
  by (auto intro!: keeps_bind keeps_rules split: sum.splits option.splits list.splits prod.splits)

lemma config_tick_group [keeps_rules]: "config_kept (tickGroupRobots E g i rs t)" "config_kept (tickRobots E g)" "config_kept (tickGroups E)"
  unfolding tickGroupRobots_def tickGroupScores_def tickRobots_def tickGroups_def now_ns_def Let_def
  by (auto intro!: keeps_bind keeps_rules split: sum.splits option.splits list.splits prod.splits)

lemma config_tick_all [keeps_rules]: "config_kept (tickAllRobots E t)"
  unfolding tickAllRobots_def Let_def
  by (auto intro!: keeps_bind keeps_rules split: sum.splits option.splits list.splits prod.splits)

lemma config_tick [keeps_rules]: "config_kept (Tick E t)"
  unfolding Tick_def Let_def
  by (auto intro!: keeps_bind keeps_rules split: sum.splits option.splits list.splits prod.splits)

lemma config_join [keeps_rules]: "config_kept (ensureGroupLocked E)" "config_kept (joinGroup E u)" "config_kept (lookupMember E u)"
  unfolding joinGroup_def lookupMember_def ensureGroupLocked_def mergeGroupsLocked_def addGroup_def memberJoined_def
    update_group_def Let_def
  by (auto intro!: keeps_bind keeps_rules split: sum.splits option.splits list.splits prod.splits)

lemma config_score [keeps_rules]: "config_kept (UpsertScore E u t n a)"
  unfolding UpsertScore_def writeScore_def Let_def
  by (auto intro!: keeps_bind keeps_rules split: sum.splits option.splits list.splits prod.splits inst_state.splits)

lemma config_settled [keeps_rules]: "config_kept (resolveSettled E g c)"
  unfolding resolveSettled_def loadAndCacheSettled_def cacheSettled_def Let_def
  by (auto intro!: keeps_bind keeps_rules split: sum.splits option.splits list.splits prod.splits)

lemma config_queries [keeps_rules]:
  "config_kept (ListGroupRank E g i j)" "config_kept (GetMemberRank E u)" "config_kept (GroupCount E)"
  "config_kept (MemberCount E)" "config_kept (GetAllMembersOf E)" "config_kept (GetMemberGroupID u)"
  "config_kept (ClaimReward E u t)" "config_kept (GetClaimStatus E u)" "config_kept (Cleanup E)"
  unfolding ListGroupRank_def GetMemberRank_def GroupCount_def MemberCount_def GetAllMembersOf_def GetMemberGroupID_def
    ClaimReward_def GetClaimStatus_def Cleanup_def cleanupGroups_def Let_def
  by (auto intro!: keeps_bind keeps_rules split: sum.splits option.splits list.splits prod.splits)

lemma config_group_queries [keeps_rules]:
  "config_kept (GetGroup E g)" "config_kept (GetGroupCreateTime E g)" "config_kept (GetOpenRewardUserIDs E)"
  unfolding GetGroupCreateTime_def GetGroup_def GetOpenRewardUserIDs_def syncGroupStateLocked_def Let_def
  by (auto intro!: keeps_bind keeps_rules split: sum.splits option.splits list.splits prod.splits)

section \<open>Nodes\<close>

text \<open>What decides about rounds: the registered services, the states and the configurations of all
  services.\<close>

definition tables :: "'w node \<Rightarrow> (string \<times> nat) list \<times> (string \<times> nat) list \<times> (string \<times> periodic_state) list
    \<times> (config \<times> 'w store \<times> 'w rank_service \<times> rank_def option
      \<times> (int64 \<Rightarrow> int32 \<Rightarrow> ('w, unit) state) option \<times> int64) list" where
  "tables n = (nd_engines n, nd_services n, nd_states n, map ident (nd_heap n))"

abbreviation tables_kept :: "('w, 'a) nd \<Rightarrow> bool" where
  "tables_kept \<equiv> keeps (\<lambda>nw. tables (fst nw))"

lemma tables_simps [simp]:
  "tables (n\<lparr>nd_timers := a\<rparr>) = tables n" "tables (n\<lparr>nd_nextTimer := b\<rparr>) = tables n"
  "tables (n\<lparr>nd_warmups := c\<rparr>) = tables n" "tables (n\<lparr>nd_bootstrapped := d\<rparr>) = tables n"
  by (simp_all add: tables_def)

lemma tablesD:
  assumes "tables n' = tables n"
  shows "nd_engines n' = nd_engines n" "nd_services n' = nd_services n" "nd_states n' = nd_states n"
    "length (nd_heap n') = length (nd_heap n)"
    "a < length (nd_heap n) \<Longrightarrow> s_config (nd_heap n' ! a) = s_config (nd_heap n ! a)"
    "a < length (nd_heap n) \<Longrightarrow> ident (nd_heap n' ! a) = ident (nd_heap n ! a)"
proof -
  have m: "map ident (nd_heap n') = map ident (nd_heap n)" using assms by (simp add: tables_def)
  then show l: "length (nd_heap n') = length (nd_heap n)" by (rule map_eq_imp_length_eq)
  show i: "a < length (nd_heap n) \<Longrightarrow> ident (nd_heap n' ! a) = ident (nd_heap n ! a)"
    using m l by (metis nth_map)
  show "a < length (nd_heap n) \<Longrightarrow> s_config (nd_heap n' ! a) = s_config (nd_heap n ! a)"
    using i by (simp add: ident_def)
qed (use assms in \<open>simp_all add: tables_def\<close>)

lemma node_steps [keeps_rules]: "keeps f (nget g)" "keeps (\<lambda>nw. h (fst nw)) (lift_ext m)"
  by (simp_all add: keeps_def)

lemma node_nmod [keeps_rules]: "(\<And>n. h (g n) = h n) \<Longrightarrow> keeps (\<lambda>nw. h (fst nw)) (nmod g)"
  by (simp add: keeps_def)

lemma tables_on_svc [keeps_rules]: "config_kept m \<Longrightarrow> tables_kept (on_svc a m)"
proof (rule keepsI)
  fix nw :: "'a node \<times> 'a"
  assume m: "config_kept m"
  have "ident (fst (exec m (nd_heap (fst nw) ! a, snd nw))) = ident (nd_heap (fst nw) ! a)"
    using keepsD [OF m, of "(nd_heap (fst nw) ! a, snd nw)"] by simp
  then have "map ident ((nd_heap (fst nw))[a := fst (exec m (nd_heap (fst nw) ! a, snd nw))]) = map ident (nd_heap (fst nw))"
    by (cases "a < length (nd_heap (fst nw))") (simp_all add: map_update list_update_same_conv list_update_beyond)
  then show "tables (fst (exec (on_svc a m) nw)) = tables (fst nw)"
    by (simp add: exec_on_svc tables_def)
qed

lemma states_on_svc [keeps_rules]: "keeps (\<lambda>nw. nd_states (fst nw)) (on_svc a m)"
  by (simp add: keeps_def)

end
