(* ===== verification/PeriodicProps.thy ===== *)
theory PeriodicProps
  imports Frames
begin

text \<open>
  Properties of the periodic handler. The locale \<open>round_registrar\<close> is its contract with whoever
  implements \<open>ServiceRegistrar\<close>: under it, advancing and registering keep the registered service and
  the state of an activity in step. The manager provides the contract (theory \<open>ManagerProps\<close>). What
  needs no registrar (metadata, the summary of rounds, past rounds) is in theory \<open>RoundHistory\<close>.
\<close>

section \<open>State and service in step\<close>

definition runs_round :: "config \<Rightarrow> periodic_state \<Rightarrow> bool" where
  "runs_round c s \<longleftrightarrow> cf_RoundIndex c = ps_currentRound s \<and> cf_OpenTime c = ps_RoundOpenTime s
     \<and> cf_CloseTime c = ps_RoundCloseTime s \<and> cf_GameEndTime c = ps_RoundCloseTime s"

definition in_sync :: "'w node \<Rightarrow> string \<Rightarrow> bool" where
  "in_sync n k \<longleftrightarrow> (\<forall>s a. map_of (nd_states n) k = Some s \<longrightarrow> map_of (nd_engines n) k = Some a
     \<longrightarrow> a < length (nd_heap n) \<and> runs_round (s_config (nd_heap n ! a)) s)"

text \<open>A service made for a configuration may fill in the code of the ranking and the creation time.\<close>

definition same_round :: "config \<Rightarrow> config \<Rightarrow> bool" where
  "same_round c c' \<longleftrightarrow> (\<exists>code t. c' = c\<lparr>cf_RankCode := code, cf_CreateTime := t\<rparr>)"

definition new_service :: "string \<Rightarrow> config \<Rightarrow> 'w node \<Rightarrow> 'w node \<Rightarrow> nat \<Rightarrow> bool" where
  "new_service k c n n' a \<longleftrightarrow> a = length (nd_heap n) \<and> nd_engines n' = AList.update k a (nd_engines n)
     \<and> nd_states n' = nd_states n \<and> nd_timers n' = nd_timers n
     \<and> (\<exists>s. nd_heap n' = nd_heap n @ [s] \<and> same_round c (s_config s))"

locale round_registrar =
  fixes reg :: "'w registrar"
  assumes get_now: "result (GetEngineServiceByKey reg k) nw = map_of (nd_engines (fst nw)) k"
      "exec (GetEngineServiceByKey reg k) nw = nw"
    and replaced: "result (ReplaceRoundService reg b k c) nw = Inr a \<Longrightarrow>
      new_service k c (fst nw) (fst (exec (ReplaceRoundService reg b k c) nw)) a"
    and not_replaced: "result (ReplaceRoundService reg b k c) nw = Inl e \<Longrightarrow>
      fst (exec (ReplaceRoundService reg b k c) nw) = fst nw"
    and registered: "result (RegisterRoundService reg b k c) nw = Inr a \<Longrightarrow>
      (if map_of (nd_engines (fst nw)) k = None
       then new_service k c (fst nw) (fst (exec (RegisterRoundService reg b k c) nw)) a
       else map_of (nd_engines (fst nw)) k = Some a \<and> fst (exec (RegisterRoundService reg b k c) nw) = fst nw)"
    and not_registered: "result (RegisterRoundService reg b k c) nw = Inl e \<Longrightarrow>
      fst (exec (RegisterRoundService reg b k c) nw) = fst nw"

section \<open>The steps of an advance\<close>

text \<open>Settling and scheduling the clean-up leave the tables alone.\<close>

lemma tables_settle [keeps_rules]: "tables_kept (settleRound H a)"
  unfolding settleRound_def by (auto intro!: keeps_bind keeps_rules)

lemma tables_schedule [keeps_rules]: "tables_kept (scheduleCleanup H a s r)"
  unfolding scheduleCleanup_def setSettledTTLForRound_def afterFunc_def
  by (auto intro!: keeps_bind keeps_rules)

lemma map_of_map_entry: "map_of (AList.map_entry k f xs) k' = (if k' = k then map_option f (map_of xs k) else map_of xs k')"
  by (induction xs) auto

text \<open>What a step does to the tables when it may only write the state of one key.\<close>

definition state_step :: "string \<Rightarrow> periodic_state \<Rightarrow> 'w node \<Rightarrow> 'w node \<Rightarrow> bool" where
  "state_step k s' n n' \<longleftrightarrow> nd_engines n' = nd_engines n \<and> nd_heap n' = nd_heap n \<and> nd_timers n' = nd_timers n
     \<and> map_of (nd_states n') = (map_of (nd_states n))(k \<mapsto> s')"

lemma state_step_refl: "map_of (nd_states n) k = Some s \<Longrightarrow> state_step k s n n"
  by (auto simp: state_step_def)

lemma modState_step:
  "map_of (nd_states (fst nw)) k = Some s \<Longrightarrow> state_step k (f s) (fst nw) (fst (exec (modState k f) nw))"
  by (auto simp: modState_def state_step_def map_of_map_entry fun_eq_iff)

lemma exec_lift_skip: "fst (exec (if c then lift_ext m else skip) nw) = fst nw"
  by simp

lemma updateCycle_step:
  assumes "map_of (nd_states (fst nw)) k = Some s"
  obtains c r1 where "result (updateCycle H k s r0) nw = (s\<lparr>ps_CycleMinutes := c\<rparr>, r1)"
    "r1 = r0 \<or> r1 = i32 (ps_currentRound s + 1)"
    "state_step k (s\<lparr>ps_CycleMinutes := c\<rparr>) (fst nw) (fst (exec (updateCycle H k s r0) nw))"
proof (cases "hd_cycleProvider H")
  case None
  have "s\<lparr>ps_CycleMinutes := ps_CycleMinutes s\<rparr> = s" by simp
  then show ?thesis using that [of "ps_CycleMinutes s" r0] None state_step_refl [OF assms] by (simp add: updateCycle_def)
next
  case (Some provider)
  obtain c ok where p: "result (provider (ps_BizType s)) (snd nw) = (c, ok)" by fastforce
  let ?nw1 = "exec (lift_ext (provider (ps_BizType s))) nw"
  show ?thesis
  proof (cases "ok \<and> c > 0 \<and> c \<noteq> ps_CycleMinutes s")
    case True
    have "state_step k (s\<lparr>ps_CycleMinutes := c\<rparr>) (fst nw) (fst (exec (modState k (\<lambda>s. s\<lparr>ps_CycleMinutes := c\<rparr>)) ?nw1))"
      using modState_step [of ?nw1 k s "\<lambda>s. s\<lparr>ps_CycleMinutes := c\<rparr>"] assms by simp
    then show ?thesis using that [of c "i32 (ps_currentRound s + 1)"] True p
      by (simp add: updateCycle_def Some setPeriodicMetaInRedis_def exec_lift_skip Let_def)
  next
    case False
    have "s\<lparr>ps_CycleMinutes := ps_CycleMinutes s\<rparr> = s" by simp
    then show ?thesis using that [of "ps_CycleMinutes s" r0] False p state_step_refl [OF assms]
      by (auto simp: updateCycle_def Some)
  qed
qed

lemma submitWarmUp_frame:
  assumes "round_registrar (hd_registry H)"
  shows "nd_engines (fst (exec (submitWarmUp H k) nw)) = nd_engines (fst nw)"
    "nd_heap (fst (exec (submitWarmUp H k) nw)) = nd_heap (fst nw)"
    "nd_timers (fst (exec (submitWarmUp H k) nw)) = nd_timers (fst nw)"
    "nd_states (fst (exec (submitWarmUp H k) nw)) = nd_states (fst nw)"
  by (simp_all add: submitWarmUp_def round_registrar.get_now [OF assms] split: option.splits)

lemma enterRound_step:
  assumes "round_registrar (hd_registry H)" "map_of (nd_states (fst nw)) k = Some s"
  shows "state_step k (snd (advanceToRound s1 r)) (fst nw) (fst (exec (enterRound H k s1 r) nw))"
proof -
  let ?m = "exec (modState k (\<lambda>_. snd (advanceToRound s1 r))) nw"
  have "state_step k (snd (advanceToRound s1 r)) (fst nw) (fst ?m)"
    by (rule modState_step [OF assms(2)])
  then show ?thesis
    by (simp add: enterRound_def setCurRoundInRedis_def exec_lift_skip state_step_def submitWarmUp_frame [OF assms(1)] Let_def)
qed

section \<open>The outcome of an advance\<close>

text \<open>Either the round stays, the cycle length perhaps renewed, or a later round has been entered and a new
  service runs it. Other activities and all existing services keep what they had.\<close>

definition round_kept :: "string \<Rightarrow> periodic_state \<Rightarrow> 'w node \<Rightarrow> 'w node \<Rightarrow> bool" where
  "round_kept k s n n' \<longleftrightarrow> (\<exists>c. map_of (nd_states n') k = Some (s\<lparr>ps_CycleMinutes := c\<rparr>))
     \<and> nd_engines n' = nd_engines n"

definition round_entered :: "string \<Rightarrow> periodic_state \<Rightarrow> 'w node \<Rightarrow> 'w node \<Rightarrow> bool" where
  "round_entered k s n n' \<longleftrightarrow> (\<exists>s'. map_of (nd_states n') k = Some s' \<and> ps_currentRound s < ps_currentRound s'
     \<and> ps_TotalCloseTime s' = ps_TotalCloseTime s \<and> ps_RoundOpenTime s' < ps_TotalCloseTime s'
     \<and> (ps_BizType s', ps_ActID s') = (ps_BizType s, ps_ActID s))
     \<and> map_of (nd_engines n') k = Some (length (nd_heap n))"

definition others_kept :: "string \<Rightarrow> 'w node \<Rightarrow> 'w node \<Rightarrow> bool" where
  "others_kept k n n' \<longleftrightarrow> (\<forall>k'. k' \<noteq> k \<longrightarrow> map_of (nd_states n') k' = map_of (nd_states n) k'
       \<and> map_of (nd_engines n') k' = map_of (nd_engines n) k')
     \<and> length (nd_heap n) \<le> length (nd_heap n')
     \<and> (\<forall>a < length (nd_heap n). s_config (nd_heap n' ! a) = s_config (nd_heap n ! a))"

definition advance_outcome :: "string \<Rightarrow> periodic_state \<Rightarrow> 'w node \<Rightarrow> 'w node \<Rightarrow> bool" where
  "advance_outcome k s n n' \<longleftrightarrow> (round_kept k s n n' \<or> round_entered k s n n') \<and> others_kept k n n' \<and> in_sync n' k"

lemma others_in_sync: "others_kept k n n' \<Longrightarrow> k' \<noteq> k \<Longrightarrow> in_sync n k' \<Longrightarrow> in_sync n' k'"
  by (fastforce simp: others_kept_def in_sync_def)

lemma advance_outcome_tables:
  assumes "advance_outcome k s n1 n'" "tables n1 = tables n"
  shows "advance_outcome k s n n'"
  using assms(1) tablesD [OF assms(2)]
  unfolding advance_outcome_def round_kept_def round_entered_def others_kept_def by simp

lemma in_sync_tables: "tables n' = tables n \<Longrightarrow> in_sync n k \<Longrightarrow> in_sync n' k"
  using tablesD [of n' n] by (fastforce simp: in_sync_def)

lemma runs_round_cycle [simp]: "runs_round c (s\<lparr>ps_CycleMinutes := x\<rparr>) = runs_round c s"
  by (simp add: runs_round_def)

lemma kept_outcome:
  assumes "state_step k (s\<lparr>ps_CycleMinutes := c\<rparr>) n n'" "in_sync n k" "map_of (nd_states n) k = Some s"
  shows "advance_outcome k s n n'"
  using assms by (auto simp: advance_outcome_def round_kept_def others_kept_def in_sync_def state_step_def)

text \<open>Entering the round the registrar has made a service for.\<close>

lemma runs_next:
  assumes "same_round (next_config c opn cls r) c'" "computeRoundWindow s r = (opn, cls)"
    and "ps_currentRound s < r" "opn < ps_TotalCloseTime s"
  shows "runs_round c' (snd (advanceToRound s r))"
  using assms by (auto simp: same_round_def next_config_def round_config_def runs_round_def advanceToRound_def)

lemma entered_outcome:
  assumes new: "new_service k c n1 n2 a" and st: "state_step k s1 n n1" "state_step k s' n2 n3"
    and s': "ps_currentRound s < ps_currentRound s'" "ps_TotalCloseTime s' = ps_TotalCloseTime s"
      "ps_RoundOpenTime s' < ps_TotalCloseTime s'" "(ps_BizType s', ps_ActID s') = (ps_BizType s, ps_ActID s)"
    and runs: "\<And>c'. same_round c c' \<Longrightarrow> runs_round c' s'"
  shows "advance_outcome k s n n3"
proof -
  obtain v where v: "nd_heap n2 = nd_heap n1 @ [v]" "same_round c (s_config v)" and a: "a = length (nd_heap n1)"
      and e: "nd_engines n2 = AList.update k a (nd_engines n1)" and q: "nd_states n2 = nd_states n1"
    using new by (auto simp: new_service_def)
  have h: "nd_heap n1 = nd_heap n" "nd_engines n1 = nd_engines n" "nd_heap n3 = nd_heap n2" "nd_engines n3 = nd_engines n2"
    "map_of (nd_states n1) = (map_of (nd_states n))(k \<mapsto> s1)" "map_of (nd_states n3) = (map_of (nd_states n2))(k \<mapsto> s')"
    using st by (simp_all add: state_step_def)
  have "round_entered k s n n3" using s' h e a by (auto simp: round_entered_def update_conv')
  moreover have "others_kept k n n3" using h e v q by (auto simp: others_kept_def update_conv' nth_append)
  moreover have "in_sync n3 k" using h e v a runs by (auto simp: in_sync_def update_conv' nth_append)
  ultimately show ?thesis by (simp add: advance_outcome_def)
qed

lemma next_is_later:
  assumes "in32 (ps_currentRound s)" "ps_currentRound s < 2147483647"
  shows "ps_currentRound s < nextAdvanceRound s now" "ps_currentRound s < i32 (ps_currentRound s + 1)"
proof -
  have "i32 (ps_currentRound s + 1) = ps_currentRound s + 1" using assms by (intro i32_id) (simp add: in32_def)
  then show "ps_currentRound s < nextAdvanceRound s now" "ps_currentRound s < i32 (ps_currentRound s + 1)"
    by (simp_all add: nextAdvanceRound_def Let_def)
qed

lemma exec_read_config: "fst (exec (on_svc a (sget f)) nw) = (fst nw)\<lparr>nd_heap := (nd_heap (fst nw))[a := nd_heap (fst nw) ! a]\<rparr>"
  by (simp add: exec_on_svc)

lemma node_same_heap [simp]: "(n\<lparr>nd_heap := (nd_heap n)[a := nd_heap n ! a]\<rparr>) = n"
  by simp

lemma exec_tryLock [simp]: "fst (exec (tryLock H key t) nw) = fst nw"
  by (simp add: tryLock_def)

text \<open>Every activity in step, no state lost, no round taken back.\<close>

definition well_keyed :: "'w node \<Rightarrow> string \<Rightarrow> bool" where
  "well_keyed n k \<longleftrightarrow> (\<forall>s. map_of (nd_states n) k = Some s
     \<longrightarrow> StateLogicalKey s = k \<and> in32 (ps_currentRound s) \<and> ps_currentRound s < 2147483647)"

definition rounds_progress :: "'w node \<Rightarrow> 'w node \<Rightarrow> bool" where
  "rounds_progress n n' \<longleftrightarrow> (\<forall>k s. map_of (nd_states n) k = Some s \<longrightarrow>
     (\<exists>s'. map_of (nd_states n') k = Some s' \<and> ps_currentRound s \<le> ps_currentRound s'))"

lemma outcome_progress:
  assumes "map_of (nd_states n) k = Some s" "advance_outcome k s n n'"
  shows "rounds_progress n n'"
  unfolding rounds_progress_def
proof (intro allI impI)
  fix j t
  assume t: "map_of (nd_states n) j = Some t"
  show "\<exists>s'. map_of (nd_states n') j = Some s' \<and> ps_currentRound t \<le> ps_currentRound s'"
  proof (cases "j = k")
    case True
    then show ?thesis using assms t by (auto simp: advance_outcome_def round_kept_def round_entered_def)
  next
    case False
    then show ?thesis using assms(2) t by (auto simp: advance_outcome_def others_kept_def)
  qed
qed

lemma rounds_progress_trans: "rounds_progress n n1 \<Longrightarrow> rounds_progress n1 n2 \<Longrightarrow> rounds_progress n n2"
  unfolding rounds_progress_def using order_trans by fastforce

lemma rounds_progress_refl: "rounds_progress n n"
  by (auto simp: rounds_progress_def)

text \<open>The loop of \<open>TickAll\<close>: each key is visited once, the keys still to come are as at the start.\<close>

definition tick_key :: "'w handler \<Rightarrow> int64 \<Rightarrow> string \<Rightarrow> ('w, unit) nd" where
  "tick_key H now k = do {
     st \<leftarrow> GetState k;
     case st of None \<Rightarrow> skip | Some s \<Rightarrow> if \<not> isRoundExpired s now then skip else advanceRound H k s now }"

lemma exec_GetState [simp]: "exec (GetState k) nw = nw" "result (GetState k) nw = map_of (nd_states (fst nw)) k"
  by (simp_all add: GetState_def)

lemma exec_now_milli [simp]: "fst (exec (now_milli E) nw) = fst nw"
  by (simp add: now_milli_def)

lemma RegisterPeriodic_entered:
  fixes H :: "'w handler"
  assumes "0 < m" "map_of (nd_states (fst nw)) k = None" "result (tryLock H (registerLock k) (30 * second_ns)) nw"
    and "NewPeriodicState (result (now_milli (hd_env H)) (exec (tryLock H (registerLock k) (30 * second_ns)) nw)) b
        (cf_ActID cfg) m (cf_OpenTime cfg) (cf_CloseTime cfg) = Inr st"
    and reg: "r = RegisterRoundService (hd_registry H) b k (round_config cfg (ps_RoundOpenTime st) (ps_RoundCloseTime st) (ps_currentRound st))"
    and nw1: "nw1 = exec (now_milli (hd_env H)) (exec (tryLock H (registerLock k) (30 * second_ns)) nw)"
    and "result r nw1 = Inr a" "nd_states (fst (exec r nw1)) = nd_states (fst nw)"
  shows "fst (exec (RegisterPeriodic H b k cfg m) nw) = (fst (exec r nw1))\<lparr>nd_states := AList.update k st (nd_states (fst nw))\<rparr>"
  using assms
  by (simp add: RegisterPeriodic_def SetState_def setCurRoundInRedis_def setPeriodicMetaInRedis_def exec_lift_skip)

context round_registrar
begin

lemma openNextRound_outcome:
  assumes H: "hd_registry H = reg" and s: "map_of (nd_states (fst nw)) k = Some s" "in_sync (fst nw) k"
    and key: "StateLogicalKey s = k" and cur: "in32 (ps_currentRound s)" "ps_currentRound s < 2147483647"
  shows "advance_outcome k s (fst nw) (fst (exec (openNextRound H k s a now) nw))
    \<and> nd_timers (fst (exec (openNextRound H k s a now) nw)) = nd_timers (fst nw)"
proof -
  obtain c r where u: "result (updateCycle H k s (nextAdvanceRound s now)) nw = (s\<lparr>ps_CycleMinutes := c\<rparr>, r)"
      "r = nextAdvanceRound s now \<or> r = i32 (ps_currentRound s + 1)"
      "state_step k (s\<lparr>ps_CycleMinutes := c\<rparr>) (fst nw) (fst (exec (updateCycle H k s (nextAdvanceRound s now)) nw))"
    by (rule updateCycle_step [OF s(1)])
  define s1 where "s1 = s\<lparr>ps_CycleMinutes := c\<rparr>"
  define nw1 where "nw1 = exec (updateCycle H k s (nextAdvanceRound s now)) nw"
  obtain opn cls where win: "computeRoundWindow s1 r = (opn, cls)" by fastforce
  note U = u [folded s1_def nw1_def]
  have later: "ps_currentRound s1 < r" using U(2) next_is_later [OF cur] by (auto simp: s1_def)
  have kept: "advance_outcome k s (fst nw) (fst nw1)" "nd_timers (fst nw1) = nd_timers (fst nw)"
    using kept_outcome [OF u(3) s(2,1)] u(3) by (simp_all add: nw1_def state_step_def)
  show ?thesis
  proof (cases "opn \<ge> ps_TotalCloseTime s1")
    case True
    then show ?thesis using U win kept by (simp add: openNextRound_def nw1_def [symmetric])
  next
    case False
    define nw2 where "nw2 = exec (on_svc a (sget s_config)) nw1"
    define cfg where "cfg = next_config (s_config (nd_heap (fst nw1) ! a)) opn cls r"
    let ?rep = "ReplaceRoundService reg (ps_BizType s1) (StateLogicalKey s) cfg"
    have n2: "fst nw2 = fst nw1" by (simp add: nw2_def exec_read_config)
    have e: "exec (openNextRound H k s a now) nw = (case result ?rep nw2 of
        Inl err \<Rightarrow> exec ?rep nw2 | Inr _ \<Rightarrow> exec (enterRound H k s1 r) (exec ?rep nw2))"
      using False U(1) win by (simp add: openNextRound_def nw1_def [symmetric] nw2_def cfg_def H split: sum.split)
    show ?thesis
    proof (cases "result ?rep nw2")
      case (Inl err)
      then show ?thesis using kept not_replaced [OF Inl] by (simp add: e n2)
    next
      case (Inr b)
      have new: "new_service k cfg (fst nw1) (fst (exec ?rep nw2)) b"
        using replaced [OF Inr] by (simp add: n2 key)
      then have "map_of (nd_states (fst (exec ?rep nw2))) k = Some s1"
        using U(3) by (simp add: new_service_def state_step_def)
      then have st: "state_step k (snd (advanceToRound s1 r)) (fst (exec ?rep nw2))
          (fst (exec (enterRound H k s1 r) (exec ?rep nw2)))"
        by (intro enterRound_step) (simp_all add: H round_registrar_axioms)
      have adv: "snd (advanceToRound s1 r) = s1\<lparr>ps_RoundOpenTime := opn, ps_RoundCloseTime := cls, ps_currentRound := r\<rparr>"
        using later False win by (simp add: advanceToRound_def)
      have "advance_outcome k s (fst nw) (fst (exec (enterRound H k s1 r) (exec ?rep nw2)))"
      proof (rule entered_outcome [OF new U(3) st])
        show "runs_round c' (snd (advanceToRound s1 r))" if "same_round cfg c'" for c'
          using that False later by (intro runs_next [OF _ win]) (simp_all add: cfg_def)
      qed (use later False in \<open>simp_all add: adv\<close>, simp_all add: s1_def)
      then show ?thesis using Inr st new kept(2) by (simp add: e state_step_def new_service_def)
    qed
  qed
qed



abbreviation advance_lock :: "'w handler \<Rightarrow> string \<Rightarrow> periodic_state \<Rightarrow> ('w, bool) nd" where
  "advance_lock H k s \<equiv> tryLock H (advanceLock k (ps_currentRound s)) minute_ns"

text \<open>The part of an advance before the next round is opened: the lock, the service, the settlement.\<close>

lemma advanceRound_outcome:
  assumes H: "hd_registry H = reg" and s: "map_of (nd_states (fst nw)) k = Some s" "in_sync (fst nw) k"
    and key: "StateLogicalKey s = k" and cur: "in32 (ps_currentRound s)" "ps_currentRound s < 2147483647"
  shows "advance_outcome k s (fst nw) (fst (exec (advanceRound H k s now) nw))"
proof -
  have stay: "advance_outcome k s (fst nw) n'" if "tables n' = tables (fst nw)" for n'
  proof -
    have same: "s\<lparr>ps_CycleMinutes := ps_CycleMinutes s\<rparr> = s" by simp
    have "advance_outcome k s (fst nw) (fst nw)"
      using kept_outcome [where c = "ps_CycleMinutes s" and n = "fst nw" and n' = "fst nw"] state_step_refl [OF s(1)] s same by simp
    moreover have "map_of (nd_states n') k = Some s" using s(1) tablesD(3) [OF that] by simp
    ultimately show ?thesis
      using tablesD [OF that] in_sync_tables [OF that s(2)] s(1)
      by (auto simp: advance_outcome_def round_kept_def others_kept_def intro!: exI [of _ "ps_CycleMinutes s"])
  qed
  define nw1 where "nw1 = exec (advance_lock H k s) nw"
  have n1: "fst nw1 = fst nw" by (simp add: nw1_def)
  show ?thesis
  proof (cases "result (advance_lock H k s) nw")
    case False
    then show ?thesis using stay [of "fst nw"] by (simp add: advanceRound_def key Let_def)
  next
    case True
    show ?thesis
    proof (cases "map_of (nd_engines (fst nw)) k")
      case None
      then show ?thesis using True stay [of "fst nw"] by (simp add: advanceRound_def key H get_now Let_def)
    next
      case (Some a)
      define ok where "ok = result (settleRound H a) nw1"
      define nw2 where "nw2 = exec (if ok then scheduleCleanup H a s (ps_currentRound s) else skip) (exec (settleRound H a) nw1)"
      have t: "tables (fst nw2) = tables (fst nw)"
        using keepsD [OF tables_settle, of H a nw1] keepsD [OF tables_schedule, of H a s "ps_currentRound s" "exec (settleRound H a) nw1"]
        by (simp add: nw2_def n1)
      have e: "exec (advanceRound H k s now) nw = (if isActivityFinished s now then nw2 else exec (openNextRound H k s a now) nw2)"
        using True Some by (simp add: advanceRound_def key H get_now nw1_def [symmetric] nw2_def ok_def Let_def n1)
      have "map_of (nd_states (fst nw2)) k = Some s" "in_sync (fst nw2) k"
        using s tablesD(3) [OF t] in_sync_tables [OF t] by simp_all
      then have "advance_outcome k s (fst nw2) (fst (exec (openNextRound H k s a now) nw2))"
        using openNextRound_outcome [OF H _ _ key cur] by blast
      then show ?thesis
        using stay [OF t] advance_outcome_tables [OF _ t] by (simp add: e)
    qed
  qed
qed

lemma tick_key_outcome:
  assumes "hd_registry H = reg" "\<forall>j. in_sync (fst nw) j" "well_keyed (fst nw) k"
  shows "(\<forall>j. in_sync (fst (exec (tick_key H now k) nw)) j)
    \<and> rounds_progress (fst nw) (fst (exec (tick_key H now k) nw))
    \<and> (\<forall>j. j \<noteq> k \<longrightarrow> map_of (nd_states (fst (exec (tick_key H now k) nw))) j = map_of (nd_states (fst nw)) j)"
proof (cases "map_of (nd_states (fst nw)) k")
  case None
  then show ?thesis using assms by (simp add: tick_key_def rounds_progress_refl)
next
  case (Some s)
  show ?thesis
  proof (cases "isRoundExpired s now")
    case False
    then show ?thesis using assms Some by (simp add: tick_key_def rounds_progress_refl)
  next
    case True
    have e: "exec (tick_key H now k) nw = exec (advanceRound H k s now) nw"
      using Some True by (simp add: tick_key_def)
    have o: "advance_outcome k s (fst nw) (fst (exec (advanceRound H k s now) nw))"
      using assms Some by (intro advanceRound_outcome) (auto simp: well_keyed_def)
    have "in_sync (fst (exec (advanceRound H k s now) nw)) j" for j
      using o others_in_sync [of k "fst nw" _ j] assms(2) by (cases "j = k") (auto simp: advance_outcome_def)
    then show ?thesis
      unfolding e using outcome_progress [OF Some o] o by (auto simp: advance_outcome_def others_kept_def)
  qed
qed

lemma tick_loop_outcome:
  assumes "hd_registry H = reg" "\<forall>j. in_sync (fst nw) j" "\<forall>k \<in> set ks. well_keyed (fst nw) k" "distinct ks"
  shows "(\<forall>j. in_sync (fst (exec (for_each ks (tick_key H now)) nw)) j)
    \<and> rounds_progress (fst nw) (fst (exec (for_each ks (tick_key H now)) nw))"
  using assms
proof (induction ks arbitrary: nw)
  case (Cons k ks)
  let ?nw1 = "exec (tick_key H now k) nw"
  note T = tick_key_outcome [OF Cons.prems(1,2), of k now]
  have "\<forall>j \<in> set ks. well_keyed (fst ?nw1) j"
    using T Cons.prems by (auto simp: well_keyed_def)
  then have "(\<forall>j. in_sync (fst (exec (for_each ks (tick_key H now)) ?nw1)) j)
      \<and> rounds_progress (fst ?nw1) (fst (exec (for_each ks (tick_key H now)) ?nw1))"
    using T Cons.prems by (intro Cons.IH) auto
  then show ?case using T Cons.prems rounds_progress_trans by auto
qed (simp add: rounds_progress_refl)

lemma TickAll_outcome:
  assumes "hd_registry H = reg" "\<forall>j. in_sync (fst nw) j" "\<forall>k. well_keyed (fst nw) k" "distinct (map fst (nd_states (fst nw)))"
  shows "(\<forall>j. in_sync (fst (exec (TickAll H now) nw)) j) \<and> rounds_progress (fst nw) (fst (exec (TickAll H now) nw))"
proof -
  have "exec (TickAll H now) nw = exec (for_each (map fst (nd_states (fst nw))) (tick_key H now)) nw"
    by (simp add: TickAll_def tick_key_def [abs_def])
  then show ?thesis using tick_loop_outcome [OF assms(1,2) _ assms(4)] assms(3) by simp
qed

text \<open>Registering: either nothing was added, or the activity has the state of the round it is in and a
  service that runs it.\<close>

lemma Register_outcome:
  assumes H: "hd_registry H = reg" and sync: "\<forall>j. in_sync (fst nw) j"
    and n'_def: "n' = fst (exec (RegisterPeriodic H b k cfg m) nw)"
  shows "j \<noteq> k \<or> map_of (nd_engines (fst nw)) k = None \<Longrightarrow> in_sync n' j"
proof -
  let ?lock = "tryLock H (registerLock k) (30 * second_ns)"
  let ?now = "result (now_milli (hd_env H)) (exec ?lock nw)" and ?nw1 = "exec (now_milli (hd_env H)) (exec ?lock nw)"
  let ?new = "NewPeriodicState ?now b (cf_ActID cfg) m (cf_OpenTime cfg) (cf_CloseTime cfg)"
  assume j: "j \<noteq> k \<or> map_of (nd_engines (fst nw)) k = None"
  have stay: "in_sync n' j" if "n' = fst nw" using that sync by simp
  show "in_sync n' j"
  proof (cases "m \<le> 0 \<or> map_of (nd_states (fst nw)) k \<noteq> None \<or> \<not> result ?lock nw \<or> (\<exists>e. ?new = Inl e)")
    case True
    then have "n' = fst nw" by (auto simp: n'_def RegisterPeriodic_def split: sum.splits)
    then show ?thesis by (rule stay)
  next
    case False
    then obtain st where st: "?new = Inr st" by (cases ?new) auto
    define c where "c = round_config cfg (ps_RoundOpenTime st) (ps_RoundCloseTime st) (ps_currentRound st)"
    let ?reg = "RegisterRoundService reg b k c"
    define n2 where "n2 = fst (exec ?reg ?nw1)"
    show ?thesis
    proof (cases "result ?reg ?nw1")
      case (Inl e)
      then have "n' = fst nw"
        using False st not_registered [OF Inl] by (simp add: n'_def RegisterPeriodic_def c_def [symmetric] H)
      then show ?thesis by (rule stay)
    next
      case (Inr a)
      have r: "if map_of (nd_engines (fst nw)) k = None then new_service k c (fst nw) n2 a
          else map_of (nd_engines (fst nw)) k = Some a \<and> n2 = fst nw"
        using registered [OF Inr] unfolding n2_def exec_now_milli exec_tryLock .
      then have "nd_states n2 = nd_states (fst nw)" by (auto simp: new_service_def split: if_splits)
      then have n': "n' = n2\<lparr>nd_states := AList.update k st (nd_states (fst nw))\<rparr>"
        using False st Inr RegisterPeriodic_entered [where H = H and nw = nw and k = k and b = b and cfg = cfg
            and m = m and st = st and r = ?reg and a = a, OF _ _ _ _ _ refl]
        by (simp add: n'_def c_def H n2_def)
      have runs: "runs_round c' st" if "same_round c c'" for c'
        using that by (auto simp: same_round_def c_def round_config_def runs_round_def)
      show ?thesis
      proof (cases "map_of (nd_engines (fst nw)) k = None")
        case True
        then obtain v where "nd_heap n2 = nd_heap (fst nw) @ [v]" "same_round c (s_config v)"
            "nd_engines n2 = AList.update k (length (nd_heap (fst nw))) (nd_engines (fst nw))"
          using r by (auto simp: new_service_def)
        then show ?thesis using runs sync unfolding n'
          by (cases "j = k") (fastforce simp: in_sync_def update_conv' nth_append)+
      next
        case False
        then have "n2 = fst nw" "j \<noteq> k" using r j by auto
        then show ?thesis using sync unfolding n' by (simp add: in_sync_def update_conv')
      qed
    qed
  qed
qed

end

end
