(* ===== verification/Manager.thy ===== *)
theory Manager
  imports PeriodicHandler MemberIndex ConfigDoc
begin

text \<open>
  \<open>internal/rank/manager.go\<close> and \<open>manager_periodic.go\<close>: the registry of services of a node, their
  registration, update and removal, the tick, the queries across services and rounds, and the
  implementation of \<open>ServiceRegistrar\<close>. Theory \<open>ManagerSync\<close> has the synchronisation with Redis, MongoDB
  and the other nodes.

  \<open>m.services\<close> holds an adapter around the service that \<open>m.engineServices\<close> holds under the same key;
  the adapter only delegates, so here both tables hold the address of the service.
\<close>

section \<open>Keys, the member index and rank definitions\<close>

definition bizKey :: "string \<Rightarrow> int32 \<Rightarrow> string" where
  "bizKey bizType actID = bizType @ '':'' @ FormatInt actID"

lemma bizKey_LogicalKey: "bizKey b a = LogicalKey b a"
  by (simp add: bizKey_def LogicalKey_def)

definition memberIndexTTL :: int64 where
  "memberIndexTTL = 7 * 24 * 3600 * second_ns"

text \<open>The manager's index works on Redis and keeps nothing in memory.\<close>

definition on_index :: "'w deps \<Rightarrow> ('w, 'a) ix \<Rightarrow> ('w, 'a) state" where
  "on_index D m = State (\<lambda>w. let ix = NewMemberIndex (Some (dp_rdb D)) memberIndexTTL in
     (result m (ix, w), snd (exec m (ix, w))))"

definition onMemberJoin :: "'w deps \<Rightarrow> string \<Rightarrow> int32 \<Rightarrow> int64 \<Rightarrow> int32 \<Rightarrow> ('w, unit) state" where
  "onMemberJoin D bizType actID userID groupID =
     on_index D (Track (RankMemberIndexKey (dp_plat D)) userID
       \<lparr>me_BizType = bizType, me_ActID = actID, me_GroupID = groupID\<rparr>)"

definition rankDefFor :: "string \<Rightarrow> config \<Rightarrow> rank_def" where
  "rankDefFor bizType cfg = \<lparr>rd_RankCode = cf_RankCode cfg,
     rd_RankName = bizType @ ''_rank_'' @ FormatInt (cf_ActID cfg), rd_ScoreOrder = ScoreOrderDesc,
     rd_TieBreakPolicy = TieBreakPolicyFirstEnter, rd_CreateTime = cf_OpenTime cfg, rd_UpdateTime = cf_OpenTime cfg\<rparr>"

text \<open>Every service of a manager is made with its definition.\<close>

definition rankDefFromMemory :: "'w node \<Rightarrow> string \<Rightarrow> rank_def option" where
  "rankDefFromMemory n rankCode =
     find (\<lambda>d. rd_RankCode d = rankCode)
       (List.map_filter (\<lambda>(k, a). s_rankDef (nd_heap n ! a)) (nd_engines n))"

section \<open>Making and registering services\<close>

definition engine_at :: "string \<Rightarrow> ('w, nat option) nd" where
  "engine_at k = nget (\<lambda>n. map_of (nd_engines n) k)"

definition putService :: "string \<Rightarrow> nat \<Rightarrow> ('w, unit) nd" where
  "putService k a = nmod (\<lambda>n. n\<lparr>nd_services := AList.update k a (nd_services n),
     nd_engines := AList.update k a (nd_engines n)\<rparr>)"

definition dropService :: "string \<Rightarrow> ('w, unit) nd" where
  "dropService k = nmod (\<lambda>n. n\<lparr>nd_services := AList.delete k (nd_services n),
     nd_engines := AList.delete k (nd_engines n)\<rparr>)"

definition with_code :: "string \<Rightarrow> config \<Rightarrow> config" where
  "with_code bizType cfg =
     (if cf_RankCode cfg = [] then cfg\<lparr>cf_RankCode := score_code bizType (cf_ActID cfg)\<rparr> else cfg)"

definition with_create :: "'w deps \<Rightarrow> config \<Rightarrow> ('w, config) nd" where
  "with_create D cfg =
     (if cf_CreateTime cfg = 0
      then do { now \<leftarrow> now_milli (dp_env D); State_Monad.return (cfg\<lparr>cf_CreateTime := now\<rparr>) }
      else State_Monad.return cfg)"

text \<open>\<open>RegisterRank\<close> and \<open>NewService\<close>, the part outside the lock.\<close>

definition buildService :: "'w deps \<Rightarrow> string \<Rightarrow> config \<Rightarrow> ('w, goerr + 'w service) state" where
  "buildService D bizType cfg = do {
     let def = rankDefFor bizType cfg;
     err \<leftarrow> RegisterRank (dp_plat D) def;
     case err of
       Some e \<Rightarrow> State_Monad.return (Inl e)
     | None \<Rightarrow> NewService (dp_env D) (Some (dp_rank D)) cfg (Some (dp_rdb D))
         (Some (dao_store (dp_dao D) (dp_mongo D))) (Some (onMemberJoin D bizType (cf_ActID cfg))) (Some def)
   }"

text \<open>Under the lock: a service that is there already wins; otherwise the new one is entered.\<close>

definition insertService :: "string \<Rightarrow> 'w service \<Rightarrow> ('w, nat \<times> bool) nd" where
  "insertService k s = do {
     dup \<leftarrow> engine_at k;
     case dup of
       Some a \<Rightarrow> State_Monad.return (a, False)
     | None \<Rightarrow> do { a \<leftarrow> alloc s; _ \<leftarrow> putService k a; State_Monad.return (a, True) }
   }"

definition registerEngine :: "'w deps \<Rightarrow> string \<Rightarrow> config \<Rightarrow> ('w, goerr + nat) nd" where
  "registerEngine D bizType cfg0 = do {
     let cfg1 = with_code bizType cfg0;
     let key = bizKey bizType (cf_ActID cfg1);
     existing \<leftarrow> engine_at key;
     case existing of
       Some a \<Rightarrow> State_Monad.return (Inr a)
     | None \<Rightarrow> do {
         cfg \<leftarrow> with_create D cfg1;
         r \<leftarrow> lift_ext (buildService D bizType cfg);
         case r of
           Inl err \<Rightarrow> State_Monad.return (Inl err)
         | Inr service \<Rightarrow> do {
             (a, new) \<leftarrow> insertService key service;
             _ \<leftarrow> (if new \<and> dp_dao D \<noteq> None
                  then lift_ext (ignore (SaveRankConfig (dp_dao D) (dp_mongo D) key cfg)) else skip);
             State_Monad.return (Inr a)
           }
       }
   }"

definition registerSubService :: "'w deps \<Rightarrow> string \<Rightarrow> string \<Rightarrow> config \<Rightarrow> ('w, goerr + nat) nd" where
  "registerSubService D bizType logicalKey cfg0 = do {
     cfg \<leftarrow> with_create D (with_code bizType cfg0);
     existing \<leftarrow> engine_at logicalKey;
     case existing of
       Some a \<Rightarrow> State_Monad.return (Inr a)
     | None \<Rightarrow> do {
         r \<leftarrow> lift_ext (buildService D bizType cfg);
         case r of
           Inl err \<Rightarrow> State_Monad.return (Inl err)
         | Inr service \<Rightarrow> do {
             (a, new) \<leftarrow> insertService logicalKey service;
             State_Monad.return (Inr a)
           }
       }
   }"

definition replaceSubService :: "'w deps \<Rightarrow> string \<Rightarrow> string \<Rightarrow> config \<Rightarrow> ('w, goerr + nat) nd" where
  "replaceSubService D bizType logicalKey cfg0 = do {
     cfg \<leftarrow> with_create D (with_code bizType cfg0);
     r \<leftarrow> lift_ext (buildService D bizType cfg);
     case r of
       Inl err \<Rightarrow> State_Monad.return (Inl err)
     | Inr service \<Rightarrow> do {
         a \<leftarrow> alloc service;
         _ \<leftarrow> putService logicalKey a;
         State_Monad.return (Inr a)
       }
   }"

text \<open>The manager as \<open>ServiceRegistrar\<close>, and the handler it creates at start-up.\<close>

definition manager_registrar :: "'w deps \<Rightarrow> 'w registrar" where
  "manager_registrar D = \<lparr>RegisterRoundService = registerSubService D,
     ReplaceRoundService = replaceSubService D, GetEngineServiceByKey = engine_at\<rparr>"

definition cycle_of_file :: "'w deps \<Rightarrow> string \<Rightarrow> ('w, int32 \<times> bool) state" where
  "cycle_of_file D bizType = do {
     r \<leftarrow> LoadRankTypeAndCycle (dp_files D) bizType;
     State_Monad.return (case r of Inl e \<Rightarrow> (0, False) | Inr (t, cm) \<Rightarrow> (cm, True))
   }"

definition periodicHandler :: "'w deps \<Rightarrow> 'w handler" where
  "periodicHandler D = SetCycleProvider (cycle_of_file D) (NewHandler D (manager_registrar D))"

section \<open>Registering an activity\<close>

text \<open>\<open>json.Marshal\<close> of the document cannot fail.\<close>

definition publishRankCreate :: "'w deps \<Rightarrow> string \<Rightarrow> config \<Rightarrow> periodic_saved option \<Rightarrow> ('w, unit) state" where
  "publishRankCreate D key cfg ps =
     ignore (Publish (dp_plat D) (RankCreateChannel (dp_plat D))
       (JTxt (marshal_doc \<lparr>do_BizKey = key, do_Config = persisted cfg, do_Periodic = ps\<rparr>)))"

definition RankTypePeriodic :: int32 where "RankTypePeriodic = 2"

definition RegisterActivity :: "'w deps \<Rightarrow> string \<Rightarrow> config \<Rightarrow> ('w, goerr option) nd" where
  "RegisterActivity D bizType cfg0 = do {
     invalid \<leftarrow> lift_ext (ValidateBizType (dp_files D) bizType);
     if invalid \<noteq> None then State_Monad.return invalid
     else do {
       filled \<leftarrow> lift_ext (FillConfigFromFiles (dp_files D) bizType (cfg0\<lparr>cf_BizType := bizType\<rparr>));
       case filled of
         Inl err \<Rightarrow> State_Monad.return (Some err)
       | Inr cfg \<Rightarrow> do {
           tc \<leftarrow> lift_ext (LoadRankTypeAndCycle (dp_files D) bizType);
           case tc of
             Inl err \<Rightarrow> State_Monad.return (Some err)
           | Inr (rankType, cycleMinutes) \<Rightarrow> do {
               let key = bizKey bizType (cf_ActID cfg);
               if rankType = RankTypePeriodic
               then do {
                 err \<leftarrow> RegisterPeriodic (periodicHandler D) bizType key cfg cycleMinutes;
                 if err \<noteq> None then State_Monad.return err
                 else do {
                   state \<leftarrow> GetState key;
                   _ \<leftarrow> lift_ext (publishRankCreate D key cfg (map_option ToSavedState state));
                   State_Monad.return None
                 }
               }
               else do {
                 r \<leftarrow> registerEngine D bizType cfg;
                 case r of
                   Inl err \<Rightarrow> State_Monad.return (Some err)
                 | Inr _ \<Rightarrow> do {
                     _ \<leftarrow> lift_ext (publishRankCreate D key cfg None);
                     State_Monad.return None
                   }
               }
             }
         }
     }
   }"

section \<open>Update and removal\<close>

definition UpdateService :: "'w deps \<Rightarrow> string \<Rightarrow> int32 \<Rightarrow> config \<Rightarrow> ('w, goerr option) nd" where
  "UpdateService D bizType actID cfg = do {
     let key = bizKey bizType actID;
     svc \<leftarrow> engine_at key;
     case svc of
       None \<Rightarrow> State_Monad.return (Some (ErrText (''service not found: '' @ key)))
     | Some a \<Rightarrow> do {
         _ \<leftarrow> on_svc a (UpdateConfig (dp_env D) cfg);
         updated \<leftarrow> on_svc a (sget s_config);
         _ \<leftarrow> (if dp_dao D \<noteq> None
              then lift_ext (ignore (SaveRankConfig (dp_dao D) (dp_mongo D) key updated)) else skip);
         State_Monad.return None
       }
   }"

definition cleanupServiceData :: "'w deps \<Rightarrow> nat \<Rightarrow> string \<Rightarrow> int32 \<Rightarrow> ('w, unit) nd" where
  "cleanupServiceData D a bizType actID = do {
     r \<leftarrow> on_svc a (GetAllMembersOf (dp_env D));
     _ \<leftarrow> (case r of
            Inl err \<Rightarrow> skip
          | Inr members \<Rightarrow>
              if length members > 0
              then lift_ext (on_index D (RemoveUserEntries (RankMemberIndexKey (dp_plat D)) bizType actID members))
              else skip);
     on_svc a (Cleanup (dp_env D))
   }"

definition forceCleanupOrphan :: "'w deps \<Rightarrow> string \<Rightarrow> int32 \<Rightarrow> ('w, unit) state" where
  "forceCleanupOrphan D bizType actID = do {
     let bizId = bizType @ ''_'' @ FormatInt actID;
     let rankCode = score_code bizType actID;
     let store = store_of D bizId;
     r \<leftarrow> GetAllMembers (dp_env D) store;
     _ \<leftarrow> (case r of
            Inl err \<Rightarrow> skip
          | Inr members \<Rightarrow>
              if length members > 0
              then on_index D (RemoveUserEntries (RankMemberIndexKey (dp_plat D)) bizType actID members)
              else skip);
     g \<leftarrow> LoadGroups (dp_env D) store;
     let groups = (case g of Inl err \<Rightarrow> [] | Inr gs \<Rightarrow> slice gs);
     _ \<leftarrow> CleanupAll (dp_env D) store groups;
     _ \<leftarrow> for_each groups (\<lambda>g. ignore (DeleteInstance (dp_rank D)
            (NewInstanceID (en_lib (dp_env D)) rankCode bizId (''group_'' @ FormatInt (gr_GroupID g)))));
     ignore (DeleteRankDef (dp_rank D) rankCode)
   }"

definition RemoveService :: "'w deps \<Rightarrow> string \<Rightarrow> int32 \<Rightarrow> ('w, goerr option) nd" where
  "RemoveService D bizType actID = do {
     let key = bizKey bizType actID;
     svc \<leftarrow> engine_at key;
     _ \<leftarrow> (if svc \<noteq> None then dropService key else skip);
     _ \<leftarrow> RemoveState (periodicHandler D) key;
     _ \<leftarrow> (case svc of
            Some a \<Rightarrow> cleanupServiceData D a bizType actID
          | None \<Rightarrow> lift_ext (forceCleanupOrphan D bizType actID));
     _ \<leftarrow> (if dp_dao D \<noteq> None then lift_ext (ignore (DeleteRankConfig (dp_dao D) (dp_mongo D) key)) else skip);
     _ \<leftarrow> lift_ext (ignore (Publish (dp_plat D) (RankDeleteChannel (dp_plat D)) (Txt key)));
     State_Monad.return None
   }"

section \<open>Queries across services\<close>

definition snapshotServices :: "('w, nat list) nd" where
  "snapshotServices = nget (\<lambda>n. map snd (nd_engines n))"

definition GetServiceAt :: "string \<Rightarrow> int32 \<Rightarrow> ('w, nat option) nd" where
  "GetServiceAt bizType actID = nget (\<lambda>n. map_of (nd_services n) (bizKey bizType actID))"

definition GetEngineService :: "string \<Rightarrow> int32 \<Rightarrow> ('w, nat option) nd" where
  "GetEngineService bizType actID = engine_at (bizKey bizType actID)"

definition GetPeriodicState :: "string \<Rightarrow> int32 \<Rightarrow> ('w, periodic_state option) nd" where
  "GetPeriodicState bizType actID = GetState (bizKey bizType actID)"

definition config_found :: "goerr + rank_config_doc option \<Rightarrow> rank_config_doc option" where
  "config_found r = (case r of Inl e \<Rightarrow> None | Inr d \<Rightarrow> d)"

definition loaded_config :: "'w deps \<Rightarrow> string \<Rightarrow> ('w, rank_config_doc option) nd" where
  "loaded_config D key =
     (if dp_dao D = None then State_Monad.return None
      else do {
        r \<leftarrow> lift_ext (LoadRankConfig (dp_dao D) (dp_mongo D) key);
        State_Monad.return (config_found r)
      })"

definition IsRankTrulyNotFound :: "'w deps \<Rightarrow> string \<Rightarrow> int32 \<Rightarrow> ('w, bool) nd" where
  "IsRankTrulyNotFound D bizType actID = do {
     svc \<leftarrow> GetEngineService bizType actID;
     if svc \<noteq> None then State_Monad.return False
     else do {
       st \<leftarrow> GetPeriodicState bizType actID;
       if st \<noteq> None then State_Monad.return False
       else do {
         doc \<leftarrow> loaded_config D (bizKey bizType actID);
         State_Monad.return (doc = None)
       }
     }
   }"

record service_info =
  si_BizType :: string
  si_ActID :: int32
  si_Config :: config
  si_Settled :: bool
  si_GroupCount :: int32
  si_MemberCount :: int32
  si_CreateTime :: int64

definition ListServices :: "'w deps \<Rightarrow> string \<Rightarrow> ('w, service_info list) nd" where
  "ListServices D filterBizType = do {
     svcs \<leftarrow> snapshotServices;
     fold_state (\<lambda>a infos. do {
       cfg \<leftarrow> on_svc a (sget s_config);
       if filterBizType \<noteq> [] \<and> cf_BizType cfg \<noteq> filterBizType then State_Monad.return infos
       else do {
         settled \<leftarrow> on_svc a (IsSettled (dp_env D));
         gc \<leftarrow> on_svc a (GroupCount (dp_env D));
         mc \<leftarrow> on_svc a (MemberCount (dp_env D));
         State_Monad.return (infos @ [\<lparr>si_BizType = cf_BizType cfg, si_ActID = cf_ActID cfg, si_Config = cfg,
           si_Settled = settled, si_GroupCount = gc, si_MemberCount = mc, si_CreateTime = cf_CreateTime cfg\<rparr>])
       } }) svcs []
   }"

definition rebuildMemberIndex :: "'w deps \<Rightarrow> int64 \<Rightarrow> ('w, member_entry list) nd" where
  "rebuildMemberIndex D userID = do {
     svcs \<leftarrow> snapshotServices;
     fold_state (\<lambda>a entries. do {
       g \<leftarrow> on_svc a (GetMemberGroupID userID);
       case g of
         None \<Rightarrow> State_Monad.return entries
       | Some groupID \<Rightarrow> do {
           cfg \<leftarrow> on_svc a (sget s_config);
           let entry = \<lparr>me_BizType = cf_BizType cfg, me_ActID = cf_ActID cfg, me_GroupID = groupID\<rparr>;
           _ \<leftarrow> lift_ext (on_index D (Track (RankMemberIndexKey (dp_plat D)) userID entry));
           State_Monad.return (entries @ [entry])
         } }) svcs []
   }"

definition GetMemberEntries :: "'w deps \<Rightarrow> int64 \<Rightarrow> ('w, member_entry list) nd" where
  "GetMemberEntries D userID = do {
     entries \<leftarrow> lift_ext (on_index D (Lookup (RankMemberIndexKey (dp_plat D)) userID));
     if length entries > 0 then State_Monad.return entries else rebuildMemberIndex D userID
   }"

text \<open>The services of the entries are looked up first, all at once; then each is asked. The first error
  ends the query.\<close>

fun member_ranks :: "'w deps \<Rightarrow> int64 \<Rightarrow> (member_entry \<times> nat option) list
    \<Rightarrow> ('w, goerr + (member_entry \<times> snapshot option) list) nd" where
  "member_ranks D userID [] = State_Monad.return (Inr [])"
| "member_ranks D userID ((entry, svc) # lookups) =
     (case svc of
        None \<Rightarrow> do {
          rest \<leftarrow> member_ranks D userID lookups;
          State_Monad.return (case rest of Inl err \<Rightarrow> Inl err | Inr l \<Rightarrow> Inr ((entry, None) # l))
        }
      | Some a \<Rightarrow> do {
          r \<leftarrow> on_svc a (GetMemberRank (dp_env D) userID);
          case r of
            Inl err \<Rightarrow> State_Monad.return
              (Inl (ErrWrap (''get rank for '' @ bizKey (me_BizType entry) (me_ActID entry)) err))
          | Inr (snap, g) \<Rightarrow> do {
              rest \<leftarrow> member_ranks D userID lookups;
              State_Monad.return (case rest of Inl err \<Rightarrow> Inl err | Inr l \<Rightarrow> Inr ((entry, snap) # l))
            }
        })"

definition GetMemberRankEntries ::
  "'w deps \<Rightarrow> int64 \<Rightarrow> ('w, goerr + (member_entry \<times> snapshot option) list) nd" where
  "GetMemberRankEntries D userID = do {
     entries \<leftarrow> GetMemberEntries D userID;
     if length entries = 0 then State_Monad.return (Inr [])
     else do {
       lookups \<leftarrow> nget (\<lambda>n. map (\<lambda>e. (e, map_of (nd_services n) (bizKey (me_BizType e) (me_ActID e)))) entries);
       member_ranks D userID lookups
     }
   }"

section \<open>The tick\<close>

text \<open>The pool may refuse a task; the tasks it takes are done, in some order, before the rounds are
  looked at. The errors of a tick are only logged.\<close>

definition tickServices :: "'w deps \<Rightarrow> int64 \<Rightarrow> ('w, unit) nd" where
  "tickServices D now = do {
     svcs \<leftarrow> nget (\<lambda>n. map snd (nd_services n));
     _ \<leftarrow> for_each svcs (\<lambda>a. do {
       refused \<leftarrow> lift_ext (Submit (dp_plat D));
       if refused = None then ignore (on_svc a (Tick (dp_env D) now)) else skip });
     TickAll (periodicHandler D) now
   }"

definition warmUpAllServices :: "'w deps \<Rightarrow> ('w, unit) nd" where
  "warmUpAllServices D = do {
     svcs \<leftarrow> snapshotServices;
     for_each svcs (\<lambda>a. do {
       refused \<leftarrow> lift_ext (Submit (dp_plat D));
       if refused = None then on_svc a (WarmUp (dp_env D)) else skip })
   }"

definition Close :: "('w, unit) nd" where
  "Close = do { _ \<leftarrow> Clear; nmod (\<lambda>n. n\<lparr>nd_services := [], nd_engines := []\<rparr>) }"

section \<open>Rounds of an activity\<close>

text \<open>A one-off activity counts as a single round.\<close>

definition single_round :: "'w deps \<Rightarrow> nat \<Rightarrow> ('w, round_info) nd" where
  "single_round D a = do {
     cfg \<leftarrow> on_svc a (sget s_config);
     settled \<leftarrow> on_svc a (IsSettled (dp_env D));
     State_Monad.return \<lparr>rf_Round = 1, rf_OpenTime = cf_OpenTime cfg, rf_CloseTime = cf_CloseTime cfg,
       rf_Settled = settled, rf_Current = True\<rparr>
   }"

definition no_service :: "string \<Rightarrow> int32 \<Rightarrow> goerr" where
  "no_service bizType actID = ErrText (''service not found: bizType='' @ bizType @ '' actID='' @ FormatInt actID)"

definition RoundInfosOf :: "'w deps \<Rightarrow> string \<Rightarrow> int32 \<Rightarrow> ('w, (goerr + int32 \<times> round_info list) option) nd" where
  "RoundInfosOf D bizType actID = do {
     state \<leftarrow> GetState (bizKey bizType actID);
     case state of
       None \<Rightarrow> do {
         svc \<leftarrow> GetEngineService bizType actID;
         case svc of
           None \<Rightarrow> State_Monad.return (Some (Inl (no_service bizType actID)))
         | Some a \<Rightarrow> do { i \<leftarrow> single_round D a; State_Monad.return (Some (Inr (1, [i]))) }
       }
     | Some st \<Rightarrow> do {
         r \<leftarrow> GetRoundInfos (periodicHandler D) st;
         State_Monad.return (map_option Inr r)
       }
   }"

definition CurrentRoundInfoOf :: "'w deps \<Rightarrow> string \<Rightarrow> int32 \<Rightarrow> ('w, goerr + round_info) nd" where
  "CurrentRoundInfoOf D bizType actID = do {
     state \<leftarrow> GetState (bizKey bizType actID);
     case state of
       None \<Rightarrow> do {
         svc \<leftarrow> GetEngineService bizType actID;
         case svc of
           None \<Rightarrow> State_Monad.return (Inl (no_service bizType actID))
         | Some a \<Rightarrow> do { i \<leftarrow> single_round D a; State_Monad.return (Inr i) }
       }
     | Some st \<Rightarrow> do { i \<leftarrow> GetCurrentRoundInfo (periodicHandler D) st; State_Monad.return (Inr i) }
   }"

definition ResolveEngineService :: "'w deps \<Rightarrow> string \<Rightarrow> int32 \<Rightarrow> int32 \<Rightarrow> ('w, nat option \<times> bool) nd" where
  "ResolveEngineService D bizType actID round = do {
     let key = bizKey bizType actID;
     state \<leftarrow> GetState key;
     case state of
       None \<Rightarrow> do {
         svc \<leftarrow> GetEngineService bizType actID;
         if svc \<noteq> None then State_Monad.return (svc, False)
         else do {
           doc \<leftarrow> loaded_config D key;
           State_Monad.return (None, case doc of None \<Rightarrow> False | Some d \<Rightarrow> do_Periodic d \<noteq> None)
         }
       }
     | Some st \<Rightarrow> do {
         redisRound \<leftarrow> readCurRoundFromRedis (periodicHandler D) key;
         let curRound = (if redisRound > ps_currentRound st then redisRound else ps_currentRound st);
         let effective = (if round = 0 then curRound else round);
         if effective < curRound then State_Monad.return (None, True)
         else do {
           svc \<leftarrow> GetEngineService bizType actID;
           case svc of
             None \<Rightarrow> State_Monad.return (None, True)
           | Some a \<Rightarrow> do {
               settled \<leftarrow> on_svc a (IsSettled (dp_env D));
               State_Monad.return (if settled then (None, True) else (Some a, False))
             }
         }
       }
   }"

definition FallbackClaimReward :: "'w deps \<Rightarrow> string \<Rightarrow> int32 \<Rightarrow> int64 \<Rightarrow> int64 \<Rightarrow> ('w, goerr + bool \<times> int64) state" where
  "FallbackClaimReward D bizType actID userID now =
     AtomicClaim (dp_env D) (store_of D (bizType @ ''_'' @ FormatInt actID)) userID now"

definition FallbackGetClaimStatus :: "'w deps \<Rightarrow> string \<Rightarrow> int32 \<Rightarrow> int64 \<Rightarrow> ('w, goerr + bool \<times> int64) state" where
  "FallbackGetClaimStatus D bizType actID userID = do {
     r \<leftarrow> GetClaim (dp_env D) (store_of D (bizType @ ''_'' @ FormatInt actID)) userID;
     State_Monad.return (case r of
         Inl err \<Rightarrow> Inl err
       | Inr None \<Rightarrow> Inr (False, 0)
       | Inr (Some ct) \<Rightarrow> Inr (True, ct))
   }"

end
