(* ===== verification/ManagerSync.thy ===== *)
theory ManagerSync
  imports Manager
begin

text \<open>
  \<open>internal/rank/manager.go\<close>, the synchronisation of a node: with the configurations in MongoDB
  (\<open>syncFromMongo\<close>), with the registry of active services in Redis (\<open>syncFromRedis\<close> and the degraded
  recovery of periodic activities), and with the announcements of other nodes. A goroutine that waits
  for a ticker or a message is not modelled; what it does for one tick or one message is.
\<close>

section \<open>Shared steps\<close>

text \<open>A configuration that cannot be filled is only logged.\<close>

definition fill_or_keep :: "'w deps \<Rightarrow> string \<Rightarrow> config \<Rightarrow> ('w, config) state" where
  "fill_or_keep D bizType cfg = do {
     r \<leftarrow> FillConfigFromFiles (dp_files D) bizType cfg;
     State_Monad.return (case r of Inl e \<Rightarrow> cfg | Inr c \<Rightarrow> c)
   }"

definition saved_window :: "config \<Rightarrow> periodic_saved option \<Rightarrow> config" where
  "saved_window cfg ps = (case ps of
     None \<Rightarrow> cfg
   | Some sv \<Rightarrow> round_config cfg (sv_RoundOpenTime sv) (sv_RoundCloseTime sv) (sv_CurrentRound sv))"

definition doc_config :: "rank_config_doc \<Rightarrow> config" where
  "doc_config doc = (if cf_BizType (do_Config doc) = [] then (do_Config doc)\<lparr>cf_BizType := ''balloon''\<rparr> else do_Config doc)"

definition doc_key :: "rank_config_doc \<Rightarrow> string" where
  "doc_key doc = bizKey (cf_BizType (doc_config doc)) (cf_ActID (doc_config doc))"

text \<open>The state of a periodic activity is taken from the document unless the one in memory is as far.\<close>

definition restoreState :: "'w deps \<Rightarrow> string \<Rightarrow> int32 \<Rightarrow> string \<Rightarrow> periodic_saved \<Rightarrow> ('w, unit) nd" where
  "restoreState D bizType actID key saved = do {
     existing \<leftarrow> GetState key;
     if (case existing of None \<Rightarrow> True | Some s \<Rightarrow> ps_currentRound s < sv_CurrentRound saved)
     then do {
       let ps = StateFromSaved bizType actID saved;
       _ \<leftarrow> SetState key ps;
       CleanupHistoricalRounds (periodicHandler D) ps
     }
     else skip
   }"

definition queueWarmUp :: "'w deps \<Rightarrow> nat \<Rightarrow> ('w, unit) nd" where
  "queueWarmUp D a = do {
     refused \<leftarrow> lift_ext (Submit (dp_plat D));
     if refused = None then nmod (\<lambda>n. n\<lparr>nd_warmups := nd_warmups n @ [a]\<rparr>) else skip
   }"

section \<open>\<open>syncFromMongo\<close>\<close>

definition activityStillOpen :: "config \<Rightarrow> int64 \<Rightarrow> bool" where
  "activityStillOpen cfg now \<longleftrightarrow> cf_CloseTime cfg = 0 \<or> now < cf_CloseTime cfg"

definition seven_days_over :: "int64 \<Rightarrow> int64 \<Rightarrow> bool" where
  "seven_days_over closeTime now \<longleftrightarrow> closeTime > 0 \<and> now > i64 (closeTime + 7 * 86400000)"

definition replaceStale :: "'w deps \<Rightarrow> string \<Rightarrow> string \<Rightarrow> nat \<Rightarrow> periodic_saved \<Rightarrow> ('w, unit) nd" where
  "replaceStale D bizType key a saved = do {
     cfg \<leftarrow> on_svc a (sget s_config);
     if cf_RoundIndex cfg > 0 \<and> cf_RoundIndex cfg < sv_CurrentRound saved
     then do {
       r \<leftarrow> replaceSubService D bizType key
              ((saved_window cfg (Some saved))\<lparr>cf_CreateTime := sv_RoundOpenTime saved\<rparr>);
       case r of Inl err \<Rightarrow> skip | Inr b \<Rightarrow> queueWarmUp D b
     }
     else skip
   }"

definition restoreService :: "'w deps \<Rightarrow> string \<Rightarrow> string \<Rightarrow> config \<Rightarrow> periodic_saved option \<Rightarrow> ('w, unit) nd" where
  "restoreService D bizType key cfg0 ps = do {
     cfg1 \<leftarrow> lift_ext (fill_or_keep D bizType (with_code bizType cfg0));
     r \<leftarrow> lift_ext (buildService D bizType (saved_window cfg1 ps));
     case r of Inl err \<Rightarrow> skip | Inr service \<Rightarrow> ignore (insertService key service)
   }"

text \<open>One document; the list collects the keys that are alive in MongoDB.\<close>

definition sync_doc :: "'w deps \<Rightarrow> int64 \<Rightarrow> rank_config_doc \<Rightarrow> string list \<Rightarrow> ('w, string list) nd" where
  "sync_doc D now doc mongoKeys = do {
     let cfg = doc_config doc;
     let bizType = cf_BizType cfg;
     let key = doc_key doc;
     if seven_days_over (cf_CloseTime cfg) now then State_Monad.return mongoKeys
     else do {
       existing \<leftarrow> engine_at key;
       roundIndex \<leftarrow> (case existing of
           None \<Rightarrow> State_Monad.return 0
         | Some a \<Rightarrow> on_svc a (sget (\<lambda>s. cf_RoundIndex (s_config s))));
       _ \<leftarrow> (case do_Periodic doc of
              None \<Rightarrow> skip
            | Some saved \<Rightarrow> if existing = None \<or> roundIndex > 0
                            then restoreState D bizType (cf_ActID cfg) key saved else skip);
       _ \<leftarrow> (case existing of
              Some a \<Rightarrow> (case do_Periodic doc of None \<Rightarrow> skip | Some saved \<Rightarrow> replaceStale D bizType key a saved)
            | None \<Rightarrow> restoreService D bizType key cfg (do_Periodic doc));
       State_Monad.return (key # mongoKeys)
     }
   }"

text \<open>The services known before that MongoDB does not name, with their configurations.\<close>

definition missing_services :: "'w node \<Rightarrow> string list \<Rightarrow> string list \<Rightarrow> (string \<times> config) list" where
  "missing_services n existingKeys mongoKeys =
     List.map_filter (\<lambda>k. if k \<in> set mongoKeys then None
       else map_option (\<lambda>a. (k, s_config (nd_heap n ! a))) (map_of (nd_engines n) k)) existingKeys"

definition removeEnded :: "string \<Rightarrow> (nat \<times> string \<times> int32) list \<Rightarrow> ('w, (nat \<times> string \<times> int32) list) nd" where
  "removeEnded key removed = do {
     svc \<leftarrow> engine_at key;
     case svc of
       None \<Rightarrow> State_Monad.return removed
     | Some a \<Rightarrow> do {
         cfg \<leftarrow> on_svc a (sget s_config);
         _ \<leftarrow> dropService key;
         State_Monad.return (removed @ [(a, cf_BizType cfg, cf_ActID cfg)])
       }
   }"

definition sync_missing :: "'w deps \<Rightarrow> int64 \<Rightarrow> string list \<Rightarrow> string list \<Rightarrow> ('w, unit) nd" where
  "sync_missing D now existingKeys mongoKeys = do {
     missing \<leftarrow> nget (\<lambda>n. missing_services n existingKeys mongoKeys);
     let toRepair = filter (\<lambda>(k, cfg). activityStillOpen cfg now) missing;
     let toDelete = map fst (filter (\<lambda>(k, cfg). \<not> activityStillOpen cfg now) missing);
     _ \<leftarrow> for_each toRepair (\<lambda>(k, cfg).
            lift_ext (ignore (SaveRankConfig (dp_dao D) (dp_mongo D) k cfg)));
     removed \<leftarrow> fold_state removeEnded toDelete [];
     for_each removed (\<lambda>(a, bizType, actID). cleanupServiceData D a bizType actID)
   }"

definition syncFromMongo :: "'w deps \<Rightarrow> ('w, unit) nd" where
  "syncFromMongo D =
     (if dp_dao D = None then skip
      else do {
        existingKeys \<leftarrow> nget (\<lambda>n. map fst (nd_engines n));
        r \<leftarrow> lift_ext (LoadAllRankConfigs (dp_dao D) (dp_mongo D));
        case r of
          Inl err \<Rightarrow> skip
        | Inr docs \<Rightarrow> do {
            now \<leftarrow> now_milli (dp_env D);
            mongoKeys \<leftarrow> fold_state (sync_doc D now) docs [];
            sync_missing D now existingKeys mongoKeys
          }
      })"

section \<open>\<open>syncFromRedis\<close>\<close>

definition parseRegistryMember :: "string \<Rightarrow> (string \<times> int64) option" where
  "parseRegistryMember mem =
     (case split_last mem CHR '':'' of
        None \<Rightarrow> None
      | Some (bizId, digits) \<Rightarrow>
          if bizId = [] \<or> digits = [] then None
          else let (deadline, ok) = ParseInt digits 64 in if \<not> ok then None else Some (bizId, deadline))"

text \<open>The registry holds plain text only.\<close>

definition live_member :: "int64 \<Rightarrow> rval \<Rightarrow> string option" where
  "live_member now mem = (case mem of
     JTxt j \<Rightarrow> None
   | Txt s \<Rightarrow> (case parseRegistryMember s of
       None \<Rightarrow> None
     | Some (bizId, deadline) \<Rightarrow> if deadline > 0 \<and> deadline < now then None else Some bizId))"

text \<open>A store without MongoDB, for reading the activity times only.\<close>

definition redis_store :: "'w deps \<Rightarrow> string \<Rightarrow> 'w store" where
  "redis_store D bizId = store_of (D\<lparr>dp_dao := None\<rparr>) bizId"

definition registryDeadline :: "'w deps \<Rightarrow> string \<Rightarrow> ('w, int64) state" where
  "registryDeadline D bizId = do {
     ((openTime, closeTime, gameEndTime), ok) \<leftarrow> LoadActivityTimes (dp_env D) (redis_store D bizId);
     let settleAt = (if gameEndTime = 0 then closeTime else gameEndTime);
     if \<not> ok \<or> settleAt \<le> 0
     then do {
       t \<leftarrow> Now (en_lib (dp_env D));
       State_Monad.return (UnixMilli (t + ColdDataTTL (en_lib (dp_env D))))
     }
     else State_Monad.return (i64 (settleAt + Milliseconds (SettledCacheTTL (en_lib (dp_env D)))))
   }"

definition meta_prefix :: "'w deps \<Rightarrow> string" where
  "meta_prefix D = RankMetaKeyPrefix (dp_plat D) @ '':{''"

definition bizId_of_key :: "'w deps \<Rightarrow> string \<Rightarrow> string" where
  "bizId_of_key D key = TrimSuffix (TrimPrefix key (meta_prefix D)) ''}''"

definition bootstrapRegistry :: "'w deps \<Rightarrow> ('w, bool) state" where
  "bootstrapRegistry D = do {
     r \<leftarrow> ScanAll (dp_plat D) (meta_prefix D @ ''*}'') 500;
     case r of
       Inl err \<Rightarrow> State_Monad.return False
     | Inr keys \<Rightarrow>
         if length keys = 0 then State_Monad.return True
         else do {
           members \<leftarrow> fold_state (\<lambda>key members.
             if bizId_of_key D key = [] then State_Monad.return members
             else do {
               deadline \<leftarrow> registryDeadline D (bizId_of_key D key);
               State_Monad.return (members @ [Txt (registryEntry (bizId_of_key D key) deadline)])
             }) keys [];
           if length members = 0 then State_Monad.return True
           else do {
             err \<leftarrow> PipeExec (dp_rdb D)
               [PSAdd (RankActiveServicesKey (en_keys (dp_env D))) members,
                PExpire (RankActiveServicesKey (en_keys (dp_env D))) (ColdDataTTL (en_lib (dp_env D)))];
             State_Monad.return (err = None)
           }
         }
   }"

text \<open>The window of the round to recover: stored, or for the older formats computed from the cycle.\<close>

definition recovered_window :: "periodic_meta \<Rightarrow> int32 \<Rightarrow> int64 \<times> int64" where
  "recovered_window m curRound =
     (if pm_RoundOpenTime m > 0 \<and> pm_RoundCloseTime m > 0
      then (pm_RoundOpenTime m, pm_RoundCloseTime m)
      else let d = cycleDurationMs (pm_CycleMinutes m);
               opn = i64 (pm_TotalOpenTime m + i64 (i32 (curRound - 1) * d));
               cls = i64 (opn + d)
           in (opn, if cls > pm_TotalCloseTime m then pm_TotalCloseTime m else cls))"

definition recovered_state :: "periodic_meta \<Rightarrow> int32 \<Rightarrow> periodic_saved" where
  "recovered_state m curRound = \<lparr>sv_CycleMinutes = pm_CycleMinutes m, sv_BaseCycleMinutes = pm_BaseCycleMinutes m,
     sv_TotalOpenTime = pm_TotalOpenTime m, sv_TotalCloseTime = pm_TotalCloseTime m, sv_CurrentRound = curRound,
     sv_RoundOpenTime = fst (recovered_window m curRound), sv_RoundCloseTime = snd (recovered_window m curRound)\<rparr>"

text \<open>The configuration of the activity as a whole, written only when MongoDB has none.\<close>

definition persistRecovered :: "'w deps \<Rightarrow> string \<Rightarrow> int32 \<Rightarrow> string \<Rightarrow> periodic_saved \<Rightarrow> ('w, unit) state" where
  "persistRecovered D bizType actID logicalKey saved =
     (if dp_dao D = None then skip
      else do {
        r \<leftarrow> LoadRankConfig (dp_dao D) (dp_mongo D) logicalKey;
        if r = Inr None
        then do {
          cfg \<leftarrow> fill_or_keep D bizType (zero_config\<lparr>cf_BizType := bizType, cf_ActID := actID,
                   cf_OpenTime := sv_TotalOpenTime saved, cf_CloseTime := sv_TotalCloseTime saved\<rparr>);
          ignore (SaveRankConfigWithPeriodic (dp_dao D) (dp_mongo D) logicalKey cfg saved)
        }
        else skip
      })"

text \<open>\<open>"{bizType}_{actID}"\<close>, the id of an activity without its round.\<close>

definition split_base :: "string \<Rightarrow> (string \<times> int32) option" where
  "split_base base =
     (case split_last base CHR ''_'' of
        None \<Rightarrow> None
      | Some (bizType, digits) \<Rightarrow>
          if bizType = [] then None
          else let (n, ok) = ParseInt digits 32 in if \<not> ok then None else Some (bizType, i32 n))"

definition recoverPeriodic :: "'w deps \<Rightarrow> string \<Rightarrow> int32 \<Rightarrow> ('w, unit) nd" where
  "recoverPeriodic D bizType actID = do {
     let logicalKey = bizKey bizType actID;
     existing \<leftarrow> engine_at logicalKey;
     if existing \<noteq> None then skip
     else do {
       meta \<leftarrow> GetPeriodicMetaFromRedis (periodicHandler D) logicalKey;
       case meta of
         None \<Rightarrow> skip
       | Some m \<Rightarrow> do {
           r \<leftarrow> readCurRoundFromRedis (periodicHandler D) logicalKey;
           let curRound = (if r \<le> 0 then 1 else r);
           let saved = recovered_state m curRound;
           let ps = StateFromSaved bizType actID saved;
           _ \<leftarrow> SetState logicalKey ps;
           _ \<leftarrow> CleanupHistoricalRounds (periodicHandler D) ps;
           cfg \<leftarrow> lift_ext (fill_or_keep D bizType (saved_window
                    (zero_config\<lparr>cf_BizType := bizType, cf_ActID := actID\<rparr>) (Some saved)));
           s \<leftarrow> registerSubService D bizType logicalKey cfg;
           case s of Inl err \<Rightarrow> skip | Inr a \<Rightarrow> lift_ext (persistRecovered D bizType actID logicalKey saved)
         }
     }
   }"

definition tryRecoverPeriodicFromRedis :: "'w deps \<Rightarrow> string \<Rightarrow> ('w, unit) nd" where
  "tryRecoverPeriodicFromRedis D roundId =
     (let (base, ok) = ExtractRoundBizBase roundId in
      if \<not> ok then skip
      else case split_base base of None \<Rightarrow> skip | Some (bizType, actID) \<Rightarrow> recoverPeriodic D bizType actID)"

definition registerFromRedis :: "'w deps \<Rightarrow> string \<Rightarrow> int32 \<Rightarrow> string \<Rightarrow> int64 \<Rightarrow> ('w, bool) nd" where
  "registerFromRedis D bizType actID bizId now = do {
     let key = bizKey bizType actID;
     existing \<leftarrow> engine_at key;
     if existing \<noteq> None then State_Monad.return False
     else do {
       ((openTime, closeTime, gameEndTime), ok) \<leftarrow> lift_ext (LoadActivityTimes (dp_env D) (redis_store D bizId));
       if \<not> ok then State_Monad.return False
       else if seven_days_over closeTime now then State_Monad.return False
       else do {
         cfg \<leftarrow> lift_ext (fill_or_keep D bizType (zero_config\<lparr>cf_BizType := bizType, cf_ActID := actID,
                  cf_RankCode := score_code bizType actID, cf_OpenTime := openTime, cf_CloseTime := closeTime,
                  cf_GameEndTime := gameEndTime\<rparr>));
         r \<leftarrow> lift_ext (buildService D bizType cfg);
         case r of
           Inl err \<Rightarrow> State_Monad.return False
         | Inr service \<Rightarrow> do { (a, new) \<leftarrow> insertService key service; State_Monad.return new }
       }
     }
   }"

definition registerFromBizId :: "'w deps \<Rightarrow> string \<Rightarrow> int64 \<Rightarrow> ('w, bool) nd" where
  "registerFromBizId D bizId now =
     (case split_last bizId CHR ''_'' of
        None \<Rightarrow> State_Monad.return False
      | Some (bizType, digits) \<Rightarrow>
          if bizType = [] then State_Monad.return False
          else if IsRoundBizId bizId
          then do { _ \<leftarrow> tryRecoverPeriodicFromRedis D bizId; State_Monad.return False }
          else (case split_base bizId of
                  None \<Rightarrow> State_Monad.return False
                | Some (b, actID) \<Rightarrow> registerFromRedis D b actID bizId now))"

definition syncFromRedis :: "'w deps \<Rightarrow> ('w, unit) nd" where
  "syncFromRedis D = do {
     booted \<leftarrow> nget nd_bootstrapped;
     _ \<leftarrow> (if booted then skip
          else do {
            ok \<leftarrow> lift_ext (bootstrapRegistry D);
            if ok then nmod (\<lambda>n. n\<lparr>nd_bootstrapped := True\<rparr>) else skip
          });
     r \<leftarrow> lift_ext (SMembers (dp_rdb D) (RankActiveServicesKey (en_keys (dp_env D))));
     case r of
       Inl err \<Rightarrow> skip
     | Inr members \<Rightarrow>
         if length members = 0 then skip
         else do {
           now \<leftarrow> now_milli (dp_env D);
           let stale = filter (\<lambda>m. live_member now m = None) members;
           _ \<leftarrow> (if length stale > 0
                then lift_ext (ignore (PipeExec (dp_rdb D)
                  [PSRem (RankActiveServicesKey (en_keys (dp_env D))) stale,
                   PExpire (RankActiveServicesKey (en_keys (dp_env D))) (ColdDataTTL (en_lib (dp_env D)))]))
                else skip);
           for_each (List.map_filter (live_member now) members) (\<lambda>bizId. ignore (registerFromBizId D bizId now))
         }
   }"

section \<open>Announcements of other nodes\<close>

definition persistApplied :: "'w deps \<Rightarrow> string \<Rightarrow> config \<Rightarrow> periodic_state option \<Rightarrow> ('w, unit) state" where
  "persistApplied D key cfg state = (case state of
     Some st \<Rightarrow> ignore (SaveRankConfigWithPeriodic (dp_dao D) (dp_mongo D) key cfg (ToSavedState st))
   | None \<Rightarrow> ignore (SaveRankConfig (dp_dao D) (dp_mongo D) key cfg))"

definition applyRankConfigDoc :: "'w deps \<Rightarrow> rank_config_doc \<Rightarrow> ('w, bool) nd" where
  "applyRankConfigDoc D doc = do {
     let bizType = cf_BizType (doc_config doc);
     let key = doc_key doc;
     _ \<leftarrow> (case do_Periodic doc of
            None \<Rightarrow> skip
          | Some saved \<Rightarrow> restoreState D bizType (cf_ActID (doc_config doc)) key saved);
     existing \<leftarrow> engine_at key;
     if existing \<noteq> None then State_Monad.return False
     else do {
       cfg \<leftarrow> lift_ext (fill_or_keep D bizType (with_code bizType (doc_config doc)));
       r \<leftarrow> lift_ext (buildService D bizType (saved_window cfg (do_Periodic doc)));
       case r of
         Inl err \<Rightarrow> State_Monad.return False
       | Inr service \<Rightarrow> do {
           (a, new) \<leftarrow> insertService key service;
           state \<leftarrow> GetState key;
           _ \<leftarrow> (if new \<and> dp_dao D \<noteq> None
                then lift_ext (persistApplied D key (cfg\<lparr>cf_RoundIndex := 0\<rparr>) state) else skip);
           State_Monad.return new
         }
     }
   }"

definition onCreateEvent :: "'w deps \<Rightarrow> rval \<Rightarrow> ('w, unit) nd" where
  "onCreateEvent D payload = (case unmarshal_doc payload of
     None \<Rightarrow> skip
   | Some doc \<Rightarrow> ignore (applyRankConfigDoc D doc))"

definition onDeleteEvent :: "'w deps \<Rightarrow> string \<Rightarrow> ('w, unit) nd" where
  "onDeleteEvent D key =
     (case split_last key CHR '':'' of
        None \<Rightarrow> skip
      | Some (bizType, digits) \<Rightarrow>
          if bizType = [] then skip
          else let (n, ok) = ParseInt digits 32 in
            if \<not> ok then skip
            else do {
              svc \<leftarrow> engine_at key;
              _ \<leftarrow> (if svc \<noteq> None then dropService key else skip);
              _ \<leftarrow> RemoveState (periodicHandler D) key;
              case svc of None \<Rightarrow> skip | Some a \<Rightarrow> cleanupServiceData D a bizType (i32 n)
            })"

section \<open>Start-up and the synchronisation loop\<close>

definition syncRound :: "'w deps \<Rightarrow> ('w, unit) nd" where
  "syncRound D = do { _ \<leftarrow> syncFromMongo D; _ \<leftarrow> syncFromRedis D; warmUpAllServices D }"

text \<open>\<open>order\<close> is the order in which the runtime goes through the table of indexes.\<close>

definition InitGlobalManager ::
  "((collection \<times> index_model list) list \<Rightarrow> (collection \<times> index_model list) list) \<Rightarrow> 'w deps \<Rightarrow> ('w, unit) nd" where
  "InitGlobalManager order D = do {
     _ \<leftarrow> (if dp_dao D \<noteq> None then lift_ext (EnsureIndexes order (dp_dao D) (dp_mongo D)) else skip);
     syncRound D
   }"

end
