(* ===== verification/ManagerProps.thy ===== *)
theory ManagerProps
  imports PeriodicProps ManagerSync
begin

text \<open>
  The manager provides the contract of \<open>ServiceRegistrar\<close> (theory \<open>PeriodicProps\<close>), which is
  interpreted here on the manager's own operations; the properties of the tick and of registration in
  theory \<open>NodeProps\<close> rest on its facts.
\<close>

section \<open>Making a service\<close>

lemma buildService_Inr:
  assumes "result (buildService D b c) w = Inr s"
  shows "s_config s = c" "s_rankDef s = Some (rankDefFor b c)"
    "s_onMemberJoin s = Some (onMemberJoin D b (cf_ActID c))"
  using assms
  by (auto simp: buildService_def NewService_def Let_def buildRobotLookupMaps_def refreshActivityEndLocked_def
      split: option.splits if_splits)

lemma with_create_node [simp]: "fst (exec (with_create D c) nw) = fst nw"
  by (simp add: with_create_def now_milli_def)

lemma with_create_round: "\<exists>t. result (with_create D c) nw = c\<lparr>cf_CreateTime := t\<rparr>"
  by (rule exI [of _ "if cf_CreateTime c = 0 then result (now_milli (dp_env D)) nw else cf_CreateTime c"])
    (simp add: with_create_def)

lemma with_code_round: "\<exists>code. with_code b c = c\<lparr>cf_RankCode := code\<rparr>"
  by (rule exI [of _ "if cf_RankCode c = [] then score_code b (cf_ActID c) else cf_RankCode c"])
    (simp add: with_code_def)

lemma made_same_round: "same_round c (result (with_create D (with_code b c)) nw)"
proof -
  obtain code t where "with_code b c = c\<lparr>cf_RankCode := code\<rparr>"
      "result (with_create D (with_code b c)) nw = (with_code b c)\<lparr>cf_CreateTime := t\<rparr>"
    using with_create_round with_code_round by metis
  then have "result (with_create D (with_code b c)) nw = c\<lparr>cf_RankCode := code, cf_CreateTime := t\<rparr>" by simp
  then show ?thesis unfolding same_round_def by blast
qed

lemma engine_at_simps [simp]: "exec (engine_at k) nw = nw" "result (engine_at k) nw = map_of (nd_engines (fst nw)) k"
  by (simp_all add: engine_at_def)

lemma exec_putService [simp]: "exec (putService k a) nw =
    ((fst nw)\<lparr>nd_services := AList.update k a (nd_services (fst nw)), nd_engines := AList.update k a (nd_engines (fst nw))\<rparr>, snd nw)"
  by (simp add: putService_def)

section \<open>The manager is a \<open>ServiceRegistrar\<close>\<close>

lemma replace_Inr:
  assumes "result (replaceSubService D b k c) nw = Inr a"
  shows "new_service k c (fst nw) (fst (exec (replaceSubService D b k c) nw)) a"
  using assms made_same_round [of c D b nw]
  by (auto simp: replaceSubService_def new_service_def dest!: buildService_Inr(1) split: sum.splits)

lemma replace_Inl:
  "result (replaceSubService D b k c) nw = Inl e \<Longrightarrow> fst (exec (replaceSubService D b k c) nw) = fst nw"
  by (auto simp: replaceSubService_def split: sum.splits)

lemma register_Inr:
  assumes "result (registerSubService D b k c) nw = Inr a"
  shows "if map_of (nd_engines (fst nw)) k = None
     then new_service k c (fst nw) (fst (exec (registerSubService D b k c) nw)) a
     else map_of (nd_engines (fst nw)) k = Some a \<and> fst (exec (registerSubService D b k c) nw) = fst nw"
  using assms made_same_round [of c D b nw]
  by (auto simp: registerSubService_def insertService_def new_service_def dest!: buildService_Inr(1)
      split: sum.splits option.splits)

lemma register_Inl:
  "result (registerSubService D b k c) nw = Inl e \<Longrightarrow> fst (exec (registerSubService D b k c) nw) = fst nw"
  by (auto simp: registerSubService_def insertService_def split: sum.splits option.splits prod.splits)

interpretation mgr: round_registrar "manager_registrar D"
proof (unfold_locales, unfold manager_registrar_def registrar.select_convs)
qed (simp, simp, (rule replace_Inr replace_Inl register_Inr register_Inl, assumption)+)

end
