(* ===== verification/RpcHandlers.thy ===== *)
theory RpcHandlers
  imports ManagerSync
begin

text \<open>
  \<open>internal/handler/rank.go\<close>: the requests of game servers and operators. A handler is given the
  fields of the request it reads. The messages are generated code outside the repository; they appear
  as records with the fields the handlers set. A handler that returns an error has not touched its
  response, so the outcome is either the error or the response. The global manager may be missing
  (\<open>None\<close>); otherwise it is the manager of the node.
\<close>

section \<open>Messages and statuses\<close>

datatype msg_code = CODE_OK | CODE_RANK_NOT_FOUND | CODE_RANK_ROUND_CHANGED | CODE_RANK_ACTIVITY_CLOSED
  | CODE_SERVER_INNER

datatype rank_kind = RANK_TYPE_ONCE | RANK_TYPE_PERIODIC

text \<open>The message of a status is the text of an error, kept as that error.\<close>

datatype grpc_code = Internal | NotFound | FailedPrecondition | InvalidArgument | Aborted

datatype status = Status grpc_code goerr

record pb_avatar =
  pa_UserId :: int64
  pa_Name :: string
  pa_Avatar :: int32
  pa_Frame :: int32

record pb_snapshot =
  pn_MemberId :: int64
  pn_Score :: int64
  pn_Rank :: int64
  pn_EnterTime :: int64
  pn_UpdateTime :: int64
  pn_Sequence :: int64
  pn_AvatarInfo :: "pb_avatar option"

record pb_tier =
  pt_TierId :: int32
  pt_Num :: int32
  pt_DefaultTokenMin :: int64
  pt_DefaultTokenMax :: int64
  pt_GrowTokenCdMs :: int64
  pt_GrowTokenMinPermille :: int64
  pt_GrowTokenMaxPermille :: int64
  pt_MaxToken :: int64
  pt_MaxDifferenceToken :: int64
  pt_LockTokenTimeMs :: int64

definition avatarToProto :: "avatar_info \<Rightarrow> pb_avatar" where
  "avatarToProto a = \<lparr>pa_UserId = av_UserId a, pa_Name = av_Name a, pa_Avatar = av_Avatar a, pa_Frame = av_Frame a\<rparr>"

definition protoAvatarInfoToRank :: "pb_avatar option \<Rightarrow> avatar_info option" where
  "protoAvatarInfoToRank p = map_option (\<lambda>a. \<lparr>av_UserId = pa_UserId a, av_Name = pa_Name a,
     av_Avatar = pa_Avatar a, av_Frame = pa_Frame a\<rparr>) p"

definition snapshotToProto :: "snapshot option \<Rightarrow> pb_snapshot option" where
  "snapshotToProto s = map_option (\<lambda>s. \<lparr>pn_MemberId = sn_MemberId s, pn_Score = sn_Score s, pn_Rank = sn_Rank s,
     pn_EnterTime = sn_EnterTime s, pn_UpdateTime = sn_UpdateTime s, pn_Sequence = sn_Sequence s,
     pn_AvatarInfo = map_option avatarToProto (sn_AvatarInfo s)\<rparr>) s"

text \<open>No element of the list is nil, so neither is its translation.\<close>

definition snapshotsToProto :: "snapshot list \<Rightarrow> pb_snapshot list" where
  "snapshotsToProto ss = List.map_filter (\<lambda>s. snapshotToProto (Some s)) ss"

definition cfgRobotTiersToProto :: "robot_tier list \<Rightarrow> pb_tier list" where
  "cfgRobotTiersToProto tiers = map (\<lambda>t. \<lparr>pt_TierId = ti_TierID t, pt_Num = ti_Num t,
     pt_DefaultTokenMin = ti_DefaultTokenMin t, pt_DefaultTokenMax = ti_DefaultTokenMax t,
     pt_GrowTokenCdMs = ti_GrowTokenCdMs t, pt_GrowTokenMinPermille = ti_GrowTokenMinBps t,
     pt_GrowTokenMaxPermille = ti_GrowTokenMaxBps t, pt_MaxToken = ti_MaxToken t,
     pt_MaxDifferenceToken = ti_MaxDifferenceToken t, pt_LockTokenTimeMs = ti_LockTokenTimeMs t\<rparr>) tiers"

definition cfgRobotInfosToProto :: "robot_info list \<Rightarrow> pb_avatar list" where
  "cfgRobotInfosToProto infos = map (\<lambda>i. \<lparr>pa_UserId = ri_InfoID i, pa_Name = ri_Name i, pa_Avatar = ri_Avatar i,
     pa_Frame = ri_Frame i\<rparr>) infos"

definition rankErrorToStatus :: "goerr option \<Rightarrow> status option" where
  "rankErrorToStatus err = (case err of
     None \<Rightarrow> None
   | Some e \<Rightarrow> Some (Status
       (if errors_Is e ErrInstanceNotOpen then FailedPrecondition
        else if errors_Is e ErrInstanceNotFound \<or> errors_Is e ErrDefinitionNotFound then NotFound
        else if errors_Is e ErrInvalidRankSpec then InvalidArgument
        else if errors_Is e ErrVersionConflict then Aborted
        else Internal) e))"

definition rank_status :: "goerr \<Rightarrow> status" where
  "rank_status e = the (rankErrorToStatus (Some e))"

definition effectiveGameEndTime :: "int64 \<Rightarrow> int64 \<Rightarrow> int64" where
  "effectiveGameEndTime gameEndTime closeTime = (if gameEndTime = 0 then closeTime else gameEndTime)"

section \<open>Finding the service\<close>

definition no_manager :: status where
  "no_manager = Status Internal (ErrText ''rank manager not initialized'')"

definition with_manager :: "'w deps option \<Rightarrow> ('w deps \<Rightarrow> ('w, status + 'r) nd) \<Rightarrow> ('w, status + 'r) nd" where
  "with_manager m f = (case m of None \<Rightarrow> State_Monad.return (Inl no_manager) | Some D \<Rightarrow> f D)"

definition service_not_found :: "string \<Rightarrow> int32 \<Rightarrow> status" where
  "service_not_found bizType actID =
     Status NotFound (ErrText (''service not found: bizType='' @ bizType @ '' actId='' @ FormatInt actID))"

text \<open>No service: an activity unknown everywhere is answered with a code, any other with an error.\<close>

definition missing_service :: "'w deps \<Rightarrow> string \<Rightarrow> int32 \<Rightarrow> 'r \<Rightarrow> ('w, status + 'r) nd" where
  "missing_service D bizType actID resp = do {
     gone \<leftarrow> IsRankTrulyNotFound D bizType actID;
     State_Monad.return (if gone then Inr resp else Inl (service_not_found bizType actID))
   }"

definition lookupEngineService ::
  "'w deps option \<Rightarrow> string \<Rightarrow> int32 \<Rightarrow> ('w deps \<Rightarrow> nat \<Rightarrow> ('w, status + 'r) nd) \<Rightarrow> ('w, status + 'r) nd" where
  "lookupEngineService m bizType actID f = with_manager m (\<lambda>D. do {
     svc \<leftarrow> GetEngineService bizType actID;
     case svc of
       None \<Rightarrow> State_Monad.return (Inl (service_not_found bizType actID))
     | Some a \<Rightarrow> f D a
   })"

text \<open>The round a response names.\<close>

definition response_round :: "string \<Rightarrow> int32 \<Rightarrow> ('w, int32) nd" where
  "response_round bizType actID = do {
     ps \<leftarrow> GetPeriodicState bizType actID;
     State_Monad.return (case ps of None \<Rightarrow> 1 | Some st \<Rightarrow> ps_currentRound st)
   }"

section \<open>Scores and lists\<close>

record upsert_resp =
  ur_MsgCode :: msg_code
  ur_MyRank :: "pb_snapshot option"
  ur_CurrentRound :: int32

definition handleUpsertScore ::
  "'w deps option \<Rightarrow> string \<Rightarrow> int32 \<Rightarrow> int64 \<Rightarrow> int64 \<Rightarrow> int64 \<Rightarrow> int32 \<Rightarrow> pb_avatar option
   \<Rightarrow> ('w, status + upsert_resp) nd" where
  "handleUpsertScore m bizType actId userId totalScore timestamp round avatar = with_manager m (\<lambda>D. do {
     ps \<leftarrow> GetPeriodicState bizType actId;
     let currentRound = (case ps of None \<Rightarrow> 1 | Some st \<Rightarrow> ps_currentRound st);
     if ps \<noteq> None \<and> round > 0 \<and> round \<noteq> currentRound
     then State_Monad.return (Inr \<lparr>ur_MsgCode = CODE_RANK_ROUND_CHANGED, ur_MyRank = None, ur_CurrentRound = currentRound\<rparr>)
     else do {
       svc \<leftarrow> GetEngineService bizType actId;
       case svc of
         None \<Rightarrow> missing_service D bizType actId
           \<lparr>ur_MsgCode = CODE_RANK_NOT_FOUND, ur_MyRank = None, ur_CurrentRound = 0\<rparr>
       | Some a \<Rightarrow> do {
           err \<leftarrow> on_svc a (UpsertScore (dp_env D) userId totalScore timestamp (protoAvatarInfoToRank avatar));
           case err of
             Some e \<Rightarrow> State_Monad.return
               (if errors_Is e ErrInstanceClosed
                then Inr \<lparr>ur_MsgCode = CODE_RANK_ACTIVITY_CLOSED, ur_MyRank = None, ur_CurrentRound = 0\<rparr>
                else Inl (rank_status e))
           | None \<Rightarrow> do {
               r \<leftarrow> on_svc a (GetMemberRank (dp_env D) userId);
               State_Monad.return (Inr \<lparr>ur_MsgCode = CODE_OK,
                 ur_MyRank = (case r of Inl _ \<Rightarrow> None | Inr (snap, _) \<Rightarrow> snapshotToProto snap),
                 ur_CurrentRound = currentRound\<rparr>)
             }
         }
     }
   })"

record list_resp =
  lr_MsgCode :: msg_code
  lr_Members :: "pb_snapshot list"
  lr_MyRank :: "pb_snapshot option"
  lr_CreateTime :: int64
  lr_CurrentRound :: int32

fun min_group :: "group \<Rightarrow> group list \<Rightarrow> group" where
  "min_group m [] = m"
| "min_group m (g # gs) = min_group (if gr_GroupID g < gr_GroupID m then g else m) gs"

text \<open>A user without a group is shown the group with the least id.\<close>

definition shown_group :: "'w deps \<Rightarrow> nat \<Rightarrow> int32 \<Rightarrow> ('w, int32 option) nd" where
  "shown_group D a groupID =
     (if groupID = 0
      then do {
        groups \<leftarrow> on_svc a (ListGroups (dp_env D));
        State_Monad.return (case groups of [] \<Rightarrow> None | g # gs \<Rightarrow> Some (gr_GroupID (min_group g gs)))
      }
      else State_Monad.return (Some groupID))"

definition user_not_found :: "int64 \<Rightarrow> string \<Rightarrow> int32 \<Rightarrow> status" where
  "user_not_found userId bizType actId = Status NotFound
     (ErrText (''user '' @ FormatInt userId @ '' not found in any group for bizType='' @ bizType @ '' actId='' @ FormatInt actId))"

definition handleGetRankList ::
  "'w deps option \<Rightarrow> string \<Rightarrow> int32 \<Rightarrow> int64 \<Rightarrow> int64 \<Rightarrow> int64 \<Rightarrow> int32 \<Rightarrow> ('w, status + list_resp) nd" where
  "handleGetRankList m bizType actId userId start end round = with_manager m (\<lambda>D. do {
     (svc, isHistorical) \<leftarrow> ResolveEngineService D bizType actId round;
     currentRound \<leftarrow> response_round bizType actId;
     if isHistorical
     then do {
       r \<leftarrow> GetHistoricalRoundList (periodicHandler D) bizType actId round userId start end;
       State_Monad.return (case r of
           Inl e \<Rightarrow> Inl (Status Internal e)
         | Inr (snapshots, mySnap) \<Rightarrow> Inr \<lparr>lr_MsgCode = CODE_OK, lr_Members = snapshotsToProto snapshots,
             lr_MyRank = snapshotToProto mySnap, lr_CreateTime = 0, lr_CurrentRound = currentRound\<rparr>)
     }
     else (case svc of
       None \<Rightarrow> missing_service D bizType actId
         \<lparr>lr_MsgCode = CODE_RANK_NOT_FOUND, lr_Members = [], lr_MyRank = None, lr_CreateTime = 0, lr_CurrentRound = 0\<rparr>
     | Some a \<Rightarrow> do {
         r \<leftarrow> on_svc a (GetMemberRank (dp_env D) userId);
         case r of
           Inl e \<Rightarrow> State_Monad.return (Inl (rank_status e))
         | Inr (snap, group0) \<Rightarrow> do {
             shown \<leftarrow> shown_group D a group0;
             case shown of
               None \<Rightarrow> State_Monad.return (Inl (user_not_found userId bizType actId))
             | Some groupID \<Rightarrow> do {
                 l \<leftarrow> on_svc a (ListGroupRank (dp_env D) groupID start end);
                 case l of
                   Inl e \<Rightarrow> State_Monad.return (Inl (rank_status e))
                 | Inr snapshots \<Rightarrow> do {
                     createTime \<leftarrow> on_svc a (GetGroupCreateTime (dp_env D) groupID);
                     State_Monad.return (Inr \<lparr>lr_MsgCode = CODE_OK, lr_Members = snapshotsToProto snapshots,
                       lr_MyRank = snapshotToProto snap, lr_CreateTime = createTime, lr_CurrentRound = currentRound\<rparr>)
                   }
               }
           }
       })
   })"

record member_resp =
  mr_MsgCode :: msg_code
  mr_Snapshot :: "pb_snapshot option"
  mr_SettleStage :: int32

definition settle_stage :: "'w deps \<Rightarrow> nat \<Rightarrow> int32 \<Rightarrow> ('w, int32) nd" where
  "settle_stage D a groupID =
     (if groupID > 0
      then do {
        g \<leftarrow> on_svc a (GetGroup (dp_env D) groupID);
        State_Monad.return (case g of None \<Rightarrow> 0 | Some grp \<Rightarrow> if gr_State grp = GroupStateSettled then 1 else 0)
      }
      else State_Monad.return 0)"

definition handleGetMemberRank ::
  "'w deps option \<Rightarrow> string \<Rightarrow> int32 \<Rightarrow> int64 \<Rightarrow> int32 \<Rightarrow> ('w, status + member_resp) nd" where
  "handleGetMemberRank m bizType actId userId round = with_manager m (\<lambda>D. do {
     (svc, isHistorical) \<leftarrow> ResolveEngineService D bizType actId round;
     if isHistorical
     then do {
       r \<leftarrow> GetHistoricalRoundList (periodicHandler D) bizType actId round userId 0 (- 1);
       State_Monad.return (case r of
           Inl e \<Rightarrow> Inl (Status Internal e)
         | Inr (_, mySnap) \<Rightarrow> Inr \<lparr>mr_MsgCode = CODE_OK, mr_Snapshot = snapshotToProto mySnap, mr_SettleStage = 1\<rparr>)
     }
     else (case svc of
       None \<Rightarrow> missing_service D bizType actId \<lparr>mr_MsgCode = CODE_RANK_NOT_FOUND, mr_Snapshot = None, mr_SettleStage = 0\<rparr>
     | Some a \<Rightarrow> do {
         r \<leftarrow> on_svc a (GetMemberRank (dp_env D) userId);
         case r of
           Inl e \<Rightarrow> State_Monad.return (Inl (rank_status e))
         | Inr (snap, groupID) \<Rightarrow> do {
             stage \<leftarrow> settle_stage D a groupID;
             State_Monad.return (Inr \<lparr>mr_MsgCode = CODE_OK, mr_Snapshot = snapshotToProto snap, mr_SettleStage = stage\<rparr>)
           }
       })
   })"

definition handleSettle ::
  "'w deps option \<Rightarrow> string \<Rightarrow> int32 \<Rightarrow> ('w, status + (int32 \<times> pb_snapshot list) list) nd" where
  "handleSettle m bizType actId = lookupEngineService m bizType actId (\<lambda>D a. do {
     r \<leftarrow> on_svc a (Settle (dp_env D));
     State_Monad.return (case r of
         Inl e \<Rightarrow> Inl (rank_status e)
       | Inr results \<Rightarrow> Inr (map (\<lambda>(gid, snapshots). (gid, snapshotsToProto snapshots)) results))
   })"

section \<open>Rewards\<close>

definition handleGetRewardUsers ::
  "'w deps option \<Rightarrow> string \<Rightarrow> int32 \<Rightarrow> int32 \<Rightarrow> ('w, status + msg_code \<times> int64 list) nd" where
  "handleGetRewardUsers m bizType actId round = with_manager m (\<lambda>D. do {
     (svc, isHistorical) \<leftarrow> ResolveEngineService D bizType actId round;
     if isHistorical
     then do {
       r \<leftarrow> GetHistoricalRewardUsers (periodicHandler D) bizType actId round;
       State_Monad.return (case r of Inl e \<Rightarrow> Inl (Status Internal e) | Inr users \<Rightarrow> Inr (CODE_OK, users))
     }
     else (case svc of
       None \<Rightarrow> missing_service D bizType actId (CODE_RANK_NOT_FOUND, [])
     | Some a \<Rightarrow> do {
         users \<leftarrow> on_svc a (GetOpenRewardUserIDs (dp_env D));
         State_Monad.return (Inr (CODE_OK, users))
       })
   })"

definition internal_error :: "goerr + 'r \<Rightarrow> status + 'r" where
  "internal_error r = (case r of Inl e \<Rightarrow> Inl (Status Internal e) | Inr x \<Rightarrow> Inr x)"

text \<open>The response is whether the reward had been claimed before, and when.\<close>

definition handleClaimReward ::
  "'w deps option \<Rightarrow> string \<Rightarrow> int32 \<Rightarrow> int64 \<Rightarrow> int32 \<Rightarrow> ('w, status + bool \<times> int64) nd" where
  "handleClaimReward m bizType actId userId round = with_manager m (\<lambda>D. do {
     (svc, isHistorical) \<leftarrow> ResolveEngineService D bizType actId round;
     r \<leftarrow> (if isHistorical then ClaimHistoricalReward (periodicHandler D) bizType actId round userId
           else do {
             now \<leftarrow> now_milli (dp_env D);
             case svc of
               None \<Rightarrow> lift_ext (FallbackClaimReward D bizType actId userId now)
             | Some a \<Rightarrow> on_svc a (ClaimReward (dp_env D) userId now)
           });
     State_Monad.return (internal_error r)
   })"

definition handleGetClaimStatus ::
  "'w deps option \<Rightarrow> string \<Rightarrow> int32 \<Rightarrow> int64 \<Rightarrow> int32 \<Rightarrow> ('w, status + bool \<times> int64) nd" where
  "handleGetClaimStatus m bizType actId userId round = with_manager m (\<lambda>D. do {
     (svc, isHistorical) \<leftarrow> ResolveEngineService D bizType actId round;
     r \<leftarrow> (if isHistorical then GetHistoricalClaimStatus (periodicHandler D) bizType actId round userId
           else (case svc of
               None \<Rightarrow> lift_ext (FallbackGetClaimStatus D bizType actId userId)
             | Some a \<Rightarrow> on_svc a (GetClaimStatus (dp_env D) userId)));
     State_Monad.return (internal_error r)
   })"

section \<open>Configurations\<close>

text \<open>The business types of the table, each once; the runtime goes through them in some order.\<close>

fun biz_types_of :: "config_row list \<Rightarrow> string list" where
  "biz_types_of [] = []"
| "biz_types_of (RankBaseConfig row # rows) =
     (if bs_BizType row \<in> set (biz_types_of rows) then biz_types_of rows else bs_BizType row # biz_types_of rows)"
| "biz_types_of (_ # rows) = biz_types_of rows"

definition handleListRankBizTypes :: "'w config_files \<Rightarrow> ('w, msg_code \<times> string list) state" where
  "handleListRankBizTypes files = do {
     cf \<leftarrow> files ''RankBase'';
     State_Monad.return (case cf of Inl e \<Rightarrow> (CODE_SERVER_INNER, []) | Inr rows \<Rightarrow> (CODE_OK, biz_types_of rows))
   }"

definition window_config :: "int32 \<Rightarrow> int64 \<Rightarrow> int64 \<Rightarrow> int64 \<Rightarrow> config" where
  "window_config actId openTime closeTime gameEndTime = zero_config\<lparr>cf_ActID := actId, cf_OpenTime := openTime,
     cf_CloseTime := closeTime, cf_GameEndTime := gameEndTime\<rparr>"

definition handleCreateRankConfig ::
  "'w deps option \<Rightarrow> string \<Rightarrow> int32 \<Rightarrow> int64 \<Rightarrow> int64 \<Rightarrow> int64 \<Rightarrow> ('w, status option) nd" where
  "handleCreateRankConfig m bizType actId openTime closeTime gameEndTime =
     (if closeTime \<le> 0 \<and> gameEndTime \<le> 0
      then State_Monad.return (Some (Status InvalidArgument (ErrText ''closeTime and gameEndTime cannot both be unset'')))
      else (case m of
        None \<Rightarrow> State_Monad.return (Some no_manager)
      | Some D \<Rightarrow> do {
          err \<leftarrow> RegisterActivity D bizType (window_config actId openTime closeTime gameEndTime);
          State_Monad.return (rankErrorToStatus err)
        }))"

text \<open>The kind of an activity, its cycle (the file's if it can be read) and its round.\<close>

definition kind_cycle_round ::
  "'w deps \<Rightarrow> string \<Rightarrow> periodic_state option \<Rightarrow> ('w, rank_kind \<times> int32 \<times> int32) nd" where
  "kind_cycle_round D bizType state = (case state of
     None \<Rightarrow> State_Monad.return (RANK_TYPE_ONCE, 0, 0)
   | Some st \<Rightarrow> do {
       r \<leftarrow> lift_ext (LoadRankTypeAndCycle (dp_files D) bizType);
       let cm = (case r of Inl _ \<Rightarrow> 0 | Inr (_, c) \<Rightarrow> c);
       State_Monad.return (RANK_TYPE_PERIODIC, if cm > 0 then cm else ps_CycleMinutes st, ps_currentRound st)
     })"

record config_resp =
  cr_BizType :: string
  cr_ActId :: int32
  cr_RankCode :: string
  cr_RankPeopleNum :: int32
  cr_OpenToken :: int64
  cr_OpenTime :: int64
  cr_CloseTime :: int64
  cr_GameEndTime :: int64
  cr_RobotTiers :: "pb_tier list"
  cr_RobotInfos :: "pb_avatar list"
  cr_Settled :: bool
  cr_GroupCount :: int32
  cr_MemberCount :: int32
  cr_RankType :: rank_kind
  cr_CycleMinutes :: int32
  cr_CurrentRound :: int32

definition handleGetRankConfig :: "'w deps option \<Rightarrow> string \<Rightarrow> int32 \<Rightarrow> ('w, status + config_resp) nd" where
  "handleGetRankConfig m bizType actId = lookupEngineService m bizType actId (\<lambda>D a. do {
     cfg \<leftarrow> on_svc a (sget s_config);
     state \<leftarrow> GetPeriodicState bizType actId;
     (kind, cycleMinutes, currentRound) \<leftarrow> kind_cycle_round D bizType state;
     settled \<leftarrow> on_svc a (IsSettled (dp_env D));
     gc \<leftarrow> on_svc a (GroupCount (dp_env D));
     mc \<leftarrow> on_svc a (MemberCount (dp_env D));
     State_Monad.return (Inr \<lparr>cr_BizType = cf_BizType cfg, cr_ActId = cf_ActID cfg, cr_RankCode = cf_RankCode cfg,
       cr_RankPeopleNum = cf_RankPeopleNum cfg, cr_OpenToken = cf_OpenToken cfg, cr_OpenTime = cf_OpenTime cfg,
       cr_CloseTime = cf_CloseTime cfg, cr_GameEndTime = effectiveGameEndTime (cf_GameEndTime cfg) (cf_CloseTime cfg),
       cr_RobotTiers = cfgRobotTiersToProto (cf_RobotTiers cfg), cr_RobotInfos = cfgRobotInfosToProto (cf_RobotInfos cfg),
       cr_Settled = settled, cr_GroupCount = gc, cr_MemberCount = mc, cr_RankType = kind,
       cr_CycleMinutes = cycleMinutes, cr_CurrentRound = currentRound\<rparr>)
   })"

definition handleUpdateRankConfig ::
  "'w deps option \<Rightarrow> string \<Rightarrow> int32 \<Rightarrow> int64 \<Rightarrow> int64 \<Rightarrow> int64 \<Rightarrow> ('w, status option) nd" where
  "handleUpdateRankConfig m bizType actId openTime closeTime gameEndTime = (case m of
     None \<Rightarrow> State_Monad.return (Some no_manager)
   | Some D \<Rightarrow> do {
       err \<leftarrow> UpdateService D bizType actId (window_config 0 openTime closeTime gameEndTime);
       State_Monad.return (map_option (Status NotFound) err)
     })"

definition handleDeleteRankConfig :: "'w deps option \<Rightarrow> string \<Rightarrow> int32 \<Rightarrow> ('w, status option) nd" where
  "handleDeleteRankConfig m bizType actId = (case m of
     None \<Rightarrow> State_Monad.return (Some no_manager)
   | Some D \<Rightarrow> do {
       err \<leftarrow> RemoveService D bizType actId;
       State_Monad.return (map_option (Status NotFound) err)
     })"

record config_summary =
  cs_BizType :: string
  cs_ActId :: int32
  cs_RankCode :: string
  cs_OpenTime :: int64
  cs_CloseTime :: int64
  cs_GameEndTime :: int64
  cs_Settled :: bool
  cs_GroupCount :: int32
  cs_MemberCount :: int32
  cs_CreateTime :: int64
  cs_RankType :: rank_kind
  cs_CycleMinutes :: int32
  cs_CurrentRound :: int32
  cs_ActivityTypeName :: string

text \<open>Opening, closing, end and creation as the summary gives them: those of the round for a periodic
  activity, created when the activity opened.\<close>

definition summary_times :: "service_info \<Rightarrow> periodic_state option \<Rightarrow> int64 \<times> int64 \<times> int64 \<times> int64" where
  "summary_times info state = (case state of
     None \<Rightarrow> (cf_OpenTime (si_Config info), cf_CloseTime (si_Config info),
        effectiveGameEndTime (cf_GameEndTime (si_Config info)) (cf_CloseTime (si_Config info)), si_CreateTime info)
   | Some st \<Rightarrow> (ps_RoundOpenTime st, ps_RoundCloseTime st, ps_RoundCloseTime st, ps_TotalOpenTime st))"

definition config_summary_of :: "'w deps \<Rightarrow> service_info \<Rightarrow> ('w, config_summary) nd" where
  "config_summary_of D info = do {
     state \<leftarrow> GetPeriodicState (si_BizType info) (si_ActID info);
     (kind, cycleMinutes, currentRound) \<leftarrow> kind_cycle_round D (si_BizType info) state;
     let (openTime, closeTime, gameEndTime, createTime) = summary_times info state;
     name \<leftarrow> lift_ext (GetRankBaseName (dp_files D) (si_BizType info));
     State_Monad.return \<lparr>cs_BizType = si_BizType info, cs_ActId = si_ActID info,
       cs_RankCode = cf_RankCode (si_Config info), cs_OpenTime = openTime, cs_CloseTime = closeTime,
       cs_GameEndTime = gameEndTime, cs_Settled = si_Settled info, cs_GroupCount = si_GroupCount info,
       cs_MemberCount = si_MemberCount info, cs_CreateTime = createTime, cs_RankType = kind,
       cs_CycleMinutes = cycleMinutes, cs_CurrentRound = currentRound, cs_ActivityTypeName = name\<rparr>
   }"

definition handleListRankConfigs :: "'w deps option \<Rightarrow> string \<Rightarrow> ('w, status + config_summary list) nd" where
  "handleListRankConfigs m bizType = with_manager m (\<lambda>D. do {
     infos \<leftarrow> ListServices D bizType;
     ranks \<leftarrow> fold_state (\<lambda>info ranks. do {
       s \<leftarrow> config_summary_of D info;
       State_Monad.return (ranks @ [s]) }) infos [];
     State_Monad.return (Inr ranks)
   })"

definition handleGetRankCurRound ::
  "'w deps option \<Rightarrow> string \<Rightarrow> int32 \<Rightarrow> ('w, status + msg_code \<times> round_info option) nd" where
  "handleGetRankCurRound m bizType actId = with_manager m (\<lambda>D. do {
     r \<leftarrow> CurrentRoundInfoOf D bizType actId;
     case r of
       Inl e \<Rightarrow> do {
         gone \<leftarrow> IsRankTrulyNotFound D bizType actId;
         State_Monad.return (if gone then Inr (CODE_RANK_NOT_FOUND, None) else Inl (Status NotFound e))
       }
     | Inr info \<Rightarrow> State_Monad.return (Inr (CODE_OK, Some info))
   })"

section \<open>Queries of operators\<close>

record user_entry =
  ue_BizType :: string
  ue_ActId :: int32
  ue_GroupId :: int32
  ue_Snapshot :: "pb_snapshot option"

definition handleGMGetUserRankList :: "'w deps option \<Rightarrow> int64 \<Rightarrow> ('w, status + user_entry list) nd" where
  "handleGMGetUserRankList m userId = with_manager m (\<lambda>D. do {
     r \<leftarrow> GetMemberRankEntries D userId;
     State_Monad.return (case r of
         Inl e \<Rightarrow> Inl (Status Internal e)
       | Inr entries \<Rightarrow> Inr (map (\<lambda>(e, snap). \<lparr>ue_BizType = me_BizType e, ue_ActId = me_ActID e,
           ue_GroupId = me_GroupID e, ue_Snapshot = snapshotToProto snap\<rparr>) entries))
   })"

definition handleGMGetGroupRankList ::
  "'w deps option \<Rightarrow> string \<Rightarrow> int32 \<Rightarrow> int32 \<Rightarrow> ('w, status + msg_code \<times> pb_snapshot list) nd" where
  "handleGMGetGroupRankList m bizType actId groupId = lookupEngineService m bizType actId (\<lambda>D a. do {
     r \<leftarrow> on_svc a (ListGroupRank (dp_env D) groupId 0 (- 1));
     State_Monad.return (case r of
         Inl e \<Rightarrow> Inl (rank_status e)
       | Inr snapshots \<Rightarrow> Inr (CODE_OK, snapshotsToProto snapshots))
   })"

record group_row =
  gi_GroupId :: int32
  gi_InstanceId :: string
  gi_RealCount :: int32
  gi_RobotCount :: int32
  gi_State :: string

definition handleGMGetRankInstanceList :: "'w deps option \<Rightarrow> string \<Rightarrow> int32 \<Rightarrow> ('w, status + group_row list) nd" where
  "handleGMGetRankInstanceList m bizType actId = lookupEngineService m bizType actId (\<lambda>D a. do {
     groups \<leftarrow> on_svc a (ListGroups (dp_env D));
     State_Monad.return (Inr (map (\<lambda>g. \<lparr>gi_GroupId = gr_GroupID g, gi_InstanceId = gr_InstanceID g,
       gi_RealCount = gr_RealCount g, gi_RobotCount = gr_RobotCount g, gi_State = state_text (gr_State g)\<rparr>) groups))
   })"

definition group_not_found :: "int32 \<Rightarrow> string \<Rightarrow> int32 \<Rightarrow> status" where
  "group_not_found groupId bizType actId = Status NotFound
     (ErrText (''group '' @ FormatInt groupId @ '' not found in bizType='' @ bizType @ '' actId='' @ FormatInt actId))"

definition handleGMGetInstanceRankList ::
  "'w deps option \<Rightarrow> string \<Rightarrow> int32 \<Rightarrow> int32 \<Rightarrow> ('w, status + int32 \<times> string \<times> pb_snapshot list) nd" where
  "handleGMGetInstanceRankList m bizType actId groupId = lookupEngineService m bizType actId (\<lambda>D a. do {
     g \<leftarrow> on_svc a (GetGroup (dp_env D) groupId);
     case g of
       None \<Rightarrow> State_Monad.return (Inl (group_not_found groupId bizType actId))
     | Some grp \<Rightarrow> do {
         r \<leftarrow> on_svc a (ListGroupRank (dp_env D) groupId 0 (- 1));
         State_Monad.return (case r of
             Inl e \<Rightarrow> Inl (rank_status e)
           | Inr snapshots \<Rightarrow> Inr (gr_GroupID grp, state_text (gr_State grp), snapshotsToProto snapshots))
       }
   })"

end
