(* ===== verification/NodeInvariant.thy ===== *)
theory NodeInvariant
  imports ManagerProps RpcHandlers NodeWorld
begin

text \<open>
  The registry of a node is consistent at all times. \<open>wf_node\<close> is the invariant, \<open>node_step\<close> the
  relation of everything that can happen to a node, and the theorem says that whatever happens from
  start-up on, the invariant holds.
\<close>

section \<open>The invariant\<close>

text \<open>A service is registered under the key of its own activity, stores its data in the Redis and the
  MongoDB of the node, under the id of its round, tells the member index of the node who joins, holds the
  definition of its own ranking, and knows when it is to be settled.\<close>

definition svc_wf :: "'w deps \<Rightarrow> string \<Rightarrow> 'w service \<Rightarrow> bool" where
  "svc_wf D k s \<longleftrightarrow> bizKey (cf_BizType (s_config s)) (cf_ActID (s_config s)) = k
     \<and> s_store s = store_of D (computeBizId (s_config s)) \<and> s_rankService s = dp_rank D
     \<and> (\<exists>b. s_onMemberJoin s = Some (onMemberJoin D b (cf_ActID (s_config s))))
     \<and> (\<exists>d. s_rankDef s = Some d \<and> rd_RankCode d = cf_RankCode (s_config s))
     \<and> cf_RankCode (s_config s) \<noteq> [] \<and> 0 < cf_RankPeopleNum (s_config s)
     \<and> s_activityEnd s = settleAtOf (dp_env D) (cf_CloseTime (s_config s)) (cf_GameEndTime (s_config s))"

definition wf_node :: "'w deps \<Rightarrow> 'w node \<Rightarrow> bool" where
  "wf_node D n \<longleftrightarrow> nd_services n = nd_engines n
     \<and> distinct (map fst (nd_engines n)) \<and> distinct (map fst (nd_states n))
     \<and> (\<forall>k a. map_of (nd_engines n) k = Some a \<longrightarrow> a < length (nd_heap n) \<and> svc_wf D k (nd_heap n ! a))
     \<and> (\<forall>k s. map_of (nd_states n) k = Some s \<longrightarrow> StateLogicalKey s = k)"

lemma svc_wf_ident: "ident s' = ident s \<Longrightarrow> svc_wf D k s' = svc_wf D k s"
  by (simp add: ident_def svc_wf_def)

lemma wf_nodeD:
  assumes "wf_node D n"
  shows "nd_services n = nd_engines n" "distinct (map fst (nd_engines n))" "distinct (map fst (nd_states n))"
    "map_of (nd_engines n) k = Some a \<Longrightarrow> a < length (nd_heap n)"
    "map_of (nd_engines n) k = Some a \<Longrightarrow> svc_wf D k (nd_heap n ! a)"
    "map_of (nd_states n) k = Some s \<Longrightarrow> StateLogicalKey s = k"
  using assms unfolding wf_node_def by blast+

lemma svc_wf_key: "svc_wf D k s \<Longrightarrow> bizKey (cf_BizType (s_config s)) (cf_ActID (s_config s)) = k"
  by (simp add: svc_wf_def)

lemma wf_empty: "wf_node D empty_node"
  by (simp add: wf_node_def empty_node_def)

section \<open>Steps that keep it\<close>

named_theorems wf_rules "steps that keep the registry consistent"

definition wf_kept :: "'w deps \<Rightarrow> ('w, 'a) nd \<Rightarrow> bool" where
  "wf_kept D m \<longleftrightarrow> (\<forall>nw. wf_node D (fst nw) \<longrightarrow> wf_node D (fst (exec m nw)))"

lemma wf_keptI: "(\<And>nw. wf_node D (fst nw) \<Longrightarrow> wf_node D (fst (exec m nw))) \<Longrightarrow> wf_kept D m"
  by (simp add: wf_kept_def)

lemma wf_keptD: "wf_kept D m \<Longrightarrow> wf_node D (fst nw) \<Longrightarrow> wf_node D (fst (exec m nw))"
  unfolding wf_kept_def by blast

lemma wf_tables:
  assumes "tables n' = tables n" "wf_node D n"
  shows "wf_node D n'"
proof -
  note t = tablesD [OF assms(1)]
  have "svc_wf D k (nd_heap n' ! a)" "a < length (nd_heap n')" if "map_of (nd_engines n') k = Some a" for k a
  proof -
    have a: "a < length (nd_heap n)" "svc_wf D k (nd_heap n ! a)"
      using wf_nodeD(4,5) [OF assms(2)] that t(1) by simp_all
    then show "a < length (nd_heap n')" "svc_wf D k (nd_heap n' ! a)"
      using t(4) svc_wf_ident [OF t(6) [OF a(1)]] by simp_all
  qed
  then show ?thesis
    using wf_nodeD(1,2,3,6) [OF assms(2)] t(1-3) unfolding wf_node_def by simp
qed

lemma wf_of_tables: "tables_kept m \<Longrightarrow> wf_kept D m"
  using wf_tables by (metis keepsD wf_keptI)

lemma wf_bind: "wf_kept D m \<Longrightarrow> (\<And>x. wf_kept D (f x)) \<Longrightarrow> wf_kept D (State_Monad.bind m f)"
  unfolding wf_kept_def exec_bind by blast

lemma wf_basic [wf_rules]: "wf_kept D (State_Monad.return x)" "wf_kept D skip" "wf_kept D (lift_ext e)" "wf_kept D (nget g)"
  by (simp_all add: wf_kept_def)

lemma wf_if [wf_rules]: "(c \<Longrightarrow> wf_kept D m) \<Longrightarrow> (\<not> c \<Longrightarrow> wf_kept D m') \<Longrightarrow> wf_kept D (if c then m else m')"
  by simp

lemma wf_ignore [wf_rules]: "wf_kept D m \<Longrightarrow> wf_kept D (ignore m)"
  by (simp add: wf_kept_def)

lemma wf_for_each [wf_rules]: "(\<And>x. wf_kept D (g x)) \<Longrightarrow> wf_kept D (for_each xs g)"
proof (induction xs)
  case (Cons x xs)
  then have "wf_kept D (State_Monad.bind (g x) (\<lambda>_. for_each xs g))" by (intro wf_bind) auto
  then show ?case by simp
qed (simp add: wf_basic)

lemma wf_fold_state [wf_rules]: "(\<And>x b. wf_kept D (g x b)) \<Longrightarrow> wf_kept D (fold_state g xs b)"
proof (induction xs arbitrary: b)
  case (Cons x xs)
  then have "wf_kept D (State_Monad.bind (g x b) (\<lambda>b'. fold_state g xs b'))" by (intro wf_bind) auto
  then show ?case by simp
qed (simp add: wf_basic)

lemma wf_on_svc [wf_rules]: "config_kept m \<Longrightarrow> wf_kept D (on_svc a m)"
  by (intro wf_of_tables tables_on_svc)

lemma wf_engine_at [wf_rules]: "wf_kept D (engine_at k)" "wf_kept D (GetState k)" "wf_kept D (now_milli E)"
  by (simp_all add: wf_kept_def now_milli_def)

lemma wf_queue [wf_rules]:
  "wf_kept D (nmod (\<lambda>n. n\<lparr>nd_timers := f n\<rparr>))" "wf_kept D (nmod (\<lambda>n. n\<lparr>nd_warmups := g n\<rparr>))"
  "wf_kept D (nmod (\<lambda>n. n\<lparr>nd_timers := f n, nd_nextTimer := h n\<rparr>))" "wf_kept D (nmod (\<lambda>n. n\<lparr>nd_bootstrapped := b\<rparr>))"
  by (rule wf_of_tables, rule node_nmod, simp add: tables_def)+

section \<open>Entering and dropping services\<close>

lemma wf_put:
  assumes "wf_node D n" "svc_wf D k s"
  shows "wf_node D (n\<lparr>nd_heap := nd_heap n @ [s], nd_services := AList.update k (length (nd_heap n)) (nd_services n),
     nd_engines := AList.update k (length (nd_heap n)) (nd_engines n)\<rparr>)"
  using assms
  by (auto simp: wf_node_def update_conv' distinct_update nth_append intro: less_SucI split: if_splits)

lemma wf_insert: "svc_wf D k s \<Longrightarrow> wf_kept D (insertService k s)"
  by (rule wf_keptI) (auto simp: insertService_def wf_put split: option.split)

lemma wf_drop [wf_rules]: "wf_kept D (dropService k)"
  by (rule wf_keptI) (auto simp: dropService_def wf_node_def map_of_delete distinct_delete delete_conv' split: if_splits)

lemma build_wf:
  assumes "result (buildService D b c) w = Inr s"
  shows "svc_wf D (bizKey (cf_BizType c) (cf_ActID c)) s"
  using assms
  by (auto simp: svc_wf_def store_of_def buildService_def NewService_def Let_def buildRobotLookupMaps_def refreshActivityEndLocked_def
      rankDefFor_def split: option.splits if_splits)

text \<open>The ways from a configuration to a service, all under the key of the configuration.\<close>

lemma wf_build_bind [wf_rules]:
  assumes "\<And>e. wf_kept D (f (Inl e))" "\<And>s. svc_wf D (bizKey (cf_BizType c) (cf_ActID c)) s \<Longrightarrow> wf_kept D (f (Inr s))"
  shows "wf_kept D (State_Monad.bind (lift_ext (buildService D b c)) f)"
proof (rule wf_keptI)
  fix nw :: "'a node \<times> 'a"
  assume "wf_node D (fst nw)"
  moreover have "wf_kept D (f (result (buildService D b c) (snd nw)))"
    using assms by (cases "result (buildService D b c) (snd nw)") (auto dest: build_wf)
  ultimately show "wf_node D (fst (exec (State_Monad.bind (lift_ext (buildService D b c)) f) nw))"
    by (simp add: wf_kept_def)
qed

lemma wf_create_bind [wf_rules]:
  assumes "\<And>t. wf_kept D (f (c\<lparr>cf_CreateTime := t\<rparr>))"
  shows "wf_kept D (State_Monad.bind (with_create D c) f)"
proof (rule wf_keptI)
  fix nw :: "'a node \<times> 'a"
  assume w: "wf_node D (fst nw)"
  obtain t where "result (with_create D c) nw = c\<lparr>cf_CreateTime := t\<rparr>" using with_create_round by blast
  then show "wf_node D (fst (exec (State_Monad.bind (with_create D c) f) nw))"
    using wf_keptD [OF assms, of "exec (with_create D c) nw" t] w by simp
qed

lemma fill_identity:
  "result (FillConfigFromFiles files b c) w = Inr c' \<Longrightarrow> cf_BizType c' = cf_BizType c \<and> cf_ActID c' = cf_ActID c"
  by (auto simp: FillConfigFromFiles_def split: sum.splits prod.splits)

lemma wf_fill_bind [wf_rules]:
  assumes "\<And>c'. cf_BizType c' = cf_BizType c \<Longrightarrow> cf_ActID c' = cf_ActID c \<Longrightarrow> wf_kept D (f c')"
  shows "wf_kept D (State_Monad.bind (lift_ext (fill_or_keep D b c)) f)"
proof (rule wf_keptI)
  fix nw :: "'a node \<times> 'a"
  assume w: "wf_node D (fst nw)"
  let ?c = "result (fill_or_keep D b c) (snd nw)"
  have "cf_BizType ?c = cf_BizType c \<and> cf_ActID ?c = cf_ActID c"
    by (auto simp: fill_or_keep_def dest: fill_identity split: sum.split)
  then have "wf_kept D (f ?c)" using assms by blast
  then show "wf_node D (fst (exec (State_Monad.bind (lift_ext (fill_or_keep D b c)) f) nw))"
    using w by (simp add: wf_kept_def)
qed

lemma key_simps [simp]:
  "cf_BizType (with_code b c) = cf_BizType c" "cf_ActID (with_code b c) = cf_ActID c"
  "cf_BizType (round_config c x y r) = cf_BizType c" "cf_ActID (round_config c x y r) = cf_ActID c"
  "cf_BizType (saved_window c ps) = cf_BizType c" "cf_ActID (saved_window c ps) = cf_ActID c"
  by (simp_all add: with_code_def round_config_def saved_window_def split: option.split)

lemma wf_enter: "svc_wf D k s \<Longrightarrow> wf_kept D (State_Monad.bind (alloc s) (\<lambda>a. State_Monad.bind (putService k a) (\<lambda>_. State_Monad.return (g a))))"
  by (rule wf_keptI) (simp add: wf_put)

lemma wf_registerSub [wf_rules]:
  "bizKey (cf_BizType c) (cf_ActID c) = k \<Longrightarrow> wf_kept D (registerSubService D b k c)"
  unfolding registerSubService_def
  by (rule wf_create_bind, rule wf_bind, rule wf_rules)
    (auto intro!: wf_build_bind wf_bind [OF wf_insert] wf_rules split: option.split)

lemma wf_replaceSub [wf_rules]:
  "bizKey (cf_BizType c) (cf_ActID c) = k \<Longrightarrow> wf_kept D (replaceSubService D b k c)"
  unfolding replaceSubService_def
  by (rule wf_create_bind, rule wf_build_bind) (auto intro!: wf_enter wf_rules)

lemma wf_registerEngine [wf_rules]: "cf_BizType c = b \<Longrightarrow> wf_kept D (registerEngine D b c)"
  unfolding registerEngine_def Let_def
  by (rule wf_bind, rule wf_rules)
    (auto intro!: wf_create_bind wf_build_bind wf_bind [OF wf_insert] wf_rules intro: wf_bind split: option.split)

lemma wf_restoreService [wf_rules]:
  "bizKey (cf_BizType c) (cf_ActID c) = k \<Longrightarrow> wf_kept D (restoreService D b k c ps)"
  unfolding restoreService_def
  by (rule wf_fill_bind, rule wf_build_bind) (auto intro!: wf_insert wf_rules)

section \<open>States of periodic activities\<close>

lemma wf_SetState [wf_rules]: "StateLogicalKey s = k \<Longrightarrow> wf_kept D (SetState k s)"
  by (rule wf_keptI) (auto simp: SetState_def wf_node_def update_conv' distinct_update split: if_splits)

lemma wf_modState [wf_rules]:
  assumes "\<And>s. StateLogicalKey s = k \<Longrightarrow> StateLogicalKey (f s) = k"
  shows "wf_kept D (modState k f)"
proof (rule wf_keptI)
  fix nw :: "'a node \<times> 'a"
  assume w: "wf_node D (fst nw)"
  have "map fst (AList.map_entry k f xs) = map fst xs" for xs :: "(string \<times> periodic_state) list"
    by (induction xs) auto
  then show "wf_node D (fst (exec (modState k f) nw))"
    using w assms unfolding modState_def
    by (auto simp: wf_node_def map_of_map_entry simp del: map_of_eq_Some_iff split: if_splits)
qed

lemma wf_RemoveState [wf_rules]: "wf_kept D (RemoveState H k)"
  unfolding RemoveState_def
  by (rule wf_bind, rule wf_keptI)
    (auto simp: wf_node_def delete_conv' distinct_delete intro!: wf_bind wf_rules split: if_splits)

lemma StateFromSaved_key: "StateLogicalKey (StateFromSaved b a sv) = bizKey b a"
  by (simp add: StateFromSaved_def StateLogicalKey_def bizKey_LogicalKey Let_def)

lemma NewPeriodicState_key: "NewPeriodicState now b a m x y = Inr st \<Longrightarrow> StateLogicalKey st = bizKey b a"
  by (auto simp: NewPeriodicState_def StateLogicalKey_def bizKey_LogicalKey Let_def split: if_splits prod.splits)

lemma advance_key [simp]: "StateLogicalKey (snd (advanceToRound s r)) = StateLogicalKey s"
  by (simp add: advanceToRound_def StateLogicalKey_def split: prod.split)

lemma wf_cleanup_rounds [wf_rules]: "wf_kept D (CleanupHistoricalRounds H st)"
  unfolding CleanupHistoricalRounds_def by (intro wf_rules)

lemma wf_redis_steps [wf_rules]:
  "wf_kept D (setCurRoundInRedis H k r)" "wf_kept D (setPeriodicMetaInRedis H k st)" "wf_kept D (readCurRoundFromRedis H k)"
  "wf_kept D (GetPeriodicMetaFromRedis H k)" "wf_kept D (tryLock H k t)"
  unfolding setCurRoundInRedis_def setPeriodicMetaInRedis_def readCurRoundFromRedis_def GetPeriodicMetaFromRedis_def tryLock_def
  by (intro wf_rules wf_bind)+

lemma wf_restoreState [wf_rules]: "bizKey b a = k \<Longrightarrow> wf_kept D (restoreState D b a k sv)"
  unfolding restoreState_def Let_def
  by (intro wf_bind wf_rules) (simp add: StateFromSaved_key)

lemma wf_queueWarmUp [wf_rules]: "wf_kept D (queueWarmUp D a)"
  unfolding queueWarmUp_def by (intro wf_bind wf_rules)

section \<open>The operations of the handler\<close>

lemma handler_registry [simp]: "hd_registry (periodicHandler D) = manager_registrar D" "hd_deps (periodicHandler D) = D"
  by (simp_all add: periodicHandler_def SetCycleProvider_def NewHandler_def)

lemma registrar_selectors [simp]:
  "RegisterRoundService (manager_registrar D) = registerSubService D"
  "ReplaceRoundService (manager_registrar D) = replaceSubService D"
  "GetEngineServiceByKey (manager_registrar D) = engine_at"
  by (simp_all add: manager_registrar_def)

lemma wf_RegisterPeriodic [wf_rules]:
  assumes "bizKey b (cf_ActID c) = k" "cf_BizType c = b"
  shows "wf_kept D (RegisterPeriodic (periodicHandler D) b k c m)"
  unfolding RegisterPeriodic_def using assms
  by (auto intro!: wf_bind wf_rules split: sum.split option.split) (auto dest: NewPeriodicState_key)

lemma wf_settleRound [wf_rules]: "wf_kept D (settleRound H a)" "wf_kept D (scheduleCleanup H a st r)"
  by (intro wf_of_tables tables_settle tables_schedule)+

lemma cycle_key [simp]: "StateLogicalKey (s\<lparr>ps_CycleMinutes := c\<rparr>) = StateLogicalKey s"
  by (simp add: StateLogicalKey_def)

lemma wf_updateCycle [wf_rules]: "wf_kept D (updateCycle H k s r)"
  unfolding updateCycle_def Let_def
  by (auto intro!: wf_bind wf_rules split: option.split prod.split)

lemma wf_submitWarmUp [wf_rules]: "wf_kept D (submitWarmUp (periodicHandler D) k)"
  unfolding submitWarmUp_def by (auto intro!: wf_bind wf_rules split: option.split)

lemma wf_enterRound [wf_rules]: "StateLogicalKey st = k \<Longrightarrow> wf_kept D (enterRound (periodicHandler D) k st r)"
  unfolding enterRound_def Let_def by (auto intro!: wf_bind wf_rules)

lemma wf_next_round:
  assumes "wf_node D (fst nw)" "map_of (nd_states (fst nw)) k = Some s" "map_of (nd_engines (fst nw)) k = Some a"
  shows "wf_node D (fst (exec (openNextRound (periodicHandler D) k s a now) nw))"
proof -
  let ?H = "periodicHandler D"
  obtain c r where u: "result (updateCycle ?H k s (nextAdvanceRound s now)) nw = (s\<lparr>ps_CycleMinutes := c\<rparr>, r)"
      "state_step k (s\<lparr>ps_CycleMinutes := c\<rparr>) (fst nw) (fst (exec (updateCycle ?H k s (nextAdvanceRound s now)) nw))"
    by (rule updateCycle_step [OF assms(2)])
  define nw1 where "nw1 = exec (updateCycle ?H k s (nextAdvanceRound s now)) nw"
  have k: "StateLogicalKey s = k" using wf_nodeD(6) [OF assms(1)] assms(2) .
  have w1: "wf_node D (fst nw1)" unfolding nw1_def using assms(1) by (intro wf_keptD [OF wf_updateCycle])
  have e: "map_of (nd_engines (fst nw1)) k = Some a" using u(2) assms(3) by (simp add: state_step_def nw1_def)
  have c: "bizKey (cf_BizType (s_config (nd_heap (fst nw1) ! a))) (cf_ActID (s_config (nd_heap (fst nw1) ! a))) = k"
    using svc_wf_key [OF wf_nodeD(5) [OF w1 e]] .
  have rest: "wf_kept D (State_Monad.bind (replaceSubService D b k (next_config (s_config (nd_heap (fst nw1) ! a)) x y z))
      (\<lambda>r'. case r' of Inl err \<Rightarrow> skip | Inr _ \<Rightarrow> enterRound ?H k (s\<lparr>ps_CycleMinutes := c\<rparr>) r))" for b x y z
    using c k by (auto intro!: wf_bind wf_rules simp: next_config_def split: sum.split)
  have same: "fst (exec (on_svc a (sget s_config)) nw1) = fst nw1" by (simp add: exec_read_config)
  show ?thesis
    using wf_keptD [OF rest, of "exec (on_svc a (sget s_config)) nw1"] w1 u(1) k
    by (auto simp: openNextRound_def nw1_def [symmetric] same Let_def split: prod.split)
qed

lemma wf_advanceRound:
  assumes "wf_node D (fst nw)" "map_of (nd_states (fst nw)) k = Some s"
  shows "wf_node D (fst (exec (advanceRound (periodicHandler D) k s now) nw))"
proof -
  let ?H = "periodicHandler D"
  define nw1 where "nw1 = exec (tryLock ?H (advanceLock (StateLogicalKey s) (ps_currentRound s)) minute_ns) nw"
  have k: "StateLogicalKey s = k" using wf_nodeD(6) [OF assms(1)] assms(2) .
  have n1: "fst nw1 = fst nw" by (simp add: nw1_def tryLock_def)
  show ?thesis
  proof (cases "map_of (nd_engines (fst nw)) k")
    case None
    then show ?thesis using assms n1 k by (simp add: advanceRound_def nw1_def [symmetric] Let_def)
  next
    case (Some a)
    define nw2 where "nw2 = exec (settleRound ?H a) nw1"
    define nw3 where "nw3 = (if result (settleRound ?H a) nw1 then exec (scheduleCleanup ?H a s (ps_currentRound s)) nw2 else nw2)"
    have "tables (fst nw2) = tables (fst nw1)" unfolding nw2_def by (rule keepsD [OF tables_settle])
    moreover have "tables (fst nw3) = tables (fst nw2)"
      unfolding nw3_def by (simp add: keepsD [OF tables_schedule])
    ultimately have t: "tables (fst nw3) = tables (fst nw)" using n1 by simp
    have w3: "wf_node D (fst nw3)" using wf_tables [OF t assms(1)] .
    have "map_of (nd_states (fst nw3)) k = Some s" "map_of (nd_engines (fst nw3)) k = Some a"
      using tablesD [OF t] assms(2) Some by simp_all
    then have "wf_node D (fst (exec (openNextRound ?H k s a now) nw3))" by (rule wf_next_round [OF w3])
    then show ?thesis
      using assms(1) w3 n1 k Some
      by (auto simp: advanceRound_def nw1_def [symmetric] nw2_def [symmetric] nw3_def Let_def split: if_splits)
  qed
qed

lemma wf_TickAll [wf_rules]: "wf_kept D (TickAll (periodicHandler D) now)"
proof -
  have "wf_kept D (State_Monad.bind (GetState k) (\<lambda>st. case st of None \<Rightarrow> skip
      | Some s \<Rightarrow> if \<not> isRoundExpired s now then skip else advanceRound (periodicHandler D) k s now))" for k
    by (rule wf_keptI) (auto simp: wf_advanceRound split: option.split)
  then have "wf_kept D (for_each ks (\<lambda>k. State_Monad.bind (GetState k) (\<lambda>st. case st of None \<Rightarrow> skip
      | Some s \<Rightarrow> if \<not> isRoundExpired s now then skip else advanceRound (periodicHandler D) k s now)))" for ks
    by (rule wf_for_each)
  then show ?thesis unfolding TickAll_def by (rule wf_bind [OF wf_basic(4)])
qed

lemma wf_timers [wf_rules]: "wf_kept D (fireTimer H t)" "wf_kept D (runWarmUp H)"
  unfolding fireTimer_def untrackTimer_def runWarmUp_def
  by (auto intro!: wf_bind wf_rules config_cleanup config_warm split: list.split)

section \<open>The operations of the manager\<close>

lemma wf_on_svc_ok:
  assumes "\<And>k s w. svc_wf D k s \<Longrightarrow> svc_wf D k (fst (exec m (s, w)))"
  shows "wf_kept D (on_svc a m)"
proof (rule wf_keptI)
  fix nw :: "'a node \<times> 'a"
  assume w: "wf_node D (fst nw)"
  then show "wf_node D (fst (exec (on_svc a m) nw))"
  proof (cases "a < length (nd_heap (fst nw))")
    case True
    then show ?thesis using w by (auto simp: wf_node_def exec_on_svc nth_list_update assms)
  next
    case False
    then show ?thesis using w by (simp add: wf_node_def exec_on_svc list_update_beyond)
  qed
qed

lemma wf_UpdateConfig [wf_rules]: "wf_kept D (on_svc a (UpdateConfig (dp_env D) c))"
  by (rule wf_on_svc_ok)
    (auto simp: UpdateConfig_def svc_wf_def refreshActivityEndLocked_def computeBizId_def Let_def)

lemma wf_cleanupServiceData [wf_rules]: "wf_kept D (cleanupServiceData D a b act)"
  unfolding cleanupServiceData_def
  by (auto intro!: wf_bind wf_rules keeps_rules split: sum.split)

lemma wf_Update [wf_rules]: "wf_kept D (UpdateService D b act c)"
  unfolding UpdateService_def Let_def
  by (auto intro!: wf_bind wf_rules keeps_rules split: option.split)

lemma wf_Remove [wf_rules]: "wf_kept D (RemoveService D b act)"
  unfolding RemoveService_def Let_def
  by (auto intro!: wf_bind wf_rules split: option.split)

lemma wf_filled_bind:
  assumes "\<And>e. wf_kept D (f (Inl e))" "\<And>c'. cf_BizType c' = cf_BizType c \<Longrightarrow> wf_kept D (f (Inr c'))"
  shows "wf_kept D (State_Monad.bind (lift_ext (FillConfigFromFiles files b c)) f)"
proof (rule wf_keptI)
  fix nw :: "'a node \<times> 'a"
  assume w: "wf_node D (fst nw)"
  have "wf_kept D (f (result (FillConfigFromFiles files b c) (snd nw)))"
    using assms by (cases "result (FillConfigFromFiles files b c) (snd nw)") (auto dest: fill_identity)
  then show "wf_node D (fst (exec (State_Monad.bind (lift_ext (FillConfigFromFiles files b c)) f) nw))"
    using w by (simp add: wf_kept_def)
qed

lemma wf_Register [wf_rules]: "wf_kept D (RegisterActivity D b c)"
  unfolding RegisterActivity_def Let_def
  by (rule wf_bind, rule wf_rules, rule wf_if, rule wf_rules, rule wf_filled_bind)
    (auto intro!: wf_bind wf_rules split: sum.split prod.split)

lemma wf_tick [wf_rules]: "wf_kept D (tickServices D now)" "wf_kept D (warmUpAllServices D)"
  unfolding tickServices_def warmUpAllServices_def snapshotServices_def
  by (auto intro!: wf_bind wf_rules config_tick config_warm)

lemma wf_lists [wf_rules]: "wf_kept D (ListServices D f)" "wf_kept D (rebuildMemberIndex D u)"
  unfolding ListServices_def rebuildMemberIndex_def snapshotServices_def Let_def
  by (auto intro!: wf_bind wf_rules keeps_rules split: option.split)

lemma wf_member_ranks [wf_rules]: "wf_kept D (member_ranks D u ls)"
proof (induction D u ls rule: member_ranks.induct)
  case (2 D u entry svc ls)
  then show ?case by (cases svc) (auto intro!: wf_bind wf_rules keeps_rules split: sum.split prod.split)
qed (simp add: wf_rules)

lemma wf_member_entries [wf_rules]: "wf_kept D (GetMemberRankEntries D u)"
  unfolding GetMemberRankEntries_def GetMemberEntries_def
  by (auto intro!: wf_bind wf_rules)

lemma wf_round_queries [wf_rules]:
  "wf_kept D (ResolveEngineService D b act r)" "wf_kept D (RoundInfosOf D b act)" "wf_kept D (CurrentRoundInfoOf D b act)"
  unfolding ResolveEngineService_def RoundInfosOf_def CurrentRoundInfoOf_def single_round_def GetEngineService_def
    loaded_config_def GetRoundInfos_def GetCurrentRoundInfo_def Let_def
  by (auto intro!: wf_bind wf_rules keeps_rules split: option.split prod.split)

lemma wf_Close [wf_rules]: "wf_kept D Close"
  by (rule wf_keptI) (simp add: Close_def Clear_def wf_node_def)

section \<open>Synchronisation\<close>

lemma restoreState_frame:
  "nd_engines (fst (exec (restoreState D b a k sv) nw)) = nd_engines (fst nw)"
  "nd_heap (fst (exec (restoreState D b a k sv) nw)) = nd_heap (fst nw)"
proof -
  have c: "fst (exec (CleanupHistoricalRounds (periodicHandler D) ps) mw) = fst mw" for ps mw
  proof -
    have "keeps (\<lambda>nw. (\<lambda>n. n) (fst nw)) (CleanupHistoricalRounds (periodicHandler D) ps)"
      unfolding CleanupHistoricalRounds_def by (intro keeps_rules)
    then show ?thesis by (rule keepsD)
  qed
  show "nd_engines (fst (exec (restoreState D b a k sv) nw)) = nd_engines (fst nw)"
    "nd_heap (fst (exec (restoreState D b a k sv) nw)) = nd_heap (fst nw)"
    by (simp_all add: restoreState_def c SetState_def Let_def)
qed

lemma wf_replaceStale:
  assumes "wf_node D (fst nw)" "map_of (nd_engines (fst nw)) k = Some a"
  shows "wf_node D (fst (exec (replaceStale D b k a sv) nw))"
proof -
  have c: "bizKey (cf_BizType (s_config (nd_heap (fst nw) ! a))) (cf_ActID (s_config (nd_heap (fst nw) ! a))) = k"
    using svc_wf_key [OF wf_nodeD(5) [OF assms]] .
  have rest: "wf_kept D (State_Monad.bind (replaceSubService D b k
      ((saved_window (s_config (nd_heap (fst nw) ! a)) (Some sv))\<lparr>cf_CreateTime := t\<rparr>))
      (\<lambda>r. case r of Inl err \<Rightarrow> skip | Inr b \<Rightarrow> queueWarmUp D b))" for t
    using c by (auto intro!: wf_bind wf_rules split: sum.split)
  have same: "fst (exec (on_svc a (sget s_config)) nw) = fst nw" by (simp add: exec_read_config)
  show ?thesis
    using wf_keptD [OF rest, of "exec (on_svc a (sget s_config)) nw"] assms(1)
    by (auto simp: replaceStale_def same)
qed

lemma wf_sync_doc [wf_rules]: "wf_kept D (sync_doc D now doc keys)"
proof (rule wf_keptI)
  fix nw :: "'a node \<times> 'a"
  assume w: "wf_node D (fst nw)"
  let ?b = "cf_BizType (doc_config doc)" and ?a = "cf_ActID (doc_config doc)"
  have key: "bizKey ?b ?a = doc_key doc" by (simp add: doc_key_def)
  have st: "wf_kept D (restoreState D ?b ?a (doc_key doc) sv)" for sv by (intro wf_rules key)
  have sv: "wf_kept D (restoreService D ?b (doc_key doc) (doc_config doc) ps)" for ps by (intro wf_rules key)
  show "wf_node D (fst (exec (sync_doc D now doc keys) nw))"
  proof (cases "map_of (nd_engines (fst nw)) (doc_key doc)")
    case None
    then show ?thesis
      using w by (auto simp: sync_doc_def Let_def intro!: wf_keptD [OF sv] wf_keptD [OF st] split: option.split)
  next
    case (Some a)
    let ?g = "\<lambda>s. cf_RoundIndex (s_config s)"
    have same: "fst (exec (on_svc a (sget ?g)) nw) = fst nw" by (simp add: exec_read_config)
    show ?thesis
    proof (cases "do_Periodic doc")
      case None
      then show ?thesis using w Some by (auto simp: sync_doc_def Let_def same)
    next
      case (Some sv)
      let ?nw1 = "exec (on_svc a (sget ?g)) nw"
      have "wf_node D (fst (exec (replaceStale D ?b (doc_key doc) a sv) ?nw1))"
        using w \<open>map_of _ _ = Some a\<close> by (intro wf_replaceStale) (simp_all add: same)
      moreover have "wf_node D (fst (exec (replaceStale D ?b (doc_key doc) a sv) (exec (restoreState D ?b ?a (doc_key doc) sv) ?nw1)))"
        using w \<open>map_of _ _ = Some a\<close> wf_keptD [OF st, of ?nw1]
        by (intro wf_replaceStale) (simp_all add: same restoreState_frame)
      ultimately show ?thesis using w Some \<open>map_of _ _ = Some a\<close> by (auto simp: sync_doc_def Let_def)
    qed
  qed
qed

lemma wf_sync_missing [wf_rules]: "wf_kept D (sync_missing D now ks ms)"
  unfolding sync_missing_def removeEnded_def Let_def
  by (auto intro!: wf_bind wf_rules keeps_rules split: option.split prod.split)

lemma wf_syncFromMongo [wf_rules]: "wf_kept D (syncFromMongo D)"
  unfolding syncFromMongo_def by (auto intro!: wf_bind wf_rules split: sum.split)

lemma wf_recover [wf_rules]: "wf_kept D (recoverPeriodic D b a)"
proof -
  have "wf_kept D (registerSubService D b (bizKey b a) c)" if "cf_BizType c = b" "cf_ActID c = a" for c
    using that by (intro wf_rules) simp
  then have fill: "wf_kept D (State_Monad.bind (lift_ext (fill_or_keep D b (saved_window
      (zero_config\<lparr>cf_BizType := b, cf_ActID := a\<rparr>) (Some sv)))) (\<lambda>cfg.
        State_Monad.bind (registerSubService D b (bizKey b a) cfg)
          (\<lambda>s. case s of Inl err \<Rightarrow> skip | Inr _ \<Rightarrow> lift_ext (persistRecovered D b a (bizKey b a) sv))))" for sv
    by (intro wf_fill_bind) (auto intro!: wf_bind wf_rules split: sum.split)
  show ?thesis
    unfolding recoverPeriodic_def Let_def
    by (auto intro!: wf_bind wf_rules fill [unfolded State_Monad.bind_assoc] simp: StateFromSaved_key split: option.split)
qed

lemma wf_from_redis [wf_rules]: "wf_kept D (registerFromRedis D b a i now)" "wf_kept D (registerFromBizId D i now)"
proof -
  have key: "wf_kept D (registerFromRedis D b a i now)" for b a
    unfolding registerFromRedis_def Let_def
    by (rule wf_bind, rule wf_rules, rule wf_if, rule wf_rules, rule wf_bind, rule wf_rules)
      (auto intro!: wf_fill_bind wf_build_bind wf_bind [OF wf_insert] wf_rules split: option.split prod.split)
  then show "wf_kept D (registerFromRedis D b a i now)" .
  show "wf_kept D (registerFromBizId D i now)"
    unfolding registerFromBizId_def tryRecoverPeriodicFromRedis_def Let_def
    by (auto intro!: wf_bind wf_rules key split: option.split prod.split)
qed

lemma wf_syncFromRedis [wf_rules]: "wf_kept D (syncFromRedis D)"
  unfolding syncFromRedis_def Let_def
  by (auto intro!: wf_bind wf_rules split: sum.split)

lemma wf_apply [wf_rules]: "wf_kept D (applyRankConfigDoc D doc)"
  unfolding applyRankConfigDoc_def Let_def
proof (rule wf_bind)
  show "wf_kept D (case do_Periodic doc of None \<Rightarrow> skip | Some saved \<Rightarrow>
      restoreState D (cf_BizType (doc_config doc)) (cf_ActID (doc_config doc)) (doc_key doc) saved)"
    by (auto intro!: wf_rules simp: doc_key_def split: option.split)
qed (rule wf_bind, rule wf_rules, rule wf_if, rule wf_rules, rule wf_fill_bind, rule wf_build_bind,
    auto intro!: wf_bind [OF wf_insert] wf_insert wf_bind wf_rules simp: doc_key_def split: prod.split)

lemma wf_events [wf_rules]: "wf_kept D (onCreateEvent D v)" "wf_kept D (onDeleteEvent D k)"
  unfolding onCreateEvent_def onDeleteEvent_def Let_def
  by (auto intro!: wf_bind wf_rules split: option.split prod.split)

lemma wf_start [wf_rules]: "wf_kept D (syncRound D)" "wf_kept D (InitGlobalManager ord D)"
  unfolding InitGlobalManager_def syncRound_def by (auto intro!: wf_bind wf_rules)

section \<open>Requests\<close>

lemma wf_cases:
  "(x = None \<Longrightarrow> wf_kept D p) \<Longrightarrow> (\<And>y. x = Some y \<Longrightarrow> wf_kept D (f y)) \<Longrightarrow> wf_kept D (case x of None \<Rightarrow> p | Some y \<Rightarrow> f y)"
  "(\<And>l. wf_kept D (g l)) \<Longrightarrow> (\<And>r. wf_kept D (h r)) \<Longrightarrow> wf_kept D (case e of Inl l \<Rightarrow> g l | Inr r \<Rightarrow> h r)"
  "(\<And>i j. wf_kept D (q i j)) \<Longrightarrow> wf_kept D (case pr of (i, j) \<Rightarrow> q i j)"
  by (auto split: option.split sum.split prod.split)

lemma wf_history [wf_rules]:
  "wf_kept D (GetHistoricalRoundList H b act r u i j)" "wf_kept D (GetHistoricalRewardUsers H b act r)"
  "wf_kept D (GetHistoricalClaimStatus H b act r u)" "wf_kept D (ClaimHistoricalReward H b act r u)"
  unfolding GetHistoricalRoundList_def GetHistoricalRewardUsers_def GetHistoricalClaimStatus_def ClaimHistoricalReward_def
    historicalGroup_def findUserGroupFromSettled_def realUsersFromSettled_def warmRoundCacheFromSettled_def warmGroup_def
    resolveHistoricalRound_def Let_def
  by (auto intro!: wf_bind wf_rules split: sum.split option.split prod.split)

lemma wf_lookups [wf_rules]:
  "wf_kept D (IsRankTrulyNotFound D b act)" "wf_kept D (GetEngineService b act)" "wf_kept D (GetPeriodicState b act)"
  "wf_kept D (response_round b act)" "wf_kept D (missing_service D b act r)"
  unfolding missing_service_def IsRankTrulyNotFound_def GetEngineService_def GetPeriodicState_def loaded_config_def
    response_round_def
  by (auto intro!: wf_bind wf_rules)

lemma wf_with_manager [wf_rules]: "wf_kept D (f D) \<Longrightarrow> wf_kept D (with_manager (Some D) f)"
  by (simp add: with_manager_def)

lemma wf_lookupEngineService [wf_rules]: "(\<And>a. wf_kept D (f D a)) \<Longrightarrow> wf_kept D (lookupEngineService (Some D) b act f)"
  unfolding lookupEngineService_def
  by (intro wf_with_manager wf_bind wf_rules) (auto intro!: wf_rules split: option.split)

lemma wf_service_reads [wf_rules]:
  "wf_kept D (shown_group D a g)" "wf_kept D (settle_stage D a g)" "wf_kept D (kind_cycle_round D b st)"
  "wf_kept D (config_summary_of D i)"
  unfolding shown_group_def settle_stage_def config_summary_of_def kind_cycle_round_def Let_def
  by (auto intro!: wf_bind wf_rules keeps_rules split: option.split prod.split)

lemma wf_requests [wf_rules]:
  "wf_kept D (handleUpsertScore (Some D) b act u x t r av)" "wf_kept D (handleGetRankList (Some D) b act u i j r)"
  "wf_kept D (handleGetMemberRank (Some D) b act u r)" "wf_kept D (handleSettle (Some D) b act)"
  "wf_kept D (handleGetRewardUsers (Some D) b act r)" "wf_kept D (handleClaimReward (Some D) b act u r)"
  "wf_kept D (handleGetClaimStatus (Some D) b act u r)" "wf_kept D (handleGetRankConfig (Some D) b act)"
  "wf_kept D (handleListRankConfigs (Some D) b)" "wf_kept D (handleGetRankCurRound (Some D) b act)"
  "wf_kept D (handleGMGetUserRankList (Some D) u)" "wf_kept D (handleGMGetGroupRankList (Some D) b act g)"
  "wf_kept D (handleGMGetRankInstanceList (Some D) b act)" "wf_kept D (handleGMGetInstanceRankList (Some D) b act g)"
  unfolding handleUpsertScore_def handleGetRankList_def handleGetMemberRank_def handleSettle_def handleGetRewardUsers_def
    handleClaimReward_def handleGetClaimStatus_def handleGetRankConfig_def handleListRankConfigs_def
    handleGetRankCurRound_def handleGMGetUserRankList_def handleGMGetGroupRankList_def handleGMGetRankInstanceList_def
    handleGMGetInstanceRankList_def Let_def
  by (intro wf_with_manager wf_lookupEngineService wf_bind wf_cases wf_rules keeps_rules)+

lemma wf_changes [wf_rules]:
  "wf_kept D (handleCreateRankConfig (Some D) b act x y z)" "wf_kept D (handleUpdateRankConfig (Some D) b act x y z)"
  "wf_kept D (handleDeleteRankConfig (Some D) b act)"
  unfolding handleCreateRankConfig_def handleUpdateRankConfig_def handleDeleteRankConfig_def
  by (auto intro!: wf_bind wf_rules split: option.split)

text \<open>The requests a node answers; the response goes to the sender.\<close>

inductive request :: "'w deps option \<Rightarrow> ('w, unit) nd \<Rightarrow> bool" for m where
  upsert: "request m (ignore (handleUpsertScore m b act u x t r av))"
| rank_list: "request m (ignore (handleGetRankList m b act u i j r))"
| member_rank: "request m (ignore (handleGetMemberRank m b act u r))"
| settle: "request m (ignore (handleSettle m b act))"
| reward_users: "request m (ignore (handleGetRewardUsers m b act r))"
| claim: "request m (ignore (handleClaimReward m b act u r))"
| claim_status: "request m (ignore (handleGetClaimStatus m b act u r))"
| create: "request m (ignore (handleCreateRankConfig m b act x y z))"
| get_config: "request m (ignore (handleGetRankConfig m b act))"
| update: "request m (ignore (handleUpdateRankConfig m b act x y z))"
| delete: "request m (ignore (handleDeleteRankConfig m b act))"
| list_configs: "request m (ignore (handleListRankConfigs m b))"
| current_round: "request m (ignore (handleGetRankCurRound m b act))"
| gm_user: "request m (ignore (handleGMGetUserRankList m u))"
| gm_group: "request m (ignore (handleGMGetGroupRankList m b act g))"
| gm_instances: "request m (ignore (handleGMGetRankInstanceList m b act))"
| gm_instance: "request m (ignore (handleGMGetInstanceRankList m b act g))"

lemma wf_request: "request (Some D) q \<Longrightarrow> wf_kept D q"
  by (cases rule: request.cases) (auto intro!: wf_ignore wf_requests wf_changes)

section \<open>Everything that can happen\<close>

text \<open>One event at a node: start-up, a request, a registration from within, a tick, a synchronisation, a
  message, a timer, a task of the pool, the end, or a change of the outside world by anybody else.\<close>

inductive node_step :: "'w deps \<Rightarrow> 'w node \<times> 'w \<Rightarrow> 'w node \<times> 'w \<Rightarrow> bool" for D where
  outside: "node_step D (n, w) (n, w')"
| starts: "node_step D nw (exec (InitGlobalManager ord D) nw)"
| answers: "request (Some D) q \<Longrightarrow> node_step D nw (exec q nw)"
| registers: "node_step D nw (exec (RegisterActivity D b c) nw)"
| ticks: "node_step D nw (exec (tickServices D now) nw)"
| synchronises: "node_step D nw (exec (syncRound D) nw)"
| hears_create: "node_step D nw (exec (onCreateEvent D v) nw)"
| hears_delete: "node_step D nw (exec (onDeleteEvent D k) nw)"
| timer_fires: "t \<in> set (nd_timers (fst nw)) \<Longrightarrow> node_step D nw (exec (fireTimer (periodicHandler D) t) nw)"
| task_runs: "node_step D nw (exec (runWarmUp (periodicHandler D)) nw)"
| closes: "node_step D nw (exec Close nw)"

inductive node_reach :: "'w deps \<Rightarrow> 'w node \<times> 'w \<Rightarrow> bool" for D where
  boot: "node_reach D (empty_node, w)"
| goes_on: "node_reach D nw \<Longrightarrow> node_step D nw nw' \<Longrightarrow> node_reach D nw'"

lemma wf_node_step: "node_step D nw nw' \<Longrightarrow> wf_node D (fst nw) \<Longrightarrow> wf_node D (fst nw')"
  by (induction rule: node_step.induct)
    (auto intro: wf_keptD [OF wf_start(2)] wf_keptD [OF wf_start(1)] wf_keptD [OF wf_request] wf_keptD [OF wf_Register]
      wf_keptD [OF wf_tick(1)] wf_keptD [OF wf_events(1)] wf_keptD [OF wf_events(2)]
      wf_keptD [OF wf_timers(1)] wf_keptD [OF wf_timers(2)] wf_keptD [OF wf_Close])

lemma wf_reach: "node_reach D nw \<Longrightarrow> wf_node D (fst nw)"
  by (induction rule: node_reach.induct) (auto simp: wf_empty intro: wf_node_step)

text \<open>Claim C6: the registry of a node is consistent at every moment of its life. Whatever requests, ticks,
  synchronisations, messages, timers and changes from outside have happened since start-up: the two
  tables of services agree; a service is registered under the key of its own activity, works on the
  node's own Redis, MongoDB and ranking library, keeps its data under the id of the round it runs, tells
  the node's member index who joins, and holds the definition of its own ranking, with a code and places
  in the groups, and its copy of the end of the activity is the settlement time of its present
  configuration, however often that was updated; and the state of a periodic activity lies under the key of its activity.\<close>

theorem registry_always_consistent:
  assumes "node_reach D nw"
  shows "nd_services (fst nw) = nd_engines (fst nw)
    \<and> (\<forall>k a. map_of (nd_engines (fst nw)) k = Some a \<longrightarrow> a < length (nd_heap (fst nw)) \<and> svc_wf D k (nd_heap (fst nw) ! a))
    \<and> (\<forall>k s. map_of (nd_states (fst nw)) k = Some s \<longrightarrow> StateLogicalKey s = k)"
  using wf_nodeD [OF wf_reach [OF assms]] by blast

definition mem_start :: "mem node \<times> mem" where
  "mem_start = exec (RegisterActivity mem_deps ''arena'' calm_config) (empty_node, empty_mem)"

lemma mem_start_reached: "node_reach mem_deps mem_start"
  unfolding mem_start_def by (rule goes_on [OF boot registers])

lemma build_succeeds:
  assumes "result (RegisterRank (dp_plat D) (rankDefFor b c)) w = None" "cf_RankCode c \<noteq> []" "0 < cf_RankPeopleNum c"
  shows "\<exists>s. result (buildService D b c) w = Inr s"
  using assms by (simp add: buildService_def NewService_def Let_def)

text \<open>The configuration the sample files make of the sample activity.\<close>

definition filled_config :: config where
  "filled_config = calm_config\<lparr>cf_RankPeopleNum := 50, cf_OpenToken := 10\<rparr>"

lemma mem_files:
  "result (ValidateBizType (dp_files mem_deps) ''arena'') w = None" "exec (ValidateBizType (dp_files mem_deps) ''arena'') w = w"
  "result (LoadRankTypeAndCycle (dp_files mem_deps) ''arena'') w = Inr (2, 60)"
  "exec (LoadRankTypeAndCycle (dp_files mem_deps) ''arena'') w = w"
  "result (FillConfigFromFiles (dp_files mem_deps) ''arena'' calm_config) w = Inr filled_config"
  "exec (FillConfigFromFiles (dp_files mem_deps) ''arena'' calm_config) w = w"
  by (simp_all add: mem_deps_def ValidateBizType_def LoadRankTypeAndCycle_def FillConfigFromFiles_def loadRankBase_def
      LoadRobotConfig_def LoadRobotTiers_def LoadRobotInfos_def stable_run sample_files_def filled_config_def calm_config_def)

definition first_round :: periodic_state where
  "first_round = \<lparr>ps_BizType = ''arena'', ps_ActID = 7, ps_CycleMinutes = 60, ps_BaseCycleMinutes = 60,
     ps_TotalOpenTime = 1000, ps_TotalCloseTime = 36001000, ps_currentRound = 1, ps_RoundOpenTime = 1000,
     ps_RoundCloseTime = 3601000\<rparr>"

lemma first_round_new: "NewPeriodicState 0 ''arena'' 7 60 1000 36001000 = Inr first_round"
  by code_simp

text \<open>Registering the activity \<open>arena\<close> 7 at an empty node at time 0, whatever its times, its clock otherwise and
  the rest of its environment.\<close>

lemma mem_register:
  assumes D: "D = mem_deps\<lparr>dp_env := E\<rparr>" "\<And>w. mw_now w = 0 \<Longrightarrow> result (Now (en_lib E)) w = 0"
    and c: "cf_ActID c = 7" "cf_RobotTiers c = []" "cf_RobotInfos c = []"
    and st: "NewPeriodicState 0 ''arena'' 7 60 (cf_OpenTime c) (cf_CloseTime c) = Inr st"
    and n': "n' = fst (exec (RegisterActivity D ''arena'' c) (empty_node, empty_mem))"
  shows "map_of (nd_engines n') ''arena:7'' = Some 0" "nd_states n' = [(''arena:7'', st)]" "in_sync n' k"
proof -
  define d where "d = c\<lparr>cf_BizType := ''arena'', cf_RankPeopleNum := 50, cf_OpenToken := 10\<rparr>"
  have files: "dp_files D = dp_files mem_deps" by (simp add: D)
  have fill: "result (FillConfigFromFiles (dp_files mem_deps) ''arena'' (c\<lparr>cf_BizType := ''arena''\<rparr>)) w = Inr d"
    "exec (FillConfigFromFiles (dp_files mem_deps) ''arena'' (c\<lparr>cf_BizType := ''arena''\<rparr>)) w = w" for w
    using c by (simp_all add: mem_deps_def FillConfigFromFiles_def loadRankBase_def LoadRobotConfig_def LoadRobotTiers_def
        LoadRobotInfos_def stable_run sample_files_def d_def)
  have d: "cf_ActID d = 7" "cf_OpenTime d = cf_OpenTime c" "cf_CloseTime d = cf_CloseTime c" "cf_RankPeopleNum d = 50"
    by (simp_all add: d_def c)
  let ?H = "periodicHandler D" and ?nw = "(empty_node :: mem node, empty_mem)"
  let ?lock = "tryLock ?H (registerLock ''arena:7'') (30 * second_ns)"
  have lock: "result ?lock ?nw" "fst (exec ?lock ?nw) = empty_node" "mw_now (snd (exec ?lock ?nw)) = 0"
    by (simp_all add: D tryLock_def mem_node_simps empty_mem_def mem_expire_def)
  have now: "result (now_milli (hd_env ?H)) (exec ?lock ?nw) = 0"
    using D(2) [OF lock(3)] by (simp add: now_milli_def D(1) mem_node_simps UnixMilli_def)
  define cr where "cr = round_config d (ps_RoundOpenTime st) (ps_RoundCloseTime st) (ps_currentRound st)"
  define r where "r = RegisterRoundService (hd_registry ?H) ''arena'' ''arena:7'' cr"
  define nw1 where "nw1 = exec (now_milli (hd_env ?H)) (exec ?lock ?nw)"
  have n1: "fst nw1 = empty_node" by (simp add: nw1_def lock(2))
  obtain a where a: "result r nw1 = Inr a"
  proof -
    obtain t where t: "result (with_create D (with_code ''arena'' cr)) nw1 = (with_code ''arena'' cr)\<lparr>cf_CreateTime := t\<rparr>"
      using with_create_round by blast
    obtain s where "result (buildService D ''arena'' ((with_code ''arena'' cr)\<lparr>cf_CreateTime := t\<rparr>))
        (snd (exec (with_create D (with_code ''arena'' cr)) nw1)) = Inr s"
      using build_succeeds [of D "''arena''"] d(4)
      by (fastforce simp: D mem_deps_def mem_platform_def cr_def with_code_def round_config_def score_code_def)
    then show ?thesis using that n1 t by (simp add: r_def registerSubService_def insertService_def empty_node_def)
  qed
  have new: "new_service ''arena:7'' cr empty_node (fst (exec r nw1)) a"
    using mgr.registered [of D, folded handler_registry(1), OF a [unfolded r_def]] n1
    by (simp add: r_def empty_node_def)
  have e: "fst (exec (RegisterPeriodic ?H ''arena'' ''arena:7'' d 60) ?nw) =
      (fst (exec r nw1))\<lparr>nd_states := AList.update ''arena:7'' st (nd_states (fst ?nw))\<rparr>"
  proof (rule RegisterPeriodic_entered [OF _ _ lock(1)])
    show "NewPeriodicState (result (now_milli (hd_env ?H)) (exec ?lock ?nw)) ''arena'' (cf_ActID d) 60
        (cf_OpenTime d) (cf_CloseTime d) = Inr st"
      unfolding now using st d by simp
    show "nd_states (fst (exec r nw1)) = nd_states (fst ?nw)" using new by (simp add: new_service_def)
  qed (use a in \<open>simp_all add: r_def cr_def nw1_def empty_node_def\<close>)
  have key: "bizKey ''arena'' 7 = ''arena:7''" by code_simp
  have n'': "n' = fst (exec (RegisterPeriodic ?H ''arena'' ''arena:7'' d 60) ?nw)"
    by (simp add: n' RegisterActivity_def files mem_files fill d key RankTypePeriodic_def Let_def)
  then show "map_of (nd_engines n') ''arena:7'' = Some 0" "nd_states n' = [(''arena:7'', st)]"
    using new unfolding e by (simp_all add: new_service_def empty_node_def)
  have "in_sync (fst (exec (RegisterPeriodic ?H ''arena'' ''arena:7'' d 60) ?nw)) k"
    by (rule mgr.Register_outcome [OF handler_registry(1) _ refl]) (simp_all add: in_sync_def empty_node_def)
  then show "in_sync n' k" unfolding n'' .
qed

lemma mem_start_facts:
  "map_of (nd_engines (fst mem_start)) ''arena:7'' = Some 0" "nd_states (fst mem_start) = [(''arena:7'', first_round)]"
  "in_sync (fst mem_start) k"
  using mem_register(1,2) [of mem_deps mem_env calm_config first_round "fst mem_start"]
    mem_register(3) [of mem_deps mem_env calm_config first_round "fst mem_start" k] first_round_new
  by (simp_all add: mem_start_def calm_config_def mem_deps_def mem_simps)

theorem registry_always_consistent_witness:
  "svc_wf mem_deps ''arena:7'' (nd_heap (fst mem_start) ! 0) \<and> length (nd_states (fst mem_start)) = 1"
  using registry_always_consistent [OF mem_start_reached] mem_start_facts by simp

end
