(* ===== verification/NodeProps.thy ===== *)
theory NodeProps
  imports NodeInvariant SettleProps
begin

text \<open>
  Properties of a node as a whole: the tick and the advance of rounds on the manager's own registry,
  and registrations, racing ones and ones over an existing service.
\<close>

section \<open>Rounds stay in step\<close>

definition rounds_fit :: "'w node \<Rightarrow> bool" where
  "rounds_fit n \<longleftrightarrow> (\<forall>k s. map_of (nd_states n) k = Some s \<longrightarrow> in32 (ps_currentRound s) \<and> ps_currentRound s < 2147483647)"

lemma reach_keyed: "node_reach D nw \<Longrightarrow> rounds_fit (fst nw) \<Longrightarrow> well_keyed (fst nw) k"
  by (auto simp: well_keyed_def rounds_fit_def dest: wf_nodeD(6) [OF wf_reach])

lemma tables_services: "tables_kept (for_each svcs (\<lambda>a. do {
       refused \<leftarrow> lift_ext (Submit (dp_plat D));
       if refused = None then ignore (on_svc a (Tick (dp_env D) now)) else skip }))"
  by (auto intro!: keeps_bind keeps_rules)

text \<open>Claim C11: a tick of the node keeps every activity in step and takes no round back. If before the tick
  each registered service of a periodic activity runs the round its state names, with the same window,
  then so it is after the tick, however many activities advanced, whatever Redis, MongoDB, the pool
  and the ranking library answered; and no activity is lost or behind the round it was in.\<close>

theorem tick_keeps_rounds_in_step:
  assumes "node_reach D nw" "\<forall>k. in_sync (fst nw) k" "rounds_fit (fst nw)"
  shows "(\<forall>k. in_sync (fst (exec (tickServices D now) nw)) k)
    \<and> rounds_progress (fst nw) (fst (exec (tickServices D now) nw))"
proof -
  let ?ticks = "for_each (map snd (nd_services (fst nw))) (\<lambda>a. do {
       refused \<leftarrow> lift_ext (Submit (dp_plat D));
       if refused = None then ignore (on_svc a (Tick (dp_env D) now)) else skip })"
  let ?nw1 = "exec ?ticks nw"
  have t: "tables (fst ?nw1) = tables (fst nw)" by (rule keepsD [OF tables_services])
  have e: "exec (tickServices D now) nw = exec (TickAll (periodicHandler D) now) ?nw1"
    by (simp add: tickServices_def)
  have "(\<forall>k. in_sync (fst (exec (TickAll (periodicHandler D) now) ?nw1)) k)
      \<and> rounds_progress (fst ?nw1) (fst (exec (TickAll (periodicHandler D) now) ?nw1))"
    using mgr.TickAll_outcome [OF handler_registry(1), where nw = ?nw1] in_sync_tables [OF t] assms(2)
      reach_keyed [OF assms(1,3)] wf_nodeD(3) [OF wf_reach [OF assms(1)]] tablesD [OF t]
    by (simp add: well_keyed_def)
  then show ?thesis unfolding e using tablesD(3) [OF t] by (simp add: rounds_progress_def)
qed

lemma mem_start_fits: "rounds_fit (fst mem_start)"
  by (auto simp: rounds_fit_def mem_start_facts first_round_def in32_def)

theorem tick_keeps_rounds_in_step_witness:
  "in_sync (fst (exec (tickServices mem_deps 4000000) mem_start)) ''arena:7''"
  using tick_keeps_rounds_in_step [OF mem_start_reached _ mem_start_fits] mem_start_facts(3) by blast



section \<open>Where the activity and its service drift apart\<close>


text \<open>A ranking library that cannot settle, and an activity whose first round is over.\<close>

definition stuck_rank :: "'w rank_service" where
  "stuck_rank = calm_rank\<lparr>SettleInstance := (\<lambda>_ _. State_Monad.return (Inl ErrVersionConflict))\<rparr>"

definition stuck_node :: "mem node" where
  "stuck_node = empty_node\<lparr>nd_heap := [sample_service stuck_rank [mk_group 1 1]], nd_services := [(''arena:7'', 0)],
     nd_engines := [(''arena:7'', 0)], nd_states := [(''arena:7'', first_round)]\<rparr>"

lemma stuck_rank_fails:
  fixes s :: "'w service"
  assumes "in_memory s" "s_rankService s = stuck_rank" "s_groups s = [mk_group 1 1]" "s_settledAt s \<noteq> effectiveSettleAt s"
  shows "\<not> result (IsSettled E) (s, w)" "fst (exec (IsSettled E) (s, w)) = s" "\<exists>e. result (Settle E) (s, w) = Inl e"
proof -
  have g: "result (settleGroup E at (Some 0, mk_group 1 1)) (s, w') = SettleErr ErrVersionConflict" for at w'
    using assms(1,2) by (simp add: settleGroup_def memory_store stuck_rank_def calm_rank_def mk_group_def Let_def)
  have sh: "shared_groups s = [(Some 0, mk_group 1 1)]" by (simp add: shared_groups_def assms(3))
  show "\<exists>e. result (Settle E) (s, w) = Inl e"
    using assms(1,4) g by (simp add: Settle_def memory_store ensureLoaded_memory sh Let_def)
  show "\<not> result (IsSettled E) (s, w)" "fst (exec (IsSettled E) (s, w)) = s"
    using assms by (simp_all add: IsSettled_def now_ns_def syncLatestGroups_def memory_store ensureLoaded_memory mk_group_def)
qed


text \<open>A periodic registration over an existing service leaves the two apart. When a service is
  registered under the key already and it is not the one of the round just begun, say because the
  activity was one-off before, the registration reports success, the old service stays, and the state
  of the new periodic activity names a round that no service runs.\<close>

theorem register_over_existing_drifts:
  assumes H: "H = periodicHandler D" and new: "0 < m" "map_of (nd_states (fst nw)) k = None"
    and old: "map_of (nd_engines (fst nw)) k = Some a" "cf_RoundIndex (s_config (nd_heap (fst nw) ! a)) \<noteq> ps_currentRound st"
    and lock: "result (tryLock H (registerLock k) (30 * second_ns)) nw"
    and st: "NewPeriodicState (result (now_milli (dp_env D)) (exec (tryLock H (registerLock k) (30 * second_ns)) nw)) b
        (cf_ActID cfg) m (cf_OpenTime cfg) (cf_CloseTime cfg) = Inr st"
    and n': "n' = fst (exec (RegisterPeriodic H b k cfg m) nw)"
  shows "result (RegisterPeriodic H b k cfg m) nw = None \<and> map_of (nd_states n') k = Some st
    \<and> nd_engines n' = nd_engines (fst nw) \<and> nd_heap n' = nd_heap (fst nw) \<and> \<not> in_sync n' k"
proof -
  let ?c = "round_config cfg (ps_RoundOpenTime st) (ps_RoundCloseTime st) (ps_currentRound st)"
  define nw1 where "nw1 = exec (now_milli (dp_env D)) (exec (tryLock H (registerLock k) (30 * second_ns)) nw)"
  have n1: "fst nw1 = fst nw" by (simp add: nw1_def)
  have r: "result (registerSubService D b k ?c) nw1 = Inr a"
    using old(1) n1 by (simp add: registerSubService_def)
  have same: "fst (exec (registerSubService D b k ?c) nw1) = fst nw"
    using register_Inr [OF r] old(1) n1 by simp
  have "n' = (fst (exec (registerSubService D b k ?c) nw1))\<lparr>nd_states := AList.update k st (nd_states (fst nw))\<rparr>"
    unfolding n'
    by (rule RegisterPeriodic_entered [where r = "registerSubService D b k ?c" and a = a, OF new lock])
      (use r same st H in \<open>simp_all add: nw1_def\<close>)
  then have e: "n' = (fst nw)\<lparr>nd_states := AList.update k st (nd_states (fst nw))\<rparr>" unfolding same .
  have ok: "result (RegisterPeriodic H b k cfg m) nw = None"
    using new lock st r same by (simp add: RegisterPeriodic_def nw1_def H)
  show ?thesis
    using ok old by (simp add: e in_sync_def runs_round_def update_conv')
qed

definition one_off_node :: "mem node" where
  "one_off_node = stuck_node\<lparr>nd_states := []\<rparr>"

theorem register_over_existing_drifts_witness:
  "\<not> in_sync (fst (exec (RegisterPeriodic (periodicHandler mem_deps) ''arena'' ''arena:7'' filled_config 60) (one_off_node, empty_mem))) ''arena:7''"
proof -
  let ?H = "periodicHandler mem_deps" and ?nw = "(one_off_node, empty_mem)"
  let ?lock = "tryLock ?H (registerLock ''arena:7'') (30 * second_ns)"
  have lock: "result ?lock ?nw" "mw_now (snd (exec ?lock ?nw)) = 0"
    by (simp_all add: tryLock_def mem_node_simps empty_mem_def mem_expire_def)
  have now: "result (now_milli (dp_env mem_deps)) (exec ?lock ?nw) = 0"
    using lock(2) by (simp add: now_milli_def mem_node_simps UnixMilli_def)
  have st: "NewPeriodicState (result (now_milli (dp_env mem_deps)) (exec ?lock ?nw)) ''arena'' (cf_ActID filled_config) 60
      (cf_OpenTime filled_config) (cf_CloseTime filled_config) = Inr first_round"
    unfolding now using first_round_new by (simp add: filled_config_def calm_config_def)
  have h: "map_of (nd_states (fst ?nw)) ''arena:7'' = None" "map_of (nd_engines (fst ?nw)) ''arena:7'' = Some 0"
      "cf_RoundIndex (s_config (nd_heap (fst ?nw) ! 0)) \<noteq> ps_currentRound first_round"
    by (simp_all add: one_off_node_def stuck_node_def sample_service_def sample_config_def first_round_def)
  show ?thesis
    using register_over_existing_drifts [OF refl _ h lock(1) st refl] by simp
qed

section \<open>Racing registrations\<close>

text \<open>Several callers register services at the same time. Each looks for a service under its key, builds
  one if there is none, and enters it under the lock; between these steps the others run.\<close>

record request =
  rq_bizType :: string
  rq_key :: string
  rq_config :: config

datatype 'w phase = Waiting | Built "'w service" | Failed | Done nat

type_synonym 'w callers = "(request \<times> 'w phase) list"

inductive race_step ::
  "'w deps \<Rightarrow> 'w callers \<times> 'w node \<times> 'w \<Rightarrow> 'w callers \<times> 'w node \<times> 'w \<Rightarrow> bool" for D where
  finds: "i < length cs \<Longrightarrow> cs ! i = (q, Waiting) \<Longrightarrow> result (engine_at (rq_key q)) (n, w) = Some a \<Longrightarrow>
    race_step D (cs, n, w) (cs[i := (q, Done a)], n, w)"
| builds: "i < length cs \<Longrightarrow> cs ! i = (q, Waiting) \<Longrightarrow> result (engine_at (rq_key q)) (n, w) = None \<Longrightarrow>
    result (buildService D (rq_bizType q) (rq_config q)) w = Inr s \<Longrightarrow>
    race_step D (cs, n, w) (cs[i := (q, Built s)], n, exec (buildService D (rq_bizType q) (rq_config q)) w)"
| fails: "i < length cs \<Longrightarrow> cs ! i = (q, Waiting) \<Longrightarrow> result (engine_at (rq_key q)) (n, w) = None \<Longrightarrow>
    result (buildService D (rq_bizType q) (rq_config q)) w = Inl e \<Longrightarrow>
    race_step D (cs, n, w) (cs[i := (q, Failed)], n, exec (buildService D (rq_bizType q) (rq_config q)) w)"
| enters: "i < length cs \<Longrightarrow> cs ! i = (q, Built s) \<Longrightarrow>
    race_step D (cs, n, w) (cs[i := (q, Done (fst (result (insertService (rq_key q) s) (n, w))))],
      fst (exec (insertService (rq_key q) s) (n, w)), snd (exec (insertService (rq_key q) s) (n, w)))"
| others_act: "race_step D (cs, n, w) (cs, n, w')"

inductive race :: "'w deps \<Rightarrow> 'w callers \<times> 'w node \<times> 'w \<Rightarrow> bool" for D where
  begin_race: "(\<forall>c \<in> set cs. snd c = Waiting) \<Longrightarrow> race D (cs, n, w)"
| race_on: "race D c \<Longrightarrow> race_step D c c' \<Longrightarrow> race D c'"

definition all_agree :: "'w callers \<Rightarrow> 'w node \<Rightarrow> bool" where
  "all_agree cs n \<longleftrightarrow> (\<forall>q a. (q, Done a) \<in> set cs \<longrightarrow> map_of (nd_engines n) (rq_key q) = Some a)"

lemma insert_facts:
  "map_of (nd_engines (fst (exec (insertService k s) nw))) k = Some (fst (result (insertService k s) nw))"
  "map_of (nd_engines (fst nw)) j = Some a \<Longrightarrow> map_of (nd_engines (fst (exec (insertService k s) nw))) j = Some a"
  by (auto simp: insertService_def update_conv' split: option.split)

lemma race_keeps_agreement:
  assumes "race_step D c c'" "all_agree (fst c) (fst (snd c))"
  shows "all_agree (fst c') (fst (snd c'))"
  using assms
proof (induction rule: race_step.induct)
  case (enters i cs q s n w)
  let ?n' = "fst (exec (insertService (rq_key q) s) (n, w))"
  have old: "map_of (nd_engines ?n') (rq_key p) = Some a" if "(p, Done a) \<in> set cs" for p a
    using enters.prems that insert_facts(2) [where nw = "(n, w)"] by (simp add: all_agree_def)
  show ?case
    using old insert_facts(1) [of "rq_key q" s "(n, w)"]
    by (auto simp: all_agree_def dest!: set_update_subset_insert [THEN subsetD])
qed (use set_update_subset_insert in \<open>fastforce simp: all_agree_def\<close>)+

text \<open>Claim C12: however registrations race, all callers of one key come away with one service. Whatever the
  order of the steps of any number of callers, every caller that is done holds the service registered
  under its key, so no two of them hold different services for the same activity and no membership or
  score is kept in a copy nobody else sees.\<close>

theorem racing_registrations_agree:
  assumes "race D (cs, n, w)" "(q, Done a) \<in> set cs" "(p, Done b) \<in> set cs"
  shows "map_of (nd_engines n) (rq_key q) = Some a \<and> (rq_key p = rq_key q \<longrightarrow> a = b)"
proof -
  have "all_agree (fst c) (fst (snd c))" if "race D c" for c
    using that
  proof (induction rule: race.induct)
    case (begin_race cs n w)
    then show ?case by (auto simp: all_agree_def)
  next
    case (race_on c c')
    then show ?case using race_keeps_agreement by blast
  qed
  from this [OF assms(1)] have "all_agree cs n" by simp
  then have "map_of (nd_engines n) (rq_key q) = Some a" "map_of (nd_engines n) (rq_key p) = Some b"
    using assms(2,3) by (auto simp: all_agree_def)
  then show ?thesis by auto
qed

definition twin :: request where
  "twin = \<lparr>rq_bizType = ''arena'', rq_key = ''arena:7'', rq_config = filled_config\<rparr>"

text \<open>Both build before either enters.\<close>

lemma twins_race: "\<exists>cs n w a b. race mem_deps (cs, n, w) \<and> cs = [(twin, Done a), (twin, Done b)]"
proof -
  have b: "\<exists>s. result (buildService mem_deps (rq_bizType twin) (rq_config twin)) w = Inr s" for w
    by (rule build_succeeds) (simp_all add: twin_def mem_deps_def mem_platform_def filled_config_def calm_config_def)
  have none: "result (engine_at (rq_key twin)) (empty_node, w) = None" for w :: mem by (simp add: empty_node_def)
  have r0: "race mem_deps ([(twin, Waiting), (twin, Waiting)], empty_node, empty_mem)" by (rule begin_race) simp
  obtain s1 w1 where r1: "race mem_deps ([(twin, Built s1), (twin, Waiting)], empty_node, w1)"
    using b race_on [OF r0 builds [where i = 0, OF _ _ none]] by fastforce
  obtain s2 w2 where r2: "race mem_deps ([(twin, Built s1), (twin, Built s2)], empty_node, w2)"
    using b race_on [OF r1 builds [where i = 1, OF _ _ none]] by fastforce
  obtain a n w3 where r3: "race mem_deps ([(twin, Done a), (twin, Built s2)], n, w3)"
    using race_on [OF r2 enters [where i = 0 and q = twin and s = s1]] by simp (metis surj_pair)
  obtain b' n' w4 where "race mem_deps ([(twin, Done a), (twin, Done b')], n', w4)"
    using race_on [OF r3 enters [where i = 1 and q = twin and s = s2]] by simp (metis surj_pair)
  then show ?thesis by blast
qed

theorem racing_registrations_agree_witness:
  "\<exists>cs n w a. race mem_deps (cs, n, w) \<and> cs = [(twin, Done a), (twin, Done a)] \<and> map_of (nd_engines n) ''arena:7'' = Some a"
proof -
  obtain cs n w a b where r: "race mem_deps (cs, n, w)" "cs = [(twin, Done a), (twin, Done b)]" using twins_race by blast
  then show ?thesis using racing_registrations_agree [OF r(1), of twin a twin b] by (auto simp: twin_def)
qed

end
