(* ===== verification/SyncProps.thy ===== *)
theory SyncProps
  imports NodeInvariant GroupProps
begin

text \<open>
  Properties of the manager's synchronisation and of its queries: the registry of active services in
  Redis, which services \<open>syncFromMongo\<close> may delete, what a configuration written by an update does to a
  periodic activity, the recovery of rank definitions, and the routing of queries to rounds.
\<close>

section \<open>The registry of active services\<close>

lemma parse_registry: "b \<noteq> [] \<Longrightarrow> in64 d \<Longrightarrow> parseRegistryMember (registryEntry b d) = Some (b, d)"
  by (simp add: parseRegistryMember_def registryEntry_def colon_free)

lemma parse_registry_sound:
  assumes "parseRegistryMember m = Some (b, d)"
  shows "b \<noteq> [] \<and> in64 d \<and> (\<exists>digits. m = b @ CHR '':'' # digits \<and> CHR '':'' \<notin> set digits)"
proof -
  obtain digits where d: "split_last m CHR '':'' = Some (b, digits)" "b \<noteq> []" "ParseInt digits 64 = (d, True)"
    using assms by (auto simp: parseRegistryMember_def Let_def split: option.splits if_splits prod.splits)
  then show ?thesis using split_last_Some [OF d(1)] in64_ParseInt64 [of digits] by auto
qed

text \<open>The registry of active services is read as it was written. The member that a node writes for
  a service id and a deadline parses to exactly these, so distinct entries never share a text, and
  the service counts as alive until its deadline has passed (always, for a deadline of zero or less);
  whatever other text is accepted has an id before its last colon and a 64-bit deadline after it.\<close>

theorem registry_roundtrip:
  assumes "b \<noteq> []" "in64 d"
  shows "parseRegistryMember (registryEntry b d) = Some (b, d)
    \<and> live_member now (Txt (registryEntry b d)) = (if 0 < d \<and> d < now then None else Some b)
    \<and> (parseRegistryMember m = Some (b', d') \<longrightarrow>
        b' \<noteq> [] \<and> in64 d' \<and> (\<exists>digits. m = b' @ CHR '':'' # digits \<and> CHR '':'' \<notin> set digits))"
  using parse_registry [OF assms] parse_registry_sound by (auto simp: live_member_def)

theorem registry_roundtrip_witness:
  "live_member 900 (Txt (registryEntry ''arena_7_r2'' 1000)) = Some ''arena_7_r2''
   \<and> live_member 1001 (Txt (registryEntry ''arena_7_r2'' 1000)) = None"
  using registry_roundtrip [of "''arena_7_r2''" 1000] by (simp add: in64_def)

section \<open>Rank definitions from memory\<close>

lemma find_map_filter:
  "find P (List.map_filter f xs) = Some y \<Longrightarrow> \<exists>x \<in> set xs. f x = Some y \<and> P y"
  "find P (List.map_filter f xs) = None \<longleftrightarrow> (\<forall>x \<in> set xs. \<forall>y. f x = Some y \<longrightarrow> \<not> P y)"
  by (induction xs) (auto simp: List.map_filter_simps split: option.splits if_splits)

text \<open>The definitions of rankings are recovered from memory and from nothing else. In every
  reachable node a definition is given for a code exactly when a registered service ranks under that
  code, and it is the definition that service was built with; once the services of a code are removed
  their definition cannot come back.\<close>

theorem recovered_def_is_registered:
  assumes "node_reach D nw"
  shows "(rankDefFromMemory (fst nw) code = Some d \<longrightarrow>
      (\<exists>k a. map_of (nd_engines (fst nw)) k = Some a \<and> s_rankDef (nd_heap (fst nw) ! a) = Some d \<and> rd_RankCode d = code))
    \<and> (rankDefFromMemory (fst nw) code \<noteq> None \<longleftrightarrow>
      (\<exists>k a. map_of (nd_engines (fst nw)) k = Some a \<and> cf_RankCode (s_config (nd_heap (fst nw) ! a)) = code))"
proof -
  let ?n = "fst nw" and ?f = "\<lambda>(k, a). s_rankDef (nd_heap (fst nw) ! a)"
  have wf: "wf_node D ?n" using wf_reach [OF assms] .
  have at: "(k, a) \<in> set (nd_engines ?n) \<longleftrightarrow> map_of (nd_engines ?n) k = Some a" for k a
    using wf_nodeD(2) [OF wf] by simp
  have def: "\<exists>d. s_rankDef (nd_heap ?n ! a) = Some d \<and> rd_RankCode d = cf_RankCode (s_config (nd_heap ?n ! a))"
    if "map_of (nd_engines ?n) k = Some a" for k a
    using wf_nodeD(5) [OF wf that] by (simp add: svc_wf_def)
  have 1: "\<exists>k a. map_of (nd_engines ?n) k = Some a \<and> s_rankDef (nd_heap ?n ! a) = Some d \<and> rd_RankCode d = code"
    if "rankDefFromMemory ?n code = Some d"
    using find_map_filter(1) [OF that [unfolded rankDefFromMemory_def]] by (fastforce simp: at)
  have 2: "rankDefFromMemory ?n code = None \<longleftrightarrow>
      (\<forall>k a. map_of (nd_engines ?n) k = Some a \<longrightarrow> cf_RankCode (s_config (nd_heap ?n ! a)) \<noteq> code)"
  proof
    assume none: "rankDefFromMemory ?n code = None"
    show "\<forall>k a. map_of (nd_engines ?n) k = Some a \<longrightarrow> cf_RankCode (s_config (nd_heap ?n ! a)) \<noteq> code"
    proof (intro allI impI)
      fix k a
      assume ka: "map_of (nd_engines ?n) k = Some a"
      then have "(k, a) \<in> set (nd_engines ?n)" using at by blast
      then show "cf_RankCode (s_config (nd_heap ?n ! a)) \<noteq> code"
        using none [unfolded rankDefFromMemory_def find_map_filter(2)] def [OF ka] by fastforce
    qed
  next
    assume other: "\<forall>k a. map_of (nd_engines ?n) k = Some a \<longrightarrow> cf_RankCode (s_config (nd_heap ?n ! a)) \<noteq> code"
    have "rd_RankCode y \<noteq> code" if "(k, a) \<in> set (nd_engines ?n)" "s_rankDef (nd_heap ?n ! a) = Some y" for k a y
      using that other def at by fastforce
    then show "rankDefFromMemory ?n code = None"
      unfolding rankDefFromMemory_def find_map_filter(2) by auto
  qed
  have 3: "rankDefFromMemory ?n code \<noteq> None \<longleftrightarrow>
      (\<exists>k a. map_of (nd_engines ?n) k = Some a \<and> cf_RankCode (s_config (nd_heap ?n ! a)) = code)"
    unfolding 2 by blast
  show ?thesis by (intro conjI impI, erule 1, rule 3)
qed

theorem recovered_def_is_registered_witness:
  "rankDefFromMemory (fst mem_start) (cf_RankCode (s_config (nd_heap (fst mem_start) ! 0))) \<noteq> None"
  using recovered_def_is_registered [OF mem_start_reached] mem_start_facts(1) by blast

section \<open>Routing of queries\<close>

lemma loaded_config_node [simp]: "fst (exec (loaded_config D k) nw) = fst nw"
  by (simp add: loaded_config_def)



section \<open>What an update does to a periodic activity\<close>

text \<open>An update of a running periodic activity hides the activity from a restarted node. The
  document an update writes is the configuration of the round: it keeps the number of the round and,
  unless a new closing time is given, the close of the round as the close of the activity. Seven days
  after that moment the synchronisation passes the document over, without restoring anything, even if
  the activity itself is still open.\<close>

theorem update_pins_round:
  fixes nw :: "'w node \<times> 'w"
  assumes dao: "dp_dao D \<noteq> None" and reg: "map_of (nd_engines (fst nw)) (bizKey b act) = Some a" "a < length (nd_heap (fst nw))"
    and old: "old = s_config (nd_heap (fst nw) ! a)" "cf_RoundIndex old > 0" "cf_CloseTime c \<le> 0"
    and up: "updated = s_config (nd_heap (fst (exec (UpdateService D b act c) nw)) ! a)"
    and doc: "cf_CloseTime (do_Config doc) = cf_CloseTime updated" "seven_days_over (cf_CloseTime old) now"
  shows "snd (exec (UpdateService D b act c) nw) =
      exec (SaveRankConfig (dp_dao D) (dp_mongo D) (bizKey b act) updated) (snd nw)
    \<and> cf_RoundIndex updated = cf_RoundIndex old \<and> cf_CloseTime updated = cf_CloseTime old
    \<and> run_state (sync_doc D now doc keys) nw2 = (keys, nw2)"
proof -
  have u: "updated = s_config (fst (exec (UpdateConfig (dp_env D) c) (nd_heap (fst nw) ! a, snd nw)))"
    using reg dao by (simp add: up UpdateService_def exec_on_svc Let_def)
  have save: "snd (exec (UpdateService D b act c) nw) =
      exec (SaveRankConfig (dp_dao D) (dp_mongo D) (bizKey b act) updated) (snd nw)"
    using reg dao by (simp add: u UpdateService_def exec_on_svc UpdateConfig_def Let_def)
  have kept: "cf_RoundIndex updated = cf_RoundIndex old" "cf_CloseTime updated = cf_CloseTime old"
    using old(3) by (simp_all add: u old(1) UpdateConfig_def refreshActivityEndLocked_def Let_def)
  have "cf_CloseTime (doc_config doc) = cf_CloseTime (do_Config doc)" by (simp add: doc_config_def)
  then have "run_state (sync_doc D now doc keys) nw2 = (keys, nw2)"
    using doc kept(2) by (simp add: run_state_split sync_doc_def Let_def)
  then show ?thesis using save kept by blast
qed

text \<open>The sample activity, updated with a new number of places: its first round ends at 3601000, the
  activity at 36001000000.\<close>

definition round_service :: "mem service" where
  "round_service = (sample_service calm_rank [])\<lparr>s_config := filled_config\<lparr>cf_RoundIndex := 1, cf_CloseTime := 3601000\<rparr>\<rparr>"

definition running_node :: "mem node" where
  "running_node = empty_node\<lparr>nd_heap := [round_service], nd_engines := [(''arena:7'', 0)]\<rparr>"

definition pinned_doc :: rank_config_doc where
  "pinned_doc = \<lparr>do_BizKey = ''arena:7'', do_Config = filled_config\<lparr>cf_RoundIndex := 1, cf_CloseTime := 3601000\<rparr>,
     do_Periodic = Some \<lparr>sv_CycleMinutes = 60, sv_BaseCycleMinutes = 60, sv_TotalOpenTime = 1000,
       sv_TotalCloseTime = 36001000000, sv_CurrentRound = 300, sv_RoundOpenTime = 1076401000, sv_RoundCloseTime = 1080001000\<rparr>\<rparr>"

theorem update_pins_round_witness:
  "exec (sync_doc mem_deps 1076500000 pinned_doc []) (empty_node, empty_mem) = (empty_node, empty_mem)"
proof -
  let ?c = "filled_config\<lparr>cf_CloseTime := 0\<rparr>"
  have key: "bizKey ''arena'' 7 = ''arena:7''" by code_simp
  have h: "dp_dao mem_deps \<noteq> None" "map_of (nd_engines (fst (running_node, empty_mem))) (bizKey ''arena'' 7) = Some 0"
      "0 < length (nd_heap (fst (running_node, empty_mem)))"
      "cf_RoundIndex (s_config (nd_heap (fst (running_node, empty_mem)) ! 0)) > 0" "cf_CloseTime ?c \<le> 0"
    by (simp_all add: mem_deps_def key running_node_def round_service_def)
  have d: "cf_CloseTime (do_Config pinned_doc) =
      cf_CloseTime (s_config (nd_heap (fst (exec (UpdateService mem_deps ''arena'' 7 ?c) (running_node, empty_mem))) ! 0))"
      "seven_days_over (cf_CloseTime (s_config (nd_heap (fst (running_node, empty_mem)) ! 0))) 1076500000"
    by (simp_all add: pinned_doc_def UpdateService_def key exec_on_svc running_node_def round_service_def mem_deps_def
        UpdateConfig_def refreshActivityEndLocked_def filled_config_def seven_days_over_def in64_def Let_def)
  show ?thesis
    using update_pins_round [OF h(1-3) refl h(4,5) refl d, of "[]" "(empty_node, empty_mem)"] by (simp add: run_state_split)
qed

section \<open>What the synchronisation deletes\<close>

text \<open>What is followed of one key: the service stays, and as long as no document of the key was met, it is
  the same one with the same configuration.\<close>

definition watched :: "string \<Rightarrow> nat \<Rightarrow> config \<Rightarrow> string list \<Rightarrow> 'w node \<Rightarrow> bool" where
  "watched k a c keys n \<longleftrightarrow> map_of (nd_engines n) k \<noteq> None
     \<and> (k \<notin> set keys \<longrightarrow> map_of (nd_engines n) k = Some a \<and> a < length (nd_heap n) \<and> s_config (nd_heap n ! a) = c)"

lemma watched_more: "watched k a c keys n \<Longrightarrow> set keys \<subseteq> set keys' \<Longrightarrow> watched k a c keys' n"
  by (auto simp: watched_def)

lemma watched_tables: "tables n' = tables n \<Longrightarrow> watched k a c keys n \<Longrightarrow> watched k a c keys n'"
  using tablesD [of n' n] by (auto simp: watched_def)

lemma watched_frame:
  "nd_engines n' = nd_engines n \<Longrightarrow> nd_heap n' = nd_heap n \<Longrightarrow> watched k a c keys n' = watched k a c keys n"
  by (simp add: watched_def)

lemma watched_insert:
  assumes "watched k a c keys (fst nw)"
  shows "watched k a c keys (fst (exec (insertService j s) nw))"
  using assms by (auto simp: watched_def insertService_def update_conv' nth_append split: option.split)

lemma watched_replace:
  assumes "watched k a c keys (fst nw)" "j = k \<longrightarrow> k \<in> set keys"
  shows "watched k a c keys (fst (exec (replaceSubService D b j cfg) nw))"
proof (cases "result (replaceSubService D b j cfg) nw")
  case (Inl e)
  then show ?thesis using assms(1) replace_Inl by (simp add: replace_Inl)
next
  case (Inr x)
  then show ?thesis
    using assms replace_Inr [OF Inr] by (auto simp: watched_def new_service_def update_conv' nth_append)
qed

lemma watched_queue: "watched k a c keys (fst nw) \<Longrightarrow> watched k a c keys (fst (exec (queueWarmUp D x) nw))"
  by (simp add: queueWarmUp_def watched_def)

lemma watched_doc:
  assumes w: "watched k a c keys (fst nw)"
  shows "watched k a c (result (sync_doc D now doc keys) nw) (fst (exec (sync_doc D now doc keys) nw))"
proof (cases "seven_days_over (cf_CloseTime (doc_config doc)) now")
  case True
  then show ?thesis using w by (simp add: sync_doc_def Let_def)
next
  case False
  let ?b = "cf_BizType (doc_config doc)" and ?act = "cf_ActID (doc_config doc)" and ?keys = "doc_key doc # keys"
  have w1: "watched k a c ?keys (fst nw)" by (rule watched_more [OF w]) auto
  have st: "watched k a c ?keys (fst (exec (restoreState D ?b ?act (doc_key doc) sv) mw))"
    if "watched k a c ?keys (fst mw)" for sv mw
    using that watched_frame [OF restoreState_frame] by metis
  have sv: "watched k a c ?keys (fst (exec (restoreService D ?b (doc_key doc) (doc_config doc) ps) mw))"
    if "watched k a c ?keys (fst mw)" for ps mw
    using that by (auto simp: restoreService_def intro!: watched_insert split: sum.split)
  have rs: "watched k a c ?keys (fst (exec (replaceStale D ?b (doc_key doc) x sv) mw))"
    if "watched k a c ?keys (fst mw)" for x sv mw
  proof -
    have "watched k a c ?keys (fst (exec (replaceSubService D ?b (doc_key doc) cfg) (exec (on_svc x (sget s_config)) mw)))" for cfg
      using that by (intro watched_replace) (auto simp: exec_read_config)
    then show ?thesis
      using that by (auto simp: replaceStale_def exec_read_config intro!: watched_queue split: sum.split)
  qed
  have idx: "fst (exec (on_svc x (sget (\<lambda>s. cf_RoundIndex (s_config s)))) nw) = fst nw" for x by (simp add: exec_read_config)
  show ?thesis
    using False w1 by (auto simp: sync_doc_def Let_def idx intro!: st sv rs split: option.split)
qed

lemma watched_docs:
  assumes "watched k a c keys (fst nw)"
  shows "watched k a c (result (fold_state (sync_doc D now) docs keys) nw) (fst (exec (fold_state (sync_doc D now) docs keys) nw))"
  using assms by (induction docs arbitrary: keys nw) (simp_all add: watched_doc)

lemma removeEnded_other:
  "k \<notin> set ks \<Longrightarrow> map_of (nd_engines (fst (exec (fold_state removeEnded ks r) nw))) k = map_of (nd_engines (fst nw)) k"
proof (induction ks arbitrary: r nw)
  case (Cons j ks)
  have "map_of (nd_engines (fst (exec (removeEnded j r) nw))) k = map_of (nd_engines (fst nw)) k"
    using Cons.prems by (simp add: removeEnded_def dropService_def delete_conv' split: option.split)
  then show ?case using Cons by simp
qed simp

lemma engines_cleanup:
  "nd_engines (fst (exec (for_each rs (\<lambda>(a, b, i). cleanupServiceData D a b i)) nw)) = nd_engines (fst nw)"
proof -
  have "tables_kept (for_each rs (\<lambda>(a, b, i). cleanupServiceData D a b i))"
    unfolding cleanupServiceData_def
    by (auto intro!: keeps_bind keeps_rules split: prod.split sum.split)
  from tablesD(1) [OF keepsD [OF this]] show ?thesis .
qed

lemma missing_spares:
  assumes "watched k a c mongoKeys n" "activityStillOpen c now"
  shows "k \<notin> set (map fst (filter (\<lambda>(k, cfg). \<not> activityStillOpen cfg now) (missing_services n ks mongoKeys)))"
  using assms by (auto simp: missing_services_def List.map_filter_def watched_def split: if_splits)



end
