(* ===== verification/RequestProps.thy ===== *)
theory RequestProps
  imports NodeInvariant Claims DaoProps
begin

text \<open>
  Properties of the requests: translation to and from messages, and what the answer to a score means.
\<close>

section \<open>Messages\<close>

lemma avatar_roundtrip: "protoAvatarInfoToRank (map_option avatarToProto a) = a"
  by (cases a) (simp_all add: protoAvatarInfoToRank_def avatarToProto_def)

lemma snapshotsToProto_map: "map pn_MemberId (snapshotsToProto ss) = map sn_MemberId ss"
  "length (snapshotsToProto ss) = length ss"
  by (induction ss) (simp_all add: snapshotsToProto_def snapshotToProto_def List.map_filter_simps)

text \<open>Wrapping an error does not change the status code, unless the wrapped one is a sentinel itself.\<close>

lemma status_of_wrapped: "rank_status (ErrWrap m e) = (case rank_status e of Status c _ \<Rightarrow> Status c (ErrWrap m e))"
  by (simp add: rank_status_def rankErrorToStatus_def)

lemma biz_types_of_distinct: "distinct (biz_types_of rows)"
  by (induction rows rule: biz_types_of.induct) simp_all

section \<open>The answer to a score\<close>

lemma with_manager_Some [simp]: "with_manager (Some D) f = f D"
  by (simp add: with_manager_def)

lemma lookups_run [simp]:
  "result (GetPeriodicState b act) nw = map_of (nd_states (fst nw)) (bizKey b act)" "exec (GetPeriodicState b act) nw = nw"
  "result (GetEngineService b act) nw = map_of (nd_engines (fst nw)) (bizKey b act)" "exec (GetEngineService b act) nw = nw"
  by (simp_all add: GetPeriodicState_def GetEngineService_def)

lemma missing_service_node: "fst (exec (missing_service D b act resp) nw) = fst nw"
  by (simp add: missing_service_def IsRankTrulyNotFound_def loaded_config_def)




end
