(* ===== verification/CreateRequests.thy ===== *)
theory CreateRequests
  imports NodeInvariant
begin

text \<open>
  What a request that creates an activity leads to: the guard of \<open>handleCreateRankConfig\<close> against
  activities without an end, followed through registration to the time at which the service is to be
  settled, for one-off and for periodic activities.
\<close>

section \<open>Times on the way to the service\<close>

text \<open>The configurations agree in the three times.\<close>

definition same_times :: "config \<Rightarrow> config \<Rightarrow> bool" where
  "same_times c c' \<longleftrightarrow> cf_OpenTime c' = cf_OpenTime c \<and> cf_CloseTime c' = cf_CloseTime c \<and> cf_GameEndTime c' = cf_GameEndTime c"

lemma same_round_times: "same_round c c' \<Longrightarrow> same_times c c'"
  by (auto simp: same_round_def same_times_def)

lemma fill_times:
  "result (FillConfigFromFiles files b c) w = Inr c' \<Longrightarrow>
     same_times c c' \<and> cf_ActID c' = cf_ActID c"
  by (auto simp: FillConfigFromFiles_def same_times_def split: sum.splits prod.splits)

lemma engine_Inr:
  assumes "result (registerEngine D b c) nw = Inr a" "map_of (nd_engines (fst nw)) (bizKey b (cf_ActID c)) = None"
  shows "new_service (bizKey b (cf_ActID c)) c (fst nw) (fst (exec (registerEngine D b c) nw)) a"
proof -
  have "cf_ActID (with_code b c) = cf_ActID c" using with_code_round [of b c] by auto
  then show ?thesis
    using assms made_same_round [of c D b nw]
    by (auto simp: registerEngine_def insertService_def new_service_def Let_def dest!: buildService_Inr(1) split: sum.splits)
qed

lemma engine_Inl: "result (registerEngine D b c) nw = Inl e \<Longrightarrow> fst (exec (registerEngine D b c) nw) = fst nw"
  by (auto simp: registerEngine_def insertService_def Let_def split: sum.splits option.splits prod.splits)

text \<open>A service that has just been entered.\<close>

lemma new_service_entered:
  assumes "new_service k c n n' a"
  shows "map_of (nd_engines n') k = Some a" "nd_states n' = nd_states n" "same_times c (s_config (nd_heap n' ! a))"
  using assms by (auto simp: new_service_def update_conv' nth_append intro: same_round_times)

text \<open>The window of a new state ends with the activity at the latest.\<close>

lemma new_state_window:
  assumes "NewPeriodicState now b act m opn cls = Inr st"
  shows "ps_RoundCloseTime st \<le> cls" "ps_TotalCloseTime st = cls"
proof -
  have w: "snd (computeRoundWindow p r) \<le> ps_TotalCloseTime p" if "ps_RoundOpenTime p = 0" "ps_RoundCloseTime p = 0" for p r
    using that by (auto simp: computeRoundWindow_def Let_def)
  show "ps_TotalCloseTime st = cls"
    using assms by (auto simp: NewPeriodicState_def Let_def split: if_splits prod.splits)
  show "ps_RoundCloseTime st \<le> cls"
    using assms w [of "\<lparr>ps_BizType = b, ps_ActID = act, ps_CycleMinutes = m, ps_BaseCycleMinutes = m, ps_TotalOpenTime = opn,
        ps_TotalCloseTime = cls, ps_currentRound = r, ps_RoundOpenTime = 0, ps_RoundCloseTime = 0\<rparr>" r for r]
    by (auto simp: NewPeriodicState_def Let_def split: if_splits prod.splits)
       (metis (mono_tags, lifting) snd_conv)
qed

section \<open>The effect of a registration\<close>

text \<open>An activity that is unknown stays so; or a one-off service with the times of the configuration is
  there and no state; or a state made of them, and a service with the window of its round.\<close>

definition one_off_made :: "config \<Rightarrow> string \<Rightarrow> 'w node \<Rightarrow> bool" where
  "one_off_made c k n \<longleftrightarrow> map_of (nd_states n) k = None
     \<and> (\<exists>a. map_of (nd_engines n) k = Some a \<and> same_times c (s_config (nd_heap n ! a)))"

definition periodic_made :: "int64 \<Rightarrow> config \<Rightarrow> string \<Rightarrow> 'w node \<Rightarrow> bool" where
  "periodic_made now c k n \<longleftrightarrow> (\<exists>a st b m. map_of (nd_engines n) k = Some a \<and> map_of (nd_states n) k = Some st
     \<and> NewPeriodicState now b (cf_ActID c) m (cf_OpenTime c) (cf_CloseTime c) = Inr st
     \<and> same_times (round_config c (ps_RoundOpenTime st) (ps_RoundCloseTime st) (ps_currentRound st)) (s_config (nd_heap n ! a)))"

lemma same_times_trans: "same_times c d \<Longrightarrow> same_times d e \<Longrightarrow> same_times c e"
  by (simp add: same_times_def)

lemma periodic_made_times:
  "same_times c d \<Longrightarrow> cf_ActID d = cf_ActID c \<Longrightarrow> periodic_made now d k n \<Longrightarrow> periodic_made now c k n"
  unfolding periodic_made_def same_times_def round_config_def by force

lemma register_periodic_effect:
  assumes none: "map_of (nd_engines (fst nw)) k = None" "map_of (nd_states (fst nw)) k = None"
    and n': "n' = fst (exec (RegisterPeriodic (periodicHandler D) b k c m) nw)"
  shows "n' = fst nw \<or> (\<exists>w. periodic_made (result (now_milli (dp_env D)) w) c k n')"
proof -
  let ?H = "periodicHandler D"
  let ?lock = "tryLock ?H (registerLock k) (30 * second_ns)"
  let ?now = "result (now_milli (hd_env ?H)) (exec ?lock nw)" and ?nw1 = "exec (now_milli (hd_env ?H)) (exec ?lock nw)"
  let ?new = "NewPeriodicState ?now b (cf_ActID c) m (cf_OpenTime c) (cf_CloseTime c)"
  show ?thesis
  proof (cases "m \<le> 0 \<or> \<not> result ?lock nw \<or> (\<exists>e. ?new = Inl e)")
    case True
    then show ?thesis by (auto simp: n' none RegisterPeriodic_def split: sum.splits)
  next
    case False
    then obtain st where st: "?new = Inr st" by (cases ?new) auto
    define c' where "c' = round_config c (ps_RoundOpenTime st) (ps_RoundCloseTime st) (ps_currentRound st)"
    let ?reg = "RegisterRoundService (hd_registry ?H) b k c'"
    define n2 where "n2 = fst (exec ?reg ?nw1)"
    show ?thesis
    proof (cases "result ?reg ?nw1")
      case (Inl e)
      then show ?thesis
        using False st none mgr.not_registered [of D b k c' ?nw1 e]
        by (simp add: n' RegisterPeriodic_def c'_def [symmetric])
    next
      case (Inr a)
      have new: "new_service k c' (fst nw) n2 a"
        using mgr.registered [of D b k c' ?nw1 a] Inr none(1) unfolding n2_def by (simp add: exec_now_milli exec_tryLock)
      note entered = new_service_entered [OF new]
      have "n' = n2\<lparr>nd_states := AList.update k st (nd_states (fst nw))\<rparr>"
        using False st none Inr entered(2) RegisterPeriodic_entered [where H = ?H and nw = nw and k = k and b = b and cfg = c
            and m = m and st = st and r = ?reg and a = a, OF _ _ _ _ _ refl]
        by (simp add: n' c'_def n2_def)
      then have "periodic_made ?now c k n'"
        using st entered unfolding periodic_made_def c'_def by (auto simp: update_conv')
      moreover have "hd_env ?H = dp_env D" by (simp add: periodicHandler_def SetCycleProvider_def NewHandler_def)
      ultimately have "periodic_made (result (now_milli (dp_env D)) (exec ?lock nw)) c k n'" by metis
      then show ?thesis by blast
    qed
  qed
qed

lemma register_effect:
  assumes k: "k = bizKey b (cf_ActID c)"
    and none: "map_of (nd_engines (fst nw)) k = None" "map_of (nd_states (fst nw)) k = None"
    and n': "n' = fst (exec (RegisterActivity D b c) nw)"
  shows "n' = fst nw \<or> one_off_made c k n' \<or> (\<exists>w. periodic_made (result (now_milli (dp_env D)) w) c k n')"
proof -
  let ?v = "lift_ext (ValidateBizType (dp_files D) b) :: ('a, goerr option) nd"
  let ?f = "lift_ext (FillConfigFromFiles (dp_files D) b (c\<lparr>cf_BizType := b\<rparr>)) :: ('a, goerr + config) nd"
  let ?t = "lift_ext (LoadRankTypeAndCycle (dp_files D) b) :: ('a, goerr + int32 \<times> int32) nd"
  define nw1 where "nw1 = exec ?v nw"
  define nw2 where "nw2 = exec ?f nw1"
  define nw3 where "nw3 = exec ?t nw2"
  have same: "fst nw3 = fst nw" "fst nw2 = fst nw" "fst nw1 = fst nw" by (simp_all add: nw3_def nw2_def nw1_def)
  show ?thesis
  proof (cases "result ?v nw \<noteq> None \<or> (\<exists>e. result ?f nw1 = Inl e) \<or> (\<exists>e. result ?t nw2 = Inl e)")
    case True
    then have "n' = fst nw"
      using same by (auto simp: n' RegisterActivity_def nw1_def nw2_def Let_def split: sum.splits prod.splits)
    then show ?thesis ..
  next
    case False
    then obtain d ty m where d: "result ?v nw = None" "result ?f nw1 = Inr d" "result ?t nw2 = Inr (ty, m)"
      by (cases "result ?f nw1"; cases "result ?t nw2") auto
    have times: "same_times c d" "cf_ActID d = cf_ActID c"
      using fill_times [of "dp_files D" b "c\<lparr>cf_BizType := b\<rparr>" "snd nw1" d] d(2) by (simp_all add: same_times_def)
    have run: "n' = (if ty = RankTypePeriodic then fst (exec (RegisterPeriodic (periodicHandler D) b k d m) nw3)
        else fst (exec (registerEngine D b d) nw3))"
      using d by (simp add: n' RegisterActivity_def nw1_def nw2_def nw3_def Let_def k times(2) GetState_def split: sum.split)
    show ?thesis
    proof (cases "ty = RankTypePeriodic")
      case True
      then show ?thesis
        using register_periodic_effect [of nw3 k n' D b d m] none run same periodic_made_times [OF times] by metis
    next
      case False
      show ?thesis
      proof (cases "result (registerEngine D b d) nw3")
        case (Inl e)
        then show ?thesis using engine_Inl [OF Inl] run False same by simp
      next
        case (Inr a)
        have "new_service k d (fst nw) n' a"
          using engine_Inr [OF Inr] none run False same times(2) by (simp add: k)
        then show ?thesis
          using new_service_entered none(2) same_times_trans [OF times(1)] unfolding one_off_made_def by metis
      qed
    qed
  qed
qed

section \<open>What a creation request leads to\<close>

text \<open>\<open>SettleAtOf\<close> of \<open>common/rank\<close>: the end of the game first, the closing time if that is missing.\<close>

definition settle_law :: "'w env \<Rightarrow> bool" where
  "settle_law E \<longleftrightarrow> (\<forall>c g. (0 < g \<longrightarrow> SettleAtOf (en_lib E) c g = g) \<and> (g = 0 \<longrightarrow> SettleAtOf (en_lib E) c g = c)
     \<and> SettleAtOf (en_lib E) c c = c)"

lemma settle_end:
  assumes "settle_law (dp_env D)" "wf_node D n" "map_of (nd_engines n) k = Some a" "same_times c (s_config (nd_heap n ! a))"
  shows "effectiveSettleAt (nd_heap n ! a) = SettleAtOf (en_lib (dp_env D)) (cf_CloseTime c) (cf_GameEndTime c)"
  using wf_nodeD(5) [OF assms(2,3)] assms(4)
  by (simp add: svc_wf_def same_times_def effectiveSettleAt_def settleAtOf_def)

text \<open>A service without an end is never settled by its tick, and takes scores for ever.\<close>

lemma tick_without_end:
  assumes "effectiveSettleAt s \<le> 0"
  shows "run_state (Tick E now) (s, w) = (None, exec (ensureLoaded E) (s, w))"
proof -
  have "ident (fst (exec (ensureLoaded E) (s, w))) = ident s" using keepsD [OF config_load, of E "(s, w)"] by simp
  then have "effectiveSettleAt (fst (exec (ensureLoaded E) (s, w))) \<le> 0" using assms by (simp add: ident_def effectiveSettleAt_def)
  then show ?thesis by (simp add: run_state_split Tick_def Let_def)
qed

lemma create_outcome:
  assumes q: "q = handleCreateRankConfig (Some D) b act opn cls gend" and k: "k = bizKey b act"
    and none: "map_of (nd_engines (fst nw)) k = None" "map_of (nd_states (fst nw)) k = None"
    and n': "n' = fst (exec q nw)"
  shows "n' = fst nw \<or> one_off_made (window_config act opn cls gend) k n'
      \<or> (\<exists>w. periodic_made (result (now_milli (dp_env D)) w) (window_config act opn cls gend) k n')"
    and "cls \<le> 0 \<and> gend \<le> 0 \<Longrightarrow> n' = fst nw"
  using register_effect [of k b "window_config act opn cls gend" nw n' D] none
  by (auto simp: n' q k handleCreateRankConfig_def window_config_def)


text \<open>Claim C38: a fault of the code. The guard against activities without an end does not hold for periodic
  ones: a request with an end of the game but no closing time is accepted, the schedule is made of
  the closing time alone, and the service entered has a settlement time that is not positive. Its
  tick then does nothing but load its data, at any time and in any world, so it never settles it; and
  it takes scores for ever from the opening of the round on.\<close>

theorem periodic_without_close_is_stuck:
  assumes "settle_law (dp_env D)" and wf: "wf_node D (fst nw)"
    and q: "q = handleCreateRankConfig (Some D) b act opn cls gend" and k: "k = bizKey b act"
    and none: "map_of (nd_engines (fst nw)) k = None" "map_of (nd_states (fst nw)) k = None"
    and n': "n' = fst (exec q nw)" and st: "map_of (nd_states n') k = Some st" and cls: "cls \<le> 0"
  shows "0 < gend \<and> (\<exists>a. map_of (nd_engines n') k = Some a \<and> effectiveSettleAt (nd_heap n' ! a) \<le> 0
    \<and> (\<forall>E now w. run_state (Tick E now) (nd_heap n' ! a, w) = (None, exec (ensureLoaded E) (nd_heap n' ! a, w)))
    \<and> (\<forall>now. ps_RoundOpenTime st \<le> now \<longrightarrow> canUpdateScore (nd_heap n' ! a) now = InstanceStateOpen))"
proof -
  let ?c = "window_config act opn cls gend"
  note out = create_outcome [OF q k none n']
  have new: "n' \<noteq> fst nw" using st none(2) by auto
  have gend: "0 < gend" using out(2) new cls by linarith
  have wf': "wf_node D n'" unfolding n' q by (intro wf_keptD [OF wf_changes(1)] wf)
  have "\<not> one_off_made ?c k n'" using st by (auto simp: one_off_made_def)
  then obtain t where "periodic_made t ?c k n'" using out(1) new by blast
  then obtain a b' m where a: "map_of (nd_engines n') k = Some a"
      "NewPeriodicState t b' act m opn cls = Inr st"
      "same_times (round_config ?c (ps_RoundOpenTime st) (ps_RoundCloseTime st) (ps_currentRound st)) (s_config (nd_heap n' ! a))"
    using st unfolding periodic_made_def by (auto simp: window_config_def)
  have rc: "ps_RoundCloseTime st \<le> 0" using new_state_window(1) [OF a(2)] cls by simp
  have cfg: "cf_OpenTime (s_config (nd_heap n' ! a)) = ps_RoundOpenTime st" "cf_CloseTime (s_config (nd_heap n' ! a)) = ps_RoundCloseTime st"
    "cf_GameEndTime (s_config (nd_heap n' ! a)) = ps_RoundCloseTime st"
    using a(3) by (simp_all add: same_times_def round_config_def)
  have e: "effectiveSettleAt (nd_heap n' ! a) \<le> 0"
    using settle_end [OF assms(1) wf' a(1,3)] assms(1) rc by (simp add: round_config_def settle_law_def)
  have "canUpdateScore (nd_heap n' ! a) now = InstanceStateOpen" if "ps_RoundOpenTime st \<le> now" for now
    using that rc by (simp add: canUpdateScore_def cfg)
  then show ?thesis using gend a(1) e tick_without_end [OF e] by blast
qed

section \<open>Witnesses\<close>

text \<open>A node without activities, in the sample world but for a clock that stands still, is asked to create
  the periodic activity \<open>arena\<close> 7.\<close>

definition still_deps :: "mem deps" where
  "still_deps = mem_deps\<lparr>dp_env := mem_env\<lparr>en_lib := mem_lib\<lparr>Now := State_Monad.return 0\<rparr>\<rparr>\<rparr>"

definition mem_create :: "int64 \<Rightarrow> int64 \<Rightarrow> mem node" where
  "mem_create cls gend = fst (exec (handleCreateRankConfig (Some still_deps) ''arena'' 7 1000 cls gend) (empty_node, empty_mem))"

lemma mem_create_state:
  assumes "\<not> (cls \<le> 0 \<and> gend \<le> 0)" "NewPeriodicState 0 ''arena'' 7 60 1000 cls = Inr st"
  shows "map_of (nd_states (mem_create cls gend)) (bizKey ''arena'' 7) = Some st"
    "map_of (nd_engines (mem_create cls gend)) (bizKey ''arena'' 7) = Some 0"
proof -
  have key: "bizKey ''arena'' 7 = ''arena:7''" by code_simp
  have "mem_create cls gend = fst (exec (RegisterActivity still_deps ''arena'' (window_config 7 1000 cls gend)) (empty_node, empty_mem))"
    using assms(1) by (auto simp: mem_create_def handleCreateRankConfig_def)
  then show "map_of (nd_states (mem_create cls gend)) (bizKey ''arena'' 7) = Some st"
    "map_of (nd_engines (mem_create cls gend)) (bizKey ''arena'' 7) = Some 0"
    using mem_register [OF still_deps_def, of "window_config 7 1000 cls gend" st] assms(2)
    by (simp_all add: key window_config_def zero_config_def)
qed

lemma still_settle_law: "settle_law (dp_env still_deps)"
  by (simp add: settle_law_def still_deps_def mem_lib_def)

lemma still_clock: "schedule_ok first_round" "clock_ok first_round (result (now_milli (dp_env still_deps)) w)"
  by (simp_all add: first_round_def schedule_ok_def clock_ok_def now_milli_def still_deps_def UnixMilli_def)

lemma nothing_yet:
  "wf_node still_deps (fst (empty_node, empty_mem))" "map_of (nd_engines (fst (empty_node :: mem node, empty_mem))) k = None"
  "map_of (nd_states (fst (empty_node :: mem node, empty_mem))) k = None"
  by (simp_all add: wf_empty) (simp_all add: empty_node_def)


definition endless_round :: periodic_state where
  "endless_round = first_round\<lparr>ps_TotalCloseTime := 0, ps_RoundCloseTime := 0\<rparr>"

lemma endless_round_new: "NewPeriodicState 0 ''arena'' 7 60 1000 0 = Inr endless_round"
  by code_simp

theorem periodic_without_close_is_stuck_witness:
  "canUpdateScore (nd_heap (mem_create 0 36001000) ! 0) 1000000000000 = InstanceStateOpen"
proof -
  have made: "map_of (nd_states (mem_create 0 36001000)) (bizKey ''arena'' 7) = Some endless_round"
    "map_of (nd_engines (mem_create 0 36001000)) (bizKey ''arena'' 7) = Some 0"
    using mem_create_state [OF _ endless_round_new, of 36001000] by simp_all
  show ?thesis
    using periodic_without_close_is_stuck [OF still_settle_law nothing_yet(1) refl refl nothing_yet(2,3) refl,
      where b = "''arena''" and act = 7 and opn = 1000 and cls = 0 and gend = 36001000, folded mem_create_def, OF made(1)] made(2)
    by (simp add: endless_round_def first_round_def)
qed

end
