(* ===== verification/ClaimRoutes.thy ===== *)
theory ClaimRoutes
  imports NodeInvariant DaoProps
begin

text \<open>
  A claim request is routed: the present round is claimed at its service (\<open>Store.AtomicClaim\<close>), a past
  round at the periodic handler (\<open>ClaimHistoricalReward\<close>), and an activity without a service at the
  manager's fallback. All routes end in the same documents of MongoDB. Here they are put together: nothing
  on the way to a claim touches the recorded claims, and a reward is granted once per record.
\<close>

section \<open>Steps that leave the claims alone\<close>

text \<open>What \<open>f\<close> shows of the outside world is not changed by Redis, the ranking library, the clock, a read
  of MongoDB or a task put in its queue.\<close>

definition redis_spares :: "('w \<Rightarrow> 'b) \<Rightarrow> 'w redis \<Rightarrow> bool" where
  "redis_spares f R \<longleftrightarrow>
     (\<forall>k g. keeps f (HGet R k g)) \<and> (\<forall>k g v. keeps f (HSet R k g v)) \<and> (\<forall>k. keeps f (HGetAll R k))
   \<and> (\<forall>k. keeps f (RExists R k)) \<and> (\<forall>k t. keeps f (Expire R k t)) \<and> (\<forall>k. keeps f (RGet R k))
   \<and> (\<forall>k v t. keeps f (SetEX R k v t)) \<and> (\<forall>k vs. keeps f (SAdd R k vs)) \<and> (\<forall>k. keeps f (SMembers R k))
   \<and> (\<forall>k. keeps f (Del R k)) \<and> (\<forall>c. keeps f (PipeExec R c)) \<and> (\<forall>k v t. keeps f (SetNX R k v t))
   \<and> (\<forall>k g. keeps f (lua_HGet R k g)) \<and> (\<forall>k g v. keeps f (lua_HSet R k g v))
   \<and> keeps f (eval_begin R) \<and> keeps f (eval_end R)"

definition rank_spares :: "('w \<Rightarrow> 'b) \<Rightarrow> 'w rank_service \<Rightarrow> bool" where
  "rank_spares f rs \<longleftrightarrow> (\<forall>i. keeps f (Snapshot rs i)) \<and> (\<forall>i. keeps f (RestoreInstance rs i))
   \<and> (\<forall>i xs. keeps f (RestoreMembers rs i xs)) \<and> (\<forall>i t. keeps f (ExpireInstance rs i t))"

definition driver_spares :: "('w \<Rightarrow> 'b) \<Rightarrow> 'w mongo \<Rightarrow> bool" where
  "driver_spares f M \<longleftrightarrow> (\<forall>d c q. keeps f (FindOne M d c q)) \<and> (\<forall>d c q. keeps f (Find M d c q))
   \<and> (\<forall>t. keeps f (PushMongoTask M t))"

definition spares :: "('w \<Rightarrow> 'b) \<Rightarrow> 'w deps \<Rightarrow> bool" where
  "spares f D \<longleftrightarrow> redis_spares f (dp_rdb D) \<and> rank_spares f (dp_rank D) \<and> driver_spares f (dp_mongo D)
   \<and> keeps f (Now (en_lib (dp_env D))) \<and> (\<forall>a. keeps f (TTLForActivityEnd (en_lib (dp_env D)) a))"

named_theorems spare_rules "steps that leave the claims alone"

lemma redis_spared [spare_rules]:
  assumes "spares f D"
  shows "keeps f (HGet (dp_rdb D) k g)" "keeps f (HSet (dp_rdb D) k g v)" "keeps f (HGetAll (dp_rdb D) k)"
    "keeps f (RExists (dp_rdb D) k)" "keeps f (Expire (dp_rdb D) k t)" "keeps f (RGet (dp_rdb D) k)"
    "keeps f (SetEX (dp_rdb D) k v t)" "keeps f (SAdd (dp_rdb D) k vs)" "keeps f (SMembers (dp_rdb D) k)"
    "keeps f (Del (dp_rdb D) k)" "keeps f (PipeExec (dp_rdb D) c)" "keeps f (SetNX (dp_rdb D) k v t)"
  using assms by (simp_all add: spares_def redis_spares_def)

lemma others_spared [spare_rules]:
  assumes "spares f D"
  shows "keeps f (Snapshot (dp_rank D) i)" "keeps f (RestoreInstance (dp_rank D) inst)"
    "keeps f (RestoreMembers (dp_rank D) i xs)" "keeps f (ExpireInstance (dp_rank D) i t)"
    "keeps f (FindOne (dp_mongo D) d c q)" "keeps f (Find (dp_mongo D) d c q)" "keeps f (PushMongoTask (dp_mongo D) task)"
    "keeps f (Now (en_lib (dp_env D)))" "keeps f (TTLForActivityEnd (en_lib (dp_env D)) a)"
  using assms by (simp_all add: spares_def rank_spares_def driver_spares_def)

text \<open>The stores of a node: on its Redis and the DAO over its MongoDB.\<close>

definition own_store :: "'w deps \<Rightarrow> 'w store \<Rightarrow> bool" where
  "own_store D st \<longleftrightarrow> st_rdb st = Some (dp_rdb D) \<and> st_dao st = Some (dao_store (dp_dao D) (dp_mongo D))"

lemma own_store_mongo: "own_store D st \<Longrightarrow> st_mongo st = None \<or> st_mongo st = Some (dao_store (dp_dao D) (dp_mongo D))"
  by (simp add: own_store_def st_mongo_def)

lemma keeps_split:
  "(\<And>l. keeps f (g l)) \<Longrightarrow> (\<And>r. keeps f (h r)) \<Longrightarrow> keeps f (case e of Inl l \<Rightarrow> g l | Inr r \<Rightarrow> h r)"
  "(x = None \<Longrightarrow> keeps f p) \<Longrightarrow> (\<And>y. x = Some y \<Longrightarrow> keeps f (q y)) \<Longrightarrow> keeps f (case x of None \<Rightarrow> p | Some y \<Rightarrow> q y)"
  "(\<And>i j. keeps f (k i j)) \<Longrightarrow> keeps f (case pr of (i, j) \<Rightarrow> k i j)"
  "(xs = [] \<Longrightarrow> keeps f p) \<Longrightarrow> (\<And>y ys. xs = y # ys \<Longrightarrow> keeps f (c y ys)) \<Longrightarrow> keeps f (case xs of [] \<Rightarrow> p | y # ys \<Rightarrow> c y ys)"
  by (auto split: sum.split option.split prod.split list.split)

lemma dao_spared [spare_rules]:
  assumes "spares f D"
  shows "keeps f (m_LoadGroups (dao_store d (dp_mongo D)) b)" "keeps f (m_LoadAllMembers (dao_store d (dp_mongo D)) b)"
    "keeps f (m_LoadRobots (dao_store d (dp_mongo D)) b g)" "keeps f (m_LoadGroupScores (dao_store d (dp_mongo D)) b g)"
    "keeps f (m_LoadGroupSettled (dao_store d (dp_mongo D)) b g)" "keeps f (m_LoadGroupInst (dao_store d (dp_mongo D)) b g)"
    "keeps f (m_SaveScore (dao_store d (dp_mongo D)) b g u s et up sq av)"
    "keeps f (m_SaveSettled (dao_store d (dp_mongo D)) b g ss t)"
  unfolding dao_store_def store_mongo.simps dao_defs Let_def
  by (intro keeps_bind keeps_rules keeps_split spare_rules [OF assms])+


lemma store_spared [spare_rules]:
  assumes "spares f D" "own_store D st"
  shows "keeps f (LoadGroups (dp_env D) st)" "keeps f (GetAllMembers (dp_env D) st)" "keeps f (LoadRobots (dp_env D) st g)"
    "keeps f (LoadUsedInfoIDs (dp_env D) st g)" "keeps f (SaveUsedInfoIDs (dp_env D) st g is)"
    "keeps f (RestoreNextGroupID (dp_env D) st n)" "keeps f (RdbExists st k)" "keeps f (LoadGroupInst st g)"
    "keeps f (LoadGroupScores st g)" "keeps f (LoadGroupSettled st g)" "keeps f (SaveSettled st g ss t)"
    "keeps f (RestoreSettled (dp_env D) st i ss)" "keeps f (SaveScore st g u x et sq up av)" "keeps f (backfillTTL (dp_env D) st)"
proof -
  have R: "st_rdb st = Some (dp_rdb D)" using assms(2) by (simp add: own_store_def)
  have M: "keeps f p \<Longrightarrow> keeps f (q (dao_store (dp_dao D) (dp_mongo D))) \<Longrightarrow>
      keeps f (case st_mongo st of None \<Rightarrow> p | Some m \<Rightarrow> q m)" for p q
    using own_store_mongo [OF assms(2)] by (elim disjE) simp_all
  note steps = keeps_bind M keeps_rules keeps_split spare_rules [OF assms(1)]
  have ttl: "keeps f (writeTTL (dp_env D) st)" "keeps f (backfillTTL (dp_env D) st)" "keeps f (expireKey (dp_env D) st k)"
    "keeps f w \<Longrightarrow> keeps f (backfill (dp_env D) st k w)" for k w
    unfolding expireKey_def backfill_def writeTTL_def backfillTTL_def backfillTTLFor_def ttlFor_def R option.case
    by (intro steps; assumption)+
  show "keeps f (LoadGroups (dp_env D) st)" "keeps f (GetAllMembers (dp_env D) st)" "keeps f (LoadRobots (dp_env D) st g)"
    "keeps f (LoadUsedInfoIDs (dp_env D) st g)" "keeps f (SaveUsedInfoIDs (dp_env D) st g is)"
    "keeps f (RestoreNextGroupID (dp_env D) st n)" "keeps f (RdbExists st k)" "keeps f (LoadGroupInst st g)"
    "keeps f (LoadGroupScores st g)" "keeps f (LoadGroupSettled st g)" "keeps f (SaveSettled st g ss t)"
    "keeps f (RestoreSettled (dp_env D) st i ss)" "keeps f (SaveScore st g u x et sq up av)" "keeps f (backfillTTL (dp_env D) st)"
    unfolding LoadGroups_def GetAllMembers_def LoadRobots_def LoadUsedInfoIDs_def SaveUsedInfoIDs_def
      RestoreNextGroupID_def RdbExists_def LoadGroupInst_def LoadGroupScores_def LoadGroupSettled_def SaveSettled_def
      RestoreSettled_def SaveScore_def R option.case Let_def isMongoChecked_def setMongoChecked_def
      save_groups_redis_def save_robots_redis_def
    by (intro steps ttl)+
qed


section \<open>Services and the routes\<close>

definition own_service :: "'w deps \<Rightarrow> 'w service \<Rightarrow> bool" where
  "own_service D s \<longleftrightarrow> own_store D (s_store s) \<and> s_rankService s = dp_rank D
     \<and> (\<exists>b act. s_onMemberJoin s = Some (onMemberJoin D b act))"

lemma own_service_wf: "svc_wf D k s \<Longrightarrow> own_service D s"
  by (auto simp: svc_wf_def own_service_def own_store_def store_of_def)

definition quiet :: "'w deps \<Rightarrow> ('w \<Rightarrow> 'b) \<Rightarrow> ('w, 'a) svc \<Rightarrow> bool" where
  "quiet D f m \<longleftrightarrow> (\<forall>sw. own_service D (fst sw) \<longrightarrow>
     own_service D (fst (exec m sw)) \<and> f (snd (exec m sw)) = f (snd sw))"

named_theorems quiet_rules "steps of a service that leave the claims alone"

lemma quietI: "(\<And>s w. own_service D s \<Longrightarrow> own_service D (fst (exec m (s, w))) \<and> f (snd (exec m (s, w))) = f w) \<Longrightarrow> quiet D f m"
  by (simp add: quiet_def)

lemma quiet_bind: "quiet D f m \<Longrightarrow> (\<And>x. quiet D f (k x)) \<Longrightarrow> quiet D f (State_Monad.bind m k)"
  unfolding quiet_def exec_bind by metis

lemma quiet_basic [quiet_rules]:
  "quiet D f (State_Monad.return x)" "quiet D f skip" "quiet D f (sget g)"
  "quiet D f m \<Longrightarrow> quiet D f (ignore m)" "keeps f e \<Longrightarrow> quiet D f (lift_ext e)"
  by (simp_all add: quiet_def keeps_def)

lemma quiet_smod [quiet_rules]: "(\<And>s. ident (g s) = ident s) \<Longrightarrow> quiet D f (smod g)"
  by (rule quietI) (simp add: own_service_def ident_def)

lemma quiet_if [quiet_rules]: "(c \<Longrightarrow> quiet D f m) \<Longrightarrow> (\<not> c \<Longrightarrow> quiet D f m') \<Longrightarrow> quiet D f (if c then m else m')"
  by simp

lemma quiet_split [quiet_rules]:
  "(\<And>l. quiet D f (g l)) \<Longrightarrow> (\<And>r. quiet D f (h r)) \<Longrightarrow> quiet D f (case e of Inl l \<Rightarrow> g l | Inr r \<Rightarrow> h r)"
  "quiet D f p \<Longrightarrow> (\<And>y. quiet D f (q y)) \<Longrightarrow> quiet D f (case x of None \<Rightarrow> p | Some y \<Rightarrow> q y)"
  "(\<And>i j. quiet D f (k i j)) \<Longrightarrow> quiet D f (case pr of (i, j) \<Rightarrow> k i j)"
  "quiet D f p \<Longrightarrow> (\<And>y ys. quiet D f (c y ys)) \<Longrightarrow> quiet D f (case xs of [] \<Rightarrow> p | y # ys \<Rightarrow> c y ys)"
  by (auto split: sum.split option.split prod.split list.split)

lemma quiet_for_each [quiet_rules]: "(\<And>x. quiet D f (g x)) \<Longrightarrow> quiet D f (for_each xs g)"
proof (induction xs)
  case (Cons x xs)
  then have "quiet D f (State_Monad.bind (g x) (\<lambda>_. for_each xs g))" by (intro quiet_bind) auto
  then show ?case by simp
qed (simp add: quiet_basic)

lemma quiet_store [quiet_rules]: "(\<And>st. own_store D st \<Longrightarrow> keeps f (g st)) \<Longrightarrow> quiet D f (with_store g)"
  by (rule quietI) (simp add: own_service_def own_store_def store_now_def keeps_def)

lemma quiet_rank [quiet_rules]: "keeps f (g (dp_rank D)) \<Longrightarrow> quiet D f (with_rank g)"
  by (rule quietI) (simp add: own_service_def keeps_def)

lemma onMemberJoin_spared: "spares f D \<Longrightarrow> keeps f (onMemberJoin D b act u g)"
  by (rule keepsI) (simp add: onMemberJoin_def on_index_def Track_def NewMemberIndex_def Let_def
      keepsD [OF redis_spared(5)] keepsD [OF redis_spared(8)])

lemma quiet_joined [quiet_rules]: "spares f D \<Longrightarrow> quiet D f (memberJoined u g)"
  unfolding quiet_def memberJoined_def own_service_def
  by (fastforce simp: keepsD [OF onMemberJoin_spared])

lemma quiet_ensureLoaded:
  assumes "spares f D"
  shows "quiet D f (ensureLoaded (dp_env D))"
  unfolding ensureLoaded_def loadGroups_def loadMembers_def restoreUsedInfoIDs_def restoreGroup_def
    restoreSettledGroup_def restoreInstanceIfMissing_def backfillScores_def Let_def
  by (intro quiet_bind quiet_rules quiet_joined [OF assms] spare_rules [OF assms] ident_simps)

lemma quiet_IsSettled:
  assumes "spares f D"
  shows "quiet D f (IsSettled (dp_env D))"
  unfolding IsSettled_def syncLatestGroups_def syncGroupStateLocked_def now_ns_def
  by (intro quiet_bind quiet_rules quiet_ensureLoaded [OF assms] spare_rules [OF assms] ident_simps)


text \<open>The documents a claim for an activity can be recorded in: that of the activity, or of one of its rounds.\<close>

definition claim_ids :: "string \<Rightarrow> int32 \<Rightarrow> string set" where
  "claim_ids b act = insert (b @ ''_'' @ FormatInt act) (range (roundBizIdOf b act))"

lemma bizKey_inject: "bizKey b act = bizKey b' act' \<longleftrightarrow> b = b' \<and> act = act'"
proof
  assume "bizKey b act = bizKey b' act'"
  then have "split_last (bizKey b act) CHR '':'' = split_last (bizKey b' act') CHR '':''" by simp
  moreover have "CHR '':'' \<notin> set (FormatInt n)" for n
    using FormatInt_chars [of "CHR '':''" n] by (auto simp: is_digit_def)
  ultimately show "b = b' \<and> act = act'" by (simp add: bizKey_def)
qed simp

lemma service_claim_id:
  assumes "svc_wf D (bizKey b act) s"
  shows "st_bizId (s_store s) \<in> claim_ids b act"
proof -
  have "cf_BizType (s_config s) = b" "cf_ActID (s_config s) = act"
    using svc_wf_key [OF assms] by (simp_all add: bizKey_inject)
  then show ?thesis
    using assms by (auto simp: svc_wf_def store_of_def computeBizId_def claim_ids_def roundBizIdOf_def)
qed

section \<open>A claim request\<close>

text \<open>A node over MongoDB, on whose claims only the conditional insert has an effect.\<close>

definition claim_world :: "'w deps \<Rightarrow> string \<Rightarrow> ('w \<Rightarrow> colls) \<Rightarrow> ('w \<Rightarrow> mongo_task list) \<Rightarrow> bool" where
  "claim_world D db C Q \<longleftrightarrow> dp_dao D = Some db \<and> mongo_laws (dp_mongo D) db C Q \<and> spares (claim_ledger C) D"

text \<open>Recorded claims stay, and a first claim is a new record of the user under one of the ids.\<close>

definition records :: "string set \<Rightarrow> int64 \<Rightarrow> ledger \<Rightarrow> 'e + bool \<times> int64 \<Rightarrow> ledger \<Rightarrow> bool" where
  "records ids u L r L' \<longleftrightarrow> (\<forall>k v. L k = Some v \<longrightarrow> L' k = Some v)
     \<and> (\<forall>t. r = Inr (False, t) \<longrightarrow> (\<exists>bid \<in> ids. L (bid, u) = None \<and> L' (bid, u) \<noteq> None))"

lemma own_store_claims:
  assumes "claim_world D db C Q" "own_store D st"
  shows "claims_ok (dp_env D) st (dp_rdb D) (dao_store (Some db) (dp_mongo D)) (claim_ledger C)"
proof -
  have s: "spares (claim_ledger C) D" using assms(1) by (simp add: claim_world_def)
  then have "redis_apart (dp_env D) (dp_rdb D) (claim_ledger C)"
    by (simp add: redis_apart_def spares_def redis_spares_def)
  then show ?thesis
    using dao_backed_claims [of "dp_mongo D" db C Q "dp_env D" "dp_rdb D" st] assms
    by (simp add: claim_world_def own_store_def)
qed

lemma records_AtomicClaim:
  assumes "claim_world D db C Q" "own_store D st" "st_bizId st \<in> ids"
  shows "records ids u (claim_ledger C w) (result (AtomicClaim (dp_env D) st u now) w)
    (claim_ledger C (exec (AtomicClaim (dp_env D) st u now) w))"
  using AtomicClaim_ledger [OF own_store_claims [OF assms(1,2)]] assms(3) unfolding records_def by blast

lemma records_SaveClaim:
  assumes "claim_world D db C Q" "b \<in> ids"
  shows "records ids u (claim_ledger C w)
     (case result (SaveClaimIfNotExists (Some db) (dp_mongo D) b u t) w of Inl e \<Rightarrow> Inl e | Inr (new, ct) \<Rightarrow> Inr (\<not> new, ct))
     (claim_ledger C (exec (SaveClaimIfNotExists (Some db) (dp_mongo D) b u t) w))"
proof -
  have "claim_laws (dao_store (Some db) (dp_mongo D)) (claim_ledger C)"
    using dao_claim_laws assms(1) unfolding claim_world_def by blast
  note L = claim_parts [OF this]
  have keep: "claim_ledger C w k = Some v \<Longrightarrow> claim_ledger C (exec (SaveClaimIfNotExists (Some db) (dp_mongo D) b u t) w) k = Some v" for k v
    using L(1) unfolding dao_store_def store_mongo.simps by blast
  have new: "result (SaveClaimIfNotExists (Some db) (dp_mongo D) b u t) w = Inr (True, t') \<Longrightarrow> claim_ledger C w (b, u) = None
      \<and> claim_ledger C (exec (SaveClaimIfNotExists (Some db) (dp_mongo D) b u t) w) (b, u) = Some t" for t'
    using L(2) unfolding dao_store_def store_mongo.simps by blast
  show ?thesis using assms(2) keep new unfolding records_def
    by (cases "result (SaveClaimIfNotExists (Some db) (dp_mongo D) b u t) w") (auto intro!: bexI [of _ b])
qed

lemma records_same: "records ids u L r L' \<Longrightarrow> L0 = L \<Longrightarrow> records ids u L0 r L'"
  by simp

lemma records_error: "records ids u L (Inl e) L"
  by (simp add: records_def)

text \<open>The route leads to a service registered for the activity, and leaves the records alone.\<close>

lemma route_of_claim:
  assumes W: "claim_world D db C Q" and wf: "wf_node D (fst nw)"
    and m: "m = ResolveEngineService D b act r"
  shows "wf_node D (fst (exec m nw))" "claim_ledger C (snd (exec m nw)) = claim_ledger C (snd nw)"
    "fst (result m nw) = Some a \<Longrightarrow> map_of (nd_engines (fst (exec m nw))) (bizKey b act) = Some a"
proof -
  have s: "spares (claim_ledger C) D" using W by (simp add: claim_world_def)
  show "wf_node D (fst (exec m nw))" unfolding m by (intro wf_keptD [OF wf_round_queries(1)] wf)
  have read: "fst (exec (readCurRoundFromRedis (periodicHandler D) k) nw) = fst nw"
    "claim_ledger C (snd (exec (readCurRoundFromRedis (periodicHandler D) k) nw)) = claim_ledger C (snd nw)" for k
    by (simp_all add: readCurRoundFromRedis_def keepsD [OF redis_spared(6) [OF s]])
  have doc: "fst (exec (loaded_config D k) nw) = fst nw"
    "claim_ledger C (snd (exec (loaded_config D k) nw)) = claim_ledger C (snd nw)" for k
    by (simp_all add: loaded_config_def LoadRankConfig_def keepsD [OF others_spared(5) [OF s]])
  have settled: "claim_ledger C (snd (exec (on_svc a (IsSettled (dp_env D))) nw')) = claim_ledger C (snd nw')"
    "nd_engines (fst (exec (on_svc a (IsSettled (dp_env D))) nw')) = nd_engines (fst nw')"
    if "map_of (nd_engines (fst nw)) (bizKey b act) = Some a" "fst nw' = fst nw" for a nw'
  proof -
    have "own_service D (nd_heap (fst nw') ! a)"
      using own_service_wf wf_nodeD(5) [OF wf that(1)] that(2) by metis
    then show "claim_ledger C (snd (exec (on_svc a (IsSettled (dp_env D))) nw')) = claim_ledger C (snd nw')"
      using quiet_IsSettled [OF s] by (simp add: quiet_def exec_on_svc)
  qed (simp add: exec_on_svc)
  show "claim_ledger C (snd (exec m nw)) = claim_ledger C (snd nw)"
    "fst (result m nw) = Some a \<Longrightarrow> map_of (nd_engines (fst (exec m nw))) (bizKey b act) = Some a"
    unfolding m ResolveEngineService_def GetState_def GetEngineService_def Let_def
    using read doc settled by (auto split: option.splits if_splits)
qed


lemma records_map: "records ids u L r L' \<Longrightarrow> records ids u L (internal_error r) L'"
  by (auto simp: records_def internal_error_def split: sum.splits)

lemma resolve_spared:
  assumes "spares f D"
  shows "f (snd (exec (resolveHistoricalRound (periodicHandler D) k r) nw)) = f (snd nw)"
  by (simp add: resolveHistoricalRound_def readCurRoundFromRedis_def LoadRankConfig_def GetState_def
      keepsD [OF redis_spared(6) [OF assms]] keepsD [OF others_spared(5) [OF assms]] split: option.split)

lemma records_history:
  assumes W: "claim_world D db C Q"
  shows "records (claim_ids b act) u (claim_ledger C (snd nw))
    (result (ClaimHistoricalReward (periodicHandler D) b act r u) nw)
    (claim_ledger C (snd (exec (ClaimHistoricalReward (periodicHandler D) b act r u) nw)))"
proof -
  have s: "spares (claim_ledger C) D" and d: "dp_dao D = Some db" using W by (simp_all add: claim_world_def)
  define nw1 where "nw1 = exec (resolveHistoricalRound (periodicHandler D) (LogicalKey b act) r) nw"
  have l1: "claim_ledger C (snd nw1) = claim_ledger C (snd nw)"
    unfolding nw1_def by (rule resolve_spared [OF s])
  define w2 where "w2 = exec (Now (en_lib (dp_env D))) (snd nw1)"
  have l2: "claim_ledger C w2 = claim_ledger C (snd nw)"
    unfolding w2_def using keepsD [OF others_spared(8) [OF s]] l1 by metis
  show ?thesis
  proof (cases "result (resolveHistoricalRound (periodicHandler D) (LogicalKey b act) r) nw")
    case (Inl e)
    then show ?thesis
      by (simp add: ClaimHistoricalReward_def d nw1_def [symmetric] l1 records_error)
  next
    case (Inr n)
    have "roundBizIdOf b act n \<in> claim_ids b act" by (simp add: claim_ids_def)
    from records_SaveClaim [OF W this, of u w2 "UnixMilli (result (Now (en_lib (dp_env D))) (snd nw1))"]
    show ?thesis
      by (simp add: ClaimHistoricalReward_def d Inr nw1_def [symmetric] now_milli_def w2_def [symmetric] l2)
  qed
qed

lemma records_request:
  assumes W: "claim_world D db C Q" and wf: "wf_node D (fst nw)"
  shows "records (claim_ids b act) u (claim_ledger C (snd nw)) (result (handleClaimReward (Some D) b act u r) nw)
    (claim_ledger C (snd (exec (handleClaimReward (Some D) b act u r) nw)))"
proof -
  have s: "spares (claim_ledger C) D" using W by (simp add: claim_world_def)
  let ?m = "ResolveEngineService D b act r"
  note R = route_of_claim [OF W wf refl, of b act r]
  define nw1 where "nw1 = exec ?m nw"
  define w2 where "w2 = exec (Now (en_lib (dp_env D))) (snd nw1)"
  have l1: "claim_ledger C (snd nw1) = claim_ledger C (snd nw)" unfolding nw1_def by (rule R(2))
  have l2: "claim_ledger C w2 = claim_ledger C (snd nw)"
    unfolding w2_def using keepsD [OF others_spared(8) [OF s]] l1 by metis
  obtain svc old where r: "result ?m nw = (svc, old)" by (cases "result ?m nw")
  have h: "handleClaimReward (Some D) b act u r = do {
      (svc, isHistorical) \<leftarrow> ?m;
      x \<leftarrow> (if isHistorical then ClaimHistoricalReward (periodicHandler D) b act r u
            else do {
              now \<leftarrow> now_milli (dp_env D);
              case svc of None \<Rightarrow> lift_ext (FallbackClaimReward D b act u now)
              | Some a \<Rightarrow> on_svc a (ClaimReward (dp_env D) u now) });
      State_Monad.return (internal_error x) }"
    by (simp add: handleClaimReward_def with_manager_def)
  show ?thesis
  proof (cases "old")
    case True
    then show ?thesis
      using records_map [OF records_history [OF W, of b act u nw1 r]] r l1
      by (simp add: h nw1_def [symmetric])
  next
    case new: False
    show ?thesis
    proof (cases svc)
      case None
      have o: "own_store D (store_of D (b @ ''_'' @ FormatInt act))" by (simp add: own_store_def store_of_def)
      have i: "st_bizId (store_of D (b @ ''_'' @ FormatInt act)) \<in> claim_ids b act" by (simp add: store_of_def claim_ids_def)
      show ?thesis
        using records_map [OF records_AtomicClaim [OF W o i, of u w2]] r l2 new None
        by (simp add: h nw1_def [symmetric] now_milli_def w2_def [symmetric] FallbackClaimReward_def)
    next
      case (Some a)
      have wf1: "wf_node D (fst nw1)" unfolding nw1_def by (rule R(1))
      have reg: "map_of (nd_engines (fst nw1)) (bizKey b act) = Some a"
        unfolding nw1_def by (rule R(3)) (simp add: r Some)
      note sw = wf_nodeD(5) [OF wf1 reg]
      have o: "own_store D (store_now (nd_heap (fst nw1) ! a))"
        using own_service_wf [OF sw] by (simp add: own_service_def own_store_def store_now_def)
      have i: "st_bizId (store_now (nd_heap (fst nw1) ! a)) \<in> claim_ids b act"
        using service_claim_id [OF sw] by (simp add: store_now_def)
      show ?thesis
        using records_map [OF records_AtomicClaim [OF W o i, of u w2]] r l2 new Some
        by (simp add: h nw1_def [symmetric] now_milli_def w2_def [symmetric] ClaimReward_def exec_on_svc)
    qed
  qed
qed

section \<open>Any number of requests\<close>

text \<open>Claim requests of one user for one activity, for any rounds, each preceded by whatever happens in
  between.\<close>

fun claim_requests ::
  "'w deps \<Rightarrow> string \<Rightarrow> int32 \<Rightarrow> int64 \<Rightarrow> (('w node \<times> 'w \<Rightarrow> 'w node \<times> 'w) \<times> int32) list
   \<Rightarrow> ('w node \<times> 'w) \<Rightarrow> (status + bool \<times> int64) list \<times> ('w node \<times> 'w)" where
  "claim_requests D b act u [] nw = ([], nw)"
| "claim_requests D b act u ((f, r) # qs) nw =
     (let q = handleClaimReward (Some D) b act u r; (xs, nw') = claim_requests D b act u qs (exec q (f nw))
      in (result q (f nw) # xs, nw'))"

definition granted :: "'e + bool \<times> int64 \<Rightarrow> bool" where
  "granted x = (case x of Inr (False, _) \<Rightarrow> True | _ \<Rightarrow> False)"

text \<open>What happens in between keeps the node consistent and does not delete claims.\<close>

definition between_claims :: "'w deps \<Rightarrow> ('w \<Rightarrow> colls) \<Rightarrow> ('w node \<times> 'w \<Rightarrow> 'w node \<times> 'w) \<Rightarrow> bool" where
  "between_claims D C f \<longleftrightarrow> (\<forall>nw. wf_node D (fst nw) \<longrightarrow> wf_node D (fst (f nw))
     \<and> (\<forall>k v. claim_ledger C (snd nw) k = Some v \<longrightarrow> claim_ledger C (snd (f nw)) k = Some v))"


lemma between_claimsD:
  assumes "between_claims D C f" "wf_node D (fst nw)"
  shows "wf_node D (fst (f nw))" "claim_ledger C (snd nw) k = Some v \<Longrightarrow> claim_ledger C (snd (f nw)) k = Some v"
  using assms unfolding between_claims_def by blast+

lemma claim_requests_keep:
  assumes W: "claim_world D db C Q" and "wf_node D (fst nw)" "\<forall>q \<in> set qs. between_claims D C (fst q)"
    and "claim_ledger C (snd nw) k = Some v"
  shows "claim_ledger C (snd (snd (claim_requests D b act u qs nw))) k = Some v"
  using assms(2-)
proof (induction qs arbitrary: nw)
  case (Cons q qs)
  obtain f r where q: "q = (f, r)" by (cases q)
  have f: "wf_node D (fst (f nw))" "claim_ledger C (snd (f nw)) k = Some v"
    using between_claimsD [of D C f nw] Cons.prems q by auto
  then have "claim_ledger C (snd (exec (handleClaimReward (Some D) b act u r) (f nw))) k = Some v"
    using records_request [OF W f(1)] unfolding records_def by blast
  then show ?case
    using Cons.IH [OF wf_keptD [OF wf_requests(6) f(1)]] Cons.prems(2) q by (simp add: Let_def split: prod.split) (metis snd_conv)
qed simp

text \<open>Claim C5: a reward is granted at most once for every record, whatever way the claims take. A user
  claims the rewards of an activity any number of times, for any rounds, at a node in any consistent
  state; the requests reach the service of the present round, the handler of past rounds or the
  fallback for activities without a service, and anything that keeps the node consistent and deletes no
  claims may happen in between, such as rounds that end, services that are replaced, Redis losing or
  changing its data. Then the requests that are answered \<open>not claimed before\<close> can be matched with
  different claim documents of the activity in MongoDB, one each, that were not there before the
  first request and are there after the last.\<close>

theorem one_grant_per_record:
  assumes W: "claim_world D db C Q" and "wf_node D (fst nw)" "\<forall>q \<in> set qs. between_claims D C (fst q)"
  shows "\<exists>bids. distinct bids \<and> set bids \<subseteq> claim_ids b act
    \<and> length bids = length (filter granted (fst (claim_requests D b act u qs nw)))
    \<and> (\<forall>bid \<in> set bids. claim_ledger C (snd nw) (bid, u) = None
        \<and> claim_ledger C (snd (snd (claim_requests D b act u qs nw))) (bid, u) \<noteq> None)"
  using assms(2-)
proof (induction qs arbitrary: nw)
  case (Cons q qs)
  obtain f r where q: "q = (f, r)" by (cases q)
  let ?h = "handleClaimReward (Some D) b act u r"
  define nw1 where "nw1 = exec ?h (f nw)"
  obtain xs nw2 where rest: "claim_requests D b act u qs nw1 = (xs, nw2)" by (metis surj_pair)
  have between: "between_claims D C f" "\<forall>q \<in> set qs. between_claims D C (fst q)" using Cons.prems(2) q by auto
  have f: "wf_node D (fst (f nw))" "claim_ledger C (snd (f nw)) k = None \<Longrightarrow> claim_ledger C (snd nw) k = None" for k
    using between_claimsD [OF between(1) Cons.prems(1)] by (blast, metis not_None_eq)
  have wf1: "wf_node D (fst nw1)" unfolding nw1_def by (intro wf_keptD [OF wf_requests(6)] f)
  have rec: "records (claim_ids b act) u (claim_ledger C (snd (f nw))) (result ?h (f nw)) (claim_ledger C (snd nw1))"
    unfolding nw1_def by (rule records_request [OF W f(1)])
  then have earlier: "claim_ledger C (snd nw1) k = None \<Longrightarrow> claim_ledger C (snd (f nw)) k = None" for k
    unfolding records_def by (metis not_None_eq)
  have onward: "claim_ledger C (snd nw1) k \<noteq> None \<Longrightarrow> claim_ledger C (snd nw2) k \<noteq> None" for k
    using claim_requests_keep [OF W wf1 between(2), of k _ b act u] unfolding rest snd_conv by blast
  obtain bids where IH: "distinct bids" "set bids \<subseteq> claim_ids b act" "length bids = length (filter granted xs)"
      "\<forall>bid \<in> set bids. claim_ledger C (snd nw1) (bid, u) = None \<and> claim_ledger C (snd nw2) (bid, u) \<noteq> None"
    using Cons.IH [OF wf1 between(2)] unfolding rest by auto
  have run: "claim_requests D b act u (q # qs) nw = (result ?h (f nw) # xs, nw2)"
    using rest by (simp add: q nw1_def Let_def)
  have old: "\<forall>bid \<in> set bids. claim_ledger C (snd nw) (bid, u) = None \<and> claim_ledger C (snd nw2) (bid, u) \<noteq> None"
    using IH(4) earlier f(2) by blast
  show ?case
  proof (cases "granted (result ?h (f nw))")
    case True
    then obtain t where "result ?h (f nw) = Inr (False, t)"
      by (auto simp: granted_def split: sum.splits prod.splits bool.splits)
    then obtain bid where bid: "bid \<in> claim_ids b act" "claim_ledger C (snd (f nw)) (bid, u) = None"
        "claim_ledger C (snd nw1) (bid, u) \<noteq> None"
      using rec unfolding records_def by blast
    then have "bid \<notin> set bids" using IH(4) by fastforce
    then show ?thesis
      unfolding run using True IH(1-3) old bid f(2) onward by (intro exI [of _ "bid # bids"]) auto
  next
    case False
    then show ?thesis unfolding run using IH(1-3) old by (intro exI [of _ bids]) auto
  qed
qed simp


section \<open>Witnesses\<close>

text \<open>A node over the documents in memory of \<open>DaoProps\<close>, with a Redis that forgets everything.\<close>

definition forgetful_redis :: "'w redis" where
  "forgetful_redis = \<lparr>HGet = (\<lambda>_ _. State_Monad.return (Inl RedisNil)), HSet = (\<lambda>_ _ _. State_Monad.return None),
     HDel = (\<lambda>_ _. State_Monad.return None), HGetAll = (\<lambda>_. State_Monad.return (Inr [])),
     HIncrBy = (\<lambda>_ _ n. State_Monad.return (Inr n)), RExists = (\<lambda>_. State_Monad.return (False, None)),
     Expire = (\<lambda>_ _. State_Monad.return (Inr False)), RGet = (\<lambda>_. State_Monad.return (Inl RedisNil)),
     SetEX = (\<lambda>_ _ _. State_Monad.return None), SetNX = (\<lambda>_ _ _. State_Monad.return (Inr True)),
     Del = (\<lambda>_. State_Monad.return None), SAdd = (\<lambda>_ _. State_Monad.return None),
     SMembers = (\<lambda>_. State_Monad.return (Inr [])), PipeExec = (\<lambda>_. State_Monad.return None),
     lua_HGet = (\<lambda>_ _. State_Monad.return (Inr None)), lua_HSet = (\<lambda>_ _ _. State_Monad.return None),
     eval_begin = State_Monad.return None, eval_end = State_Monad.return None\<rparr>"

definition steady_lib :: "'w rank_lib" where
  "steady_lib = \<lparr>Now = State_Monad.return 100000000, TTLForActivityEnd = (\<lambda>a. State_Monad.return minute_ns),
     SettleAtOf = (\<lambda>c g. if g > 0 then g else c), SettledCacheTTL = minute_ns, ColdDataTTL = minute_ns,
     NewInstanceID = (\<lambda>r b g. r @ '':'' @ b @ '':'' @ g), MarshalSnaps = (\<lambda>snaps. None), UnmarshalSnaps = (\<lambda>v. None),
     Rand = State_Monad.return (\<lambda>n. 0)\<rparr>"

definition quiet_platform :: "'w platform" where
  "quiet_platform = \<lparr>RSet = (\<lambda>k v. State_Monad.return None), Publish = (\<lambda>c v. State_Monad.return None),
     ScanAll = (\<lambda>p n. State_Monad.return (Inr [])), RegisterRank = (\<lambda>d. State_Monad.return None),
     Submit = State_Monad.return None, RankCreateChannel = ''create'', RankDeleteChannel = ''delete'',
     RankMetaKeyPrefix = ''meta'', RankMemberIndexKey = (\<lambda>u. prefixed ''index'' (FormatInt u))\<rparr>"

definition doc_deps :: "doc_mem deps" where
  "doc_deps = \<lparr>dp_env = \<lparr>en_keys = mem_keys, en_lib = steady_lib\<rparr>, dp_rdb = forgetful_redis, dp_dao = Some ''social'',
     dp_mongo = mem_driver, dp_rank = calm_rank, dp_plat = quiet_platform, dp_files = stable_files sample_files\<rparr>"

lemma keeps_doc_reads:
  "keeps (claim_ledger dm_docs) (FindOne mem_driver d c q)" "keeps (claim_ledger dm_docs) (Find mem_driver d c q)"
  "keeps (claim_ledger dm_docs) (PushMongoTask mem_driver t)"
  by (simp_all add: keeps_def mem_driver_def claim_ledger_def)

lemma doc_world: "claim_world doc_deps ''social'' dm_docs dm_queue"
  unfolding claim_world_def spares_def redis_spares_def rank_spares_def driver_spares_def
  using mem_driver_laws keeps_doc_reads
  by (simp add: doc_deps_def forgetful_redis_def calm_rank_def steady_lib_def keeps_def)

lemma doc_claim:
  assumes "find (matches [(''_id'', BStr (claimDocID bid u))]) (dm_docs w CT_RANK_CLAIM) = None"
  shows "result (AtomicClaim (dp_env doc_deps) (store_of doc_deps bid) u 100) w = Inr (False, 100)"
    "exec (AtomicClaim (dp_env doc_deps) (store_of doc_deps bid) u 100) w
     = w\<lparr>dm_docs := (dm_docs w)(CT_RANK_CLAIM := upsert_docs [(''_id'', BStr (claimDocID bid u))] (claim_update bid u 100) (dm_docs w CT_RANK_CLAIM))\<rparr>"
  using assms
  by (simp_all add: doc_deps_def forgetful_redis_def steady_lib_def mem_driver_def AtomicClaim_def store_of_def Let_def
    Eval_def atomicClaimScript_def claim_reply_def st_mongo_def dao_store_def dao_available_def GetClaim_dao_def
    SaveClaimIfNotExists_def decode_one_def claim_update_def backfillTTL_def backfillTTLFor_def ttlFor_def)


lemma doc_no_config:
  assumes "dm_docs w CT_RANK_CONFIG = []"
  shows "result (loaded_config doc_deps k) (n, w) = None" "exec (loaded_config doc_deps k) (n, w) = (n, w)"
  using assms by (simp_all add: loaded_config_def doc_deps_def LoadRankConfig_def mem_driver_def dao_available_def
    decode_one_def config_found_def)

lemma doc_first_claim:
  "result (handleClaimReward (Some doc_deps) ''arena'' 7 42 0) (empty_node, empty_docs) = Inr (False, 100)"
proof -
  have now: "result (Now (en_lib (dp_env doc_deps))) w = 100000000" "exec (Now (en_lib (dp_env doc_deps))) w = w" for w
    by (simp_all add: doc_deps_def steady_lib_def)
  have "find (matches flt) (dm_docs empty_docs c) = None" "dm_docs empty_docs c = []" for flt c
    by (simp_all add: empty_docs_def)
  then show ?thesis
    by (simp add: handleClaimReward_def with_manager_def ResolveEngineService_def GetState_def GetEngineService_def
        empty_node_def doc_no_config now_milli_def now UnixMilli_def FallbackClaimReward_def doc_claim Let_def internal_error_def)
qed

theorem one_grant_per_record_witness:
  "\<exists>bids. distinct bids \<and> bids \<noteq> []
    \<and> length bids = length (filter granted (fst (claim_requests doc_deps ''arena'' 7 42 [(id, 0), (id, 3)] (empty_node, empty_docs))))
    \<and> (\<forall>bid \<in> set bids. claim_ledger dm_docs empty_docs (bid, 42) = None)"
proof -
  let ?q = "handleClaimReward (Some doc_deps) ''arena'' 7 42"
  have "\<forall>q \<in> set [(id, 0 :: int32), (id, 3)]. between_claims doc_deps dm_docs (fst q)"
    by (simp add: between_claims_def)
  from one_grant_per_record [OF doc_world, of "(empty_node, empty_docs)", OF _ this, where b = "''arena''" and act = 7 and u = 42]
  obtain bids where b: "distinct bids"
      "length bids = length (filter granted (fst (claim_requests doc_deps ''arena'' 7 42 [(id, 0), (id, 3)] (empty_node, empty_docs))))"
      "\<forall>bid \<in> set bids. claim_ledger dm_docs empty_docs (bid, 42) = None"
    by (auto simp: wf_empty)
  have "filter granted (fst (claim_requests doc_deps ''arena'' 7 42 [(id, 0), (id, 3)] (empty_node, empty_docs))) \<noteq> []"
    by (simp add: doc_first_claim granted_def Let_def split: prod.split)
  then show ?thesis using b by auto
qed

section \<open>A claim that cannot be routed\<close>

text \<open>Claim C39: a fault of the code. A node that has neither the state nor the service of an activity looks the
  activity up in MongoDB to see whether it has rounds; when that read fails, the failure is dropped and
  the activity taken for one without rounds. Then a claim for whatever round is made, and answered, as a
  claim on the document of the activity itself, though the reward of the round may have been claimed
  before. (In the witness the reward of round 3 is recorded as claimed, the read of the configuration
  fails, and the claim for round 3 is granted once more.)\<close>

theorem failed_read_reroutes_claim:
  assumes "dp_dao D = Some db" "map_of (nd_states n) (bizKey b act) = None" "map_of (nd_engines n) (bizKey b act) = None"
    and "result (LoadRankConfig (dp_dao D) (dp_mongo D) (bizKey b act)) w = Inl e"
    and "w1 = exec (LoadRankConfig (dp_dao D) (dp_mongo D) (bizKey b act)) w"
    and "claim = AtomicClaim (dp_env D) (store_of D (b @ ''_'' @ FormatInt act)) u (UnixMilli (result (Now (en_lib (dp_env D))) w1))"
    and "w2 = exec (Now (en_lib (dp_env D))) w1"
  shows "run_state (handleClaimReward (Some D) b act u r) (n, w) = (internal_error (result claim w2), (n, exec claim w2))"
proof -
  have "result (handleClaimReward (Some D) b act u r) (n, w) = internal_error (result claim w2)"
    using assms by (simp add: handleClaimReward_def with_manager_def ResolveEngineService_def GetState_def GetEngineService_def
      loaded_config_def config_found_def now_milli_def FallbackClaimReward_def Let_def)
  moreover have "exec (handleClaimReward (Some D) b act u r) (n, w) = (n, exec claim w2)"
    using assms by (simp add: handleClaimReward_def with_manager_def ResolveEngineService_def GetState_def GetEngineService_def
      loaded_config_def config_found_def now_milli_def FallbackClaimReward_def Let_def)
  ultimately show ?thesis by (simp add: run_state_split)
qed

definition flaky_deps :: "doc_mem deps" where
  "flaky_deps = doc_deps\<lparr>dp_mongo := mem_driver\<lparr>FindOne := (\<lambda>db c f.
     if c = CT_RANK_CONFIG then State_Monad.return (Inl (ErrText ''timeout'')) else FindOne mem_driver db c f)\<rparr>\<rparr>"

definition claimed_third :: doc_mem where
  "claimed_third = empty_docs\<lparr>dm_docs := (\<lambda>_. [])(CT_RANK_CLAIM :=
     [[(''_id'', BStr ''arena_7_r3:42''), (''bizId'', BStr ''arena_7_r3''), (''userId'', BInt 42), (''claimTime'', BInt 50)]])\<rparr>"

lemma flaky_claim:
  assumes "find (matches [(''_id'', BStr (claimDocID bid u))]) (dm_docs w CT_RANK_CLAIM) = None"
  shows "result (AtomicClaim (dp_env flaky_deps) (store_of flaky_deps bid) u 100) w = Inr (False, 100)"
  using assms
  by (simp add: flaky_deps_def doc_deps_def forgetful_redis_def steady_lib_def mem_driver_def AtomicClaim_def store_of_def Let_def
    Eval_def atomicClaimScript_def claim_reply_def st_mongo_def dao_store_def dao_available_def GetClaim_dao_def
    SaveClaimIfNotExists_def decode_one_def backfillTTL_def backfillTTLFor_def ttlFor_def)

theorem failed_read_reroutes_claim_witness:
  "claim_ledger dm_docs claimed_third (''arena_7_r3'', 42) = Some 50
   \<and> result (handleClaimReward (Some flaky_deps) ''arena'' 7 42 3) (empty_node, claimed_third) = Inr (False, 100)"
proof
  have names: "claimDocID ''arena_7_r3'' 42 = ''arena_7_r3:42''" "claimDocID ''arena_7'' 42 \<noteq> ''arena_7_r3:42''"
    "''arena'' @ ''_'' @ FormatInt 7 = ''arena_7''"
    unfolding claimDocID_def by code_simp+
  show "claim_ledger dm_docs claimed_third (''arena_7_r3'', 42) = Some 50"
    by (simp add: claim_ledger_def claimed_third_def names matches_byID stored_time_def)
  let ?load = "LoadRankConfig (dp_dao flaky_deps) (dp_mongo flaky_deps) (bizKey ''arena'' 7)"
  have load: "result ?load w = Inl (ErrText ''timeout'')" "exec ?load w = w" for w
    by (simp_all add: flaky_deps_def doc_deps_def LoadRankConfig_def dao_available_def decode_one_def)
  have now: "result (Now (en_lib (dp_env flaky_deps))) w = 100000000" "exec (Now (en_lib (dp_env flaky_deps))) w = w" for w
    by (simp_all add: flaky_deps_def doc_deps_def steady_lib_def)
  have "run_state (handleClaimReward (Some flaky_deps) ''arena'' 7 42 3) (empty_node, claimed_third) =
      (internal_error (result (AtomicClaim (dp_env flaky_deps) (store_of flaky_deps ''arena_7'') 42 100) claimed_third),
       (empty_node, exec (AtomicClaim (dp_env flaky_deps) (store_of flaky_deps ''arena_7'') 42 100) claimed_third))"
    by (rule failed_read_reroutes_claim [OF _ _ _ load(1), unfolded names(3)])
      (simp_all add: names load(2) now UnixMilli_def empty_node_def, simp add: flaky_deps_def doc_deps_def)
  moreover have "find (matches [(''_id'', BStr (claimDocID ''arena_7'' 42))]) (dm_docs claimed_third CT_RANK_CLAIM) = None"
    using names(2) by (simp add: claimed_third_def matches_def)
  ultimately show "result (handleClaimReward (Some flaky_deps) ''arena'' 7 42 3) (empty_node, claimed_third) = Inr (False, 100)"
    using flaky_claim [of "''arena_7''" 42 claimed_third] by (simp add: result_def internal_error_def)
qed


section \<open>Two notions of the present round\<close>

text \<open>Claim C40: a fault of the code. To route a request for round 0, the present round, the manager takes the
  greater of the round in Redis and the round in memory; the handler then takes the one in Redis,
  whichever is greater. So when Redis still holds an earlier round (errors of writing it are ignored)
  and the service of the present round is gone, a claim for the present round is, to the letter, a claim
  for the earlier round.\<close>

theorem stale_redis_round_wins:
  assumes "map_of (nd_states n) (bizKey b act) = Some s" "map_of (nd_engines n) (bizKey b act) = None"
    and "\<forall>w. run_state (RGet (dp_rdb D) (curRoundRedisKey (bizKey b act))) w = (v, w)"
    and "0 < parse_round v" "parse_round v < ps_currentRound s"
  shows "run_state (handleClaimReward (Some D) b act u 0) (n, w)
    = run_state (handleClaimReward (Some D) b act u (parse_round v)) (n, w)"
proof -
  have read: "result (RGet (dp_rdb D) (curRoundRedisKey (bizKey b act))) w = v"
    "exec (RGet (dp_rdb D) (curRoundRedisKey (bizKey b act))) w = w" for w
    using assms(3) by (simp_all add: result_def exec_def)
  show ?thesis
    using assms(1,2,4,5)
    by (simp add: run_state_split handleClaimReward_def with_manager_def ResolveEngineService_def GetState_def
        GetEngineService_def readCurRoundFromRedis_def read Let_def ClaimHistoricalReward_def resolveHistoricalRound_def
        bizKey_LogicalKey [symmetric])
qed

definition stale_deps :: "doc_mem deps" where
  "stale_deps = doc_deps\<lparr>dp_rdb := forgetful_redis\<lparr>RGet := (\<lambda>_. State_Monad.return (Inr (Txt (FormatInt 1))))\<rparr>\<rparr>"

theorem stale_redis_round_wins_witness:
  "run_state (handleClaimReward (Some stale_deps) ''arena'' 7 42 0)
      (empty_node\<lparr>nd_states := [(''arena:7'', first_round\<lparr>ps_currentRound := 2\<rparr>)]\<rparr>, empty_docs)
   = run_state (handleClaimReward (Some stale_deps) ''arena'' 7 42 1)
      (empty_node\<lparr>nd_states := [(''arena:7'', first_round\<lparr>ps_currentRound := 2\<rparr>)]\<rparr>, empty_docs)"
proof -
  have key: "bizKey ''arena'' 7 = ''arena:7''" by code_simp
  have one: "parse_round (Inr (Txt (FormatInt 1))) = 1"
    by (simp add: parse_round_def ParseInt32_FormatInt [of 1] in32_def)
  have "\<forall>w. run_state (RGet (dp_rdb stale_deps) (curRoundRedisKey (bizKey ''arena'' 7))) w = (Inr (Txt (FormatInt 1)), w)"
    by (simp add: stale_deps_def State_Monad.return_def)
  from stale_redis_round_wins [OF _ _ this, unfolded one, of "empty_node\<lparr>nd_states := [(''arena:7'', first_round\<lparr>ps_currentRound := 2\<rparr>)]\<rparr>"
      "first_round\<lparr>ps_currentRound := 2\<rparr>"]
  show ?thesis by (simp only: key) (simp add: empty_node_def)
qed

end
