(* ===== verification/Commands.thy ===== *)
theory Commands
  imports RpcHandlers
begin

text \<open>
  \<open>internal/dispatch/cmd.go\<close>, the names of the commands; \<open>internal/handler/register.go\<close> with
  \<open>registerRank\<close> and \<open>registerS2S\<close>, which enter the handlers in the dispatcher; \<open>handleS2SCompleted\<close>; and
  the methods of the gRPC service, \<open>internal/router/rpc/social\<close>, which send a request to the dispatcher under
  its command. The dispatcher and the protobuf codec are outside the repository.
\<close>

section \<open>Commands\<close>

definition CmdS2SUpsertScore :: string where "CmdS2SUpsertScore = ''rank.upsertScore''"
definition CmdS2SGetRankList :: string where "CmdS2SGetRankList = ''rank.getRankList''"
definition CmdS2SGetMemberRank :: string where "CmdS2SGetMemberRank = ''rank.getMemberRank''"
definition CmdS2SSettle :: string where "CmdS2SSettle = ''rank.settle''"
definition CmdS2SGetRewardUsers :: string where "CmdS2SGetRewardUsers = ''rank.getRewardUsers''"
definition CmdS2SClaimReward :: string where "CmdS2SClaimReward = ''rank.claimReward''"
definition CmdS2SGetClaimStatus :: string where "CmdS2SGetClaimStatus = ''rank.getClaimStatus''"
definition CmdS2SListRankBizTypes :: string where "CmdS2SListRankBizTypes = ''rank.listBizTypes''"
definition CmdS2SCreateRankConfig :: string where "CmdS2SCreateRankConfig = ''rank.createConfig''"
definition CmdS2SGetRankConfig :: string where "CmdS2SGetRankConfig = ''rank.getConfig''"
definition CmdS2SUpdateRankConfig :: string where "CmdS2SUpdateRankConfig = ''rank.updateConfig''"
definition CmdS2SDeleteRankConfig :: string where "CmdS2SDeleteRankConfig = ''rank.deleteConfig''"
definition CmdS2SListRankConfigs :: string where "CmdS2SListRankConfigs = ''rank.listConfigs''"
definition CmdS2SGetRankCurRound :: string where "CmdS2SGetRankCurRound = ''rank.getCurRound''"
definition CmdS2SGMGetUserRankList :: string where "CmdS2SGMGetUserRankList = ''rank.gm.userRankList''"
definition CmdS2SGMGetGroupRankList :: string where "CmdS2SGMGetGroupRankList = ''rank.gm.groupRankList''"
definition CmdS2SGMGetRankInstanceList :: string where "CmdS2SGMGetRankInstanceList = ''rank.gm.instanceList''"
definition CmdS2SGMGetInstanceRankList :: string where "CmdS2SGMGetInstanceRankList = ''rank.gm.instanceRankList''"
definition CmdS2SCompleted :: string where "CmdS2SCompleted = ''s2s.completed''"

lemmas cmd_defs = CmdS2SUpsertScore_def CmdS2SGetRankList_def CmdS2SGetMemberRank_def CmdS2SSettle_def
  CmdS2SGetRewardUsers_def CmdS2SClaimReward_def CmdS2SGetClaimStatus_def CmdS2SListRankBizTypes_def
  CmdS2SCreateRankConfig_def CmdS2SGetRankConfig_def CmdS2SUpdateRankConfig_def CmdS2SDeleteRankConfig_def
  CmdS2SListRankConfigs_def CmdS2SGetRankCurRound_def CmdS2SGMGetUserRankList_def CmdS2SGMGetGroupRankList_def
  CmdS2SGMGetRankInstanceList_def CmdS2SGMGetInstanceRankList_def
  CmdS2SCompleted_def

section \<open>Requests and responses\<close>

text \<open>The fields of the generated message types that the handlers read and set.\<close>

record completed_resp =
  cp_UserId :: string
  cp_Result :: int32
  cp_Code :: int32
  cp_Msg :: string

definition handleS2SCompleted :: "string \<Rightarrow> completed_resp" where
  "handleS2SCompleted userId = \<lparr>cp_UserId = userId, cp_Result = 1, cp_Code = 0, cp_Msg = ''success''\<rparr>"

datatype rpc_req =
    UpsertScoreReq string int32 int64 int64 int64 int32 "pb_avatar option"
  | GetRankListReq string int32 int64 int64 int64 int32
  | GetMemberRankReq string int32 int64 int32
  | SettleReq string int32
  | GetRewardUsersReq string int32 int32
  | ClaimRewardReq string int32 int64 int32
  | GetClaimStatusReq string int32 int64 int32
  | ListRankBizTypesReq
  | CreateRankConfigReq string int32 int64 int64 int64
  | GetRankConfigReq string int32
  | UpdateRankConfigReq string int32 int64 int64 int64
  | DeleteRankConfigReq string int32
  | ListRankConfigsReq string
  | GetRankCurRoundReq string int32
  | GMGetUserRankListReq int64
  | GMGetGroupRankListReq string int32 int32
  | GMGetRankInstanceListReq string int32
  | GMGetInstanceRankListReq string int32 int32
  | CompletedReq string

datatype rpc_resp =
    UpsertScoreResp upsert_resp
  | GetRankListResp list_resp
  | GetMemberRankResp member_resp
  | SettleResp "(int32 \<times> pb_snapshot list) list"
  | GetRewardUsersResp msg_code "int64 list"
  | ClaimRewardResp bool int64
  | GetClaimStatusResp bool int64
  | ListRankBizTypesResp msg_code "string list"
  | CreateRankConfigResp
  | GetRankConfigResp config_resp
  | UpdateRankConfigResp
  | DeleteRankConfigResp
  | ListRankConfigsResp "config_summary list"
  | GetRankCurRoundResp msg_code "round_info option"
  | GMGetUserRankListResp "user_entry list"
  | GMGetGroupRankListResp msg_code "pb_snapshot list"
  | GMGetRankInstanceListResp "group_row list"
  | GMGetInstanceRankListResp "int32 \<times> string \<times> pb_snapshot list"
  | CompletedResp completed_resp

text \<open>A handler takes the requests of its type; its outcome is its status or its response.\<close>

type_synonym 'w rpc_handler = "rpc_req \<Rightarrow> ('w, status + rpc_resp) nd option"

definition respond :: "('a \<Rightarrow> rpc_resp) \<Rightarrow> ('w, status + 'a) nd \<Rightarrow> ('w, status + rpc_resp) nd" where
  "respond f h = do { r \<leftarrow> h; State_Monad.return (map_sum id f r) }"

definition respond_unit :: "rpc_resp \<Rightarrow> ('w, status option) nd \<Rightarrow> ('w, status + rpc_resp) nd" where
  "respond_unit resp h = do { r \<leftarrow> h; State_Monad.return (case r of None \<Rightarrow> Inr resp | Some st \<Rightarrow> Inl st) }"

text \<open>What the handler of a request answers.\<close>

fun answer :: "'w deps option \<Rightarrow> 'w config_files \<Rightarrow> rpc_req \<Rightarrow> ('w, status + rpc_resp) nd" where
  "answer m files (UpsertScoreReq x1 x2 x3 x4 x5 x6 x7) = respond UpsertScoreResp (handleUpsertScore m x1 x2 x3 x4 x5 x6 x7)"
| "answer m files (GetRankListReq x1 x2 x3 x4 x5 x6) = respond GetRankListResp (handleGetRankList m x1 x2 x3 x4 x5 x6)"
| "answer m files (GetMemberRankReq x1 x2 x3 x4) = respond GetMemberRankResp (handleGetMemberRank m x1 x2 x3 x4)"
| "answer m files (SettleReq x1 x2) = respond SettleResp (handleSettle m x1 x2)"
| "answer m files (GetRewardUsersReq x1 x2 x3) = respond (case_prod GetRewardUsersResp) (handleGetRewardUsers m x1 x2 x3)"
| "answer m files (ClaimRewardReq x1 x2 x3 x4) = respond (case_prod ClaimRewardResp) (handleClaimReward m x1 x2 x3 x4)"
| "answer m files (GetClaimStatusReq x1 x2 x3 x4) = respond (case_prod GetClaimStatusResp) (handleGetClaimStatus m x1 x2 x3 x4)"
| "answer m files (ListRankBizTypesReq) = respond (case_prod ListRankBizTypesResp) (lift_ext (do { r \<leftarrow> handleListRankBizTypes files; State_Monad.return (Inr r) }))"
| "answer m files (CreateRankConfigReq x1 x2 x3 x4 x5) = respond_unit CreateRankConfigResp (handleCreateRankConfig m x1 x2 x3 x4 x5)"
| "answer m files (GetRankConfigReq x1 x2) = respond GetRankConfigResp (handleGetRankConfig m x1 x2)"
| "answer m files (UpdateRankConfigReq x1 x2 x3 x4 x5) = respond_unit UpdateRankConfigResp (handleUpdateRankConfig m x1 x2 x3 x4 x5)"
| "answer m files (DeleteRankConfigReq x1 x2) = respond_unit DeleteRankConfigResp (handleDeleteRankConfig m x1 x2)"
| "answer m files (ListRankConfigsReq x1) = respond ListRankConfigsResp (handleListRankConfigs m x1)"
| "answer m files (GetRankCurRoundReq x1 x2) = respond (case_prod GetRankCurRoundResp) (handleGetRankCurRound m x1 x2)"
| "answer m files (GMGetUserRankListReq x1) = respond GMGetUserRankListResp (handleGMGetUserRankList m x1)"
| "answer m files (GMGetGroupRankListReq x1 x2 x3) = respond (case_prod GMGetGroupRankListResp) (handleGMGetGroupRankList m x1 x2 x3)"
| "answer m files (GMGetRankInstanceListReq x1 x2) = respond GMGetRankInstanceListResp (handleGMGetRankInstanceList m x1 x2)"
| "answer m files (GMGetInstanceRankListReq x1 x2 x3) = respond GMGetInstanceRankListResp (handleGMGetInstanceRankList m x1 x2 x3)"
| "answer m files (CompletedReq x1) = respond CompletedResp (State_Monad.return (Inr (handleS2SCompleted x1)))"

section \<open>Registration\<close>

text \<open>Each handler takes the messages of one type.\<close>

definition hUpsertScore :: "'w deps option \<Rightarrow> 'w rpc_handler" where
  "hUpsertScore m q = (case q of UpsertScoreReq x1 x2 x3 x4 x5 x6 x7 \<Rightarrow> Some (respond UpsertScoreResp (handleUpsertScore m x1 x2 x3 x4 x5 x6 x7)) | _ \<Rightarrow> None)"

definition hGetRankList :: "'w deps option \<Rightarrow> 'w rpc_handler" where
  "hGetRankList m q = (case q of GetRankListReq x1 x2 x3 x4 x5 x6 \<Rightarrow> Some (respond GetRankListResp (handleGetRankList m x1 x2 x3 x4 x5 x6)) | _ \<Rightarrow> None)"

definition hGetMemberRank :: "'w deps option \<Rightarrow> 'w rpc_handler" where
  "hGetMemberRank m q = (case q of GetMemberRankReq x1 x2 x3 x4 \<Rightarrow> Some (respond GetMemberRankResp (handleGetMemberRank m x1 x2 x3 x4)) | _ \<Rightarrow> None)"

definition hSettle :: "'w deps option \<Rightarrow> 'w rpc_handler" where
  "hSettle m q = (case q of SettleReq x1 x2 \<Rightarrow> Some (respond SettleResp (handleSettle m x1 x2)) | _ \<Rightarrow> None)"

definition hGetRewardUsers :: "'w deps option \<Rightarrow> 'w rpc_handler" where
  "hGetRewardUsers m q = (case q of GetRewardUsersReq x1 x2 x3 \<Rightarrow> Some (respond (case_prod GetRewardUsersResp) (handleGetRewardUsers m x1 x2 x3)) | _ \<Rightarrow> None)"

definition hClaimReward :: "'w deps option \<Rightarrow> 'w rpc_handler" where
  "hClaimReward m q = (case q of ClaimRewardReq x1 x2 x3 x4 \<Rightarrow> Some (respond (case_prod ClaimRewardResp) (handleClaimReward m x1 x2 x3 x4)) | _ \<Rightarrow> None)"

definition hGetClaimStatus :: "'w deps option \<Rightarrow> 'w rpc_handler" where
  "hGetClaimStatus m q = (case q of GetClaimStatusReq x1 x2 x3 x4 \<Rightarrow> Some (respond (case_prod GetClaimStatusResp) (handleGetClaimStatus m x1 x2 x3 x4)) | _ \<Rightarrow> None)"

definition hListRankBizTypes :: "'w config_files \<Rightarrow> 'w rpc_handler" where
  "hListRankBizTypes files q = (case q of ListRankBizTypesReq \<Rightarrow> Some (respond (case_prod ListRankBizTypesResp) (lift_ext (do { r \<leftarrow> handleListRankBizTypes files; State_Monad.return (Inr r) }))) | _ \<Rightarrow> None)"

definition hCreateRankConfig :: "'w deps option \<Rightarrow> 'w rpc_handler" where
  "hCreateRankConfig m q = (case q of CreateRankConfigReq x1 x2 x3 x4 x5 \<Rightarrow> Some (respond_unit CreateRankConfigResp (handleCreateRankConfig m x1 x2 x3 x4 x5)) | _ \<Rightarrow> None)"

definition hGetRankConfig :: "'w deps option \<Rightarrow> 'w rpc_handler" where
  "hGetRankConfig m q = (case q of GetRankConfigReq x1 x2 \<Rightarrow> Some (respond GetRankConfigResp (handleGetRankConfig m x1 x2)) | _ \<Rightarrow> None)"

definition hUpdateRankConfig :: "'w deps option \<Rightarrow> 'w rpc_handler" where
  "hUpdateRankConfig m q = (case q of UpdateRankConfigReq x1 x2 x3 x4 x5 \<Rightarrow> Some (respond_unit UpdateRankConfigResp (handleUpdateRankConfig m x1 x2 x3 x4 x5)) | _ \<Rightarrow> None)"

definition hDeleteRankConfig :: "'w deps option \<Rightarrow> 'w rpc_handler" where
  "hDeleteRankConfig m q = (case q of DeleteRankConfigReq x1 x2 \<Rightarrow> Some (respond_unit DeleteRankConfigResp (handleDeleteRankConfig m x1 x2)) | _ \<Rightarrow> None)"

definition hListRankConfigs :: "'w deps option \<Rightarrow> 'w rpc_handler" where
  "hListRankConfigs m q = (case q of ListRankConfigsReq x1 \<Rightarrow> Some (respond ListRankConfigsResp (handleListRankConfigs m x1)) | _ \<Rightarrow> None)"

definition hGetRankCurRound :: "'w deps option \<Rightarrow> 'w rpc_handler" where
  "hGetRankCurRound m q = (case q of GetRankCurRoundReq x1 x2 \<Rightarrow> Some (respond (case_prod GetRankCurRoundResp) (handleGetRankCurRound m x1 x2)) | _ \<Rightarrow> None)"

definition hGMGetUserRankList :: "'w deps option \<Rightarrow> 'w rpc_handler" where
  "hGMGetUserRankList m q = (case q of GMGetUserRankListReq x1 \<Rightarrow> Some (respond GMGetUserRankListResp (handleGMGetUserRankList m x1)) | _ \<Rightarrow> None)"

definition hGMGetGroupRankList :: "'w deps option \<Rightarrow> 'w rpc_handler" where
  "hGMGetGroupRankList m q = (case q of GMGetGroupRankListReq x1 x2 x3 \<Rightarrow> Some (respond (case_prod GMGetGroupRankListResp) (handleGMGetGroupRankList m x1 x2 x3)) | _ \<Rightarrow> None)"

definition hGMGetRankInstanceList :: "'w deps option \<Rightarrow> 'w rpc_handler" where
  "hGMGetRankInstanceList m q = (case q of GMGetRankInstanceListReq x1 x2 \<Rightarrow> Some (respond GMGetRankInstanceListResp (handleGMGetRankInstanceList m x1 x2)) | _ \<Rightarrow> None)"

definition hGMGetInstanceRankList :: "'w deps option \<Rightarrow> 'w rpc_handler" where
  "hGMGetInstanceRankList m q = (case q of GMGetInstanceRankListReq x1 x2 x3 \<Rightarrow> Some (respond GMGetInstanceRankListResp (handleGMGetInstanceRankList m x1 x2 x3)) | _ \<Rightarrow> None)"

definition hCompleted :: "'w rpc_handler" where
  "hCompleted q = (case q of CompletedReq x1 \<Rightarrow> Some (respond CompletedResp (State_Monad.return (Inr (handleS2SCompleted x1)))) | _ \<Rightarrow> None)"

lemmas handler_defs = hUpsertScore_def hGetRankList_def hGetMemberRank_def hSettle_def hGetRewardUsers_def
  hClaimReward_def hGetClaimStatus_def hListRankBizTypes_def hCreateRankConfig_def hGetRankConfig_def
  hUpdateRankConfig_def hDeleteRankConfig_def hListRankConfigs_def hGetRankCurRound_def hGMGetUserRankList_def
  hGMGetGroupRankList_def hGMGetRankInstanceList_def hGMGetInstanceRankList_def hCompleted_def

text \<open>\<open>registerRank\<close> in its order.\<close>

definition rank_registrations :: "'w deps option \<Rightarrow> 'w config_files \<Rightarrow> (string \<times> 'w rpc_handler) list" where
  "rank_registrations m files = [
     (CmdS2SUpsertScore, hUpsertScore m),
     (CmdS2SGetRankList, hGetRankList m),
     (CmdS2SGetMemberRank, hGetMemberRank m),
     (CmdS2SSettle, hSettle m),
     (CmdS2SGetRewardUsers, hGetRewardUsers m),
     (CmdS2SClaimReward, hClaimReward m),
     (CmdS2SGetClaimStatus, hGetClaimStatus m),
     (CmdS2SListRankBizTypes, hListRankBizTypes files),
     (CmdS2SCreateRankConfig, hCreateRankConfig m),
     (CmdS2SGetRankConfig, hGetRankConfig m),
     (CmdS2SUpdateRankConfig, hUpdateRankConfig m),
     (CmdS2SDeleteRankConfig, hDeleteRankConfig m),
     (CmdS2SListRankConfigs, hListRankConfigs m),
     (CmdS2SGetRankCurRound, hGetRankCurRound m),
     (CmdS2SGMGetUserRankList, hGMGetUserRankList m),
     (CmdS2SGMGetGroupRankList, hGMGetGroupRankList m),
     (CmdS2SGMGetRankInstanceList, hGMGetRankInstanceList m),
     (CmdS2SGMGetInstanceRankList, hGMGetInstanceRankList m)]"

text \<open>The elements of the list of errors are all evaluated before the first error is looked for.\<close>

fun register_each :: "(string \<Rightarrow> 'h \<Rightarrow> ('d, goerr option) state) \<Rightarrow> (string \<times> 'h) list \<Rightarrow> ('d, goerr option list) state" where
  "register_each register [] = State_Monad.return []"
| "register_each register ((c, h) # cs) = do {
     err \<leftarrow> register c h;
     errs \<leftarrow> register_each register cs;
     State_Monad.return (err # errs)
   }"

fun first_error :: "goerr option list \<Rightarrow> goerr option" where
  "first_error [] = None"
| "first_error (err # errs) = (if err \<noteq> None then err else first_error errs)"

definition registerRank :: "'w deps option \<Rightarrow> 'w config_files \<Rightarrow> (string \<Rightarrow> 'w rpc_handler \<Rightarrow> ('d, goerr option) state)
    \<Rightarrow> ('d, goerr option) state" where
  "registerRank m files register = do {
     cmds \<leftarrow> register_each register (rank_registrations m files);
     State_Monad.return (first_error cmds)
   }"

definition registerS2S :: "(string \<Rightarrow> 'w rpc_handler \<Rightarrow> ('d, goerr option) state) \<Rightarrow> ('d, goerr option) state" where
  "registerS2S register = register CmdS2SCompleted hCompleted"

text \<open>Here the first error ends the loop.\<close>

fun run_until_error :: "('d, goerr option) state list \<Rightarrow> ('d, goerr option) state" where
  "run_until_error [] = State_Monad.return None"
| "run_until_error (f # fs) = do { err \<leftarrow> f; if err \<noteq> None then State_Monad.return err else run_until_error fs }"

definition RegisterAll :: "'w deps option \<Rightarrow> 'w config_files \<Rightarrow> (string \<Rightarrow> 'w rpc_handler \<Rightarrow> ('d, goerr option) state)
    \<Rightarrow> ('d, goerr option) state" where
  "RegisterAll m files register = run_until_error [registerRank m files register, registerS2S register]"

section \<open>The methods of the gRPC service\<close>

text \<open>\<open>rank_handler.go\<close>: the command a method sends its request under.\<close>

fun method_cmd :: "rpc_req \<Rightarrow> string" where
  "method_cmd (UpsertScoreReq _ _ _ _ _ _ _) = CmdS2SUpsertScore"
| "method_cmd (GetRankListReq _ _ _ _ _ _) = CmdS2SGetRankList"
| "method_cmd (GetMemberRankReq _ _ _ _) = CmdS2SGetMemberRank"
| "method_cmd (SettleReq _ _) = CmdS2SSettle"
| "method_cmd (GetRewardUsersReq _ _ _) = CmdS2SGetRewardUsers"
| "method_cmd (ClaimRewardReq _ _ _ _) = CmdS2SClaimReward"
| "method_cmd (GetClaimStatusReq _ _ _ _) = CmdS2SGetClaimStatus"
| "method_cmd ListRankBizTypesReq = CmdS2SListRankBizTypes"
| "method_cmd (CreateRankConfigReq _ _ _ _ _) = CmdS2SCreateRankConfig"
| "method_cmd (GetRankConfigReq _ _) = CmdS2SGetRankConfig"
| "method_cmd (UpdateRankConfigReq _ _ _ _ _) = CmdS2SUpdateRankConfig"
| "method_cmd (DeleteRankConfigReq _ _) = CmdS2SDeleteRankConfig"
| "method_cmd (ListRankConfigsReq _) = CmdS2SListRankConfigs"
| "method_cmd (GetRankCurRoundReq _ _) = CmdS2SGetRankCurRound"
| "method_cmd (GMGetUserRankListReq _) = CmdS2SGMGetUserRankList"
| "method_cmd (GMGetGroupRankListReq _ _ _) = CmdS2SGMGetGroupRankList"
| "method_cmd (GMGetRankInstanceListReq _ _) = CmdS2SGMGetRankInstanceList"
| "method_cmd (GMGetInstanceRankListReq _ _ _) = CmdS2SGMGetInstanceRankList"
| "method_cmd (CompletedReq _) = CmdS2SCompleted"

text \<open>The codec and the dispatcher: \<open>'b\<close> are encoded messages, \<open>'e\<close> the dispatcher's errors, in whose chain
  \<open>errors.As\<close> may find a status.\<close>

record ('w, 'b, 'e) transport =
  MarshalReq :: "rpc_req \<Rightarrow> goerr + 'b"
  UnmarshalResp :: "rpc_req \<Rightarrow> 'b \<Rightarrow> goerr + rpc_resp"
  Dispatch :: "string \<Rightarrow> 'b \<Rightarrow> ('w, 'e + 'b) nd"
  statusIn :: "'e \<Rightarrow> status option"
  errorText :: "'e \<Rightarrow> goerr"

definition dispatchToGRPCErr :: "('w, 'b, 'e) transport \<Rightarrow> 'e \<Rightarrow> status" where
  "dispatchToGRPCErr T err = (case statusIn T err of Some st \<Rightarrow> st | None \<Rightarrow> Status Internal (errorText T err))"

definition grpcDispatch :: "('w, 'b, 'e) transport \<Rightarrow> string \<Rightarrow> rpc_req \<Rightarrow> ('w, status + rpc_resp) nd" where
  "grpcDispatch T cmd req = (case MarshalReq T req of
     Inl err \<Rightarrow> State_Monad.return (Inl (Status Internal err))
   | Inr payload \<Rightarrow> do {
       r \<leftarrow> Dispatch T cmd payload;
       State_Monad.return (case r of
           Inl dispatchErr \<Rightarrow> Inl (dispatchToGRPCErr T dispatchErr)
         | Inr respBytes \<Rightarrow> (case UnmarshalResp T req respBytes of
               Inl err \<Rightarrow> Inl (Status Internal err) | Inr resp \<Rightarrow> Inr resp))
     })"

definition serve :: "('w, 'b, 'e) transport \<Rightarrow> rpc_req \<Rightarrow> ('w, status + rpc_resp) nd" where
  "serve T req = grpcDispatch T (method_cmd req) req"

end
