(* ===== verification/RequestPaths.thy ===== *)
theory RequestPaths
  imports Commands NodeWorld
begin

text \<open>
  From the gRPC method to the handler: start-up enters every handler under its own command or fails, and
  then a call of a method is answered by the handler of that method. \<open>dispatcher_laws\<close> and
  \<open>transport_laws\<close> are what \<open>golib/dispatch\<close> documents; a dispatcher in memory satisfies them.
\<close>

section \<open>Registration\<close>

text \<open>The handlers a dispatcher holds: a new command is entered, a known one is an error and stays as it is.\<close>

definition dispatcher_laws :: "(string \<Rightarrow> 'h \<Rightarrow> ('d, goerr option) state) \<Rightarrow> ('d \<Rightarrow> string \<Rightarrow> 'h option) \<Rightarrow> bool" where
  "dispatcher_laws register table \<longleftrightarrow> (\<forall>c h d.
     (result (register c h) d = None \<longleftrightarrow> table d c = None)
   \<and> table (exec (register c h) d) = (if table d c = None then (table d)(c \<mapsto> h) else table d))"

lemma dispatcherD:
  assumes "dispatcher_laws register table"
  shows "result (register c h) d = None \<longleftrightarrow> table d c = None"
    "table (exec (register c h) d) = (if table d c = None then (table d)(c \<mapsto> h) else table d)"
  using assms unfolding dispatcher_laws_def by blast+

lemma register_each_outcome:
  assumes "dispatcher_laws register table"
  shows "first_error (result (register_each register cs) d) = None \<longleftrightarrow>
      distinct (map fst cs) \<and> (\<forall>c \<in> fst ` set cs. table d c = None)"
    and "first_error (result (register_each register cs) d) = None \<Longrightarrow>
      table (exec (register_each register cs) d) = table d ++ map_of cs"
proof (induction cs arbitrary: d)
  case (Cons x cs)
  obtain c h where x: "x = (c, h)" by (cases x)
  note R = dispatcherD [OF assms, of c h]
  case 1
  show ?case
  proof (cases "table d c = None")
    case True
    have "result (register c h) d = None" using R(1) True by simp
    moreover have "table (exec (register c h) d) = (table d)(c \<mapsto> h)" using R(2) True by simp
    ultimately show ?thesis using Cons(1) [of "exec (register c h) d"] True by (auto simp: x)
  next
    case False
    then show ?thesis using R(1) by (auto simp: x)
  qed
  case 2
  then have new: "table d c = None" "first_error (result (register_each register cs) (exec (register c h) d)) = None"
    using R by (auto simp: x split: if_splits)
  then have t: "table (exec (register c h) d) = (table d)(c \<mapsto> h)" using R by simp
  have "c \<notin> fst ` set cs" using Cons(1) [of "exec (register c h) d"] new(2) t by auto
  then have "map_of cs c = None" by (simp add: map_of_eq_None_iff)
  then show ?case using Cons(2) [OF new(2)] t by (auto simp: x map_add_def fun_eq_iff split: option.splits)
qed simp_all

lemma distinct_commands: "distinct (CmdS2SCompleted # map fst (rank_registrations m files))"
  by (simp add: rank_registrations_def cmd_defs)

lemma RegisterAll_outcome:
  fixes register :: "string \<Rightarrow> 'w rpc_handler \<Rightarrow> ('d, goerr option) state"
  assumes laws: "dispatcher_laws register table"
    and rs: "rs = rank_registrations m files"
  shows "result (RegisterAll m files register) d = None \<longleftrightarrow>
      table d CmdS2SCompleted = None \<and> (\<forall>c \<in> fst ` set rs. table d c = None)"
    and "result (RegisterAll m files register) d = None \<Longrightarrow>
      table (exec (RegisterAll m files register) d) = (table d ++ map_of rs)(CmdS2SCompleted \<mapsto> hCompleted)"
proof -
  note E = register_each_outcome [OF laws, where cs = rs and d = d]
  define d1 where "d1 = exec (register_each register rs) d"
  note S = dispatcherD [OF laws, of CmdS2SCompleted hCompleted d1]
  have code: "result (RegisterAll m files register) d = (if first_error (result (register_each register rs) d) \<noteq> None
        then first_error (result (register_each register rs) d) else result (register CmdS2SCompleted hCompleted) d1)"
    "first_error (result (register_each register rs) d) = None \<Longrightarrow>
      exec (RegisterAll m files register) d = exec (register CmdS2SCompleted hCompleted) d1"
    by (simp_all add: RegisterAll_def registerRank_def registerS2S_def d1_def rs)
  have names: "distinct (map fst rs)" "CmdS2SCompleted \<notin> fst ` set rs"
    using distinct_commands [of m files] by (simp_all add: rs)
  then have none: "map_of rs CmdS2SCompleted = None" by (simp add: map_of_eq_None_iff)
  have t1: "table d1 = table d ++ map_of rs" if "first_error (result (register_each register rs) d) = None"
    unfolding d1_def using E(2) [OF that] .
  show "result (RegisterAll m files register) d = None \<longleftrightarrow>
      table d CmdS2SCompleted = None \<and> (\<forall>c \<in> fst ` set rs. table d c = None)"
    using E(1) names(1) S(1) t1 none unfolding code(1) by (auto simp: map_add_def)
  show "result (RegisterAll m files register) d = None \<Longrightarrow>
      table (exec (RegisterAll m files register) d) = (table d ++ map_of rs)(CmdS2SCompleted \<mapsto> hCompleted)"
    using S t1 code by (auto split: if_splits)
qed

section \<open>From the method to the handler\<close>

text \<open>A request is encoded, a command the dispatcher holds is run on the request, a response comes back as it
  was, and the status a handler fails with is found in the error of the dispatcher.\<close>

definition transport_laws :: "('w, 'b, 'e) transport \<Rightarrow> (string \<Rightarrow> 'w rpc_handler option) \<Rightarrow> bool" where
  "transport_laws T held \<longleftrightarrow> (\<forall>q. \<exists>p. MarshalReq T q = Inr p
     \<and> (\<forall>c h a. held c = Some h \<longrightarrow> h q = Some a \<longrightarrow> (\<forall>nw. exec (Dispatch T c p) nw = exec a nw
         \<and> (\<forall>st. result a nw = Inl st \<longrightarrow> (\<exists>e. result (Dispatch T c p) nw = Inl e \<and> statusIn T e = Some st))
         \<and> (\<forall>resp. result a nw = Inr resp \<longrightarrow>
              (\<exists>b. result (Dispatch T c p) nw = Inr b \<and> UnmarshalResp T q b = Inr resp)))))"

lemma grpcDispatch_held:
  assumes "transport_laws T held" "held c = Some h" "h q = Some a"
  shows "run_state (grpcDispatch T c q) nw = run_state a nw"
proof -
  obtain p where m: "MarshalReq T q = Inr p" and held: "\<forall>c h a. held c = Some h \<longrightarrow> h q = Some a \<longrightarrow>
      (\<forall>nw. exec (Dispatch T c p) nw = exec a nw
         \<and> (\<forall>st. result a nw = Inl st \<longrightarrow> (\<exists>e. result (Dispatch T c p) nw = Inl e \<and> statusIn T e = Some st))
         \<and> (\<forall>resp. result a nw = Inr resp \<longrightarrow>
              (\<exists>b. result (Dispatch T c p) nw = Inr b \<and> UnmarshalResp T q b = Inr resp)))"
    using assms(1) unfolding transport_laws_def by (elim allE [of _ q] exE conjE)
  from held assms(2,3) have p: "exec (Dispatch T c p) nw = exec a nw"
      "\<And>st. result a nw = Inl st \<Longrightarrow> \<exists>e. result (Dispatch T c p) nw = Inl e \<and> statusIn T e = Some st"
      "\<And>resp. result a nw = Inr resp \<Longrightarrow> \<exists>b. result (Dispatch T c p) nw = Inr b \<and> UnmarshalResp T q b = Inr resp"
    by blast+
  show ?thesis
  proof (cases "result a nw")
    case (Inl st)
    then show ?thesis using m p(1) p(2) [OF Inl] by (auto simp: run_state_split grpcDispatch_def dispatchToGRPCErr_def)
  next
    case (Inr resp)
    then show ?thesis using m p(1) p(3) [OF Inr] by (auto simp: run_state_split grpcDispatch_def)
  qed
qed

text \<open>The handler entered under the command of a request's method takes that request and gives its answer.\<close>

lemma entered_handler:
  "\<exists>h. ((tbl ++ map_of (rank_registrations m files))(CmdS2SCompleted \<mapsto> hCompleted)) (method_cmd q) = Some h
     \<and> h q = Some (answer m files q)"
  by (cases q) (simp_all add: rank_registrations_def cmd_defs map_add_def handler_defs)


text \<open>Claim C8: every method of the gRPC service is answered by its own handler. Start-up enters the nineteen
  commands and succeeds exactly when the dispatcher holds none of them yet. After that, whatever request
  is sent to its method, the caller gets the response or the status of the handler of that method, run
  once on the fields of the request, and nothing else has happened: no two methods share a command, no
  handler is entered under the command of another, and no status is lost on the way back.\<close>

theorem requests_reach_their_handlers:
  fixes register :: "string \<Rightarrow> 'w rpc_handler \<Rightarrow> ('d, goerr option) state"
  assumes "dispatcher_laws register table"
  shows "(result (RegisterAll m files register) d = None \<longleftrightarrow>
       table d CmdS2SCompleted = None \<and> (\<forall>c \<in> fst ` set (rank_registrations m files). table d c = None))
    \<and> (result (RegisterAll m files register) d = None \<and> transport_laws T (table (exec (RegisterAll m files register) d)) \<longrightarrow>
       run_state (serve T q) nw = run_state (answer m files q) nw)"
proof (intro conjI impI)
  show "run_state (serve T q) nw = run_state (answer m files q) nw"
    if "result (RegisterAll m files register) d = None \<and> transport_laws T (table (exec (RegisterAll m files register) d))"
  proof -
    have "table (exec (RegisterAll m files register) d) =
        (table d ++ map_of (rank_registrations m files))(CmdS2SCompleted \<mapsto> hCompleted)"
      by (rule RegisterAll_outcome(2) [OF assms refl]) (use that in simp)
    then obtain h where "table (exec (RegisterAll m files register) d) (method_cmd q) = Some h" "h q = Some (answer m files q)"
      using entered_handler [of "table d" m files q] by auto
    then show ?thesis using grpcDispatch_held that unfolding serve_def by blast
  qed
qed (rule RegisterAll_outcome(1) [OF assms refl])

section \<open>Witnesses\<close>

text \<open>A dispatcher that is an association list, and a codec that leaves messages as they are.\<close>

definition list_register :: "string \<Rightarrow> 'h \<Rightarrow> ((string \<times> 'h) list, goerr option) state" where
  "list_register c h = State (\<lambda>d. if map_of d c = None then (None, d @ [(c, h)]) else (Some (ErrText ''duplicate''), d))"

lemma list_register_laws: "dispatcher_laws list_register map_of"
  by (auto simp: dispatcher_laws_def list_register_def map_of_append map_add_def fun_eq_iff split: option.split)

definition plain_transport :: "(string \<Rightarrow> 'w rpc_handler option) \<Rightarrow> ('w, rpc_req + rpc_resp, goerr + status) transport" where
  "plain_transport held = \<lparr>MarshalReq = (\<lambda>q. Inr (Inl q)),
     UnmarshalResp = (\<lambda>q b. case b of Inl _ \<Rightarrow> Inl (ErrText ''proto'') | Inr resp \<Rightarrow> Inr resp),
     Dispatch = (\<lambda>c b. case held c of
         None \<Rightarrow> State_Monad.return (Inl (Inl (ErrText ''unknown command'')))
       | Some h \<Rightarrow> (case b of Inr _ \<Rightarrow> State_Monad.return (Inl (Inl (ErrText ''proto'')))
           | Inl q \<Rightarrow> (case h q of None \<Rightarrow> State_Monad.return (Inl (Inl (ErrText ''proto'')))
               | Some a \<Rightarrow> do { r \<leftarrow> a;
                   State_Monad.return (case r of Inl st \<Rightarrow> Inl (Inr st) | Inr resp \<Rightarrow> Inr (Inr resp)) }))),
     statusIn = (\<lambda>e. case e of Inl _ \<Rightarrow> None | Inr st \<Rightarrow> Some st),
     errorText = (\<lambda>e. case e of Inl t \<Rightarrow> t | Inr (Status c t) \<Rightarrow> t)\<rparr>"

lemma plain_transport_laws: "transport_laws (plain_transport held) held"
  by (auto simp: transport_laws_def plain_transport_def)

theorem requests_reach_their_handlers_witness:
  "run_state (serve (plain_transport (map_of (exec (RegisterAll (Some mem_deps) (dp_files mem_deps) list_register) [])))
      (CompletedReq ''u1'')) (empty_node, empty_mem)
   = (Inr (CompletedResp \<lparr>cp_UserId = ''u1'', cp_Result = 1, cp_Code = 0, cp_Msg = ''success''\<rparr>), (empty_node, empty_mem))"
proof -
  let ?d = "exec (RegisterAll (Some mem_deps) (dp_files mem_deps) list_register) []"
  have "result (RegisterAll (Some mem_deps) (dp_files mem_deps) list_register) [] = None
     \<and> (result (RegisterAll (Some mem_deps) (dp_files mem_deps) list_register) [] = None
        \<and> transport_laws (plain_transport (map_of ?d)) (map_of ?d) \<longrightarrow>
      run_state (serve (plain_transport (map_of ?d)) (CompletedReq ''u1'')) (empty_node, empty_mem)
      = run_state (answer (Some mem_deps) (dp_files mem_deps) (CompletedReq ''u1'')) (empty_node, empty_mem))"
    using requests_reach_their_handlers [OF list_register_laws, of "Some mem_deps" "dp_files mem_deps" "[]"
        "plain_transport (map_of ?d)" "CompletedReq ''u1''" "(empty_node, empty_mem)"] by simp
  then show ?thesis
    using plain_transport_laws [of "map_of ?d"] by (simp add: run_state_split respond_def handleS2SCompleted_def)
qed

end
