(* ===== verification/Background.thy ===== *)
theory Background
  imports NodeInvariant
begin

text \<open>
  The goroutines of the manager (\<open>startBackground\<close>, \<open>tickLoop\<close>, \<open>syncLoop\<close>, \<open>subscribeDeleteEvents\<close>,
  \<open>subscribeCreateEvents\<close> of \<open>internal/rank/manager.go\<close>) and \<open>Close\<close>, as a step relation: a \<open>select\<close> is
  a choice between the steps of its cases that are ready. Each step of a loop runs one tick, one
  synchronisation or one message; requests, timers and tasks of the pool happen in between.
\<close>

section \<open>The loops\<close>

text \<open>Where a subscription loop is: at its head, before or after \<open>Subscribe\<close>, in the pause after a failure,
  or returned.\<close>

datatype sub_state = AtHead | Subscribing | Pausing | Listening | Returned

inductive sub_step :: "bool \<Rightarrow> sub_state \<Rightarrow> sub_state \<Rightarrow> bool" for stopped where
  head_stops: "stopped \<Longrightarrow> sub_step stopped AtHead Returned"
| head_goes_on: "\<not> stopped \<Longrightarrow> sub_step stopped AtHead Subscribing"
| subscribe_fails: "sub_step stopped Subscribing Pausing"
| subscribed: "sub_step stopped Subscribing Listening"
| pause_stops: "stopped \<Longrightarrow> sub_step stopped Pausing Returned"
| pause_over: "sub_step stopped Pausing AtHead"
| listening_stops: "stopped \<Longrightarrow> sub_step stopped Listening Returned"
| channel_closed: "sub_step stopped Listening AtHead"

text \<open>\<open>bg_stop\<close>: the channel \<open>stopCh\<close> is closed; \<open>bg_closed\<close>: \<open>Close\<close> has returned.\<close>

record background =
  bg_stop :: bool
  bg_tick :: bool
  bg_sync :: bool
  bg_delete :: sub_state
  bg_create :: sub_state
  bg_closed :: bool

definition startBackground :: background where
  "startBackground = \<lparr>bg_stop = False, bg_tick = True, bg_sync = True, bg_delete = AtHead, bg_create = AtHead,
     bg_closed = False\<rparr>"

text \<open>\<open>wg.Wait()\<close> returns when all four have.\<close>

definition all_returned :: "background \<Rightarrow> bool" where
  "all_returned b \<longleftrightarrow> \<not> bg_tick b \<and> \<not> bg_sync b \<and> bg_delete b = Returned \<and> bg_create b = Returned"

inductive mgr_step :: "'w deps \<Rightarrow> background \<times> ('w node \<times> 'w) \<Rightarrow> background \<times> ('w node \<times> 'w) \<Rightarrow> bool" for D where
  tickLoop_ticks: "bg_tick b \<Longrightarrow> mgr_step D (b, nw) (b, exec (tickServices D now) nw)"
| tickLoop_stops: "bg_tick b \<Longrightarrow> bg_stop b \<Longrightarrow> mgr_step D (b, nw) (b\<lparr>bg_tick := False\<rparr>, nw)"
| syncLoop_syncs: "bg_sync b \<Longrightarrow> mgr_step D (b, nw) (b, exec (syncRound D) nw)"
| syncLoop_stops: "bg_sync b \<Longrightarrow> bg_stop b \<Longrightarrow> mgr_step D (b, nw) (b\<lparr>bg_sync := False\<rparr>, nw)"
| delete_moves: "sub_step (bg_stop b) (bg_delete b) s \<Longrightarrow> mgr_step D (b, nw) (b\<lparr>bg_delete := s\<rparr>, nw)"
| delete_message: "bg_delete b = Listening \<Longrightarrow> mgr_step D (b, nw) (b, exec (onDeleteEvent D k) nw)"
| create_moves: "sub_step (bg_stop b) (bg_create b) s \<Longrightarrow> mgr_step D (b, nw) (b\<lparr>bg_create := s\<rparr>, nw)"
| create_message: "bg_create b = Listening \<Longrightarrow> mgr_step D (b, nw) (b, exec (onCreateEvent D v) nw)"
| Close_begins: "\<not> bg_stop b \<Longrightarrow> mgr_step D (b, nw) (b\<lparr>bg_stop := True\<rparr>, nw)"
| Close_ends: "bg_stop b \<Longrightarrow> all_returned b \<Longrightarrow> \<not> bg_closed b \<Longrightarrow> mgr_step D (b, nw) (b\<lparr>bg_closed := True\<rparr>, exec Close nw)"

text \<open>Everything else: requests, registrations, timers, tasks and the world outside.\<close>

inductive other_step :: "'w deps \<Rightarrow> 'w node \<times> 'w \<Rightarrow> 'w node \<times> 'w \<Rightarrow> bool" for D where
  other_world: "other_step D (n, w) (n, w')"
| other_request: "request (Some D) q \<Longrightarrow> other_step D nw (exec q nw)"
| other_register: "other_step D nw (exec (RegisterActivity D b c) nw)"
| other_timer: "t \<in> set (nd_timers (fst nw)) \<Longrightarrow> other_step D nw (exec (fireTimer (periodicHandler D) t) nw)"
| other_task: "other_step D nw (exec (runWarmUp (periodicHandler D)) nw)"

inductive system_reach :: "'w deps \<Rightarrow> background \<times> ('w node \<times> 'w) \<Rightarrow> bool" for D where
  started: "system_reach D (startBackground, exec (InitGlobalManager ord D) (empty_node, w))"
| mgr_goes_on: "system_reach D x \<Longrightarrow> mgr_step D x y \<Longrightarrow> system_reach D y"
| other_goes_on: "system_reach D (b, nw) \<Longrightarrow> other_step D nw nw' \<Longrightarrow> system_reach D (b, nw')"

inductive_cases sub_stepE: "sub_step stopped s s'"
inductive_simps returned_steps [simp]: "sub_step stopped Returned s'"

section \<open>The loops only do what the node allows\<close>

text \<open>Each step of the loops is no step of the node at all, or one of it.\<close>

lemma mgr_step_refines:
  assumes "mgr_step D x y"
  shows "snd y = snd x \<or> node_step D (snd x) (snd y)"
  using assms by (cases rule: mgr_step.cases) (auto intro: node_step.intros)

lemma other_step_refines: "other_step D nw nw' \<Longrightarrow> node_step D nw nw'"
  by (cases rule: other_step.cases) (auto intro: node_step.intros)

lemma system_refines: "system_reach D x \<Longrightarrow> node_reach D (snd x)"
proof (induction rule: system_reach.induct)
  case (started ord w)
  then show ?case using goes_on [OF boot starts] by simp
next
  case (mgr_goes_on x y)
  then show ?case using mgr_step_refines [OF mgr_goes_on(2)] by (auto intro: goes_on)
next
  case (other_goes_on b nw nw')
  then show ?case using goes_on [OF _ other_step_refines] by simp blast
qed

text \<open>After \<open>Close\<close> has returned, \<open>stopCh\<close> is closed and the four loops have returned for good.\<close>

lemma closed_inv: "system_reach D x \<Longrightarrow> bg_closed (fst x) \<Longrightarrow> bg_stop (fst x) \<and> all_returned (fst x)"
proof (induction rule: system_reach.induct)
  case (started ord w)
  then show ?case by (simp add: startBackground_def)
next
  case (mgr_goes_on x y)
  from mgr_goes_on(2,1,3,4) show ?case by (cases rule: mgr_step.cases) (auto simp: all_returned_def)
qed simp

lemma no_step_when_closed: "bg_stop b \<Longrightarrow> all_returned b \<Longrightarrow> bg_closed b \<Longrightarrow> \<not> mgr_step D (b, nw) y"
  by (auto simp: all_returned_def elim!: mgr_step.cases)

section \<open>\<open>Close\<close> comes to its end\<close>

abbreviation mgr_steps :: "'w deps \<Rightarrow> background \<times> ('w node \<times> 'w) \<Rightarrow> background \<times> ('w node \<times> 'w) \<Rightarrow> bool" where
  "mgr_steps D \<equiv> (mgr_step D)\<^sup>*\<^sup>*"

lemma background_same:
  "\<not> bg_tick b \<Longrightarrow> b\<lparr>bg_tick := False\<rparr> = b" "\<not> bg_sync b \<Longrightarrow> b\<lparr>bg_sync := False\<rparr> = b"
  "bg_delete b = s \<Longrightarrow> b\<lparr>bg_delete := s\<rparr> = b" "bg_create b = s \<Longrightarrow> b\<lparr>bg_create := s\<rparr> = b"
  "bg_stop b \<Longrightarrow> b\<lparr>bg_stop := True\<rparr> = b"
  by (cases b; simp)+

lemma tick_returns: "bg_stop b \<Longrightarrow> mgr_steps D (b, nw) (b\<lparr>bg_tick := False\<rparr>, nw)"
  by (cases "bg_tick b") (auto intro: r_into_rtranclp tickLoop_stops simp: background_same)

lemma sync_returns: "bg_stop b \<Longrightarrow> mgr_steps D (b, nw) (b\<lparr>bg_sync := False\<rparr>, nw)"
  by (cases "bg_sync b") (auto intro: r_into_rtranclp syncLoop_stops simp: background_same)

lemma delete_returns:
  assumes "bg_stop b"
  shows "mgr_steps D (b, nw) (b\<lparr>bg_delete := Returned\<rparr>, nw)"
proof (cases "bg_delete b")
  case Subscribing
  have "mgr_step D (b, nw) (b\<lparr>bg_delete := Listening\<rparr>, nw)"
    by (rule delete_moves) (simp add: Subscribing subscribed)
  moreover have "mgr_step D (b\<lparr>bg_delete := Listening\<rparr>, nw) (b\<lparr>bg_delete := Listening\<rparr>\<lparr>bg_delete := Returned\<rparr>, nw)"
    by (rule delete_moves) (simp add: assms listening_stops)
  ultimately show ?thesis by simp
next
  case Returned
  then show ?thesis by (simp add: background_same)
qed (auto intro!: r_into_rtranclp delete_moves simp: assms intro: sub_step.intros)

lemma create_returns:
  assumes "bg_stop b"
  shows "mgr_steps D (b, nw) (b\<lparr>bg_create := Returned\<rparr>, nw)"
proof (cases "bg_create b")
  case Subscribing
  have "mgr_step D (b, nw) (b\<lparr>bg_create := Listening\<rparr>, nw)"
    by (rule create_moves) (simp add: Subscribing subscribed)
  moreover have "mgr_step D (b\<lparr>bg_create := Listening\<rparr>, nw) (b\<lparr>bg_create := Listening\<rparr>\<lparr>bg_create := Returned\<rparr>, nw)"
    by (rule create_moves) (simp add: assms listening_stops)
  ultimately show ?thesis by simp
next
  case Returned
  then show ?thesis by (simp add: background_same)
qed (auto intro!: r_into_rtranclp create_moves simp: assms intro: sub_step.intros)

lemma Close_can_end:
  assumes "\<not> bg_closed b"
  shows "\<exists>b'. mgr_steps D (b, nw) (b', exec Close nw) \<and> bg_closed b'"
proof -
  define b0 where "b0 = b\<lparr>bg_stop := True\<rparr>"
  have "mgr_steps D (b, nw) (b0, nw)"
    by (cases "bg_stop b") (auto simp: b0_def background_same intro: r_into_rtranclp Close_begins)
  moreover define b1 where "b1 = b0\<lparr>bg_tick := False\<rparr>"
  moreover have "mgr_steps D (b0, nw) (b1, nw)" unfolding b1_def by (rule tick_returns) (simp add: b0_def)
  moreover define b2 where "b2 = b1\<lparr>bg_sync := False\<rparr>"
  moreover have "mgr_steps D (b1, nw) (b2, nw)" unfolding b2_def by (rule sync_returns) (simp add: b1_def b0_def)
  moreover define b3 where "b3 = b2\<lparr>bg_delete := Returned\<rparr>"
  moreover have "mgr_steps D (b2, nw) (b3, nw)" unfolding b3_def by (rule delete_returns) (simp add: b2_def b1_def b0_def)
  moreover define b4 where "b4 = b3\<lparr>bg_create := Returned\<rparr>"
  moreover have "mgr_steps D (b3, nw) (b4, nw)" unfolding b4_def by (rule create_returns) (simp add: b3_def b2_def b1_def b0_def)
  moreover have "mgr_step D (b4, nw) (b4\<lparr>bg_closed := True\<rparr>, exec Close nw)"
    using assms by (intro Close_ends) (simp_all add: b4_def b3_def b2_def b1_def b0_def all_returned_def)
  ultimately have "mgr_steps D (b, nw) (b4\<lparr>bg_closed := True\<rparr>, exec Close nw)" by (meson rtranclp.rtrancl_into_rtrancl rtranclp_trans)
  then show ?thesis by (intro exI [of _ "b4\<lparr>bg_closed := True\<rparr>"]) simp
qed

text \<open>Claim C7: the background work of the manager stays within what the node allows, and ends. In every
  state the running system can get into, the node is in a state that the node's own events lead to, so
  that everything shown of those holds of it. \<open>Close\<close> can always come to its end, wherever the four loops
  are, without another tick, synchronisation or message, and leaves the node without services; once
  it has ended, no step of the manager's goroutines is possible any more, so Redis and MongoDB can be
  closed.\<close>

theorem background_refines_node:
  assumes "system_reach D (b, nw)"
  shows "node_reach D nw \<and> wf_node D (fst nw)
    \<and> (\<not> bg_closed b \<longrightarrow> (\<exists>b'. mgr_steps D (b, nw) (b', exec Close nw) \<and> bg_closed b'))
    \<and> nd_engines (fst (exec Close nw)) = []
    \<and> (bg_closed b \<longrightarrow> (\<forall>y. \<not> mgr_step D (b, nw) y))"
proof -
  have r: "node_reach D nw" using system_refines [OF assms] by simp
  have "\<forall>y. \<not> mgr_step D (b, nw) y" if "bg_closed b"
    using closed_inv [OF assms] that no_step_when_closed [of b] by (metis fst_conv)
  moreover have "nd_engines (fst (exec Close nw)) = []" by (simp add: Close_def)
  ultimately show ?thesis using r wf_reach [OF r] Close_can_end [of b D nw] by blast
qed

theorem background_refines_node_witness:
  "wf_node mem_deps (fst (exec (InitGlobalManager (\<lambda>x. x) mem_deps) (empty_node, empty_mem)))
   \<and> (\<exists>b'. mgr_steps mem_deps (startBackground, exec (InitGlobalManager (\<lambda>x. x) mem_deps) (empty_node, empty_mem))
        (b', exec Close (exec (InitGlobalManager (\<lambda>x. x) mem_deps) (empty_node, empty_mem))) \<and> bg_closed b')"
  using background_refines_node [OF started [of mem_deps "\<lambda>x. x" empty_mem], folded prod.collapse] by (simp add: startBackground_def)

end
