(* ===== verification/RankTtl.thy ===== *)
theory RankTtl
  imports MemWorld
begin

text \<open>
  \<open>cmd/rankttl/main.go\<close>, the operator's tool that gives old permanent keys a time to live, and
  \<open>loadRedisConfig\<close> of \<open>internal/server.go\<close>, whose rules for the Redis section of the configuration
  the tool repeats. The prefixes of keys (\<open>common/redis\<close>) and the durations (\<open>common/rank\<close>) are
  parameters, and so are \<open>SCAN\<close> and \<open>PTTL\<close> of the Redis client. Printing the report is not modelled,
  what it counts is.
\<close>

section \<open>Classes of keys\<close>

record rank_prefixes =
  RankDefKeyPrefix :: string
  RankMemberIndexKeyPrefix :: string
  RankInstKeyPrefix :: string
  RankMbKeyPrefix :: string
  RankSeqKeyPrefix :: string
  RankSettledKeyPrefix :: string
  RankMetaPrefix :: string
  RankGroupsKeyPrefix :: string
  RankMembersKeyPrefix :: string
  RankRobotsKeyPrefix :: string
  RankRobotInfosKeyPrefix :: string
  RankClaimsKeyPrefix :: string
  RankMongoCheckedKeyPrefix :: string

record ttl_class =
  tc_name :: string
  tc_prefix :: string
  tc_exact :: string
  tc_ttl :: int64
  tc_skip :: bool

definition data_class :: "string \<Rightarrow> string \<Rightarrow> int64 \<Rightarrow> ttl_class" where
  "data_class name prefix ttl = \<lparr>tc_name = name, tc_prefix = prefix @ '':'', tc_exact = [], tc_ttl = ttl, tc_skip = False\<rparr>"

definition lock_class :: "string \<Rightarrow> string \<Rightarrow> ttl_class" where
  "lock_class name prefix = \<lparr>tc_name = name, tc_prefix = prefix, tc_exact = [], tc_ttl = 0, tc_skip = True\<rparr>"

text \<open>The names of the two classes of locks end in a remark in Chinese, here \<open>(lock)\<close>.\<close>

definition classes :: "'w env \<Rightarrow> rank_prefixes \<Rightarrow> ttl_class list" where
  "classes E P =
    [data_class ''rank:def'' (RankDefKeyPrefix P) (ColdDataTTL (en_lib E)),
     data_class ''rank:member_index'' (RankMemberIndexKeyPrefix P) (ColdDataTTL (en_lib E)),
     \<lparr>tc_name = ''rank:{active_services}'', tc_prefix = [], tc_exact = RankActiveServicesKey (en_keys E),
      tc_ttl = ColdDataTTL (en_lib E), tc_skip = False\<rparr>,
     data_class ''rank:inst'' (RankInstKeyPrefix P) (SettledCacheTTL (en_lib E)),
     data_class ''rank:mb'' (RankMbKeyPrefix P) (SettledCacheTTL (en_lib E)),
     data_class ''rank:seq'' (RankSeqKeyPrefix P) (SettledCacheTTL (en_lib E)),
     data_class ''rank:settled'' (RankSettledKeyPrefix P) (SettledCacheTTL (en_lib E)),
     data_class ''rank:meta'' (RankMetaPrefix P) (SettledCacheTTL (en_lib E)),
     data_class ''rank:groups'' (RankGroupsKeyPrefix P) (SettledCacheTTL (en_lib E)),
     data_class ''rank:members'' (RankMembersKeyPrefix P) (SettledCacheTTL (en_lib E)),
     data_class ''rank:robots'' (RankRobotsKeyPrefix P) (SettledCacheTTL (en_lib E)),
     data_class ''rank:robot_infos'' (RankRobotInfosKeyPrefix P) (SettledCacheTTL (en_lib E)),
     data_class ''rank:claims'' (RankClaimsKeyPrefix P) (SettledCacheTTL (en_lib E)),
     data_class ''rank:mongo_chk'' (RankMongoCheckedKeyPrefix P) (SettledCacheTTL (en_lib E)),
     lock_class ''rank:settle(lock)'' ''rank:settle:'',
     lock_class ''rank:robot_tick(lock)'' ''rank:robot_tick:'']"

definition class_matches :: "string \<Rightarrow> ttl_class \<Rightarrow> bool" where
  "class_matches key c \<longleftrightarrow>
     (if tc_exact c \<noteq> [] then key = tc_exact c
      else length key > length (tc_prefix c) \<and> take (length (tc_prefix c)) key = tc_prefix c)"

fun first_class :: "bool \<Rightarrow> string \<Rightarrow> ttl_class list \<Rightarrow> ttl_class option" where
  "first_class locks key [] = None"
| "first_class locks key (c # cs) =
     (if tc_skip c \<noteq> locks then first_class locks key cs
      else if class_matches key c then Some c
      else first_class locks key cs)"

definition classify :: "ttl_class list \<Rightarrow> string \<Rightarrow> ttl_class option" where
  "classify cs key = (case first_class True key cs of Some c \<Rightarrow> Some c | None \<Rightarrow> first_class False key cs)"

text \<open>The bucket of an unknown key, up to the second separator. \<open>None\<close> is the panic of slicing a key of
  fewer bytes than \<open>rank:\<close>.\<close>

fun to_separator :: "string \<Rightarrow> string option" where
  "to_separator [] = None"
| "to_separator (c # cs) =
     (if c = CHR '':'' \<or> c = CHR ''}'' then Some [c] else map_option (Cons c) (to_separator cs))"

definition unknownPrefix :: "string \<Rightarrow> string option" where
  "unknownPrefix key =
     (if length key < length ''rank:'' then None
      else Some (case to_separator (drop (length ''rank:'') key) of
          Some p \<Rightarrow> ''rank:'' @ p
        | None \<Rightarrow> key))"

section \<open>The run\<close>

text \<open>The flag \<open>-apply\<close> is the argument \<open>wet\<close>.\<close>

record class_stat =
  ct_name :: string
  ct_ttl :: int64
  ct_skip :: bool
  ct_matched :: int
  ct_noTTL :: int
  ct_updated :: int
  ct_failed :: int

record tally =
  ta_stats :: "(string \<times> class_stat) list"
  ta_unknown :: "(string \<times> int) list"
  ta_live :: int

definition new_stats :: "ttl_class list \<Rightarrow> (string \<times> class_stat) list" where
  "new_stats cs = fold (\<lambda>c. AList.update (tc_name c) \<lparr>ct_name = tc_name c, ct_ttl = tc_ttl c, ct_skip = tc_skip c,
     ct_matched = 0, ct_noTTL = 0, ct_updated = 0, ct_failed = 0\<rparr>) cs []"

definition count_in :: "ttl_class \<Rightarrow> (class_stat \<Rightarrow> class_stat) \<Rightarrow> tally \<Rightarrow> tally" where
  "count_in c f t = t\<lparr>ta_stats := AList.map_entry (tc_name c) f (ta_stats t)\<rparr>"

definition count_unknown :: "string \<Rightarrow> tally \<Rightarrow> tally" where
  "count_unknown p t = t\<lparr>ta_unknown := AList.update p (case map_of (ta_unknown t) p of None \<Rightarrow> 1 | Some n \<Rightarrow> n + 1) (ta_unknown t)\<rparr>"

definition pttlNoExpire :: int64 where "pttlNoExpire = - 1"
definition pttlMissing :: int64 where "pttlMissing = - 2"

text \<open>A key of a class that may be changed.\<close>

definition repair_data ::
  "'w redis \<Rightarrow> (string \<Rightarrow> ('w, goerr + int64) state) \<Rightarrow> bool \<Rightarrow> ttl_class \<Rightarrow> string \<Rightarrow> tally \<Rightarrow> ('w, tally) state" where
  "repair_data R PTTL wet c key t0 = do {
     let t = count_in c (ct_matched_update (\<lambda>n. n + 1)) t0;
     r \<leftarrow> PTTL key;
     case r of
       Inl err \<Rightarrow> State_Monad.return (count_in c (ct_failed_update (\<lambda>n. n + 1)) t)
     | Inr pttl \<Rightarrow>
         if pttl = pttlMissing then State_Monad.return (count_in c (ct_matched_update (\<lambda>n. n - 1)) t)
         else if pttl \<ge> 0 \<or> pttl < pttlNoExpire then State_Monad.return (t\<lparr>ta_live := ta_live t + 1\<rparr>)
         else do {
           let t1 = count_in c (ct_noTTL_update (\<lambda>n. n + 1)) t;
           if \<not> wet then State_Monad.return t1
           else do {
             e \<leftarrow> Expire R key (tc_ttl c);
             State_Monad.return (case e of
                 Inl err \<Rightarrow> count_in c (ct_failed_update (\<lambda>n. n + 1)) t1
               | Inr b \<Rightarrow> count_in c (ct_updated_update (\<lambda>n. n + 1)) t1)
           }
         }
   }"

definition repair_key ::
  "'w redis \<Rightarrow> (string \<Rightarrow> ('w, goerr + int64) state) \<Rightarrow> bool \<Rightarrow> ttl_class list \<Rightarrow> string \<Rightarrow> tally \<Rightarrow> ('w, tally option) state" where
  "repair_key R PTTL wet cs key t = (case classify cs key of
     None \<Rightarrow> State_Monad.return (map_option (\<lambda>p. count_unknown p t) (unknownPrefix key))
   | Some c \<Rightarrow>
       if tc_skip c then State_Monad.return (Some (count_in c (ct_matched_update (\<lambda>n. n + 1)) t))
       else do { t' \<leftarrow> repair_data R PTTL wet c key t; State_Monad.return (Some t') })"

fun repair_keys ::
  "'w redis \<Rightarrow> (string \<Rightarrow> ('w, goerr + int64) state) \<Rightarrow> bool \<Rightarrow> ttl_class list \<Rightarrow> string list \<Rightarrow> tally
   \<Rightarrow> ('w, tally option) state" where
  "repair_keys R PTTL wet cs [] t = State_Monad.return (Some t)"
| "repair_keys R PTTL wet cs (key # keys) t = do {
     r \<leftarrow> repair_key R PTTL wet cs key t;
     case r of None \<Rightarrow> State_Monad.return None | Some t' \<Rightarrow> repair_keys R PTTL wet cs keys t'
   }"

definition repair_main ::
  "'w redis \<Rightarrow> (string \<Rightarrow> int \<Rightarrow> ('w, goerr + string list) state) \<Rightarrow> (string \<Rightarrow> ('w, goerr + int64) state)
   \<Rightarrow> ttl_class list \<Rightarrow> bool \<Rightarrow> string \<Rightarrow> int \<Rightarrow> ('w, goerr + tally option) state" where
  "repair_main R Scan PTTL cs wet pattern count = do {
     r \<leftarrow> Scan pattern count;
     case r of
       Inl err \<Rightarrow> State_Monad.return (Inl (ErrWrap (''SCAN '' @ pattern) err))
     | Inr keys \<Rightarrow> do {
         t \<leftarrow> repair_keys R PTTL wet cs keys \<lparr>ta_stats = new_stats cs, ta_unknown = [], ta_live = 0\<rparr>;
         State_Monad.return (Inr t)
       }
   }"

text \<open>The totals of the report: keys without a time to live, keys changed, keys of locks.\<close>

definition report_totals :: "tally \<Rightarrow> int \<times> int \<times> int" where
  "report_totals t = fold (\<lambda>(k, st) (noTTL, updated, skipped).
     if ct_matched st = 0 then (noTTL, updated, skipped)
     else if ct_skip st then (noTTL, updated, skipped + ct_matched st)
     else (noTTL + ct_noTTL st, updated + ct_updated st, skipped)) (ta_stats t) (0, 0, 0)"

section \<open>The Redis section of the configuration\<close>

record yaml_redis =
  yr_Host :: string
  yr_Port :: int
  yr_Password :: string
  yr_Index :: int

record redis_config =
  rc_RedisAddrs :: "string list"
  rc_RedisPasswd :: string
  rc_RedisDBIndex :: int

definition redis_host :: "yaml_redis \<Rightarrow> string" where
  "redis_host item = (if yr_Port item > 0 then yr_Host item @ '':'' @ FormatInt (yr_Port item) else yr_Host item)"

text \<open>The server: a flag tells the first entry with a host.\<close>

definition load_entry :: "yaml_redis \<Rightarrow> redis_config \<times> bool \<Rightarrow> redis_config \<times> bool" where
  "load_entry item cf = (case cf of (cfg, first) \<Rightarrow>
     if yr_Host item = [] then (cfg, first)
     else let cfg1 = cfg\<lparr>rc_RedisAddrs := rc_RedisAddrs cfg @ [redis_host item]\<rparr>
          in if first then (cfg1\<lparr>rc_RedisPasswd := yr_Password item, rc_RedisDBIndex := yr_Index item\<rparr>, False)
             else (cfg1, first))"

definition loadRedisConfig :: "yaml_redis list \<Rightarrow> redis_config \<Rightarrow> goerr + redis_config" where
  "loadRedisConfig redis old =
     (if length redis = 0 then Inl (ErrText ''redis config is empty'')
      else let cfg = fst (fold load_entry redis (old\<lparr>rc_RedisAddrs := []\<rparr>, True))
           in if length (rc_RedisAddrs cfg) = 0 then Inl (ErrText ''no valid redis address after parsing'') else Inr cfg)"

text \<open>The tool: the first entry is the one that finds no address yet. The outcome is the configuration
  the client is made from.\<close>

definition yaml_entry :: "yaml_redis \<Rightarrow> redis_config \<Rightarrow> redis_config" where
  "yaml_entry item out =
     (if yr_Host item = [] then out
      else let out1 = (if length (rc_RedisAddrs out) = 0
                then out\<lparr>rc_RedisPasswd := yr_Password item, rc_RedisDBIndex := yr_Index item\<rparr> else out)
           in out1\<lparr>rc_RedisAddrs := rc_RedisAddrs out1 @ [redis_host item]\<rparr>)"

definition newRedisFromYaml :: "yaml_redis list option \<Rightarrow> goerr + redis_config" where
  "newRedisFromYaml yaml = (case yaml of
     None \<Rightarrow> Inl (ErrText ''cannot load .devops.yaml'')
   | Some redis \<Rightarrow>
       if length redis = 0 then Inl (ErrText ''.devops.yaml has no redis section'')
       else let out = fold yaml_entry redis \<lparr>rc_RedisAddrs = [], rc_RedisPasswd = [], rc_RedisDBIndex = 0\<rparr>
            in if length (rc_RedisAddrs out) = 0 then Inl (ErrText ''no valid host'') else Inr out)"

section \<open>What a run leaves alone\<close>

text \<open>Keys and their time to live: missing, permanent, or with the time last given. Asking changes
  nothing and tells the three apart; \<open>EXPIRE\<close> concerns its key only, and gives a key that exists the
  time if it answers, or possibly even if it fails; \<open>SCAN\<close> changes nothing.\<close>

datatype lifetime = Missing | Permanent | Given int64

definition life_laws ::
  "'w redis \<Rightarrow> (string \<Rightarrow> int \<Rightarrow> ('w, goerr + string list) state) \<Rightarrow> (string \<Rightarrow> ('w, goerr + int64) state)
   \<Rightarrow> ('w \<Rightarrow> string \<Rightarrow> lifetime) \<Rightarrow> bool" where
  "life_laws R Scan PTTL life \<longleftrightarrow>
     (\<forall>p n w. life (exec (Scan p n) w) = life w) \<and> (\<forall>k w. life (exec (PTTL k) w) = life w)
   \<and> (\<forall>k w t. result (PTTL k) w = Inr t \<longrightarrow>
        (t = pttlNoExpire \<longleftrightarrow> life w k = Permanent) \<and> (t = pttlMissing \<longleftrightarrow> life w k = Missing))
   \<and> (\<forall>k d w. life w k \<noteq> Missing \<longrightarrow>
        life (exec (Expire R k d) w) = (life w)(k := Given d)
        \<or> life (exec (Expire R k d) w) = life w \<and> result (Expire R k d) w \<in> range Inl)"

lemma life_parts:
  assumes "life_laws R Scan PTTL life"
  shows "life (exec (Scan p n) w) = life w" "life (exec (PTTL k) w) = life w"
    "result (PTTL k) w = Inr t \<Longrightarrow> (t = pttlNoExpire \<longleftrightarrow> life w k = Permanent) \<and> (t = pttlMissing \<longleftrightarrow> life w k = Missing)"
    "life w k \<noteq> Missing \<Longrightarrow> life (exec (Expire R k d) w) = (life w)(k := Given d)
        \<or> life (exec (Expire R k d) w) = life w \<and> result (Expire R k d) w \<in> range Inl"
  using assms unfolding life_laws_def by blast+

lemma pttl_values [simp]: "pttlNoExpire \<noteq> pttlMissing" "pttlMissing \<noteq> pttlNoExpire" "\<not> 0 \<le> pttlNoExpire" "\<not> pttlNoExpire < pttlNoExpire"
  by (simp_all add: pttlNoExpire_def pttlMissing_def)

definition repairable :: "ttl_class list \<Rightarrow> string \<Rightarrow> int64 \<Rightarrow> bool" where
  "repairable cs k d \<longleftrightarrow> (\<exists>c. classify cs k = Some c \<and> \<not> tc_skip c \<and> d = tc_ttl c)"

text \<open>What may have become of a key.\<close>

definition repaired :: "bool \<Rightarrow> ttl_class list \<Rightarrow> (string \<Rightarrow> lifetime) \<Rightarrow> (string \<Rightarrow> lifetime) \<Rightarrow> bool" where
  "repaired wet cs l l' \<longleftrightarrow> (\<forall>k. l' k = l k \<or> wet \<and> l k = Permanent \<and> (\<exists>d. repairable cs k d \<and> l' k = Given d))"

lemma repaired_refl: "repaired wet cs l l"
  by (simp add: repaired_def)

lemma repaired_trans: "repaired wet cs l l1 \<Longrightarrow> repaired wet cs l1 l2 \<Longrightarrow> repaired wet cs l l2"
  unfolding repaired_def by (metis lifetime.distinct(5))

lemma repair_key_life:
  assumes laws: "life_laws R Scan PTTL life"
  shows "repaired wet cs (life w) (life (exec (repair_key R PTTL wet cs key t) w))"
proof (cases "classify cs key")
  case None
  then show ?thesis by (simp add: repair_key_def repaired_refl)
next
  case (Some c)
  show ?thesis
  proof (cases "tc_skip c")
    case True
    then show ?thesis using Some by (simp add: repair_key_def repaired_refl)
  next
    case False
    let ?w1 = "exec (PTTL key) w" and ?d = "tc_ttl c"
    note L = life_parts [OF laws]
    have rep: "repairable cs key ?d" using Some False by (auto simp: repairable_def)
    have "repaired True cs (life w) (life (exec (Expire R key ?d) ?w1))" if "life w key = Permanent"
      using L(4) [of ?w1 key ?d] L(2) [of key w] that rep by (auto simp: repaired_def split: if_splits)
    then show ?thesis
      using Some False L(3) [of key w]
      by (cases wet) (auto simp: repair_key_def repair_data_def Let_def L(2) pttlMissing_def repaired_refl pttlNoExpire_def
          split: sum.split)
  qed
qed

lemma repair_keys_life:
  assumes "life_laws R Scan PTTL life"
  shows "repaired wet cs (life w) (life (exec (repair_keys R PTTL wet cs keys t) w))"
proof (induction keys arbitrary: t w)
  case (Cons key keys)
  have "repaired wet cs (life w) (life (exec (repair_key R PTTL wet cs key t) w))"
    using repair_key_life [OF assms] .
  then show ?case by (auto intro: Cons.IH repaired_trans split: option.split)
qed (simp add: repaired_refl)

lemma lock_classified:
  assumes "HasPrefix key ''rank:settle:'' \<or> HasPrefix key ''rank:robot_tick:''" "key \<noteq> ''rank:settle:''" "key \<noteq> ''rank:robot_tick:''"
  shows "\<not> repairable (classes E P) key d"
proof -
  have "\<exists>c. first_class True key (classes E P) = Some c \<and> tc_skip c"
    using assms
    by (auto simp: classes_def data_class_def lock_class_def class_matches_def HasPrefix_iff)
  then show ?thesis by (auto simp: repairable_def classify_def)
qed

text \<open>Claim C32: the tool only ever gives a time to live to keys that have none. After a run, complete or
  stopped by a failure, every key is as it was, or it was permanent, belongs to a class of data and
  now has the time of that class. A run without \<open>-apply\<close> changes nothing at all. The locks of the
  settlement and of the growth of robots are never touched, whatever the prefixes of the data keys.\<close>

theorem repair_spares_others:
  assumes laws: "life_laws R Scan PTTL life"
    and run: "w' = exec (repair_main R Scan PTTL (classes E P) wet pattern n) w"
  shows "(life w' k = life w k \<or> life w k = Permanent \<and> (\<exists>d. repairable (classes E P) k d \<and> life w' k = Given d))
    \<and> (\<not> wet \<longrightarrow> life w' = life w)
    \<and> life w' (settleLockKey b g) = life w (settleLockKey b g)
    \<and> life w' (robotTickLockKey b sec) = life w (robotTickLockKey b sec)"
proof -
  have rep: "repaired wet (classes E P) (life w) (life w')"
    unfolding run repair_main_def using repair_keys_life [OF laws] life_parts(1) [OF laws]
    by (auto simp: repaired_refl Let_def split: sum.split) metis+
  have "\<not> repairable (classes E P) (settleLockKey b g) d" "\<not> repairable (classes E P) (robotTickLockKey b sec) d" for d
    by (rule lock_classified; simp add: settleLockKey_def robotTickLockKey_def HasPrefix_iff)+
  then show ?thesis using rep unfolding repaired_def by (auto simp: fun_eq_iff)
qed

section \<open>The dry run\<close>

text \<open>The tally of a run that applied what a dry run only counted.\<close>

definition as_applied :: "tally \<Rightarrow> tally" where
  "as_applied t = t\<lparr>ta_stats := map (\<lambda>(k, s). (k, s\<lparr>ct_updated := ct_noTTL s\<rparr>)) (ta_stats t)\<rparr>"

lemma as_applied_simps [simp]:
  "ta_live (as_applied t) = ta_live t" "ta_live (count_in c f t) = ta_live t" "ta_unknown (as_applied t) = ta_unknown t"
  "as_applied (t\<lparr>ta_live := n\<rparr>) = (as_applied t)\<lparr>ta_live := n\<rparr>" "as_applied (count_unknown p t) = count_unknown p (as_applied t)"
  by (simp_all add: as_applied_def count_unknown_def count_in_def)

lemma map_entry_map:
  assumes "\<And>s. g (f s) = f' (g s)"
  shows "map (\<lambda>(k, s). (k, g s)) (AList.map_entry n f xs) = AList.map_entry n f' (map (\<lambda>(k, s). (k, g s)) xs)"
  using assms by (induction xs) auto

lemma map_entry_twice: "AList.map_entry n f (AList.map_entry n g xs) = AList.map_entry n (f \<circ> g) xs"
  by (induction xs) auto

lemma as_applied_count [simp]:
  "as_applied (count_in c (ct_matched_update f) t) = count_in c (ct_matched_update f) (as_applied t)"
  "as_applied (count_in c (ct_noTTL_update (\<lambda>n. n + 1)) t) =
     count_in c (ct_updated_update (\<lambda>n. n + 1)) (count_in c (ct_noTTL_update (\<lambda>n. n + 1)) (as_applied t))"
proof -
  show "as_applied (count_in c (ct_matched_update f) t) = count_in c (ct_matched_update f) (as_applied t)"
    by (simp add: as_applied_def count_in_def map_entry_map [where f' = "ct_matched_update f"])
  let ?up = "ct_updated_update (\<lambda>n. n + 1)" and ?no = "ct_noTTL_update (\<lambda>n. n + 1)" and ?g = "\<lambda>s. s\<lparr>ct_updated := ct_noTTL s\<rparr>"
  have "?g (?no s) = (?up \<circ> ?no) (?g s)" for s by simp
  then show "as_applied (count_in c ?no t) = count_in c ?up (count_in c ?no (as_applied t))"
    by (simp add: as_applied_def count_in_def map_entry_twice map_entry_map [where f' = "?up \<circ> ?no"])
qed

text \<open>One key, in two worlds in which its time to live is the same.\<close>

definition answers :: "'w redis \<Rightarrow> (string \<Rightarrow> ('w, goerr + int64) state) \<Rightarrow> bool" where
  "answers R PTTL \<longleftrightarrow> (\<forall>k w. \<exists>t. result (PTTL k) w = Inr t) \<and> (\<forall>k d w. \<exists>b. result (Expire R k d) w = Inr b)"

lemma repair_key_agrees:
  assumes laws: "life_laws R Scan PTTL life" and ans: "answers R PTTL" and same: "life w1 key = life w2 key"
  shows "result (repair_key R PTTL True cs key (as_applied t)) w1 =
      map_option as_applied (result (repair_key R PTTL False cs key t) w2)"
proof (cases "classify cs key")
  case None
  then show ?thesis by (cases "unknownPrefix key") (simp_all add: repair_key_def)
next
  case (Some c)
  obtain p1 where p1: "result (PTTL key) w1 = Inr p1" using ans unfolding answers_def by blast
  obtain p2 where p2: "result (PTTL key) w2 = Inr p2" using ans unfolding answers_def by blast
  obtain b where b: "result (Expire R key (tc_ttl c)) (exec (PTTL key) w1) = Inr b"
    using ans unfolding answers_def by blast
  have pp: "(p1 = pttlNoExpire) = (p2 = pttlNoExpire)" "(p1 = pttlMissing) = (p2 = pttlMissing)"
    using life_parts(3) [OF laws p1] life_parts(3) [OF laws p2] same by simp_all
  have three: "p \<ge> 0 \<or> p < pttlNoExpire \<longleftrightarrow> p \<noteq> pttlNoExpire" for p by (auto simp: pttlNoExpire_def)
  show ?thesis
    using Some pp by (simp add: repair_key_def repair_data_def Let_def p1 p2 b three)
qed

lemma repair_other:
  assumes "life_laws R Scan PTTL life" "k \<noteq> key"
  shows "life (exec (repair_key R PTTL wet cs key t) w) k = life w k"
proof -
  have e: "life (exec (Expire R key d) w1) k = life w1 k" if "life w1 key \<noteq> Missing" for d w1
    using life_parts(4) [OF assms(1) that, of d] assms(2) by auto
  show ?thesis
    using life_parts(2,3) [OF assms(1)] e
    by (auto simp: repair_key_def repair_data_def Let_def pttlNoExpire_def pttlMissing_def split: option.split sum.split)
qed

text \<open>Claim C33: the dry run tells what applying would do. When Redis answers every question and the scan
  names no key twice, applying from the same state yields the same report as the dry run, the keys
  counted as lacking a time to live now being the ones updated; and both stop at the same key, if any,
  that is too short to be put into a bucket.\<close>

theorem dry_run_is_faithful:
  assumes "life_laws R Scan PTTL life" "answers R PTTL" "distinct keys" "\<forall>k \<in> set keys. life w1 k = life w2 k"
  shows "result (repair_keys R PTTL True cs keys (as_applied t)) w1 =
      map_option as_applied (result (repair_keys R PTTL False cs keys t) w2)"
  using assms(3,4)
proof (induction keys arbitrary: t w1 w2)
  case (Cons key keys)
  let ?a = "repair_key R PTTL True cs key (as_applied t)" and ?d = "repair_key R PTTL False cs key t"
  have r: "result ?a w1 = map_option as_applied (result ?d w2)"
    using Cons.prems repair_key_agrees [OF assms(1,2)] by simp
  have "life (exec ?a w1) k = life (exec ?d w2) k" if "k \<in> set keys" for k
    using that Cons.prems repair_other [OF assms(1)] by (metis distinct.simps(2) list.set_intros(2))
  then show ?case using Cons.IH [of "exec ?a w1" "exec ?d w2"] Cons.prems(1) r by (cases "result ?d w2") simp_all
qed simp

section \<open>Two readings of one configuration\<close>

lemma same_fold:
  "fold load_entry redis (cfg, rc_RedisAddrs cfg = []) =
     (fold yaml_entry redis cfg, rc_RedisAddrs (fold yaml_entry redis cfg) = [])"
proof (induction redis arbitrary: cfg)
  case (Cons item redis)
  have "load_entry item (cfg, rc_RedisAddrs cfg = []) = (yaml_entry item cfg, rc_RedisAddrs (yaml_entry item cfg) = [])"
    by (simp add: load_entry_def yaml_entry_def Let_def)
  then show ?case using Cons by simp
qed simp

lemma yaml_fold:
  "fold yaml_entry redis cfg =
     (let hosts = filter (\<lambda>i. yr_Host i \<noteq> []) redis in
        if hosts = [] then cfg
        else let cfg' = cfg\<lparr>rc_RedisAddrs := rc_RedisAddrs cfg @ map redis_host hosts\<rparr> in
          if rc_RedisAddrs cfg = [] then cfg'\<lparr>rc_RedisPasswd := yr_Password (hd hosts), rc_RedisDBIndex := yr_Index (hd hosts)\<rparr>
          else cfg')"
proof (induction redis arbitrary: cfg)
  case (Cons item redis)
  then show ?case by (cases "yr_Host item = []") (simp_all add: yaml_entry_def Let_def)
qed simp

text \<open>The tool connects to the Redis the server uses. Whatever the configuration held before, the
  server accepts the Redis section exactly when the tool does, and then both have the same addresses,
  password and database: all entries that have a host, in order, with the password and the
  database of the first of them.\<close>

theorem redis_configs_agree:
  "(loadRedisConfig redis old = Inr c \<longleftrightarrow> newRedisFromYaml (Some redis) = Inr c)
   \<and> (newRedisFromYaml (Some redis) = Inr c \<longleftrightarrow>
        (\<exists>i is. filter (\<lambda>i. yr_Host i \<noteq> []) redis = i # is
           \<and> c = \<lparr>rc_RedisAddrs = map redis_host (i # is), rc_RedisPasswd = yr_Password i, rc_RedisDBIndex = yr_Index i\<rparr>))"
proof -
  have s: "fst (fold load_entry redis (cfg, True)) = fold yaml_entry redis cfg" if "rc_RedisAddrs cfg = []" for cfg
    using same_fold [of redis cfg] that by simp
  have n: "newRedisFromYaml (Some redis) = Inr c \<longleftrightarrow>
        (\<exists>i is. filter (\<lambda>i. yr_Host i \<noteq> []) redis = i # is
           \<and> c = \<lparr>rc_RedisAddrs = map redis_host (i # is), rc_RedisPasswd = yr_Password i, rc_RedisDBIndex = yr_Index i\<rparr>)"
    by (cases "filter (\<lambda>i. yr_Host i \<noteq> []) redis") (auto simp: newRedisFromYaml_def yaml_fold Let_def)
  moreover have "loadRedisConfig redis old = Inr c \<longleftrightarrow>
        (\<exists>i is. filter (\<lambda>i. yr_Host i \<noteq> []) redis = i # is
           \<and> c = \<lparr>rc_RedisAddrs = map redis_host (i # is), rc_RedisPasswd = yr_Password i, rc_RedisDBIndex = yr_Index i\<rparr>)"
    by (cases "filter (\<lambda>i. yr_Host i \<noteq> []) redis") (auto simp: loadRedisConfig_def s yaml_fold Let_def)
  ultimately show ?thesis by blast
qed

section \<open>A key that stops the tool\<close>

text \<open>A fault of the code: a key outside the classes of fewer than five bytes, which a pattern other than
  the default can find, ends the run in a panic; the keys after it are not looked at.\<close>

lemma short_key_stops_run:
  assumes "classify cs key = None" "length key < 5" "result (repair_keys R PTTL wet cs keys t) w \<noteq> None"
  shows "run_state (repair_keys R PTTL wet cs (keys @ key # rest) t) w = (None, exec (repair_keys R PTTL wet cs keys t) w)"
  using assms(3)
proof (induction keys arbitrary: t w)
  case Nil
  then show ?case using assms(1,2) by (simp add: run_state_split repair_key_def unknownPrefix_def)
next
  case (Cons k keys)
  then show ?case by (cases "result (repair_key R PTTL wet cs k t) w") (simp_all add: run_state_split)
qed

section \<open>Witnesses\<close>

text \<open>A Redis that knows only times to live.\<close>

definition shelf :: "(string \<Rightarrow> lifetime) redis" where
  "shelf = (let no = State_Monad.return (Some RedisNil) in
    \<lparr>HGet = (\<lambda>k f. State_Monad.return (Inl RedisNil)), HSet = (\<lambda>k f v. no), HDel = (\<lambda>k f. no),
     HGetAll = (\<lambda>k. State_Monad.return (Inr [])), HIncrBy = (\<lambda>k f n. State_Monad.return (Inl RedisNil)),
     RExists = (\<lambda>k. State_Monad.return (False, None)),
     Expire = (\<lambda>k d. State (\<lambda>w. if w k = Missing then (Inr False, w) else (Inr True, w(k := Given d)))),
     RGet = (\<lambda>k. State_Monad.return (Inl RedisNil)), SetEX = (\<lambda>k v d. no),
     SetNX = (\<lambda>k v d. State_Monad.return (Inr False)), Del = (\<lambda>k. no), SAdd = (\<lambda>k vs. no),
     SMembers = (\<lambda>k. State_Monad.return (Inr [])), PipeExec = (\<lambda>cs. no),
     lua_HGet = (\<lambda>k f. State_Monad.return (Inr None)), lua_HSet = (\<lambda>k f v. no), eval_begin = no, eval_end = no\<rparr>)"

definition shelf_pttl :: "string \<Rightarrow> (string \<Rightarrow> lifetime, goerr + int64) state" where
  "shelf_pttl k = State (\<lambda>w. (Inr (case w k of Missing \<Rightarrow> pttlMissing | Permanent \<Rightarrow> pttlNoExpire | Given d \<Rightarrow> \<bar>d\<bar>), w))"

definition shelf_scan :: "string \<Rightarrow> int \<Rightarrow> (string \<Rightarrow> lifetime, goerr + string list) state" where
  "shelf_scan p n = State_Monad.return (Inr [''rank:mb:{x}'', ''rank:settle:{x}:3''])"

lemma Expire_shelf [simp]:
  "result (Expire shelf k d) w = (if w k = Missing then Inr False else Inr True)"
  "exec (Expire shelf k d) w = (if w k = Missing then w else w(k := Given d))"
  by (simp_all add: shelf_def Let_def result_def exec_def)

lemma asking_shelf [simp]:
  "result (shelf_pttl k) w = Inr (case w k of Missing \<Rightarrow> pttlMissing | Permanent \<Rightarrow> pttlNoExpire | Given d \<Rightarrow> \<bar>d\<bar>)"
  "exec (shelf_pttl k) w = w" "exec (shelf_scan p n) w = w"
  by (simp_all add: shelf_pttl_def shelf_scan_def result_def exec_def)

lemma shelf_laws: "life_laws shelf shelf_scan shelf_pttl (\<lambda>w. w)" "answers shelf shelf_pttl"
  by (auto simp: life_laws_def answers_def pttlMissing_def pttlNoExpire_def split: lifetime.split)

definition plain_prefixes :: rank_prefixes where
  "plain_prefixes = \<lparr>RankDefKeyPrefix = ''rank:def'', RankMemberIndexKeyPrefix = ''rank:member_index'',
     RankInstKeyPrefix = ''rank:inst'', RankMbKeyPrefix = ''rank:mb'', RankSeqKeyPrefix = ''rank:seq'',
     RankSettledKeyPrefix = ''rank:settled'', RankMetaPrefix = ''rank:meta'', RankGroupsKeyPrefix = ''rank:groups'',
     RankMembersKeyPrefix = ''rank:members'', RankRobotsKeyPrefix = ''rank:robots'',
     RankRobotInfosKeyPrefix = ''rank:robot_infos'', RankClaimsKeyPrefix = ''rank:claims'',
     RankMongoCheckedKeyPrefix = ''rank:mongo_chk''\<rparr>"

theorem repair_spares_others_witness:
  "exec (repair_main shelf shelf_scan shelf_pttl (classes mem_env plain_prefixes) True ''rank:*'' 500) (\<lambda>k. Permanent)
     (settleLockKey ''x'' 3) = Permanent"
  using repair_spares_others [OF shelf_laws(1) refl, where w = "\<lambda>k. Permanent" and b = "''x''" and g = 3] by blast

theorem dry_run_is_faithful_witness:
  "result (repair_keys shelf shelf_pttl True (classes mem_env plain_prefixes) [''rank:mb:{x}'', ''rank:settle:{x}:3'']
      (as_applied \<lparr>ta_stats = [], ta_unknown = [], ta_live = 0\<rparr>)) (\<lambda>k. Permanent) =
   map_option as_applied (result (repair_keys shelf shelf_pttl False (classes mem_env plain_prefixes)
      [''rank:mb:{x}'', ''rank:settle:{x}:3''] \<lparr>ta_stats = [], ta_unknown = [], ta_live = 0\<rparr>) (\<lambda>k. Permanent))"
  by (rule dry_run_is_faithful [OF shelf_laws]) simp_all

end
