(* ===== verification/Server.thy ===== *)
theory Server
  imports RankTtl
begin

text \<open>
  \<open>internal/server.go\<close> and \<open>internal/router/rpc/rpc.go\<close>: loading the configuration, start-up and shut-down.
  The libraries that are started and stopped are outside the repository; a call of one is a constructor
  of \<open>host_call\<close>, run by a parameter that answers an error or not. A \<open>Fatalf\<close> ends the process, so it is
  the outcome of a step that has not gone on.
\<close>

section \<open>Configuration\<close>

text \<open>\<open>'x\<close> are blocks of configuration that are only passed on.\<close>

record yaml_etcd =
  ye_Host :: string
  ye_Username :: string
  ye_Password :: string

record 'x yaml_cfg =
  yc_Game :: string
  yc_Cluster :: string
  yc_Module :: string
  yc_ConfigDir :: string
  yc_Blocks :: "'x list"
  yc_MongoCfg :: 'x
  yc_Etcd :: "yaml_etcd list"
  yc_Redis :: "yaml_redis list"

text \<open>\<open>sc_Blocks\<close> are the HTTP, RPC, log and pprof settings.\<close>

record 'x server_config =
  sc_Game :: string
  sc_Cluster :: string
  sc_ModuleName :: string
  sc_ConfigDir :: string
  sc_Blocks :: "'x list"
  sc_MongoCfg :: 'x
  sc_EtcdEndPoints :: "string list"
  sc_EtcdUsername :: string
  sc_EtcdPassword :: string
  sc_RedisCfg :: redis_config

definition loadMongoConfig :: "'x yaml_cfg \<Rightarrow> 'x server_config \<Rightarrow> 'x server_config" where
  "loadMongoConfig cfg c = c\<lparr>sc_MongoCfg := yc_MongoCfg cfg\<rparr>"

definition load_etcd :: "'x yaml_cfg \<Rightarrow> 'x server_config \<Rightarrow> 'x server_config" where
  "load_etcd cfg c = (case yc_Etcd cfg of [] \<Rightarrow> c
     | e # _ \<Rightarrow> c\<lparr>sc_EtcdEndPoints := [ye_Host e], sc_EtcdUsername := ye_Username e, sc_EtcdPassword := ye_Password e\<rparr>)"

definition LoadConfig :: "'x yaml_cfg option \<Rightarrow> 'x server_config \<Rightarrow> string + 'x server_config" where
  "LoadConfig yaml c = (case yaml of
     None \<Rightarrow> Inl ''failed to load YAML configuration file''
   | Some cfg \<Rightarrow>
       let c1 = c\<lparr>sc_Game := yc_Game cfg, sc_Cluster := yc_Cluster cfg, sc_ModuleName := yc_Module cfg,
                  sc_ConfigDir := yc_ConfigDir cfg, sc_Blocks := yc_Blocks cfg\<rparr>;
           c2 = load_etcd cfg c1
       in (case loadRedisConfig (yc_Redis cfg) (sc_RedisCfg c2) of
             Inl err \<Rightarrow> Inl ''load redis config failed''
           | Inr redis \<Rightarrow> Inr (loadMongoConfig cfg (c2\<lparr>sc_RedisCfg := redis\<rparr>))))"

section \<open>The gRPC server\<close>

datatype host_call =
    LoadConfigs | StartWatch | InitMainRedis | InitMongo | InitQueues | InitMongoTask | NewPool | InitRankManager
  | GenerateRegServerAddr | NodeInit | InitAndWatchServerType | RegisterHandlers | NewRpcServer | StartAsync
  | InitHTTPServer | RefreshNodeStateInNormal
  | EtcdClose | HttpClose | RpcStop | RpcForceStop | StopWatch | ManagerClose | PoolClose | QueueShutdown
  | RedisClose | MongoStop

text \<open>\<open>grpcServer\<close> and \<open>socialServerHandler\<close>, as far as they are nil or not.\<close>

record rpc_vars =
  rv_grpcServer :: bool
  rv_handler :: bool

type_synonym ('w, 'a) boot = "(rpc_vars \<times> 'w, 'a) state"
type_synonym 'w host = "host_call \<Rightarrow> ('w, goerr option) state"

definition set_rpc :: "(rpc_vars \<Rightarrow> rpc_vars) \<Rightarrow> ('w, unit) boot" where
  "set_rpc f = State (\<lambda>(v, w). ((), (f v, w)))"

definition get_rpc :: "('w, rpc_vars) boot" where
  "get_rpc = State (\<lambda>(v, w). (v, (v, w)))"

definition startGRPCServer :: "'w host \<Rightarrow> string \<Rightarrow> ('w, unit) boot" where
  "startGRPCServer run listenAddr =
     (if listenAddr = [] then skip
      else do {
        _ \<leftarrow> lift_ext (run NewRpcServer);
        _ \<leftarrow> set_rpc (\<lambda>v. v\<lparr>rv_grpcServer := True\<rparr>);
        lift_ext (ignore (run StartAsync))
      })"

definition InitAllRPC :: "'w host \<Rightarrow> string \<Rightarrow> ('w, unit) boot" where
  "InitAllRPC run listenAddr = do {
     _ \<leftarrow> set_rpc (\<lambda>v. v\<lparr>rv_handler := True\<rparr>);
     startGRPCServer run listenAddr
   }"

text \<open>Closing the handler of the service only writes to the log.\<close>

definition CloseRPC :: "'w host \<Rightarrow> ('w, unit) boot" where
  "CloseRPC run = do {
     v \<leftarrow> get_rpc;
     if \<not> rv_grpcServer v then skip
     else do {
       err \<leftarrow> lift_ext (run RpcStop);
       if err \<noteq> None then lift_ext (ignore (run RpcForceStop)) else skip
     }
   }"

section \<open>Start-up\<close>

text \<open>A call whose error ends the process, and one whose error is only logged.\<close>

definition must :: "'w host \<Rightarrow> host_call \<Rightarrow> ('w, host_call option) boot \<Rightarrow> ('w, host_call option) boot" where
  "must run c rest = do {
     err \<leftarrow> lift_ext (run c);
     if err \<noteq> None then State_Monad.return (Some c) else rest
   }"

definition may :: "'w host \<Rightarrow> host_call \<Rightarrow> ('w, unit) boot" where
  "may run c = lift_ext (ignore (run c))"

definition initServerNodeInfo :: "'w host \<Rightarrow> ('w, host_call option) boot \<Rightarrow> ('w, host_call option) boot" where
  "initServerNodeInfo run rest = must run GenerateRegServerAddr (do { _ \<leftarrow> may run NodeInit; rest })"

definition initHTTPServer :: "'w host \<Rightarrow> ('w, unit) boot" where
  "initHTTPServer run = may run InitHTTPServer"

text \<open>The outcome is the call that ended the process, or none.\<close>

definition OnInit :: "'w host \<Rightarrow> string \<Rightarrow> ('w, host_call option) boot" where
  "OnInit run listenAddr =
     must run LoadConfigs (do {
       _ \<leftarrow> may run StartWatch;
       _ \<leftarrow> may run InitMainRedis;
       must run InitMongo (must run InitQueues (do {
         _ \<leftarrow> may run InitMongoTask;
         _ \<leftarrow> may run NewPool;
         must run InitRankManager (initServerNodeInfo run (do {
           _ \<leftarrow> may run InitAndWatchServerType;
           must run RegisterHandlers (do {
             _ \<leftarrow> InitAllRPC run listenAddr;
             _ \<leftarrow> initHTTPServer run;
             _ \<leftarrow> may run RefreshNodeStateInNormal;
             State_Monad.return None
           })
         }))
       }))
     })"

section \<open>Shut-down\<close>

text \<open>What is there to be closed: the manager, the pool, Redis and MongoDB may be nil.\<close>

record parts =
  pt_manager :: bool
  pt_pool :: bool
  pt_redis :: bool
  pt_mongo :: bool

definition OnClose :: "'w host \<Rightarrow> parts \<Rightarrow> ('w, unit) boot" where
  "OnClose run p = do {
     _ \<leftarrow> may run EtcdClose;
     _ \<leftarrow> may run HttpClose;
     _ \<leftarrow> CloseRPC run;
     _ \<leftarrow> may run StopWatch;
     _ \<leftarrow> (if pt_manager p then may run ManagerClose else skip);
     _ \<leftarrow> (if pt_pool p then may run PoolClose else skip);
     _ \<leftarrow> may run QueueShutdown;
     _ \<leftarrow> (if pt_redis p then may run RedisClose else skip);
     if pt_mongo p then may run MongoStop else skip
   }"

section \<open>The order of the calls\<close>

text \<open>A host that keeps a log of the calls it is given, and otherwise does what \<open>run\<close> does.\<close>

definition logged :: "'w host \<Rightarrow> (host_call list \<times> 'w) host" where
  "logged run c = State (\<lambda>(l, w). (result (run c) w, (l @ [c], exec (run c) w)))"

lemma logged_run [simp]:
  "result (logged run c) lw = result (run c) (snd lw)" "exec (logged run c) lw = (fst lw @ [c], exec (run c) (snd lw))"
  by (simp_all add: logged_def split: prod.splits)

lemma rpc_simps [simp]:
  "exec (set_rpc f) vw = (f (fst vw), snd vw)" "result get_rpc vw = fst vw" "exec get_rpc vw = vw"
  by (simp_all add: set_rpc_def get_rpc_def split: prod.splits)

text \<open>The calls of a start-up that meets no error, and those whose error ends the process.\<close>

definition init_calls :: "string \<Rightarrow> host_call list" where
  "init_calls listenAddr = [LoadConfigs, StartWatch, InitMainRedis, InitMongo, InitQueues, InitMongoTask, NewPool,
     InitRankManager, GenerateRegServerAddr, NodeInit, InitAndWatchServerType, RegisterHandlers]
   @ (if listenAddr = [] then [] else [NewRpcServer, StartAsync]) @ [InitHTTPServer, RefreshNodeStateInNormal]"

definition fatal_calls :: "host_call set" where
  "fatal_calls = {LoadConfigs, InitMongo, InitQueues, InitRankManager, GenerateRegServerAddr, RegisterHandlers}"

lemma exec_must: "exec (must (logged run) c rest) vlw =
    (if result (run c) (snd (snd vlw)) \<noteq> None
     then (fst vlw, (fst (snd vlw) @ [c], exec (run c) (snd (snd vlw))))
     else exec rest (fst vlw, (fst (snd vlw) @ [c], exec (run c) (snd (snd vlw)))))"
  and result_must: "result (must (logged run) c rest) vlw =
    (if result (run c) (snd (snd vlw)) \<noteq> None then Some c
     else result rest (fst vlw, (fst (snd vlw) @ [c], exec (run c) (snd (snd vlw)))))"
  by (simp_all add: must_def)

lemma exec_may [simp]: "exec (may (logged run) c) vlw = (fst vlw, (fst (snd vlw) @ [c], exec (run c) (snd (snd vlw))))"
  by (simp add: may_def)


lemmas boot_defs = OnInit_def initServerNodeInfo_def initHTTPServer_def InitAllRPC_def startGRPCServer_def

text \<open>Start-up runs in its order and stops where it fails. Whatever the calls answer, those made
  are an initial part of the one fixed sequence; the node is announced as normal exactly when start-up
  has come to its end, and then every call that can end the process has succeeded: the
  configuration is loaded, MongoDB and the queues are there, the manager is initialised and all
  handlers are entered, in this order, before the gRPC server is started. If start-up has not come to
  its end, its last call is the one that failed, and it is one of those.\<close>

theorem start_up_order:
  assumes "out = result (OnInit (logged run) listenAddr) (v, ([], w))"
    and "calls = fst (snd (exec (OnInit (logged run) listenAddr) (v, ([], w))))"
  shows "(\<exists>rest. init_calls listenAddr = calls @ rest)
    \<and> (out = None \<longleftrightarrow> calls = init_calls listenAddr)
    \<and> (out = None \<longleftrightarrow> RefreshNodeStateInNormal \<in> set calls)
    \<and> (\<forall>c. out = Some c \<longrightarrow> c \<in> fatal_calls \<and> last calls = c)"
  unfolding assms init_calls_def fatal_calls_def boot_defs by (simp add: exec_must result_must)

text \<open>A fault of the code. Start-up does not notice whether the gRPC server runs: with an error of
  \<open>StartAsync\<close>, or with no address, where the log says \<open>using random port\<close> and nothing is started, it makes
  the same calls in the same order and ends as it would otherwise, with the node announced as
  normal.\<close>

theorem start_up_ignores_server:
  assumes "\<forall>c. c \<noteq> StartAsync \<longrightarrow> run' c = run c" "\<forall>w. exec (run' StartAsync) w = exec (run StartAsync) w"
  shows "run_state (OnInit (logged run') listenAddr) (v, ([], w)) = run_state (OnInit (logged run) listenAddr) (v, ([], w))
    \<and> (result (OnInit (logged run) []) (v, ([], w)) = None \<longrightarrow>
        RefreshNodeStateInNormal \<in> set (fst (snd (exec (OnInit (logged run) []) (v, ([], w)))))
        \<and> StartAsync \<notin> set (fst (snd (exec (OnInit (logged run) []) (v, ([], w)))))
        \<and> rv_grpcServer (fst (exec (OnInit (logged run) []) (v, ([], w)))) = rv_grpcServer v)"
  unfolding run_state_split boot_defs using assms by (simp add: exec_must result_must)

text \<open>The calls of a shut-down, but for the one that depends on an error.\<close>

definition close_calls :: "rpc_vars \<Rightarrow> parts \<Rightarrow> host_call list" where
  "close_calls v p = [EtcdClose, HttpClose] @ (if rv_grpcServer v then [RpcStop] else []) @ [StopWatch]
     @ (if pt_manager p then [ManagerClose] else []) @ (if pt_pool p then [PoolClose] else []) @ [QueueShutdown]
     @ (if pt_redis p then [RedisClose] else []) @ (if pt_mongo p then [MongoStop] else [])"

text \<open>Claim C34: shut-down closes everything, in one order, whatever fails. The node leaves etcd first, so that
  nothing is routed to it any more; both servers have stopped before the manager is closed; and the
  manager, the pool and the queues are closed before Redis and MongoDB, which they use. An error keeps
  none of the later parts from being closed; that of stopping the gRPC server has it forced to stop.\<close>

theorem shut_down_order:
  assumes "calls = fst (snd (exec (OnClose (logged run) p) (v, ([], w))))"
  shows "filter (\<lambda>c. c \<noteq> RpcForceStop) calls = close_calls v p
    \<and> (RpcForceStop \<in> set calls \<longleftrightarrow> rv_grpcServer v
        \<and> result (run RpcStop) (exec (run HttpClose) (exec (run EtcdClose) w)) \<noteq> None)"
  unfolding assms close_calls_def OnClose_def CloseRPC_def by simp

section \<open>Witnesses\<close>

definition smooth_host :: "unit host" where
  "smooth_host c = State_Monad.return (if c = StartAsync then Some (ErrText ''address in use'') else None)"

definition fresh_vars :: rpc_vars where
  "fresh_vars = \<lparr>rv_grpcServer = False, rv_handler = False\<rparr>"

theorem start_up_order_witness:
  "result (OnInit (logged smooth_host) '':9000'') (fresh_vars, ([], ())) = None
   \<and> RefreshNodeStateInNormal \<in> set (fst (snd (exec (OnInit (logged smooth_host) '':9000'') (fresh_vars, ([], ())))))"
proof -
  have "result (OnInit (logged smooth_host) '':9000'') (fresh_vars, ([], ())) = None"
    unfolding boot_defs by (simp add: smooth_host_def result_must)
  then show ?thesis using start_up_order [OF refl refl, where run = smooth_host and listenAddr = "'':9000''" and v = fresh_vars and w = "()"] by blast
qed

theorem start_up_ignores_server_witness:
  "run_state (OnInit (logged smooth_host) '':9000'') (fresh_vars, ([], ()))
     = run_state (OnInit (logged (\<lambda>c. State_Monad.return None)) '':9000'') (fresh_vars, ([], ()))"
  using start_up_ignores_server [where run' = smooth_host and run = "\<lambda>c. State_Monad.return None" and listenAddr = "'':9000''"
      and v = fresh_vars and w = "()"]
  by (simp add: smooth_host_def)

theorem shut_down_order_witness:
  "filter (\<lambda>c. c \<noteq> RpcForceStop) (fst (snd (exec (OnClose (logged smooth_host)
      \<lparr>pt_manager = True, pt_pool = True, pt_redis = True, pt_mongo = True\<rparr>) (fresh_vars\<lparr>rv_grpcServer := True\<rparr>, ([], ())))))
   = [EtcdClose, HttpClose, RpcStop, StopWatch, ManagerClose, PoolClose, QueueShutdown, RedisClose, MongoStop]"
  using shut_down_order [OF refl, where run = smooth_host and v = "fresh_vars\<lparr>rv_grpcServer := True\<rparr>" and w = "()"
      and p = "\<lparr>pt_manager = True, pt_pool = True, pt_redis = True, pt_mongo = True\<rparr>"]
  by (simp add: close_calls_def)

end
