(* ===== verification/Spec2Isabelle.thy ===== *)
theory Spec2Isabelle
  imports RoundState StoreExpiry Claims StoreReads ServiceProps RobotProps SettleProps MemberIndex DaoProps
    ConfigLoader ConfigDoc RoundHistory NodeProps SyncProps RequestProps CreateRequests ClaimRoutes RequestPaths Background
    Server
begin

text \<open>
  \<^bold>\<open>The ranking core of socialserver.\<close> The server keeps leaderboards for activities. An activity is
  one-off or periodic (a sequence of rounds of equal length); each round or one-off activity is run by
  one rank service (\<open>internal/rank/engine\<close>), which seats its players in groups of a fixed size, fills
  the groups up with robots whose scores grow by themselves, takes scores, settles every group when the
  activity ends and lets players claim their reward once. The service keeps a part of its state in
  memory, the rest in a store over two levels: Redis, which may forget, and MongoDB behind it (through
  the DAO, whose writes go through a queue). The scores themselves are kept by a ranking library outside
  the repository. On every node a manager (\<open>manager.go\<close>) keeps the registry of services, ticks them,
  and synchronises with MongoDB, Redis and the other nodes; its periodic handler
  (\<open>periodic/handler.go\<close>) opens a new round, with a new service, when the present one has ended. Game
  servers and operators reach the manager through gRPC methods, which a dispatcher passes on to one
  handler for each request (\<open>internal/handler\<close>). Beside the server stands a tool that gives old keys in
  Redis a time to live (\<open>cmd/rankttl\<close>).

  \<^bold>\<open>Theories and what they model\<close> (paths under \<open>src/internal/rank\<close> where not given from \<open>src\<close>):
  \<^item> \<open>Prelude\<close>: integers of 32 and 64 bits as \<open>int\<close> with the wrap-around written as \<open>i32\<close> and \<open>i64\<close>,
    truncating division, loops and the two views \<open>exec\<close> (effect) and \<open>result\<close> of a state
    monad. \<open>GoText\<close>: the parts of \<open>strconv\<close> and \<open>strings\<close> the code uses, with their round trips.
  \<^item> \<open>RankTypes\<close>: \<open>engine/types.go\<close> and the records the parts exchange, and their JSON form;
    \<open>ConfigDoc\<close>: the JSON form of the configuration document nodes announce to each other.
  \<^item> \<open>Robot\<close>: \<open>engine/robot.go\<close>. \<open>Snapshot\<close>: \<open>engine/snapshot.go\<close>. \<open>RoundState\<close>: \<open>periodic/state.go\<close>.
    \<open>ConfigLoader\<close>: \<open>config_loader.go\<close>.
  \<^item> \<open>Ext\<close>: the outside world as parameters (below). \<open>Store\<close>: \<open>engine/store.go\<close>, one definition for
    each method of \<open>Store\<close>. \<open>Dao\<close>: \<open>engine/dao.go\<close>, over a driver and a write queue.
  \<^item> \<open>RankGroups\<close>: the record of a \<open>Service\<close> and \<open>engine/group.go\<close>. \<open>Recovery\<close>, \<open>Service\<close>:
    \<open>engine/service.go\<close>. \<open>RobotTicks\<close>: \<open>engine/service_robot.go\<close>. \<open>MemberIndex\<close>: \<open>member_index.go\<close>.
  \<^item> \<open>Node\<close>: the memory of a node (the maps of \<open>Manager\<close> and \<open>Handler\<close>), with the services it created
    in a heap, a pointer being an index. \<open>PeriodicHandler\<close>: \<open>periodic/handler.go\<close>. \<open>Manager\<close>:
    \<open>manager.go\<close> without the synchronisation, and \<open>manager_periodic.go\<close>. \<open>ManagerSync\<close>: the rest of
    \<open>manager.go\<close>, from \<open>syncFromMongo\<close> and \<open>syncFromRedis\<close> to the messages of other nodes and start-up.
  \<^item> \<open>Background\<close>: the goroutines of \<open>manager.go\<close> and their end in \<open>Close\<close>, as a step relation.
  \<^item> \<open>RpcHandlers\<close>: \<open>src/internal/handler/rank.go\<close>, one definition for each handler. \<open>Commands\<close>:
    \<open>src/internal/dispatch/cmd.go\<close>, the registration in \<open>register.go\<close> and \<open>s2s.go\<close>, and the gRPC methods of
    \<open>src/internal/router/rpc/social\<close>.
  \<^item> \<open>Server\<close>: \<open>src/internal/server.go\<close> and \<open>src/internal/router/rpc/rpc.go\<close>, configuration, start-up and
    shut-down. \<open>RankTtl\<close>: \<open>src/cmd/rankttl/main.go\<close>, and the Redis section of the configuration.
  \<^item> \<open>MemWorld\<close>, \<open>NodeWorld\<close>: the laws the properties assume of Redis and MongoDB and a world in
    memory that satisfies them, which the witnesses use.
  \<^item> Properties: of the store in \<open>StoreExpiry\<close>, \<open>StoreReads\<close>, \<open>Claims\<close>; of the DAO in \<open>DaoProps\<close>; of
    the service in \<open>GroupProps\<close>, \<open>RobotProps\<close>, \<open>ServiceProps\<close>, \<open>SettleProps\<close>; of the handler in
    \<open>PeriodicProps\<close> and \<open>RoundHistory\<close>; of manager and node in \<open>ManagerProps\<close>, \<open>NodeInvariant\<close>,
    \<open>NodeProps\<close>, \<open>SyncProps\<close>, \<open>Background\<close>; of the requests in \<open>RequestProps\<close>, \<open>CreateRequests\<close>,
    \<open>RequestPaths\<close>, \<open>ClaimRoutes\<close>; of start-up and the tool in \<open>Server\<close> and \<open>RankTtl\<close>. \<open>Frames\<close> says what operations
    leave alone.

  \<^bold>\<open>How the code is modelled.\<close> A struct is a record, a method a definition over the state monad: of the
  world \<open>'w\<close> for the store, of the service and the world for the service, of the node and the world for
  handler and manager. The code outside the repository is a parameter: the Redis client, the MongoDB
  driver and its write queue, the ranking library, the configuration files, the goroutine pool, the
  clock and \<open>math/rand\<close> are records of operations over \<open>'w\<close> (\<open>Ext\<close>, \<open>Node\<close>) that may fail and change
  the world in any way; a property that relies on more names it as a law (\<open>hash_laws\<close>,
  \<open>ttl_laws\<close>, \<open>set_laws\<close>, \<open>rand_law\<close>, and so on), and has a witness where the law holds. Errors are
  values: an optional error, or a sum with the error on the left. Maps are association lists, so a Go
  map iteration is some order of the list. Tasks given to the pool and timers wait in the node until
  \<open>runWarmUp\<close> and \<open>fireTimer\<close> take them.

  \<^bold>\<open>Interfaces.\<close> The locale \<open>round_windows\<close> is the contract between the computation of windows and the
  advance, \<open>entry_index\<close> that of the two modes of the member index, \<open>round_registrar\<close> that of
  \<open>ServiceRegistrar\<close>, which the handler calls and the manager implements; each is interpreted on the
  model of the code that provides it.

  \<^bold>\<open>What is shown.\<close> Groups never exceed their size and members never move (\<open>ServiceProps\<close>); the
  settlement's outcome for every answer of the ranking library (\<open>SettleProps\<close>); at most one first
  claim over any history, through the cache and through the DAO, which refines a ledger of claims
  (\<open>Claims\<close>, \<open>DaoProps\<close>); no permanent key in Redis and agreement of the two levels
  (\<open>StoreExpiry\<close>, \<open>StoreReads\<close>); what the DAO wrote is read back, well typed, and deleted exactly
  (\<open>DaoProps\<close>); rounds tile an activity and are found by time (\<open>RoundState\<close>); growth and
  creation of robots keep their bounds and identities (\<open>Robot\<close>, \<open>RobotProps\<close>); the member index is
  complete in both modes (\<open>MemberIndex\<close>). For a node: \<open>node_step\<close> is everything that can happen to it,
  requests included, and its registry is consistent at every reachable moment (\<open>NodeInvariant\<close>); the
  goroutines of the manager stay within \<open>node_step\<close> and end when it is closed (\<open>Background\<close>); a tick keeps
  round states and services in step, an advance is all or nothing, racing registrations agree
  (\<open>NodeProps\<close>); synchronisation spares open activities, queries are sent to the right round
  (\<open>SyncProps\<close>); the texts nodes exchange survive, histories are listed, paged and collected right
  (\<open>RoundHistory\<close>, \<open>ConfigDoc\<close>). For requests: every gRPC method reaches its own handler and brings its
  status back (\<open>RequestPaths\<close>), what the answer to a score means (\<open>RequestProps\<close>), that a created activity
  will be settled (\<open>CreateRequests\<close>), and at most one grant for each recorded claim over all routes a
  claim can take (\<open>ClaimRoutes\<close>). Start-up stops at the first part it cannot do without, shut-down
  closes every part after its users (\<open>Server\<close>); the tool touches permanent keys of known classes only,
  and its dry run foretells the real one (\<open>RankTtl\<close>). Some properties state faults of the code as it
  is; their texts say so.

  \<^bold>\<open>Bounds.\<close> Nothing uses fuel: loops over lists are structural, and the one loop that counts up to a
  bound of its own type, the listing of rounds, is a \<open>partial_function\<close> that is shown to return.
  Properties about times and counts assume that the sums involved fit their width (\<open>in64\<close>, \<open>in32\<close>,
  \<open>clock_ok\<close>, \<open>schedule_ok\<close>), and a group has fewer than 10000 robots, which is the stride of the id
  scheme.

  \<^bold>\<open>What is not modelled.\<close> Mutexes: an operation is one step, except that registrations race in
  \<open>NodeProps\<close> step by step; in \<open>Background\<close> the steps of the goroutines and of requests interleave as
  wholes. A manager without a Redis client, which the start-up never makes. Logging and the printing
  of the tool's report; what the report counts is modelled. \<open>biz_service.go\<close> and \<open>once/biz.go\<close>, which
  only delegate. \<open>router/http/router.go\<close> (health check and profiling) and \<open>cmd/main.go\<close>, which hand
  over to libraries. The fields of requests and responses are those the handlers read and set; their
  encoding is a law on the transport.
\<close>

end
